(* ===== verification/Prelude.thy ===== *)
theory Prelude
  imports Main "HOL-Library.Multiset"
begin

text \<open>
  Shared vocabulary of the development: the result type of operations that may raise, the
  runs of a status machine, generic list facts, and the collections of rewrite rules that
  the component theories fill.

  An operation of the program that may raise is a function into \<open>'e + 'a\<close>: \<open>Inl e\<close> is the
  exception, \<open>Inr x\<close> the returned value. \<open>ebind\<close> is sequencing: the first exception ends the
  computation.
\<close>

named_theorems machine_simps \<open>tables and steps of the status machines\<close>
named_theorems effect_simps \<open>operations on rows and sequencing of operations that may raise\<close>

type_synonym ('e, 'a) result = "'e + 'a"

text \<open>Aware datetimes are instants: microseconds since the epoch.\<close>

type_synonym instant = int

text \<open>Primary keys: only equality of UUIDs is ever used.\<close>

type_synonym uuid = nat

section \<open>Operations that may raise\<close>

definition ebind :: "'e + 'a \<Rightarrow> ('a \<Rightarrow> 'e + 'b) \<Rightarrow> 'e + 'b" where
  "ebind m k = (case m of Inl e \<Rightarrow> Inl e | Inr x \<Rightarrow> k x)"

definition guard :: "bool \<Rightarrow> 'e \<Rightarrow> 'e + unit" where
  "guard ok e = (if ok then Inr () else Inl e)"

lemma ebind_simps [simp, effect_simps]:
  "ebind (Inl e) k = Inl e"
  "ebind (Inr x) k = k x"
  by (simp_all add: ebind_def)

lemma ebind_Inr_iff: "ebind m k = Inr y \<longleftrightarrow> (\<exists>x. m = Inr x \<and> k x = Inr y)"
  by (cases m) auto

lemma ebind_assoc: "ebind (ebind m k) h = ebind m (\<lambda>x. ebind (k x) h)"
  by (cases m) auto

lemma guard_simps [simp, effect_simps]:
  "guard True e = Inr ()"
  "guard False e = Inl e"
  by (simp_all add: guard_def)

lemma guard_Inr_iff [simp]: "guard ok e = Inr u \<longleftrightarrow> ok"
  by (simp add: guard_def)

lemma isl_ebind: "isl (ebind m k) \<longleftrightarrow> isl m \<or> (\<exists>x. m = Inr x \<and> isl (k x))"
  by (cases m) auto

section \<open>Status machines\<close>

text \<open>
  Every lifecycle of the program (booking, payment, gift voucher, shop delivery, gift purchase)
  is a table of allowed next statuses and a function that moves to a requested status or
  raises. A run performs a list of requested statuses and stops at the first refusal.
\<close>

fun run_targets :: "('s \<Rightarrow> 's \<Rightarrow> 'e + 's) \<Rightarrow> 's \<Rightarrow> 's list \<Rightarrow> 'e + 's" where
  "run_targets step s [] = Inr s"
| "run_targets step s (t # ts) = ebind (step s t) (\<lambda>u. run_targets step u ts)"

fun table_path :: "('s \<Rightarrow> 's list) \<Rightarrow> 's \<Rightarrow> 's list \<Rightarrow> bool" where
  "table_path tab s [] \<longleftrightarrow> True"
| "table_path tab s (t # ts) \<longleftrightarrow> t \<in> set (tab s) \<and> table_path tab t ts"

lemma table_path_append:
  "table_path tab s (xs @ ys) \<longleftrightarrow> table_path tab s xs \<and> table_path tab (last (s # xs)) ys"
  by (induction xs arbitrary: s) auto

locale status_machine =
  fixes tab :: "'s \<Rightarrow> 's list"
    and step :: "'s \<Rightarrow> 's \<Rightarrow> 'e + 's"
  assumes step_allowed: "t \<in> set (tab s) \<Longrightarrow> step s t = Inr t"
    and step_refused: "t \<notin> set (tab s) \<Longrightarrow> isl (step s t)"
begin

lemma step_Inr_iff: "step s t = Inr u \<longleftrightarrow> t \<in> set (tab s) \<and> u = t"
  using step_allowed[of t s] step_refused[of t s] by (cases "t \<in> set (tab s)") auto

lemma run_Inr_iff:
  "run_targets step s ts = Inr u \<longleftrightarrow> table_path tab s ts \<and> u = last (s # ts)"
  by (induction ts arbitrary: s) (auto simp: ebind_Inr_iff step_Inr_iff)

lemma run_ok_iff: "\<not> isl (run_targets step s ts) \<longleftrightarrow> table_path tab s ts"
proof -
  have "table_path tab s ts \<longleftrightarrow> (\<exists>u. run_targets step s ts = Inr u)"
    by (simp add: run_Inr_iff)
  then show ?thesis by (cases "run_targets step s ts") auto
qed

text \<open>A status with an empty row is never left.\<close>

lemma sink_stuck: "tab s = [] \<Longrightarrow> run_targets step s ts = Inr u \<Longrightarrow> ts = [] \<and> u = s"
  by (cases ts) (auto simp: ebind_Inr_iff step_Inr_iff)

text \<open>A set of statuses that no row leaves is never left by a run.\<close>

lemma closed_run:
  assumes closed: "\<And>s t. s \<in> C \<Longrightarrow> t \<in> set (tab s) \<Longrightarrow> t \<in> C"
    and "s \<in> C" and "run_targets step s ts = Inr u"
  shows "u \<in> C \<and> set ts \<subseteq> C"
  using assms(2,3)
proof (induction ts arbitrary: s)
  case Nil
  then show ?case by simp
next
  case (Cons t ts)
  from Cons.prems have "t \<in> set (tab s)" and run: "run_targets step t ts = Inr u"
    by (auto simp: ebind_Inr_iff step_Inr_iff)
  with Cons.prems(1) have "t \<in> C" by (blast intro: closed)
  with Cons.IH[OF this run] show ?case by simp
qed

text \<open>
  When every entry into a set of statuses from outside goes through one of the gates, a run
  that starts outside and ends inside has visited a gate.
\<close>

lemma gate_visited:
  assumes gate: "\<And>s t. t \<in> set (tab s) \<Longrightarrow> t \<in> C \<Longrightarrow> s \<notin> C \<Longrightarrow> s \<in> G"
    and "s \<notin> C" and "run_targets step s ts = Inr u" and "u \<in> C"
  shows "\<exists>g \<in> G. g \<in> set (s # ts)"
  using assms(2-4)
proof (induction ts arbitrary: s)
  case Nil
  then show ?case by simp
next
  case (Cons t ts)
  from Cons.prems have t: "t \<in> set (tab s)" and run: "run_targets step t ts = Inr u"
    by (auto simp: ebind_Inr_iff step_Inr_iff)
  show ?case
  proof (cases "t \<in> C")
    case True
    with t Cons.prems(1) gate show ?thesis by auto
  next
    case False
    from Cons.IH[OF this run Cons.prems(3)] show ?thesis by auto
  qed
qed

end

section \<open>Lists\<close>

lemma sum_list_map_mono:
  fixes f g :: "'a \<Rightarrow> 'b::ordered_comm_monoid_add"
  assumes "\<And>x. x \<in> set xs \<Longrightarrow> f x \<le> g x"
  shows "sum_list (map f xs) \<le> sum_list (map g xs)"
  using assms by (induction xs) (auto intro: add_mono)

lemma sum_list_map_nonneg:
  fixes f :: "'a \<Rightarrow> 'b::ordered_comm_monoid_add"
  assumes "\<And>x. x \<in> set xs \<Longrightarrow> 0 \<le> f x"
  shows "0 \<le> sum_list (map f xs)"
  using assms by (induction xs) auto

lemma sorted_wrt_adjacent:
  assumes "transp R"
  shows "sorted_wrt R xs \<longleftrightarrow> (\<forall>i. Suc i < length xs \<longrightarrow> R (xs ! i) (xs ! Suc i))"
  using assms by (rule sorted_wrt_iff_nth_Suc_transp)

section \<open>Tables\<close>

text \<open>Writing a changed row back: the row with the same key is replaced.\<close>

definition replace_row :: "('a \<Rightarrow> 'k) \<Rightarrow> 'a \<Rightarrow> 'a list \<Rightarrow> 'a list" where
  "replace_row key r xs = map (\<lambda>x. if key x = key r then r else x) xs"

lemma replace_row_keys [simp]: "map key (replace_row key r xs) = map key xs"
  by (auto simp: replace_row_def)

lemma replace_row_absent: "key r \<notin> key ` set xs \<Longrightarrow> replace_row key r xs = xs"
  by (auto simp: replace_row_def image_iff intro!: map_idI)

lemma replace_row_same_key:
  "distinct (map key xs) \<Longrightarrow> r \<in> set xs \<Longrightarrow> x \<in> set xs \<Longrightarrow> key x = key r \<Longrightarrow> x = r"
  by (meson distinct_map inj_onD)

lemma set_replace_row: "set (replace_row key r xs) \<subseteq> insert r (set xs)"
  by (auto simp: replace_row_def)

lemma replace_row_idem [simp]:
  "key r' = key r \<Longrightarrow> replace_row key r' (replace_row key r xs) = replace_row key r' xs"
  by (auto simp: replace_row_def)

lemma sum_replace_row:
  fixes g :: "'a \<Rightarrow> 'b::ab_group_add"
  assumes "distinct (map key xs)" "r \<in> set xs" "key r' = key r"
  shows "sum_list (map g (replace_row key r' xs)) = sum_list (map g xs) - g r + g r'"
  using assms
proof (induction xs)
  case (Cons a xs)
  show ?case
  proof (cases "key a = key r")
    case True
    with Cons.prems have "a = r" using replace_row_same_key[of key "a # xs" r a] by simp
    moreover from True Cons.prems have "key r' \<notin> key ` set xs" by auto
    ultimately show ?thesis
      using replace_row_absent[of key r' xs] Cons.prems by (simp add: replace_row_def)
  next
    case False
    with Cons show ?thesis by (auto simp: replace_row_def)
  qed
qed simp

lemma sum_exclude_row:
  fixes g :: "'a \<Rightarrow> 'b::ab_group_add"
  assumes "distinct (map key xs)" "r \<in> set xs"
  shows "sum_list (map (\<lambda>x. if key x = key r then 0 else g x) xs) = sum_list (map g xs) - g r"
  using assms
proof (induction xs)
  case (Cons a xs)
  show ?case
  proof (cases "key a = key r")
    case True
    with Cons.prems have "a = r" using replace_row_same_key[of key "a # xs" r a] by simp
    moreover have others: "key x \<noteq> key r" if "x \<in> set xs" for x
      using that True[symmetric] Cons.prems(1) by (auto simp: image_iff)
    have "sum_list (map (\<lambda>x. if key x = key r then 0 else g x) xs) = sum_list (map g xs)"
      by (rule arg_cong[where f = sum_list]) (simp add: others)
    ultimately show ?thesis by (simp del: map_eq_conv)
  next
    case False
    with Cons show ?thesis by auto
  qed
qed simp

lemma sum_filter_if:
  "sum_list (map f (filter P xs)) = sum_list (map (\<lambda>x. if P x then f x else (0::'b::monoid_add)) xs)"
  by (induction xs) auto

lemma find_key_row:
  assumes "distinct (map key xs)" "r \<in> set xs"
  shows "find (\<lambda>x. key x = key r) xs = Some r"
  using assms by (induction xs) auto

lemma find_replace_row:
  "find (\<lambda>x. key x = k) (replace_row key r xs)
     = (case find (\<lambda>x. key x = k) xs of None \<Rightarrow> None | Some x \<Rightarrow> Some (if key r = k then r else x))"
  by (induction xs) (auto simp: replace_row_def)

text \<open>Pages of a list, put together, are its front.\<close>

lemma concat_pages: "concat (map (\<lambda>k. take s (drop (k * s) xs)) [0..<n]) = take (n * s) xs"
proof (induction n)
  case (Suc n)
  then show ?case using take_add[of "n * s" s xs] by (simp add: add.commute)
qed simp

end
