(* ===== verification/Intervals.thy ===== *)
theory Intervals
  imports Prelude
begin

text \<open>
  Interval arithmetic of the availability engine
  (\<open>app/availability/domain/interval_engine.py\<close>, \<open>Interval\<close> of
  \<open>app/availability/domain/value_objects.py\<close>).

  An interval is half open, its ends are instants. The denotation of a list of intervals is the
  set of instants it covers (\<open>cover\<close>). \<open>separated\<close> lists are sorted and non-overlapping,
  \<open>gapped\<close> lists moreover do not touch: this is what \<open>merge_intervals\<close> returns. The main
  lemmas: merging keeps the covered set, subtracting and intersecting sorted lists compute the
  set difference and the intersection, in one pass with two pointers.
\<close>

section \<open>Data and operations\<close>

record interval =
  iv_start :: instant
  iv_end :: instant

definition Interval :: "instant \<Rightarrow> instant \<Rightarrow> interval" where
  "Interval a b = \<lparr>iv_start = a, iv_end = b\<rparr>"

definition overlaps :: "interval \<Rightarrow> interval \<Rightarrow> bool" where
  "overlaps i j \<longleftrightarrow> iv_start i < iv_end j \<and> iv_start j < iv_end i"

text \<open>The sweep of \<open>merge_intervals\<close>: \<open>prev\<close> is the last element of the merged list so far.\<close>

fun merge_sweep :: "interval \<Rightarrow> interval list \<Rightarrow> interval list" where
  "merge_sweep prev [] = [prev]"
| "merge_sweep prev (current # rest) =
     (if iv_start current \<le> iv_end prev
      then merge_sweep (Interval (iv_start prev) (max (iv_end prev) (iv_end current))) rest
      else prev # merge_sweep current rest)"

definition merge_intervals :: "interval list \<Rightarrow> interval list" where
  "merge_intervals intervals =
     (case sort_key iv_start intervals of [] \<Rightarrow> [] | first # rest \<Rightarrow> merge_sweep first rest)"

text \<open>
  \<open>subtract_intervals\<close>: the blocked intervals from index \<open>bi\<close> on are the list argument. The
  inner loop returns the free intervals it appended, the position reached and the blocked
  intervals left for the next working interval.
\<close>

fun subtract_scan ::
  "interval \<Rightarrow> instant \<Rightarrow> interval list \<Rightarrow> interval list \<times> instant \<times> interval list" where
  "subtract_scan w current_start [] = ([], current_start, [])"
| "subtract_scan w current_start (b # bs) =
     (if \<not> iv_start b < iv_end w then ([], current_start, b # bs)
      else if iv_end b \<le> current_start then subtract_scan w current_start bs
      else
        (let gap = (if current_start < iv_start b
                    then [Interval current_start (min (iv_start b) (iv_end w))] else []);
             current_start' = max current_start (iv_end b)
         in if iv_end w \<le> current_start' then (gap, current_start', b # bs)
            else if iv_end w < iv_end b then (gap, current_start', b # bs)
            else (case subtract_scan w current_start' bs of
                    (out, c, rest) \<Rightarrow> (gap @ out, c, rest))))"

fun subtract_loop :: "interval list \<Rightarrow> interval list \<Rightarrow> interval list" where
  "subtract_loop [] bs = []"
| "subtract_loop (w # ws) bs =
     (case subtract_scan w (iv_start w) bs of
        (out, c, rest) \<Rightarrow>
          out @ (if c < iv_end w then [Interval c (iv_end w)] else []) @ subtract_loop ws rest)"

definition subtract_intervals :: "interval list \<Rightarrow> interval list \<Rightarrow> interval list" where
  "subtract_intervals working blocked = (if blocked = [] then working else subtract_loop working blocked)"

function intersect_intervals :: "interval list \<Rightarrow> interval list \<Rightarrow> interval list" where
  "intersect_intervals [] bs = []"
| "intersect_intervals (a # as) [] = []"
| "intersect_intervals (a # as) (b # bs) =
     (let start = max (iv_start a) (iv_start b); stop = min (iv_end a) (iv_end b);
          here = (if start < stop then [Interval start stop] else [])
      in here @ (if iv_end a < iv_end b then intersect_intervals as (b # bs)
                 else intersect_intervals (a # as) bs))"
  by pat_completeness auto
termination
  by (relation "measure (\<lambda>(as, bs). length as + length bs)") auto

section \<open>Denotation and order\<close>

definition points :: "interval \<Rightarrow> instant set" where
  "points i = {iv_start i ..< iv_end i}"

definition cover :: "interval list \<Rightarrow> instant set" where
  "cover xs = (\<Union>i \<in> set xs. points i)"

definition wf_ivs :: "interval list \<Rightarrow> bool" where
  "wf_ivs xs \<longleftrightarrow> (\<forall>i \<in> set xs. iv_start i \<le> iv_end i)"

definition proper_ivs :: "interval list \<Rightarrow> bool" where
  "proper_ivs xs \<longleftrightarrow> (\<forall>i \<in> set xs. iv_start i < iv_end i)"

definition separated :: "interval list \<Rightarrow> bool" where
  "separated xs \<longleftrightarrow> wf_ivs xs \<and> sorted_wrt (\<lambda>i j. iv_end i \<le> iv_start j) xs"

definition gapped :: "interval list \<Rightarrow> bool" where
  "gapped xs \<longleftrightarrow> wf_ivs xs \<and> sorted_wrt (\<lambda>i j. iv_end i < iv_start j) xs"

lemma Interval_sel [simp]:
  "iv_start (Interval a b) = a" "iv_end (Interval a b) = b" "points (Interval a b) = {a..<b}"
  by (simp_all add: Interval_def points_def)

lemma interval_eqI: "iv_start i = iv_start j \<Longrightarrow> iv_end i = iv_end j \<Longrightarrow> i = (j::interval)"
  by simp

lemma cover_simps [simp]:
  "cover [] = {}" "cover (x # xs) = points x \<union> cover xs" "cover (xs @ ys) = cover xs \<union> cover ys"
  by (auto simp: cover_def)

lemma wf_ivs_simps [simp]:
  "wf_ivs []" "wf_ivs (x # xs) \<longleftrightarrow> iv_start x \<le> iv_end x \<and> wf_ivs xs"
  "wf_ivs (xs @ ys) \<longleftrightarrow> wf_ivs xs \<and> wf_ivs ys"
  by (auto simp: wf_ivs_def)

lemma proper_ivs_simps [simp]:
  "proper_ivs []" "proper_ivs (x # xs) \<longleftrightarrow> iv_start x < iv_end x \<and> proper_ivs xs"
  "proper_ivs (xs @ ys) \<longleftrightarrow> proper_ivs xs \<and> proper_ivs ys"
  by (auto simp: proper_ivs_def)

lemma proper_wf: "proper_ivs xs \<Longrightarrow> wf_ivs xs"
  by (auto simp: proper_ivs_def wf_ivs_def)

lemma separated_simps [simp]:
  "separated []"
  "separated (x # xs) \<longleftrightarrow>
     iv_start x \<le> iv_end x \<and> (\<forall>y \<in> set xs. iv_end x \<le> iv_start y) \<and> separated xs"
  by (auto simp: separated_def)

lemma gapped_simps [simp]:
  "gapped []"
  "gapped (x # xs) \<longleftrightarrow>
     iv_start x \<le> iv_end x \<and> (\<forall>y \<in> set xs. iv_end x < iv_start y) \<and> gapped xs"
  by (auto simp: gapped_def)

lemma gapped_separated: "gapped xs \<Longrightarrow> separated xs"
  by (induction xs) auto

lemma separated_append:
  "separated (xs @ ys) \<longleftrightarrow>
     separated xs \<and> separated ys \<and> (\<forall>x \<in> set xs. \<forall>y \<in> set ys. iv_end x \<le> iv_start y)"
  by (induction xs) auto

lemma gapped_append:
  "gapped (xs @ ys) \<longleftrightarrow>
     gapped xs \<and> gapped ys \<and> (\<forall>x \<in> set xs. \<forall>y \<in> set ys. iv_end x < iv_start y)"
  by (induction xs) auto

lemma cover_ge: "(\<And>y. y \<in> set xs \<Longrightarrow> m \<le> iv_start y) \<Longrightarrow> t \<in> cover xs \<Longrightarrow> m \<le> t"
  by (force simp: cover_def points_def)

text \<open>A stretch of instants covered by a gapped list lies within one of its intervals.\<close>

lemma gapped_one_interval:
  assumes "gapped xs" "a < b" "{a..<b} \<subseteq> cover xs"
  shows "\<exists>i \<in> set xs. iv_start i \<le> a \<and> b \<le> iv_end i"
  using assms
proof (induction xs)
  case Nil
  then show ?case by auto
next
  case (Cons x xs)
  have later: "t \<in> cover xs \<Longrightarrow> iv_end x < t" for t
    using Cons.prems(1) by (force simp: cover_def points_def)
  show ?case
  proof (cases "a \<in> points x")
    case True
    have "b \<le> iv_end x"
    proof (rule ccontr)
      assume "\<not> b \<le> iv_end x"
      with True have "iv_end x \<in> {a..<b}" by (auto simp: points_def)
      with Cons.prems(3) have "iv_end x \<in> points x \<or> iv_end x \<in> cover xs" by auto
      with later show False by (auto simp: points_def)
    qed
    with True show ?thesis by (auto simp: points_def)
  next
    case False
    have "a \<in> cover (x # xs)" using Cons.prems(2,3) by auto
    with False have "iv_end x < a" using later by auto
    then have "{a..<b} \<subseteq> cover xs" using Cons.prems(3) by (auto simp: points_def)
    with Cons show ?thesis by auto
  qed
qed

section \<open>Merging\<close>

lemma merge_sweep_starts:
  "i \<in> set (merge_sweep l xs) \<Longrightarrow> sorted (map iv_start (l # xs)) \<Longrightarrow> iv_start l \<le> iv_start i"
proof (induction l xs rule: merge_sweep.induct)
  case (2 l c rest)
  show ?case
  proof (cases "iv_start c \<le> iv_end l")
    case True
    with "2.IH"(1)[OF True] "2.prems" show ?thesis by auto
  next
    case False
    with "2.IH"(2)[OF False] "2.prems" show ?thesis by fastforce
  qed
qed auto

lemma merge_sweep_cover:
  "sorted (map iv_start (l # xs)) \<Longrightarrow> wf_ivs (l # xs) \<Longrightarrow>
   cover (merge_sweep l xs) = points l \<union> cover xs"
proof (induction l xs rule: merge_sweep.induct)
  case (2 l c rest)
  show ?case
  proof (cases "iv_start c \<le> iv_end l")
    case True
    then have "points (Interval (iv_start l) (max (iv_end l) (iv_end c))) = points l \<union> points c"
      using "2.prems" by (auto simp: points_def)
    with True "2.IH"(1)[OF True] "2.prems" show ?thesis by auto
  next
    case False
    with "2.IH"(2)[OF False] "2.prems" show ?thesis by auto
  qed
qed auto

lemma merge_sweep_gapped:
  "sorted (map iv_start (l # xs)) \<Longrightarrow> wf_ivs (l # xs) \<Longrightarrow> gapped (merge_sweep l xs)"
proof (induction l xs rule: merge_sweep.induct)
  case (2 l c rest)
  show ?case
  proof (cases "iv_start c \<le> iv_end l")
    case True
    with "2.IH"(1)[OF True] "2.prems" show ?thesis by auto
  next
    case False
    have "iv_start c \<le> iv_start i" if "i \<in> set (merge_sweep c rest)" for i
      using merge_sweep_starts[OF that] "2.prems" by simp
    with False "2.IH"(2)[OF False] "2.prems" show ?thesis by fastforce
  qed
qed auto

lemma merge_sweep_proper: "proper_ivs (l # xs) \<Longrightarrow> proper_ivs (merge_sweep l xs)"
  by (induction l xs rule: merge_sweep.induct) (auto simp: less_max_iff_disj)

lemma wf_ivs_sort [simp]: "wf_ivs (sort_key f xs) \<longleftrightarrow> wf_ivs xs"
  by (simp add: wf_ivs_def)

lemma proper_ivs_sort [simp]: "proper_ivs (sort_key f xs) \<longleftrightarrow> proper_ivs xs"
  by (simp add: proper_ivs_def)

lemma cover_sort [simp]: "cover (sort_key f xs) = cover xs"
  by (simp add: cover_def)

lemma merge_intervals_cases:
  obtains "xs = []" "merge_intervals xs = []"
  | l rest where "sort_key iv_start xs = l # rest" "merge_intervals xs = merge_sweep l rest"
  by (cases "sort_key iv_start xs") (auto simp: merge_intervals_def sort_key_const dest: arg_cong[of _ _ length])

lemma merge_intervals_cover: "wf_ivs xs \<Longrightarrow> cover (merge_intervals xs) = cover xs"
proof (cases rule: merge_intervals_cases[of xs])
  case (2 l rest)
  assume "wf_ivs xs"
  moreover from 2 have "sorted (map iv_start (l # rest))" using sorted_sort_key[of iv_start xs] by simp
  moreover have "wf_ivs (l # rest) \<longleftrightarrow> wf_ivs xs" using 2 wf_ivs_sort[of iv_start xs] by simp
  ultimately have "cover (merge_intervals xs) = cover (l # rest)"
    using 2 merge_sweep_cover[of l rest] by simp
  then show ?thesis using 2 cover_sort[of iv_start xs] by simp
qed simp

lemma merge_intervals_gapped: "wf_ivs xs \<Longrightarrow> gapped (merge_intervals xs)"
proof (cases rule: merge_intervals_cases[of xs])
  case (2 l rest)
  assume "wf_ivs xs"
  then have "wf_ivs (l # rest)" using 2 wf_ivs_sort[of iv_start xs] by simp
  then show ?thesis
    using 2 sorted_sort_key[of iv_start xs] merge_sweep_gapped[of l rest] by simp
qed simp

lemma merge_intervals_proper: "proper_ivs xs \<Longrightarrow> proper_ivs (merge_intervals xs)"
proof (cases rule: merge_intervals_cases[of xs])
  case (2 l rest)
  assume "proper_ivs xs"
  then show ?thesis using 2 proper_ivs_sort[of iv_start xs] merge_sweep_proper[of l rest] by simp
qed simp

section \<open>Subtracting\<close>

text \<open>What the inner loop leaves open: from \<open>c\<close> to the end of the working interval.\<close>

definition tail_points :: "instant \<Rightarrow> interval \<Rightarrow> instant set" where
  "tail_points c w = (if c < iv_end w then {c ..< iv_end w} else {})"

lemma later_blocks_disjoint:
  assumes "separated (b # bs)" "iv_end w \<le> iv_start b"
  shows "{c ..< iv_end w} \<inter> cover (b # bs) = {}"
proof -
  have "iv_end w \<le> iv_start y" if "y \<in> set (b # bs)" for y
    using assms that by fastforce
  then have "t \<in> cover (b # bs) \<Longrightarrow> iv_end w \<le> t" for t by (rule cover_ge)
  then show ?thesis by force
qed

text \<open>The four ways one blocked interval is treated.\<close>

definition scan_gap :: "interval \<Rightarrow> instant \<Rightarrow> interval \<Rightarrow> interval list" where
  "scan_gap w c b = (if c < iv_start b then [Interval c (min (iv_start b) (iv_end w))] else [])"

lemma subtract_scan_Cons_cases:
  assumes "subtract_scan w c (b # bs) = (out, c', rest)"
  obtains (past) "iv_end w \<le> iv_start b" "out = []" "c' = c" "rest = b # bs"
  | (skip) "iv_start b < iv_end w" "iv_end b \<le> c" "subtract_scan w c bs = (out, c', rest)"
  | (over) "iv_start b < iv_end w" "c < iv_end b" "iv_end w \<le> iv_end b" "out = scan_gap w c b"
      "c' = iv_end b" "rest = b # bs"
  | (step) o1 where "iv_start b < iv_end w" "c < iv_end b" "iv_end b < iv_end w"
      "subtract_scan w (iv_end b) bs = (o1, c', rest)" "out = scan_gap w c b @ o1"
proof (cases "iv_start b < iv_end w \<and> c < iv_end b")
  case True
  then have m: "max c (iv_end b) = iv_end b" by simp
  show ?thesis
  proof (cases "iv_end w \<le> iv_end b")
    case below: True
    with True assms show ?thesis by (intro over) (auto simp: Let_def m scan_gap_def)
  next
    case False
    obtain o1 c1 r1 where scan: "subtract_scan w (iv_end b) bs = (o1, c1, r1)"
      by (cases "subtract_scan w (iv_end b) bs") auto
    with False True assms show ?thesis by (intro step[of o1]) (auto simp: Let_def m scan_gap_def)
  qed
next
  case False
  with assms past skip show ?thesis by (auto simp: not_less split: if_splits)
qed

lemma subtract_scan_cover:
  assumes "separated bs" "subtract_scan w c bs = (out, c', rest)"
  shows "cover out \<union> tail_points c' w = {c ..< iv_end w} - cover bs"
  using assms
proof (induction bs arbitrary: c out)
  case Nil
  then show ?case by (auto simp: tail_points_def)
next
  case (Cons b bs)
  have sep: "separated bs" and b: "iv_start b \<le> iv_end b" using Cons.prems(1) by auto
  have later: "t \<in> cover bs \<Longrightarrow> iv_end b \<le> t" for t
    using Cons.prems(1) by (auto intro: cover_ge)
  from Cons.prems(2) show ?case
  proof (cases rule: subtract_scan_Cons_cases)
    case past
    then have "{c ..< iv_end w} - cover (b # bs) = {c ..< iv_end w}"
      using later_blocks_disjoint[OF Cons.prems(1), of w c] by blast
    with past show ?thesis by (auto simp: tail_points_def)
  next
    case skip
    have "{c ..< iv_end w} - cover (b # bs) = {c ..< iv_end w} - cover bs"
      using skip by (auto simp: points_def)
    with Cons.IH[OF sep skip(3)] show ?thesis by simp
  next
    case over
    have "cover out = {c ..< iv_end w} - points b" "tail_points c' w = {}"
      using over by (auto simp: points_def scan_gap_def tail_points_def)
    moreover have "({c ..< iv_end w} - points b) \<inter> cover bs = {}"
      using over later by (force simp: points_def)
    ultimately show ?thesis by auto
  next
    case (step o1)
    have "cover (scan_gap w c b) = {c ..< iv_start b}" using step by (auto simp: scan_gap_def)
    moreover have "{c ..< iv_start b} \<inter> cover bs = {}" using later b by force
    moreover have "{c ..< iv_end w} - points b = {c ..< iv_start b} \<union> {iv_end b ..< iv_end w}"
      using step b by (auto simp: points_def)
    ultimately show ?thesis using Cons.IH[OF sep step(4)] step(5) by auto
  qed
qed

text \<open>The blocked intervals passed over end no later than the working interval.\<close>

lemma subtract_scan_rest:
  assumes "subtract_scan w c bs = (out, c', rest)" "c \<le> iv_end w"
  shows "\<exists>used. bs = used @ rest \<and> (\<forall>b \<in> set used. iv_end b \<le> iv_end w)"
  using assms
proof (induction bs arbitrary: c out)
  case Nil
  then show ?case by auto
next
  case (Cons b bs)
  have consume: ?case if "subtract_scan w c1 bs = (o1, c', rest)" "c1 \<le> iv_end w" "iv_end b \<le> iv_end w"
    for c1 o1
  proof -
    from Cons.IH[OF that(1,2)] obtain used where "bs = used @ rest"
      "\<forall>b \<in> set used. iv_end b \<le> iv_end w" by blast
    with that(3) show ?thesis by (intro exI[of _ "b # used"]) auto
  qed
  from Cons.prems(1) show ?case
    by (cases rule: subtract_scan_Cons_cases) (use Cons.prems(2) consume in force)+
qed

lemma subtract_scan_bounds:
  assumes "subtract_scan w c bs = (out, c', rest)" "wf_ivs bs"
  shows "c \<le> c' \<and> (\<forall>i \<in> set out. c \<le> iv_start i \<and> iv_start i < iv_end i \<and> iv_end i \<le> c'
           \<and> iv_end i \<le> iv_end w)"
  using assms
proof (induction bs arbitrary: c out)
  case (Cons b bs)
  from Cons.prems(1) show ?case
  proof (cases rule: subtract_scan_Cons_cases)
    case (step o1)
    with Cons.IH[OF step(4)] Cons.prems(2) show ?thesis by (auto simp: scan_gap_def)
  qed (use Cons in \<open>auto simp: scan_gap_def\<close>)
qed auto

lemma subtract_scan_separated:
  assumes "subtract_scan w c bs = (out, c', rest)" "wf_ivs bs"
  shows "separated out"
  using assms
proof (induction bs arbitrary: c out)
  case (Cons b bs)
  from Cons.prems(1) show ?case
  proof (cases rule: subtract_scan_Cons_cases)
    case (step o1)
    with Cons.IH[OF step(4)] Cons.prems(2) subtract_scan_bounds[OF step(4)] show ?thesis
      by (auto simp: scan_gap_def)
  qed (use Cons in \<open>auto simp: scan_gap_def\<close>)
qed auto

lemma subtract_scan_gapped:
  assumes "subtract_scan w c bs = (out, c', rest)" "proper_ivs bs"
  shows "gapped out \<and> (\<forall>i \<in> set out. iv_end i < c' \<or> iv_end w \<le> c')"
  using assms
proof (induction bs arbitrary: c out)
  case (Cons b bs)
  from Cons.prems(1) show ?case
  proof (cases rule: subtract_scan_Cons_cases)
    case (step o1)
    with Cons.IH[OF step(4)] Cons.prems(2) subtract_scan_bounds[OF step(4)] show ?thesis
      by (auto simp: scan_gap_def proper_wf)
  qed (use Cons in \<open>auto simp: scan_gap_def\<close>)
qed auto

text \<open>One working interval: what is emitted for it.\<close>

definition emitted :: "interval \<Rightarrow> interval list \<Rightarrow> instant \<Rightarrow> interval list" where
  "emitted w out c = out @ (if c < iv_end w then [Interval c (iv_end w)] else [])"

lemma subtract_loop_Cons:
  "subtract_scan w (iv_start w) bs = (out, c, rest) \<Longrightarrow>
   subtract_loop (w # ws) bs = emitted w out c @ subtract_loop ws rest"
  by (simp add: emitted_def)

declare subtract_loop.simps(2) [simp del]

lemma emitted_cover:
  assumes "separated bs" "subtract_scan w (iv_start w) bs = (out, c, rest)"
  shows "cover (emitted w out c) = points w - cover bs"
proof -
  have "cover (emitted w out c) = cover out \<union> tail_points c w"
    by (simp add: emitted_def tail_points_def)
  then show ?thesis using subtract_scan_cover[OF assms] by (simp add: points_def)
qed

lemma emitted_within:
  assumes "subtract_scan w (iv_start w) bs = (out, c, rest)" "wf_ivs bs" "i \<in> set (emitted w out c)"
  shows "iv_start w \<le> iv_start i \<and> iv_start i < iv_end i \<and> iv_end i \<le> iv_end w"
  using subtract_scan_bounds[OF assms(1,2)] assms(3) by (auto simp: emitted_def split: if_splits)

lemma emitted_separated:
  assumes "subtract_scan w (iv_start w) bs = (out, c, rest)" "wf_ivs bs"
  shows "separated (emitted w out c)"
  using subtract_scan_separated[OF assms] subtract_scan_bounds[OF assms]
  by (auto simp: emitted_def separated_append)

lemma emitted_gapped:
  assumes "subtract_scan w (iv_start w) bs = (out, c, rest)" "proper_ivs bs"
  shows "gapped (emitted w out c)"
  using subtract_scan_gapped[OF assms] by (auto simp: emitted_def gapped_append)

lemma subtract_scan_rest_props:
  assumes "subtract_scan w (iv_start w) bs = (out, c, rest)" "iv_start w \<le> iv_end w"
  shows "separated bs \<Longrightarrow> separated rest" "proper_ivs bs \<Longrightarrow> proper_ivs rest"
    "wf_ivs bs \<Longrightarrow> wf_ivs rest" "t \<ge> iv_end w \<Longrightarrow> t \<in> cover rest \<longleftrightarrow> t \<in> cover bs"
proof -
  from subtract_scan_rest[OF assms] obtain used where used: "bs = used @ rest"
    "\<forall>b \<in> set used. iv_end b \<le> iv_end w" by blast
  then show "separated bs \<Longrightarrow> separated rest" "proper_ivs bs \<Longrightarrow> proper_ivs rest"
    "wf_ivs bs \<Longrightarrow> wf_ivs rest" by (auto simp: separated_append)
  show "t \<in> cover rest \<longleftrightarrow> t \<in> cover bs" if "t \<ge> iv_end w"
    using used that by (auto simp: cover_def points_def)
qed

lemma subtract_loop_within:
  "wf_ivs ws \<Longrightarrow> wf_ivs bs \<Longrightarrow> i \<in> set (subtract_loop ws bs) \<Longrightarrow>
   \<exists>w \<in> set ws. iv_start w \<le> iv_start i \<and> iv_start i < iv_end i \<and> iv_end i \<le> iv_end w"
proof (induction ws arbitrary: bs)
  case (Cons w ws)
  obtain out c rest where scan: "subtract_scan w (iv_start w) bs = (out, c, rest)"
    by (cases "subtract_scan w (iv_start w) bs") auto
  from Cons.prems(3) consider "i \<in> set (emitted w out c)" | "i \<in> set (subtract_loop ws rest)"
    by (auto simp: subtract_loop_Cons[OF scan])
  then show ?case
  proof cases
    case 1
    from emitted_within[OF scan _ this] Cons.prems(2) show ?thesis by auto
  next
    case 2
    from Cons.IH[OF _ _ this] Cons.prems subtract_scan_rest_props(3)[OF scan] show ?thesis by auto
  qed
qed auto

lemma subtract_loop_cover:
  "separated ws \<Longrightarrow> separated bs \<Longrightarrow> cover (subtract_loop ws bs) = cover ws - cover bs"
proof (induction ws arbitrary: bs)
  case (Cons w ws)
  obtain out c rest where scan: "subtract_scan w (iv_start w) bs = (out, c, rest)"
    by (cases "subtract_scan w (iv_start w) bs") auto
  note rest = subtract_scan_rest_props[OF scan]
  have later: "t \<in> cover ws \<Longrightarrow> iv_end w \<le> t" for t
    using Cons.prems(1) by (auto intro: cover_ge)
  have "cover (subtract_loop ws rest) = cover ws - cover rest"
    using Cons rest(1) by auto
  also have "\<dots> = cover ws - cover bs" using later rest(4) Cons.prems(1) by auto
  finally show ?case
    using emitted_cover[OF Cons.prems(2) scan] by (auto simp: subtract_loop_Cons[OF scan])
qed auto

lemma subtract_loop_separated:
  "separated ws \<Longrightarrow> wf_ivs bs \<Longrightarrow> separated (subtract_loop ws bs)"
proof (induction ws arbitrary: bs)
  case (Cons w ws)
  obtain out c rest where scan: "subtract_scan w (iv_start w) bs = (out, c, rest)"
    by (cases "subtract_scan w (iv_start w) bs") auto
  have rest: "wf_ivs rest" using subtract_scan_rest_props(3)[OF scan] Cons.prems by auto
  have "iv_end i \<le> iv_start j" if "i \<in> set (emitted w out c)" "j \<in> set (subtract_loop ws rest)" for i j
    using emitted_within[OF scan Cons.prems(2) that(1)] Cons.prems(1)
      subtract_loop_within[OF _ rest that(2)] by (fastforce simp: separated_def)
  with Cons.IH[OF _ rest] Cons.prems(1) emitted_separated[OF scan Cons.prems(2)] show ?case
    by (auto simp: subtract_loop_Cons[OF scan] separated_append)
qed auto

lemma subtract_loop_gapped:
  "gapped ws \<Longrightarrow> proper_ivs bs \<Longrightarrow> gapped (subtract_loop ws bs)"
proof (induction ws arbitrary: bs)
  case (Cons w ws)
  obtain out c rest where scan: "subtract_scan w (iv_start w) bs = (out, c, rest)"
    by (cases "subtract_scan w (iv_start w) bs") auto
  have rest: "proper_ivs rest" using subtract_scan_rest_props(2)[OF scan] Cons.prems by auto
  have "iv_end i < iv_start j" if "i \<in> set (emitted w out c)" "j \<in> set (subtract_loop ws rest)" for i j
    using emitted_within[OF scan proper_wf[OF Cons.prems(2)] that(1)] Cons.prems(1)
      subtract_loop_within[OF _ proper_wf[OF rest] that(2)] by (fastforce simp: gapped_def)
  with Cons.IH[OF _ rest] Cons.prems(1) emitted_gapped[OF scan Cons.prems(2)] show ?case
    by (auto simp: subtract_loop_Cons[OF scan] gapped_append)
qed auto

lemma subtract_intervals_cover:
  "separated ws \<Longrightarrow> separated bs \<Longrightarrow> cover (subtract_intervals ws bs) = cover ws - cover bs"
  by (simp add: subtract_intervals_def subtract_loop_cover)

lemma subtract_intervals_separated:
  "separated ws \<Longrightarrow> separated bs \<Longrightarrow> separated (subtract_intervals ws bs)"
  by (simp add: subtract_intervals_def subtract_loop_separated separated_def[of bs])

lemma subtract_intervals_gapped:
  "gapped ws \<Longrightarrow> proper_ivs bs \<Longrightarrow> gapped (subtract_intervals ws bs)"
  by (simp add: subtract_intervals_def subtract_loop_gapped)

lemma subtract_intervals_proper:
  assumes "proper_ivs ws" "wf_ivs bs"
  shows "proper_ivs (subtract_intervals ws bs)"
  using assms subtract_loop_within[OF proper_wf[OF assms(1)] assms(2)]
  by (auto simp: subtract_intervals_def proper_ivs_def)

section \<open>Intersecting\<close>

lemma intersect_intervals_within:
  "i \<in> set (intersect_intervals as bs) \<Longrightarrow>
   (\<exists>a \<in> set as. iv_start a \<le> iv_start i \<and> iv_end i \<le> iv_end a) \<and>
   (\<exists>b \<in> set bs. iv_start b \<le> iv_start i \<and> iv_end i \<le> iv_end b) \<and> iv_start i < iv_end i"
  by (induction as bs rule: intersect_intervals.induct) (auto simp: Let_def split: if_splits)

lemma points_min_max: "{max (iv_start a) (iv_start b) ..< min (iv_end a) (iv_end b)} = points a \<inter> points b"
  by (auto simp: points_def)

lemma intersect_intervals_cover:
  "separated as \<Longrightarrow> separated bs \<Longrightarrow> cover (intersect_intervals as bs) = cover as \<inter> cover bs"
proof (induction as bs rule: intersect_intervals.induct)
  case (3 a as b bs)
  let ?here = "if max (iv_start a) (iv_start b) < min (iv_end a) (iv_end b)
    then [Interval (max (iv_start a) (iv_start b)) (min (iv_end a) (iv_end b))] else []"
  have here: "cover ?here = points a \<inter> points b" by (auto simp: points_def)
  have as: "t \<in> cover as \<Longrightarrow> iv_end a \<le> t" and bs: "t \<in> cover bs \<Longrightarrow> iv_end b \<le> t" for t
    using 3 by (auto intro: cover_ge)
  show ?case
  proof (cases "iv_end a < iv_end b")
    case True
    then have "points a \<inter> cover bs = {}" using bs by (force simp: points_def)
    with True "3.IH"(1)[OF refl refl refl True] "3.prems" here show ?thesis
      by (auto simp: Let_def simp del: cover_simps(2) simp: cover_simps(2)[of a] cover_simps(2)[of b])
  next
    case False
    then have "cover as \<inter> points b = {}" using as by (force simp: points_def)
    with False "3.IH"(2)[OF refl refl refl False] "3.prems" here show ?thesis
      by (auto simp: Let_def simp del: cover_simps(2) simp: cover_simps(2)[of a] cover_simps(2)[of b])
  qed
qed auto

section \<open>The interface the engine relies on\<close>

text \<open>
  What the availability engine uses of the interval functions: merging keeps the covered set
  and returns a sorted non-overlapping list, subtraction is set difference on such lists. The
  second contract adds that the lists have real gaps, so that a stretch of free time is never
  split over two intervals.
\<close>

locale interval_calculus =
  fixes merge :: "interval list \<Rightarrow> interval list"
    and subtract :: "interval list \<Rightarrow> interval list \<Rightarrow> interval list"
  assumes merge_cover: "wf_ivs xs \<Longrightarrow> cover (merge xs) = cover xs"
    and merge_separated: "wf_ivs xs \<Longrightarrow> separated (merge xs)"
    and subtract_cover: "separated ws \<Longrightarrow> separated bs \<Longrightarrow> cover (subtract ws bs) = cover ws - cover bs"
    and subtract_separated: "separated ws \<Longrightarrow> separated bs \<Longrightarrow> separated (subtract ws bs)"
begin

lemma free_cover:
  assumes "separated ws" "wf_ivs leaves" "wf_ivs blocked"
  shows "cover (subtract (subtract ws (merge leaves)) (merge blocked)) =
         cover ws - cover leaves - cover blocked"
  using assms by (simp add: merge_cover merge_separated subtract_cover subtract_separated)

end

locale gapped_calculus = interval_calculus +
  assumes merge_gapped: "wf_ivs xs \<Longrightarrow> gapped (merge xs)"
    and merge_proper: "proper_ivs xs \<Longrightarrow> proper_ivs (merge xs)"
    and subtract_gapped: "gapped ws \<Longrightarrow> proper_ivs bs \<Longrightarrow> gapped (subtract ws bs)"
begin

lemma free_gapped:
  assumes "gapped ws" "proper_ivs leaves" "proper_ivs blocked"
  shows "gapped (subtract (subtract ws (merge leaves)) (merge blocked))"
  using assms by (simp add: merge_proper subtract_gapped)

text \<open>A stretch is inside one free interval exactly when all its instants are free.\<close>

lemma stretch_free_iff:
  assumes "gapped ws" "proper_ivs leaves" "proper_ivs blocked" "a < b"
  shows "(\<exists>i \<in> set (subtract (subtract ws (merge leaves)) (merge blocked)). iv_start i \<le> a \<and> b \<le> iv_end i)
     \<longleftrightarrow> {a..<b} \<subseteq> cover ws - cover leaves - cover blocked"
    (is "?in \<longleftrightarrow> ?sub")
proof
  assume ?in
  then have "{a..<b} \<subseteq> cover (subtract (subtract ws (merge leaves)) (merge blocked))"
    by (force simp: cover_def points_def)
  then show ?sub using assms by (simp add: free_cover gapped_separated proper_wf)
next
  assume ?sub
  then have "{a..<b} \<subseteq> cover (subtract (subtract ws (merge leaves)) (merge blocked))"
    using assms by (simp add: free_cover gapped_separated proper_wf)
  then show ?in using gapped_one_interval[OF free_gapped assms(4)] assms(1-3) by blast
qed

end

interpretation ivc: gapped_calculus merge_intervals subtract_intervals
  by unfold_locales
    (simp_all add: merge_intervals_cover merge_intervals_gapped merge_intervals_proper
      gapped_separated subtract_intervals_cover subtract_intervals_separated
      subtract_intervals_gapped)

section \<open>Properties\<close>

text \<open>\<open>merge_intervals\<close> turns any list of well-formed intervals into a sorted list whose
  intervals neither overlap nor touch and which covers exactly the same instants.\<close>

theorem merge_intervals_correct:
  "wf_ivs xs \<Longrightarrow> gapped (merge_intervals xs) \<and> cover (merge_intervals xs) = cover xs"
  by (simp add: merge_intervals_cover merge_intervals_gapped)

theorem merge_intervals_correct_witness:
  "gapped (merge_intervals [Interval 5 9, Interval 0 3, Interval 3 4, Interval 8 12]) \<and>
   cover (merge_intervals [Interval 5 9, Interval 0 3, Interval 3 4, Interval 8 12]) =
   {0..<4} \<union> {5..<12}"
proof -
  have "wf_ivs [Interval 5 9, Interval 0 3, Interval 3 4, Interval 8 12]" by simp
  from merge_intervals_correct[OF this] show ?thesis by (simp add: set_eq_iff) presburger
qed

text \<open>\<open>subtract_intervals\<close>, one pass over both lists, computes the set difference of two
  sorted non-overlapping lists, and its result is again sorted and non-overlapping.\<close>

theorem subtract_intervals_correct:
  "separated ws \<Longrightarrow> separated bs \<Longrightarrow>
   separated (subtract_intervals ws bs) \<and> cover (subtract_intervals ws bs) = cover ws - cover bs"
  by (simp add: subtract_intervals_cover subtract_intervals_separated)

theorem subtract_intervals_correct_witness:
  "cover (subtract_intervals [Interval 0 10, Interval 12 20] [Interval 2 4, Interval 9 14]) =
   {0..<2} \<union> {4..<9} \<union> {14..<20}"
proof -
  have "separated [Interval 0 10, Interval 12 20]" "separated [Interval 2 4, Interval 9 14]" by simp_all
  from subtract_intervals_correct[OF this] show ?thesis
    by (simp add: set_eq_iff) presburger
qed

text \<open>\<open>intersect_intervals\<close> computes the intersection of two sorted non-overlapping lists,
  and every interval it returns lies within one interval of each list.\<close>

theorem intersect_intervals_correct:
  "separated as \<Longrightarrow> separated bs \<Longrightarrow>
   cover (intersect_intervals as bs) = cover as \<inter> cover bs \<and>
   (\<forall>i \<in> set (intersect_intervals as bs). iv_start i < iv_end i \<and>
      (\<exists>a \<in> set as. iv_start a \<le> iv_start i \<and> iv_end i \<le> iv_end a) \<and>
      (\<exists>b \<in> set bs. iv_start b \<le> iv_start i \<and> iv_end i \<le> iv_end b))"
  using intersect_intervals_cover intersect_intervals_within by blast

theorem intersect_intervals_correct_witness:
  "cover (intersect_intervals [Interval 0 5, Interval 6 9] [Interval 4 8]) = {4..<5} \<union> {6..<8}"
proof -
  have "separated [Interval 0 5, Interval 6 9]" "separated [Interval 4 8]" by simp_all
  from intersect_intervals_correct[OF this] show ?thesis
    by (simp add: set_eq_iff)
qed

end
