(* ===== verification/Availability.thy ===== *)
theory Availability
  imports Intervals
begin

text \<open>
  The availability engine: block generation of
  \<open>app/availability/domain/interval_engine.py\<close>, the value objects of
  \<open>app/availability/domain/value_objects.py\<close> and
  \<open>AppointmentAvailabilityEngine\<close> of \<open>app/availability/domain/engine.py\<close>.

  A date is its day number, a time of day its microseconds since midnight and the branch
  timezone its offset from UTC in microseconds (a timezone without daylight saving, as
  Asia/Kuwait), so \<open>datetime.combine\<close> is addition. The \<open>while\<close> loops that cut the day into
  slots end only for a positive slot length: they are option-valued, \<open>None\<close> is a loop that
  does not end, and the theorems show that a positive slot length gives a result.
\<close>

section \<open>Value objects\<close>

datatype BlockType =
    BT_AVAILABLE | BT_BOOKING | BT_HOME_BOOKING | BT_LEAVE | BT_OUTSIDE_WORKING_HOURS
  | BT_OUTSIDE_BRANCH_HOURS | BT_TEMPORARY_HOLD

record TimeBlock =
  tb_start :: instant
  tb_end :: instant
  tb_available :: bool
  tb_blocking_type :: BlockType
  tb_booking_id :: "string option"
  tb_resource_type :: "string option"

record DayAvailability =
  da_date :: int
  da_branch_opening :: string
  da_branch_closing :: string
  da_blocks :: "TimeBlock list"
  da_is_closed :: bool

record TherapistScheduleInput =
  ts_therapist_id :: string
  ts_therapist_name :: string
  ts_is_available_for_home_service :: bool
  ts_working_hours :: "interval list"
  ts_leaves :: "interval list"
  ts_extra_hours :: "interval list"
  ts_existing_bookings :: "interval list"
  ts_home_bookings :: "interval list"
  ts_temporary_holds :: "interval list"

datatype availability_error = ZeroDivisionError

definition minutes :: "int \<Rightarrow> int" where "minutes m = m * 60000000"

definition duration_minutes :: "interval \<Rightarrow> int" where
  "duration_minutes i = sgn (iv_end i - iv_start i) * (\<bar>iv_end i - iv_start i\<bar> div 60000000)"

definition digit_char :: "int \<Rightarrow> char" where
  "digit_char d = char_of (nat (48 + d))"

definition two_digits :: "int \<Rightarrow> string" where
  "two_digits n = [digit_char (n div 10 mod 10), digit_char (n mod 10)]"

text \<open>\<open>strftime("%H:%M")\<close> of a time of day, and of a datetime in the branch timezone.\<close>

definition strftime_HM :: "int \<Rightarrow> string" where
  "strftime_HM t =
     two_digits (t div 3600000000 mod 24) @ '':'' @ two_digits (t div 60000000 mod 60)"

text \<open>\<open>TimeBlock.to_display\<close>: the keys the response carries, \<open>None\<close> for an absent key.\<close>

record block_display =
  bd_start :: string
  bd_end :: string
  bd_available :: bool
  bd_blocking_type :: "BlockType option"
  bd_booking_id :: "string option"

definition to_display :: "int \<Rightarrow> TimeBlock \<Rightarrow> block_display" where
  "to_display tz b =
     \<lparr>bd_start = strftime_HM (tb_start b + tz), bd_end = strftime_HM (tb_end b + tz),
      bd_available = tb_available b,
      bd_blocking_type = (if \<not> tb_available b then Some (tb_blocking_type b) else None),
      bd_booking_id = (case tb_booking_id b of Some s \<Rightarrow> (if s = [] then None else Some s) | None \<Rightarrow> None)\<rparr>"

section \<open>Block generation\<close>

text \<open>The loop \<open>while slot_start + slot <= branch_close\<close>: the slot starts it collects.\<close>

partial_function (option) slot_starts :: "instant \<Rightarrow> int \<Rightarrow> instant \<Rightarrow> instant list option" where
  "slot_starts branch_close slot slot_start =
     (if slot_start + slot \<le> branch_close
      then Option.bind (slot_starts branch_close slot (slot_start + slot))
             (\<lambda>rest. Some (slot_start # rest))
      else Some [])"

definition classify_blocking_reason ::
  "instant \<Rightarrow> instant \<Rightarrow> interval list \<Rightarrow> instant \<Rightarrow> instant \<Rightarrow> BlockType" where
  "classify_blocking_reason slot_start slot_end blocked branch_open branch_close =
     (if slot_start < branch_open \<or> branch_close < slot_end then BT_OUTSIDE_BRANCH_HOURS
      else BT_BOOKING)"

definition slots_needed :: "int \<Rightarrow> int \<Rightarrow> int" where
  "slots_needed service_duration_minutes slot_minutes = max 1 (service_duration_minutes div slot_minutes)"

definition free_set :: "interval list \<Rightarrow> int \<Rightarrow> instant list \<Rightarrow> nat list" where
  "free_set free_intervals slot starts =
     filter (\<lambda>idx. \<exists>i \<in> set free_intervals. iv_start i \<le> starts ! idx \<and> starts ! idx + slot \<le> iv_end i)
       [0..<length starts]"

definition slot_block ::
  "interval list \<Rightarrow> int \<Rightarrow> instant \<Rightarrow> instant \<Rightarrow> int \<Rightarrow> nat list \<Rightarrow> nat \<Rightarrow> instant \<Rightarrow> TimeBlock" where
  "slot_block blocked_intervals slot branch_open branch_close needed free idx ss =
     (let is_available = list_all (\<lambda>k. idx + k \<in> set free) [0..<nat needed]
      in \<lparr>tb_start = ss, tb_end = ss + slot, tb_available = is_available,
          tb_blocking_type = (if is_available then BT_AVAILABLE
            else classify_blocking_reason ss (ss + slot) blocked_intervals branch_open branch_close),
          tb_booking_id = None, tb_resource_type = None\<rparr>)"

definition generate_blocks ::
  "interval list \<Rightarrow> interval list \<Rightarrow> interval list \<Rightarrow> int \<Rightarrow> instant \<Rightarrow> instant \<Rightarrow> int
   \<Rightarrow> (availability_error + TimeBlock list) option" where
  "generate_blocks free_intervals all_intervals blocked_intervals slot_minutes branch_open branch_close
     service_duration_minutes =
     (if slot_minutes = 0 then Some (Inl ZeroDivisionError)
      else
        map_option
          (\<lambda>starts. Inr (map2 (slot_block blocked_intervals (minutes slot_minutes) branch_open branch_close
               (slots_needed service_duration_minutes slot_minutes)
               (free_set free_intervals (minutes slot_minutes) starts)) [0..<length starts] starts))
          (slot_starts branch_close (minutes slot_minutes) branch_open))"

section \<open>The engine\<close>

record AppointmentAvailabilityEngine =
  ae_duration :: int
  ae_slot :: int
  ae_home_buffer :: int

definition intersect_with_window :: "interval list \<Rightarrow> interval \<Rightarrow> interval list" where
  "intersect_with_window intervals window =
     concat (map (\<lambda>iv. let start = max (iv_start iv) (iv_start window);
                           stop = min (iv_end iv) (iv_end window)
                       in if start < stop then [Interval start stop] else []) intervals)"

definition closed_block :: "int \<Rightarrow> instant \<Rightarrow> TimeBlock" where
  "closed_block slot current =
     \<lparr>tb_start = current, tb_end = current + slot, tb_available = False,
      tb_blocking_type = BT_OUTSIDE_WORKING_HOURS, tb_booking_id = None, tb_resource_type = None\<rparr>"

definition generate_closed_blocks :: "instant \<Rightarrow> instant \<Rightarrow> int \<Rightarrow> TimeBlock list option" where
  "generate_closed_blocks branch_open branch_close slot_minutes =
     map_option (map (closed_block (minutes slot_minutes)))
       (slot_starts branch_close (minutes slot_minutes) branch_open)"

definition combine :: "int \<Rightarrow> int \<Rightarrow> int \<Rightarrow> instant" where
  "combine d t tz = d * 86400000000 + t - tz"

definition filter_for_day :: "interval \<Rightarrow> interval list \<Rightarrow> interval list" where
  "filter_for_day day_window ivs = filter (\<lambda>iv. overlaps iv day_window) ivs"

definition effective_working :: "TherapistScheduleInput \<Rightarrow> interval \<Rightarrow> interval list" where
  "effective_working th day_window =
     subtract_intervals
       (intersect_with_window
          (merge_intervals (filter_for_day day_window (ts_working_hours th)
                            @ filter_for_day day_window (ts_extra_hours th))) day_window)
       (merge_intervals (filter_for_day day_window (ts_leaves th)))"

definition all_blocked :: "TherapistScheduleInput \<Rightarrow> interval \<Rightarrow> interval list" where
  "all_blocked th day_window =
     merge_intervals (filter_for_day day_window (ts_existing_bookings th)
                      @ filter_for_day day_window (ts_home_bookings th)
                      @ filter_for_day day_window (ts_temporary_holds th))"

definition day_availability ::
  "AppointmentAvailabilityEngine \<Rightarrow> TherapistScheduleInput \<Rightarrow> int \<Rightarrow> int \<Rightarrow> int \<Rightarrow> int
   \<Rightarrow> (availability_error + DayAvailability) option" where
  "day_availability eng th tz branch_opening_time branch_closing_time d =
     (let branch_open = combine d branch_opening_time tz;
          branch_close = combine d branch_closing_time tz;
          day_window = Interval branch_open branch_close;
          working = effective_working th day_window;
          blocked = all_blocked th day_window;
          free_intervals = subtract_intervals working blocked;
          blocks = (if working = []
                    then map_option Inr (generate_closed_blocks branch_open branch_close (ae_slot eng))
                    else generate_blocks free_intervals working blocked (ae_slot eng)
                           branch_open branch_close (ae_duration eng))
      in map_option (map_sum id (\<lambda>bs.
           \<lparr>da_date = d, da_branch_opening = strftime_HM branch_opening_time,
            da_branch_closing = strftime_HM branch_closing_time, da_blocks = bs,
            da_is_closed = (working = [])\<rparr>)) blocks)"

fun availability_loop ::
  "(int \<Rightarrow> (availability_error + DayAvailability) option) \<Rightarrow> (int \<rightharpoonup> DayAvailability) \<Rightarrow> int list
   \<Rightarrow> (availability_error + (int \<rightharpoonup> DayAvailability)) option" where
  "availability_loop day res [] = Some (Inr res)"
| "availability_loop day res (d # ds) =
     Option.bind (day d) (\<lambda>r. case r of Inl e \<Rightarrow> Some (Inl e)
                                     | Inr da \<Rightarrow> availability_loop day (res(d \<mapsto> da)) ds)"

definition compute_therapist_availability ::
  "AppointmentAvailabilityEngine \<Rightarrow> TherapistScheduleInput \<Rightarrow> int list \<Rightarrow> int \<Rightarrow> int \<Rightarrow> int
   \<Rightarrow> (availability_error + (int \<rightharpoonup> DayAvailability)) option" where
  "compute_therapist_availability eng th dates branch_timezone branch_opening_time branch_closing_time =
     availability_loop
       (day_availability eng th branch_timezone branch_opening_time branch_closing_time) Map.empty dates"

definition apply_home_service_buffer :: "AppointmentAvailabilityEngine \<Rightarrow> interval \<Rightarrow> interval" where
  "apply_home_service_buffer eng i =
     Interval (iv_start i - minutes (ae_home_buffer eng)) (iv_end i + minutes (ae_home_buffer eng))"

section \<open>The slots of a day\<close>

lemma slot_starts_eq:
  assumes "0 < slot"
  shows "slot_starts close slot s = Some (map (\<lambda>k. s + int k * slot) [0..<nat ((close - s) div slot)])"
proof (induction "nat ((close - s) div slot)" arbitrary: s)
  case 0
  then have "(close - s) div slot \<le> 0" by simp
  then have "\<not> s + slot \<le> close"
    using assms pos_imp_zdiv_pos_iff[of slot "close - s"] by linarith
  with 0 show ?case by (subst slot_starts.simps) simp
next
  case (Suc n)
  then have "0 < (close - s) div slot" by linarith
  then have le: "s + slot \<le> close" using assms pos_imp_zdiv_pos_iff[of slot "close - s"] by linarith
  have "(close - (s + slot)) div slot = (close - s) div slot - 1"
    using assms div_add_self2[of slot "close - (s + slot)"] by (simp add: algebra_simps)
  then have n: "n = nat ((close - (s + slot)) div slot)" using Suc(2) by linarith
  have "[0..<Suc n] = 0 # map Suc [0..<n]" by (simp add: map_Suc_upt upt_conv_Cons)
  then have "map (\<lambda>k. s + int k * slot) [0..<Suc n] = s # map (\<lambda>k. s + slot + int k * slot) [0..<n]"
    by (simp add: algebra_simps del: upt_Suc)
  with Suc(1)[OF n] le show ?case
    by (subst slot_starts.simps) (simp add: Suc(2)[symmetric] n[symmetric] del: upt_Suc)
qed

definition n_slots :: "int \<Rightarrow> instant \<Rightarrow> instant \<Rightarrow> nat" where
  "n_slots slot branch_open branch_close = nat ((branch_close - branch_open) div slot)"

definition nth_slot :: "int \<Rightarrow> instant \<Rightarrow> nat \<Rightarrow> instant" where
  "nth_slot slot branch_open k = branch_open + int k * slot"

lemma slot_starts_slots:
  "0 < slot \<Longrightarrow> slot_starts close slot s = Some (map (nth_slot slot s) [0..<n_slots slot s close])"
  by (simp add: slot_starts_eq n_slots_def nth_slot_def)

lemma nth_slot_Suc: "nth_slot slot s k + slot = nth_slot slot s (Suc k)"
  by (simp add: nth_slot_def algebra_simps)

lemma nth_slot_mono: "0 < slot \<Longrightarrow> j \<le> k \<Longrightarrow> nth_slot slot s j \<le> nth_slot slot s k"
  by (simp add: nth_slot_def)

lemma nth_slot_le_close:
  "0 < slot \<Longrightarrow> 0 < k \<Longrightarrow> nth_slot slot s k \<le> close \<longleftrightarrow> k \<le> n_slots slot s close"
proof -
  assume pos: "0 < slot" and k: "0 < k"
  define q where "q = (close - s) div slot"
  have split: "close - s = q * slot + (close - s) mod slot" "0 \<le> (close - s) mod slot"
    "(close - s) mod slot < slot"
    using pos by (simp_all add: q_def)
  have "int k * slot \<le> close - s \<longleftrightarrow> int k \<le> q"
  proof
    assume "int k * slot \<le> close - s"
    with split have "int k * slot < (q + 1) * slot" by (simp add: algebra_simps)
    then show "int k \<le> q" using pos by simp
  next
    assume "int k \<le> q"
    then have "int k * slot \<le> q * slot" using pos by simp
    with split show "int k * slot \<le> close - s" by linarith
  qed
  then show ?thesis using k by (auto simp: nth_slot_def n_slots_def q_def)
qed

text \<open>A run of slots, as a stretch of instants.\<close>

lemma slot_run_points:
  assumes "0 < slot"
  shows "{nth_slot slot s i ..< nth_slot slot s (i + m)} =
         (\<Union>k \<in> {..<m}. {nth_slot slot s (i + k) ..< nth_slot slot s (i + k) + slot})"
proof (induction m)
  case 0
  then show ?case by simp
next
  case (Suc m)
  have "{nth_slot slot s i ..< nth_slot slot s (i + Suc m)} =
        {nth_slot slot s i ..< nth_slot slot s (i + m)} \<union>
        {nth_slot slot s (i + m) ..< nth_slot slot s (i + m) + slot}"
    using nth_slot_mono[OF assms, of i "i + m" s] assms nth_slot_Suc[of slot s "i + m"] by auto
  with Suc.IH show ?case by (simp add: lessThan_Suc Un_commute)
qed

section \<open>What a day's blocks say\<close>

lemma set_free_set:
  "idx \<in> set (free_set free slot (map (nth_slot slot s) [0..<n])) \<longleftrightarrow>
   idx < n \<and> (\<exists>i \<in> set free. iv_start i \<le> nth_slot slot s idx \<and> nth_slot slot s idx + slot \<le> iv_end i)"
  by (auto simp: free_set_def)

lemma slot_block_times:
  "tb_start (slot_block blk slot op cl m free idx ss) = ss"
  "tb_end (slot_block blk slot op cl m free idx ss) = ss + slot"
  by (simp_all add: slot_block_def Let_def)

lemma generate_blocks_total:
  assumes "0 < slot_minutes"
  shows "generate_blocks free all blocked slot_minutes op cl dur =
    Some (Inr (map (\<lambda>idx. slot_block blocked (minutes slot_minutes) op cl (slots_needed dur slot_minutes)
      (free_set free (minutes slot_minutes)
         (map (nth_slot (minutes slot_minutes) op) [0..<n_slots (minutes slot_minutes) op cl]))
      idx (nth_slot (minutes slot_minutes) op idx)) [0..<n_slots (minutes slot_minutes) op cl]))"
proof -
  have "0 < minutes slot_minutes" using assms by (simp add: minutes_def)
  then show ?thesis using assms
    by (simp add: generate_blocks_def slot_starts_slots map2_map_map zip_map2)
      (simp add: list_eq_iff_nth_eq)
qed

lemma intersect_with_window_Cons:
  "intersect_with_window (x # xs) w =
     (if max (iv_start x) (iv_start w) < min (iv_end x) (iv_end w)
      then [Interval (max (iv_start x) (iv_start w)) (min (iv_end x) (iv_end w))] else []) @
     intersect_with_window xs w"
  by (simp add: intersect_with_window_def Let_def)

lemma intersect_with_window_Nil [simp]: "intersect_with_window [] w = []"
  by (simp add: intersect_with_window_def)

lemma intersect_with_window_cover: "cover (intersect_with_window xs w) = cover xs \<inter> points w"
proof (induction xs)
  case (Cons x xs)
  have "cover (if max (iv_start x) (iv_start w) < min (iv_end x) (iv_end w)
      then [Interval (max (iv_start x) (iv_start w)) (min (iv_end x) (iv_end w))] else []) =
      points x \<inter> points w"
    by (auto simp: points_def)
  with Cons show ?case by (simp only: intersect_with_window_Cons cover_simps Int_Un_distrib2)
qed simp

lemma intersect_with_window_within:
  "i \<in> set (intersect_with_window xs w) \<Longrightarrow>
   \<exists>x \<in> set xs. iv_start x \<le> iv_start i \<and> iv_end i \<le> iv_end x \<and> iv_start i < iv_end i"
  by (induction xs) (auto simp: intersect_with_window_Cons split: if_splits)

lemma intersect_with_window_gapped: "gapped xs \<Longrightarrow> gapped (intersect_with_window xs w)"
proof (induction xs)
  case (Cons x xs)
  have "iv_end x < iv_start i" if "i \<in> set (intersect_with_window xs w)" for i
    using intersect_with_window_within[OF that] Cons.prems by fastforce
  with Cons show ?case by (fastforce simp: intersect_with_window_Cons)
qed simp

lemma filter_for_day_cover: "cover (filter_for_day w xs) \<inter> points w = cover xs \<inter> points w"
  by (auto simp: filter_for_day_def cover_def overlaps_def points_def)

lemma filter_for_day_proper [simp, intro]: "proper_ivs xs \<Longrightarrow> proper_ivs (filter_for_day w xs)"
  by (auto simp: filter_for_day_def proper_ivs_def)

text \<open>
  The specification: the instants of the branch day at which the therapist works (regular or
  extra hours) and is not on leave, booked, travelling for a home booking or held.
\<close>

definition free_instants :: "TherapistScheduleInput \<Rightarrow> interval \<Rightarrow> instant set" where
  "free_instants th window =
     (cover (ts_working_hours th) \<union> cover (ts_extra_hours th)) \<inter> points window
       - cover (ts_leaves th)
       - (cover (ts_existing_bookings th) \<union> cover (ts_home_bookings th) \<union> cover (ts_temporary_holds th))"

definition proper_schedule :: "TherapistScheduleInput \<Rightarrow> bool" where
  "proper_schedule th \<longleftrightarrow> proper_ivs (ts_working_hours th) \<and> proper_ivs (ts_leaves th) \<and>
     proper_ivs (ts_extra_hours th) \<and> proper_ivs (ts_existing_bookings th) \<and>
     proper_ivs (ts_home_bookings th) \<and> proper_ivs (ts_temporary_holds th)"

definition clamped_working :: "TherapistScheduleInput \<Rightarrow> interval \<Rightarrow> interval list" where
  "clamped_working th w = intersect_with_window
     (merge_intervals (filter_for_day w (ts_working_hours th) @ filter_for_day w (ts_extra_hours th))) w"

definition blockers :: "TherapistScheduleInput \<Rightarrow> interval \<Rightarrow> interval list" where
  "blockers th w = filter_for_day w (ts_existing_bookings th) @ filter_for_day w (ts_home_bookings th)
     @ filter_for_day w (ts_temporary_holds th)"

lemma schedule_parts:
  assumes "proper_schedule th"
  shows "gapped (clamped_working th w)" "proper_ivs (filter_for_day w (ts_leaves th))"
    "proper_ivs (blockers th w)"
    "cover (clamped_working th w) - cover (filter_for_day w (ts_leaves th)) - cover (blockers th w) =
     free_instants th w"
proof -
  note p = assms[unfolded proper_schedule_def]
  have wf: "wf_ivs (filter_for_day w (ts_working_hours th) @ filter_for_day w (ts_extra_hours th))"
    using p by (auto intro!: proper_wf)
  show "gapped (clamped_working th w)"
    unfolding clamped_working_def by (intro intersect_with_window_gapped merge_intervals_gapped wf)
  show "proper_ivs (filter_for_day w (ts_leaves th))" "proper_ivs (blockers th w)"
    using p by (auto simp: blockers_def)
  have "cover (clamped_working th w) =
      (cover (filter_for_day w (ts_working_hours th)) \<union> cover (filter_for_day w (ts_extra_hours th))) \<inter> points w"
    by (simp add: clamped_working_def intersect_with_window_cover merge_intervals_cover[OF wf])
  also have "\<dots> = (cover (ts_working_hours th) \<union> cover (ts_extra_hours th)) \<inter> points w"
    by (simp only: Int_Un_distrib2 filter_for_day_cover)
  finally show "cover (clamped_working th w) - cover (filter_for_day w (ts_leaves th)) - cover (blockers th w) =
     free_instants th w"
    using filter_for_day_cover[of w "ts_leaves th"] filter_for_day_cover[of w "ts_existing_bookings th"]
      filter_for_day_cover[of w "ts_home_bookings th"] filter_for_day_cover[of w "ts_temporary_holds th"]
    by (auto simp: free_instants_def blockers_def)
qed

lemma effective_working_eq:
  "effective_working th w = subtract_intervals (clamped_working th w)
     (merge_intervals (filter_for_day w (ts_leaves th)))"
  by (simp add: effective_working_def clamped_working_def)

lemma all_blocked_eq: "all_blocked th w = merge_intervals (blockers th w)"
  by (simp add: all_blocked_def blockers_def)

lemma free_slot_iff:
  assumes "proper_schedule th" "a < b"
  shows "(\<exists>i \<in> set (subtract_intervals (effective_working th w) (all_blocked th w)).
            iv_start i \<le> a \<and> b \<le> iv_end i) \<longleftrightarrow> {a..<b} \<subseteq> free_instants th w"
  using ivc.stretch_free_iff[OF schedule_parts(1,2,3)[OF assms(1)] assms(2)]
  by (simp add: effective_working_eq all_blocked_eq schedule_parts(4)[OF assms(1)])

lemma no_working_no_free:
  assumes "proper_schedule th" "effective_working th w = []"
  shows "free_instants th w = {}"
proof -
  have "cover (effective_working th w) = cover (clamped_working th w) - cover (filter_for_day w (ts_leaves th))"
    using schedule_parts(1,2)[OF assms(1)] unfolding effective_working_eq
    by (simp add: subtract_intervals_cover gapped_separated merge_intervals_gapped merge_intervals_cover proper_wf)
  then show ?thesis using assms(2) schedule_parts(4)[OF assms(1), of w] by auto
qed

text \<open>
  The contract of a day: one block per slot of the branch day, in order, available exactly when
  the therapist is free for the whole run of slots the service needs.
\<close>

definition day_window :: "int \<Rightarrow> int \<Rightarrow> int \<Rightarrow> int \<Rightarrow> interval" where
  "day_window tz op cl d = Interval (combine d op tz) (combine d cl tz)"

definition service_span :: "AppointmentAvailabilityEngine \<Rightarrow> int" where
  "service_span eng = slots_needed (ae_duration eng) (ae_slot eng) * minutes (ae_slot eng)"

definition day_spec ::
  "AppointmentAvailabilityEngine \<Rightarrow> TherapistScheduleInput \<Rightarrow> int \<Rightarrow> int \<Rightarrow> int \<Rightarrow> int \<Rightarrow> DayAvailability \<Rightarrow> bool" where
  "day_spec eng th tz op cl d da \<longleftrightarrow>
     length (da_blocks da) = n_slots (minutes (ae_slot eng)) (combine d op tz) (combine d cl tz) \<and>
     (\<forall>i < length (da_blocks da). let b = da_blocks da ! i in
        tb_start b = combine d op tz + int i * minutes (ae_slot eng) \<and>
        tb_end b = tb_start b + minutes (ae_slot eng) \<and>
        (tb_available b \<longleftrightarrow>
           {tb_start b ..< tb_start b + service_span eng} \<subseteq> free_instants th (day_window tz op cl d)))"

lemma available_run_iff:
  assumes th: "proper_schedule th" and pos: "0 < slot" and m: "0 < m"
    and w: "w = Interval op cl"
  shows "(\<forall>k < m. idx + k < n_slots slot op cl \<and>
            (\<exists>i \<in> set (subtract_intervals (effective_working th w) (all_blocked th w)).
               iv_start i \<le> nth_slot slot op (idx + k) \<and> nth_slot slot op (idx + k) + slot \<le> iv_end i)) \<longleftrightarrow>
         {nth_slot slot op idx ..< nth_slot slot op (idx + m)} \<subseteq> free_instants th w"
    (is "?run \<longleftrightarrow> ?span")
proof -
  have slot_iff: "(\<exists>i \<in> set (subtract_intervals (effective_working th w) (all_blocked th w)).
       iv_start i \<le> nth_slot slot op j \<and> nth_slot slot op j + slot \<le> iv_end i) \<longleftrightarrow>
     {nth_slot slot op j ..< nth_slot slot op j + slot} \<subseteq> free_instants th w" for j
    using free_slot_iff[OF th] pos by simp
  have inside: "idx + m \<le> n_slots slot op cl" if ?span
  proof -
    let ?last = "nth_slot slot op (idx + m) - 1"
    have "nth_slot slot op idx < nth_slot slot op (idx + m)"
      using pos m by (simp add: nth_slot_def)
    then have "?last \<in> {nth_slot slot op idx ..< nth_slot slot op (idx + m)}" by auto
    with that have "?last \<in> free_instants th w" by blast
    then have "?last \<in> points w" by (simp add: free_instants_def)
    then have "nth_slot slot op (idx + m) \<le> cl" by (simp add: w)
    then show ?thesis using nth_slot_le_close[OF pos] m by simp
  qed
  show ?thesis
  proof
    assume ?run
    then show ?span unfolding slot_run_points[OF pos] slot_iff by auto
  next
    assume ?span
    with inside show ?run unfolding slot_run_points[OF pos] slot_iff by force
  qed
qed

lemma day_availability_meets_spec:
  assumes pos: "0 < ae_slot eng" and th: "proper_schedule th"
  shows "\<exists>da. day_availability eng th tz op cl d = Some (Inr da) \<and> day_spec eng th tz op cl d da"
proof -
  define slot where "slot = minutes (ae_slot eng)"
  define w where "w = Interval (combine d op tz) (combine d cl tz)"
  define m where "m = nat (slots_needed (ae_duration eng) (ae_slot eng))"
  define n where "n = n_slots slot (combine d op tz) (combine d cl tz)"
  have slot: "0 < slot" using pos by (simp add: slot_def minutes_def)
  have m: "0 < m" and span: "service_span eng = int m * slot"
    by (simp_all add: m_def slots_needed_def service_span_def slot_def le_max_iff_disj)
  have run_end: "nth_slot slot s i + service_span eng = nth_slot slot s (i + m)" for s i
    by (simp add: span nth_slot_def algebra_simps)
  note defs = day_availability_def day_spec_def day_window_def Let_def slot_def[symmetric] w_def[symmetric]
    n_def[symmetric]
  show ?thesis
  proof (cases "effective_working th w = []")
    case True
    have "0 < service_span eng" using slot m by (simp add: span)
    then show ?thesis
      using True no_working_no_free[OF th True] slot
      by (simp add: defs generate_closed_blocks_def slot_starts_slots closed_block_def nth_slot_def[symmetric])
  next
    case False
    have "tb_available (slot_block blk slot (combine d op tz) (combine d cl tz)
        (slots_needed (ae_duration eng) (ae_slot eng))
        (free_set (subtract_intervals (effective_working th w) (all_blocked th w)) slot
          (map (nth_slot slot (combine d op tz)) [0..<n])) i (nth_slot slot (combine d op tz) i)) \<longleftrightarrow>
      {nth_slot slot (combine d op tz) i ..< nth_slot slot (combine d op tz) (i + m)} \<subseteq> free_instants th w"
      for blk i
      using available_run_iff[OF th slot m w_def, of i]
      by (simp add: slot_block_def Let_def set_free_set n_def list_all_iff m_def[symmetric] atLeast0LessThan
          Ball_def)
    then show ?thesis
      using False run_end
      by (simp add: defs generate_blocks_total[OF pos] slot_block_times nth_slot_def[symmetric])
  qed
qed

lemma availability_loop_total:
  assumes "\<And>d. \<exists>da. day d = Some (Inr da) \<and> P d da"
  shows "\<exists>res'. availability_loop day res ds = Some (Inr res') \<and> dom res' = dom res \<union> set ds \<and>
     (\<forall>d \<in> set ds. \<exists>da. res' d = Some da \<and> P d da) \<and> (\<forall>d. d \<notin> set ds \<longrightarrow> res' d = res d)"
proof (induction ds arbitrary: res)
  case (Cons d ds)
  from assms obtain da where da: "day d = Some (Inr da)" "P d da" by blast
  from Cons.IH[of "res(d \<mapsto> da)"] dom_fun_upd[of res d "Some da"] obtain res' where res': "availability_loop day (res(d \<mapsto> da)) ds = Some (Inr res')"
    "dom res' = insert d (dom res) \<union> set ds" "\<forall>d \<in> set ds. \<exists>da. res' d = Some da \<and> P d da"
    "\<forall>d'. d' \<notin> set ds \<longrightarrow> res' d' = (res(d \<mapsto> da)) d'" by (metis option.distinct(1))
  show ?case
  proof (intro exI[of _ res'] conjI)
    show "\<forall>e \<in> set (d # ds). \<exists>da. res' e = Some da \<and> P e da"
      using res'(3,4) da by (metis fun_upd_same set_ConsD)
  qed (use res' da in auto)
qed auto

section \<open>Properties\<close>

text \<open>C1. For a positive slot length and a schedule of non-empty intervals the engine returns, for
  every requested date and no other, one block per slot of the branch day; a block is available
  exactly when throughout the slots the service needs the therapist works (regular or extra
  hours) inside branch hours and has no leave, booking, home booking or temporary hold.\<close>

theorem compute_therapist_availability_correct:
  assumes "0 < ae_slot eng" "proper_schedule th"
  shows "\<exists>res. compute_therapist_availability eng th dates tz op cl = Some (Inr res) \<and>
     dom res = set dates \<and> (\<forall>d \<in> set dates. \<exists>da. res d = Some da \<and> day_spec eng th tz op cl d da)"
  using availability_loop_total[where P = "day_spec eng th tz op cl" and res = Map.empty and ds = dates,
      OF day_availability_meets_spec[OF assms]]
  unfolding compute_therapist_availability_def by auto

definition sample_schedule :: TherapistScheduleInput where
  "sample_schedule = \<lparr>ts_therapist_id = ''t1'', ts_therapist_name = ''T'',
     ts_is_available_for_home_service = False, ts_working_hours = [Interval 0 (minutes 60)],
     ts_leaves = [], ts_extra_hours = [], ts_existing_bookings = [Interval (minutes 30) (minutes 60)],
     ts_home_bookings = [], ts_temporary_holds = []\<rparr>"

theorem compute_therapist_availability_correct_witness:
  "\<exists>res. compute_therapist_availability \<lparr>ae_duration = 30, ae_slot = 30, ae_home_buffer = 30\<rparr>
      sample_schedule [0] 0 0 (minutes 60) = Some (Inr res) \<and> dom res = {0}"
proof -
  have "proper_schedule sample_schedule"
    by (simp add: proper_schedule_def sample_schedule_def minutes_def)
  with compute_therapist_availability_correct[of "\<lparr>ae_duration = 30, ae_slot = 30, ae_home_buffer = 30\<rparr>"
      sample_schedule "[0]" 0 0 "minutes 60"]
  show ?thesis by auto
qed


text \<open>The blocks of the sample day, evaluated.\<close>

lemma sample_day_window: "Interval (combine 0 0 0) (combine 0 (minutes 60) 0) = Interval 0 3600000000"
  by (simp add: combine_def minutes_def)

lemma sample_blocks:
  assumes "day_availability \<lparr>ae_duration = dur, ae_slot = 30, ae_home_buffer = 30\<rparr> sample_schedule
      0 0 (minutes 60) 0 = Some (Inr da)"
    and "slots_needed dur 30 = 1"
  shows "length (da_blocks da) = 2" "tb_start (da_blocks da ! 0) = 0" "tb_available (da_blocks da ! 0)"
proof -
  have th: "proper_schedule sample_schedule"
    by (simp add: proper_schedule_def sample_schedule_def minutes_def)
  from day_availability_meets_spec[OF _ th, of "\<lparr>ae_duration = dur, ae_slot = 30, ae_home_buffer = 30\<rparr>"
      0 0 "minutes 60" 0] assms(1)
  have spec: "day_spec \<lparr>ae_duration = dur, ae_slot = 30, ae_home_buffer = 30\<rparr> sample_schedule 0 0
      (minutes 60) 0 da" by auto
  then show len: "length (da_blocks da) = 2"
    by (simp add: day_spec_def n_slots_def combine_def minutes_def)
  from spec len show "tb_start (da_blocks da ! 0) = 0"
    by (simp add: day_spec_def combine_def Let_def)
  have "{0 ..< 1800000000} \<subseteq> free_instants sample_schedule (Interval 0 3600000000)"
    by (auto simp: free_instants_def sample_schedule_def minutes_def)
  then show "tb_available (da_blocks da ! 0)"
    using spec len assms(2) by (simp add: day_spec_def combine_def Let_def day_window_def
        service_span_def minutes_def)
qed

lemma sample_day_exists:
  "\<exists>da. day_availability \<lparr>ae_duration = dur, ae_slot = 30, ae_home_buffer = 30\<rparr> sample_schedule
      0 0 (minutes 60) 0 = Some (Inr da)"
  using day_availability_meets_spec[of "\<lparr>ae_duration = dur, ae_slot = 30, ae_home_buffer = 30\<rparr>" sample_schedule]
  by (force simp: proper_schedule_def sample_schedule_def minutes_def)


text \<open>The number of slots a service needs is rounded down: a 45-minute service on 30-minute
  slots is offered in a slot after which the therapist is booked, so the appointment overlaps
  the booking. A whole number of slots, as in C2, is needed.\<close>

theorem availability_rounds_service_down:
  "\<exists>da. day_availability \<lparr>ae_duration = 45, ae_slot = 30, ae_home_buffer = 30\<rparr> sample_schedule
      0 0 (minutes 60) 0 = Some (Inr da) \<and> tb_available (da_blocks da ! 0) \<and>
      overlaps (Interval (tb_start (da_blocks da ! 0)) (tb_start (da_blocks da ! 0) + minutes 45))
        (hd (ts_existing_bookings sample_schedule))"
proof -
  obtain da where da: "day_availability \<lparr>ae_duration = 45, ae_slot = 30, ae_home_buffer = 30\<rparr>
      sample_schedule 0 0 (minutes 60) 0 = Some (Inr da)"
    using sample_day_exists by blast
  from sample_blocks[OF da] have "tb_start (da_blocks da ! 0) = 0" "tb_available (da_blocks da ! 0)"
    by (simp_all add: slots_needed_def)
  with da show ?thesis by (simp add: overlaps_def sample_schedule_def minutes_def)
qed

end
