(* ===== verification/Numbering.thy ===== *)
theory Numbering
  imports Py_Strings "HOL-Library.List_Lexorder" "HOL-Library.Char_ord"
begin

text \<open>
  Sequential document numbers: \<open>_extract_sequence\<close>, \<open>generate_payment_number\<close> and
  \<open>generate_refund_number\<close> of \<open>app/payment/infrastructure/repository.py\<close>, and the same scheme in
  \<open>generate_booking_number\<close> of \<open>app/booking/infrastructure/repository.py\<close>.

  A number is a month prefix such as \<open>REF/2026/10/\<close> followed by a sequence of at least six
  digits. The next number is one more than the sequence of the greatest stored number with the
  prefix, where the database compares the stored strings (here: byte order).
\<close>

section \<open>Decimal numerals\<close>

definition digit :: "nat \<Rightarrow> char" where "digit d = char_of (48 + d)"

definition is_digit :: "char \<Rightarrow> bool" where
  "is_digit c = (let n = of_char c :: nat in 48 \<le> n \<and> n \<le> 57)"

definition digit_val :: "char \<Rightarrow> nat" where "digit_val c = of_char c - 48"

fun show_nat :: "nat \<Rightarrow> string" where
  "show_nat n = (if n < 10 then [digit n] else show_nat (n div 10) @ [digit (n mod 10)])"

declare show_nat.simps [simp del]

definition read_nat :: "string \<Rightarrow> nat" where
  "read_nat s = foldl (\<lambda>a c. 10 * a + digit_val c) 0 s"

text \<open>\<open>{n:06d}\<close>.\<close>

definition pad6 :: "nat \<Rightarrow> string" where
  "pad6 n = (let s = show_nat n in replicate (6 - length s) (digit 0) @ s)"

text \<open>\<open>s.split("/")[-1]\<close>.\<close>

definition last_part :: "string \<Rightarrow> string" where
  "last_part s = rev (takeWhile (\<lambda>c. c \<noteq> CHR ''/'') (rev s))"

definition isdigit :: "string \<Rightarrow> bool" where
  "isdigit s \<longleftrightarrow> s \<noteq> [] \<and> list_all is_digit s"

section \<open>Operations\<close>

text \<open>
  \<open>int(text)\<close> of stripped text: an optional sign, then digits in which a single underscore may
  separate two digits. None is the \<open>ValueError\<close>.
\<close>

fun digit_groups :: "string \<Rightarrow> bool" where
  "digit_groups [] = False"
| "digit_groups [c] = is_digit c"
| "digit_groups (c # d # s) =
     (is_digit c \<and> (if d = CHR ''_'' then digit_groups s else digit_groups (d # s)))"

definition py_int :: "string \<Rightarrow> int option" where
  "py_int s =
     (let neg = (s \<noteq> [] \<and> hd s = CHR ''-''); signed = (s \<noteq> [] \<and> (hd s = CHR ''-'' \<or> hd s = CHR ''+''));
          ds = (if signed then tl s else s); v = int (read_nat (remove_chars ''_'' ds)) in
      if digit_groups ds then Some (if neg then - v else v) else None)"

text \<open>\<open>_extract_sequence\<close> of a query result that is NULL (None) or a string.\<close>

definition extract_sequence :: "string option \<Rightarrow> int" where
  "extract_sequence existing_val =
     (case existing_val of None \<Rightarrow> 0
      | Some v \<Rightarrow>
          (let val_str = strip v; part = last_part val_str in
           if val_str = [] then 0
           else if isdigit part then int (read_nat part)
           else (case py_int val_str of Some n \<Rightarrow> n | None \<Rightarrow> 0)))"

text \<open>\<open>SELECT max(number) WHERE number LIKE 'prefix%'\<close>; the prefix has no wildcard in it.\<close>

definition max_with_prefix :: "string \<Rightarrow> string list \<Rightarrow> string option" where
  "max_with_prefix pfx numbers =
     (case filter (\<lambda>n. startswith n pfx) numbers of
        [] \<Rightarrow> None
      | n # ns \<Rightarrow> Some (fold max ns n))"

text \<open>\<open>{n:06d}\<close> of an integer: the sign counts towards the width.\<close>

definition format06d :: "int \<Rightarrow> string" where
  "format06d n =
     (if 0 \<le> n then pad6 (nat n)
      else (let s = show_nat (nat (- n)) in CHR ''-'' # replicate (5 - length s) (digit 0) @ s))"

definition next_number :: "string \<Rightarrow> string list \<Rightarrow> string" where
  "next_number date_prefix numbers =
     date_prefix @ format06d (extract_sequence (max_with_prefix date_prefix numbers) + 1)"

text \<open>\<open>year_month\<close> is the date formatted \<open>%Y/%m\<close>.\<close>

definition generate_payment_number :: "string \<Rightarrow> string list \<Rightarrow> string" where
  "generate_payment_number year_month payment_numbers =
     next_number (''PMT/'' @ year_month @ ''/'') payment_numbers"

definition generate_refund_number :: "string \<Rightarrow> string list \<Rightarrow> string" where
  "generate_refund_number year_month refund_numbers =
     next_number (''REF/'' @ year_month @ ''/'') refund_numbers"

definition generate_booking_number :: "string \<Rightarrow> string list \<Rightarrow> string" where
  "generate_booking_number year_month booking_numbers =
     next_number (''BOK/'' @ year_month @ ''/'') booking_numbers"

section \<open>Lemmas\<close>

lemma digit_props [simp]:
  "d < 10 \<Longrightarrow> is_digit (digit d)" "d < 10 \<Longrightarrow> digit_val (digit d) = d" "d < 10 \<Longrightarrow> digit d \<noteq> CHR ''/''"
proof -
  assume d: "d < 10"
  then have "of_char (digit d) = (48 + d :: nat)" by (simp add: digit_def)
  then show "is_digit (digit d)" "digit_val (digit d) = d" "digit d \<noteq> CHR ''/''"
    using d by (auto simp: is_digit_def digit_val_def)
qed

lemma digit_less_iff: "a < 10 \<Longrightarrow> b < 10 \<Longrightarrow> digit a < digit b \<longleftrightarrow> a < b"
  by (simp add: digit_def less_char_def)

lemma show_nat_digits: "list_all is_digit (show_nat n) \<and> show_nat n \<noteq> []"
proof (induction n rule: show_nat.induct)
  case (1 n)
  then show ?case by (subst (1 2) show_nat.simps) auto
qed

lemma read_nat_append: "read_nat (s @ [c]) = 10 * read_nat s + digit_val c"
  by (simp add: read_nat_def)

lemma read_show_nat [simp]: "read_nat (show_nat n) = n"
proof (induction n rule: show_nat.induct)
  case (1 n)
  show ?case
  proof (cases "n < 10")
    case True
    then show ?thesis by (subst show_nat.simps) (simp add: read_nat_def)
  next
    case False
    with 1 show ?thesis by (subst show_nat.simps) (simp add: read_nat_append)
  qed
qed

lemma read_nat_zeros: "read_nat (replicate k (digit 0) @ s) = read_nat s"
  by (induction k) (simp_all add: read_nat_def)

lemma read_pad6 [simp]: "read_nat (pad6 n) = n"
  by (simp add: pad6_def Let_def read_nat_zeros)

lemma pad6_digits: "list_all is_digit (pad6 n) \<and> pad6 n \<noteq> []"
  using show_nat_digits[of n] by (auto simp: pad6_def Let_def list_all_iff)

lemma isdigit_pad6 [simp]: "isdigit (pad6 n)"
  using pad6_digits by (simp add: isdigit_def)

lemma show_nat_length: "0 < k \<Longrightarrow> n < 10 ^ k \<Longrightarrow> length (show_nat n) \<le> k"
proof (induction n arbitrary: k rule: show_nat.induct)
  case (1 n)
  show ?case
  proof (cases "n < 10")
    case True
    with 1 show ?thesis by (subst show_nat.simps) simp
  next
    case False
    with "1.prems" have "0 < k - 1" by (cases k; cases "k - 1") auto
    moreover have "n div 10 < 10 ^ (k - 1)"
      using "1.prems" False by (cases k) (auto simp: less_mult_imp_div_less mult.commute)
    ultimately have "length (show_nat (n div 10)) \<le> k - 1" using "1.IH"[OF False] by blast
    with False "1.prems" \<open>0 < k - 1\<close> show ?thesis by (subst show_nat.simps) simp
  qed
qed

lemma length_pad6: "n < 1000000 \<Longrightarrow> length (pad6 n) = 6"
  using show_nat_length[of 6 n] by (simp add: pad6_def Let_def)

lemma is_digit_not_slash: "is_digit c \<Longrightarrow> c \<noteq> CHR ''/''"
  by (auto simp: is_digit_def)

lemma last_part_prefix:
  assumes "list_all is_digit s" "s \<noteq> []"
  shows "last_part (p @ ''/'' @ s) = s"
proof -
  have "takeWhile (\<lambda>c. c \<noteq> CHR ''/'') (rev s @ CHR ''/'' # rev p) = rev s"
    using assms is_digit_not_slash by (subst takeWhile_append2) (auto simp: list_all_iff)
  then show ?thesis by (simp add: last_part_def)
qed

lemma startswith_append [simp]: "startswith (p @ s) p"
  by (induction p) auto

lemma startswith_prefix: "startswith s p \<Longrightarrow> \<exists>t. s = p @ t"
  by (induction s p rule: startswith.induct) auto

lemma read_nat_Cons: "read_nat (c # s) = digit_val c * 10 ^ length s + read_nat s"
proof (induction s rule: rev_induct)
  case (snoc x xs)
  have "read_nat (c # xs @ [x]) = 10 * read_nat (c # xs) + digit_val x"
    using read_nat_append[of "c # xs" x] by simp
  with snoc show ?case by (simp add: read_nat_append algebra_simps)
qed (simp add: read_nat_def)

lemma digit_val_lt: "is_digit c \<Longrightarrow> digit_val c < 10"
  by (simp add: is_digit_def digit_val_def Let_def) linarith

lemma read_nat_lt: "list_all is_digit s \<Longrightarrow> read_nat s < 10 ^ length s"
proof (induction s)
  case (Cons c s)
  then have "digit_val c \<le> 9" "read_nat s < 10 ^ length s" using digit_val_lt[of c] by auto
  then have "digit_val c * 10 ^ length s + read_nat s < 9 * 10 ^ length s + 10 ^ length s"
    by (intro add_le_less_mono mult_right_mono) auto
  then show ?case by (simp add: read_nat_Cons)
qed (simp add: read_nat_def)

lemma digit_val_less: "is_digit c \<Longrightarrow> is_digit d \<Longrightarrow> c < d \<longleftrightarrow> digit_val c < digit_val d"
  by (auto simp: is_digit_def digit_val_def less_char_def Let_def)

lemma digit_val_eq: "is_digit c \<Longrightarrow> is_digit d \<Longrightarrow> digit_val c = digit_val d \<Longrightarrow> c = d"
  by (metis digit_val_less neq_iff)

lemma lex_step:
  assumes "(r::nat) < B" "q < B"
  shows "a * B + r < b * B + q \<longleftrightarrow> a < b \<or> a = b \<and> r < q"
proof -
  consider "a < b" | "a = b" | "b < a" by linarith
  then show ?thesis
  proof cases
    case 1
    then have "Suc a * B \<le> b * B" by (intro mult_right_mono) auto
    with 1 assms show ?thesis by simp
  next
    case 3
    then have "Suc b * B \<le> a * B" by (intro mult_right_mono) auto
    with 3 assms show ?thesis by simp
  qed simp
qed

text \<open>On digit strings of one length the string order is the numeric order.\<close>

lemma digit_string_order:
  assumes "length s = length t" "list_all is_digit s" "list_all is_digit t"
  shows "s < t \<longleftrightarrow> read_nat s < read_nat t"
  using assms
proof (induction s t rule: list_induct2)
  case (Cons c s d t)
  then have "read_nat (c # s) < read_nat (d # t)
      \<longleftrightarrow> digit_val c < digit_val d \<or> digit_val c = digit_val d \<and> read_nat s < read_nat t"
    using lex_step[of "read_nat s" "10 ^ length t" "read_nat t"] read_nat_lt[of s] read_nat_lt[of t]
    by (simp add: read_nat_Cons)
  with Cons show ?case using digit_val_less[of c d] digit_val_eq[of c d] by auto
qed simp

lemma pad6_less_iff: "a < 1000000 \<Longrightarrow> b < 1000000 \<Longrightarrow> pad6 a < pad6 b \<longleftrightarrow> a < b"
  using digit_string_order[of "pad6 a" "pad6 b"] by (simp add: length_pad6 pad6_digits)

lemma append_less_iff: "(p @ s < p @ t) = (s < (t :: string))"
  by (induction p) auto

lemma fold_max_Max: "fold max xs (x :: 'a :: linorder) = Max (set (x # xs))"
  by (metis Max.set_eq_fold)

lemma is_space_not_digit: "is_digit c \<Longrightarrow> \<not> is_space c"
  by (auto simp: is_digit_def is_space_def Let_def)

lemma strip_no_space_ends:
  assumes "s \<noteq> []" "\<not> is_space (hd s)" "\<not> is_space (last s)"
  shows "strip s = s"
proof -
  have "dropWhile is_space s = s" using assms by (cases s) auto
  moreover have "dropWhile is_space (rev s) = rev s" using assms by (cases s rule: rev_cases) auto
  ultimately show ?thesis by (simp add: strip_def)
qed

lemma extract_sequence_pad6:
  assumes "\<not> is_space (hd (p @ ''/''))"
  shows "extract_sequence (Some (p @ ''/'' @ pad6 n)) = int n"
proof -
  have "last (pad6 n) \<in> set (pad6 n)" using pad6_digits by auto
  then have "\<not> is_space (last (p @ ''/'' @ pad6 n))"
    using pad6_digits[of n] is_space_not_digit by (auto simp: list_all_iff)
  moreover have "\<not> is_space (hd (p @ ''/'' @ pad6 n))" using assms by (cases p) auto
  ultimately have "strip (p @ ''/'' @ pad6 n) = p @ ''/'' @ pad6 n"
    by (intro strip_no_space_ends) auto
  then show ?thesis using pad6_digits[of n]
    by (simp add: extract_sequence_def Let_def last_part_prefix[of "pad6 n" p, simplified])
qed

text \<open>
  The numbers of one month as they are stored: those with the prefix are the formatted members
  of a set of sequence values of at most six digits; other months' numbers are unconstrained.
\<close>

definition month_store :: "string \<Rightarrow> nat set \<Rightarrow> string list \<Rightarrow> bool" where
  "month_store pfx K numbers \<longleftrightarrow>
     {n \<in> set numbers. startswith n pfx} = (\<lambda>k. pfx @ pad6 k) ` K \<and> (\<forall>k\<in>K. k < 1000000)"

lemma month_store_finite:
  assumes "month_store pfx K numbers" shows "finite K"
proof -
  have "finite ((\<lambda>k. pfx @ pad6 k) ` K)"
    using assms unfolding month_store_def by (metis List.finite_set finite_Collect_conjI Collect_mem_eq)
  moreover have "inj_on (\<lambda>k. pfx @ pad6 k) K"
    by (rule inj_onI) (metis read_pad6 same_append_eq)
  ultimately show ?thesis by (rule finite_imageD)
qed

lemma max_with_prefix_store:
  assumes st: "month_store pfx K numbers" and ne: "K \<noteq> {}"
  shows "max_with_prefix pfx numbers = Some (pfx @ pad6 (Max K))"
proof -
  let ?f = "\<lambda>k. pfx @ pad6 k"
  have fin: "finite K" using month_store_finite[OF st] .
  obtain n ns where c: "filter (\<lambda>n. startswith n pfx) numbers = n # ns"
  proof (cases "filter (\<lambda>n. startswith n pfx) numbers")
    case Nil
    with st ne have "?f ` K = {}" unfolding month_store_def by (metis list.set(1) set_filter)
    with ne show ?thesis by simp
  qed blast
  then have S: "set (n # ns) = ?f ` K" using st unfolding month_store_def by (metis set_filter)
  have "Max (?f ` K) = ?f (Max K)"
  proof (rule Max_eqI)
    fix y assume "y \<in> ?f ` K"
    then obtain k where k: "k \<in> K" "y = ?f k" by blast
    then have "k \<le> Max K" "k < 1000000" "Max K < 1000000"
      using fin st ne by (auto simp: month_store_def)
    then show "y \<le> ?f (Max K)"
      using k pad6_less_iff[of k "Max K"] append_less_iff[of pfx "pad6 k" "pad6 (Max K)"]
      by (cases "k = Max K") auto
  qed (use fin ne in auto)
  then show ?thesis using c S by (simp add: max_with_prefix_def fold_max_Max del: Max_insert)
qed

lemma max_with_prefix_empty:
  assumes "month_store pfx {} numbers" shows "max_with_prefix pfx numbers = None"
proof -
  have "filter (\<lambda>n. startswith n pfx) numbers = []"
    using assms by (auto simp: month_store_def filter_empty_conv)
  then show ?thesis by (simp add: max_with_prefix_def)
qed

lemma next_number_store:
  assumes st: "month_store (p @ ''/'') K numbers" and sp: "\<not> is_space (hd (p @ ''/''))"
  shows "next_number (p @ ''/'') numbers
           = p @ ''/'' @ pad6 (if K = {} then 1 else Suc (Max K))"
proof (cases "K = {}")
  case True
  with st show ?thesis
    by (simp add: next_number_def max_with_prefix_empty extract_sequence_def format06d_def)
next
  case False
  with max_with_prefix_store[OF st False] extract_sequence_pad6[OF sp] show ?thesis
    by (simp add: next_number_def format06d_def nat_add_distrib)
qed

section \<open>Properties\<close>

text \<open>
  As long as a month's sequence has six digits, the refund number generated for it is one
  more than the greatest stored sequence (the first is 1), whatever gaps the stored numbers
  have, and it is not among the stored numbers.
\<close>

theorem generate_refund_number_fresh:
  assumes "month_store (''REF/'' @ ym @ ''/'') K numbers"
  shows "generate_refund_number ym numbers
           = ''REF/'' @ ym @ ''/'' @ pad6 (if K = {} then 1 else Suc (Max K))
         \<and> generate_refund_number ym numbers \<notin> set numbers"
proof -
  let ?p = "''REF/'' @ ym" and ?n = "if K = {} then 1 else Suc (Max K)"
  have st: "month_store (?p @ ''/'') K numbers" using assms by simp
  have "\<not> is_space (hd (?p @ ''/''))" by (simp add: is_space_def)
  from next_number_store[OF st this]
  have gen: "generate_refund_number ym numbers = ''REF/'' @ ym @ ''/'' @ pad6 ?n"
    by (simp add: generate_refund_number_def)
  have "?n \<notin> K"
    using month_store_finite[OF st] by (metis Max_ge Suc_n_not_le_n empty_iff)
  moreover have "?n \<in> K" if "?p @ ''/'' @ pad6 ?n \<in> set numbers"
  proof -
    have "?p @ ''/'' @ pad6 ?n \<in> {n \<in> set numbers. startswith n (?p @ ''/'')}"
      using that startswith_append[of "?p @ ''/''" "pad6 ?n"] by simp
    then obtain k where "k \<in> K" "?p @ ''/'' @ pad6 ?n = (?p @ ''/'') @ pad6 k"
      using st unfolding month_store_def by blast
    then have "k \<in> K" "pad6 ?n = pad6 k" by simp_all
    then show ?thesis by (metis read_pad6)
  qed
  ultimately have "?p @ ''/'' @ pad6 ?n \<notin> set numbers" by blast
  with gen show ?thesis by simp
qed

lemma digit_eqs: "digit 0 = CHR ''0''" "digit (Suc 0) = CHR ''1''"
  by code_simp+

lemma pad6_small: "pad6 3 = ''000003''" "pad6 7 = ''000007''" "pad6 8 = ''000008''"
  by code_simp+

theorem generate_refund_number_fresh_witness:
  "month_store (''REF/2026/10/'') {7, 3} [''REF/2026/10/000003'', ''REF/2026/09/000041'', ''REF/2026/10/000007'']
   \<and> generate_refund_number ''2026/10'' [''REF/2026/10/000003'', ''REF/2026/09/000041'', ''REF/2026/10/000007'']
       = ''REF/2026/10/000008''"
proof -
  have st: "month_store (''REF/'' @ ''2026/10'' @ ''/'') {7, 3}
      [''REF/2026/10/000003'', ''REF/2026/09/000041'', ''REF/2026/10/000007'']"
    using pad6_small by (auto simp: month_store_def)
  with pad6_small generate_refund_number_fresh[OF st] st show ?thesis by simp
qed

text \<open>
  Past six digits the database's string order is no longer the numeric order: once the
  payments 999999 and 1000000 of a month are stored, the next number generated is 1000000
  again, a number that is already in use.
\<close>

theorem generate_payment_number_collides:
  "generate_payment_number ''2026/10'' [''PMT/2026/10/999999'', ''PMT/2026/10/1000000'']
     = ''PMT/2026/10/1000000''"
proof -
  let ?a = "''PMT/2026/10/999999''" and ?b = "''PMT/2026/10/1000000''"
  have "max_with_prefix ''PMT/2026/10/'' [?a, ?b] = Some ?a"
    by (simp add: max_with_prefix_def max_def less_char_def)
  moreover have "extract_sequence (Some ?a) = 999999"
    by (simp add: extract_sequence_def strip_def last_part_def read_nat_def digit_val_def isdigit_def
        is_digit_def is_space_def Let_def)
  moreover have "format06d 1000000 = ''1000000''"
    by (simp add: format06d_def pad6_def show_nat.simps digit_eqs Let_def)
  ultimately show ?thesis by (simp add: generate_payment_number_def next_number_def)
qed

end
