(* ===== verification/Decimals.thy ===== *)
theory Decimals
  imports Prelude Complex_Main
begin

text \<open>
  Money. The program computes with \<open>decimal.Decimal\<close> and stores amounts in columns with three
  decimal places (Kuwaiti dinar and fils). A finite Decimal is the rational number it denotes;
  \<open>Decimal.quantize(Decimal("0.001"))\<close> and the format \<open>:.3f\<close> both round to three places, half
  to even. A number with at most three decimal places is a whole number of fils (\<open>fils\<close>).
  The lemmas show that rounding is exact on such numbers, idempotent, monotone and off by at
  most half a fils, and that a comparison with a tolerance of half a fils decides the plain
  comparison when both sides are whole numbers of fils.
\<close>

definition round_half_even :: "rat \<Rightarrow> int" where
  "round_half_even x =
     (let f = \<lfloor>x\<rfloor>; r = x - of_int f
      in if r < 1/2 then f else if 1/2 < r then f + 1 else if even f then f else f + 1)"

definition quantize3 :: "rat \<Rightarrow> rat" where
  "quantize3 x = of_int (round_half_even (x * 1000)) / 1000"

definition fils :: "rat \<Rightarrow> bool" where
  "fils x \<longleftrightarrow> of_int \<lfloor>x * 1000\<rfloor> = x * 1000"

lemma fils_iff: "fils x \<longleftrightarrow> (\<exists>n::int. x * 1000 = of_int n)"
  by (metis fils_def floor_of_int)

lemma fils_ex: "fils x \<longleftrightarrow> (\<exists>n::int. x = of_int n / 1000)"
  by (auto simp: fils_iff field_simps)

lemma fils_closed [simp, intro]:
  "fils 0"
  "fils a \<Longrightarrow> fils b \<Longrightarrow> fils (a + b)"
  "fils a \<Longrightarrow> fils b \<Longrightarrow> fils (a - b)"
  "fils a \<Longrightarrow> fils b \<Longrightarrow> fils (max a b)"
  "fils a \<Longrightarrow> fils b \<Longrightarrow> fils (min a b)"
proof -
  show "fils 0" by (simp add: fils_def)
  assume a: "fils a" and b: "fils b"
  then obtain m n where mn: "a = of_int m / 1000" "b = of_int n / 1000" by (auto simp: fils_ex)
  have "a + b = of_int (m + n) / 1000" "a - b = of_int (m - n) / 1000"
    by (simp_all add: mn add_divide_distrib diff_divide_distrib)
  then show "fils (a + b)" "fils (a - b)" by (auto simp: fils_ex simp del: of_int_add of_int_diff)
  show "fils (max a b)" "fils (min a b)" using a b by (simp_all add: max_def min_def)
qed

lemma fils_sum_list [intro]: "(\<And>x. x \<in> set xs \<Longrightarrow> fils (f x)) \<Longrightarrow> fils (sum_list (map f xs))"
  by (induction xs) auto

lemma round_half_even_of_int [simp]: "round_half_even (of_int n) = n"
  by (simp add: round_half_even_def)

lemma round_half_even_error: "\<bar>of_int (round_half_even x) - x\<bar> \<le> 1/2"
proof -
  have "of_int \<lfloor>x\<rfloor> \<le> x" "x < of_int \<lfloor>x\<rfloor> + 1" by linarith+
  then show ?thesis by (auto simp: round_half_even_def Let_def abs_le_iff)
qed

lemma round_half_even_mono:
  assumes "x \<le> y"
  shows "round_half_even x \<le> round_half_even y"
proof (cases "\<lfloor>x\<rfloor> = \<lfloor>y\<rfloor>")
  case True
  with assms show ?thesis by (auto simp: round_half_even_def Let_def)
next
  case False
  with floor_mono[OF assms] have "\<lfloor>x\<rfloor> + 1 \<le> \<lfloor>y\<rfloor>" by linarith
  then show ?thesis by (auto simp: round_half_even_def Let_def)
qed

lemma quantize3_fils [simp, intro]: "fils (quantize3 x)"
  by (auto simp: fils_ex quantize3_def)

lemma quantize3_exact [simp]:
  assumes "fils x" shows "quantize3 x = x"
proof -
  from assms obtain n where "x * 1000 = of_int n" by (auto simp: fils_iff)
  then have "quantize3 x = of_int n / 1000" by (simp add: quantize3_def)
  then show ?thesis using \<open>x * 1000 = of_int n\<close> by (simp add: field_simps)
qed

lemma quantize3_idem: "quantize3 (quantize3 x) = quantize3 x"
  by simp

lemma quantize3_mono: "x \<le> y \<Longrightarrow> quantize3 x \<le> quantize3 y"
  by (simp add: quantize3_def divide_right_mono round_half_even_mono)

lemma quantize3_0 [simp]: "quantize3 0 = 0"
  by (rule quantize3_exact) simp

lemma quantize3_nonneg: "0 \<le> x \<Longrightarrow> 0 \<le> quantize3 x"
  using quantize3_mono[of 0 x] by simp

lemma quantize3_error: "\<bar>quantize3 x - x\<bar> \<le> 1/2000"
  using round_half_even_error[of "x * 1000"] by (simp add: quantize3_def abs_le_iff field_simps)

text \<open>Half a fils of tolerance never changes a comparison of whole numbers of fils.\<close>

lemma fils_diff_lt:
  assumes "fils a" "fils b" "a < b"
  shows "a + 1/1000 \<le> b"
proof -
  from assms obtain m n where "a = of_int m / 1000" "b = of_int n / 1000" by (auto simp: fils_ex)
  with assms(3) have "m < n" by (simp add: divide_less_cancel)
  then have "of_int (m + 1) \<le> (of_int n :: rat)" by (simp only: of_int_le_iff)
  then show ?thesis by (simp add: \<open>a = _\<close> \<open>b = _\<close> field_simps)
qed

lemma fils_tolerance:
  assumes "fils a" "fils b"
  shows "b + 1/2000 < a \<longleftrightarrow> b < a"
    and "b \<le> a + 1/2000 \<longleftrightarrow> b \<le> a"
  using fils_diff_lt[OF assms] fils_diff_lt[OF assms(2,1)] by (cases a b rule: linorder_cases; simp)+

end
