(* ===== verification/Py_Values.thy ===== *)
theory Py_Values
  imports Numbering Decimals "HOL-Library.Log_Nat"
begin

text \<open>
  Loosely typed values: the scalars of a JSON column or of an API payload and the tolerant
  conversions of \<open>app/booking/domain/services_snapshot.py\<close> (\<open>_to_str_id\<close>, \<open>_to_decimal\<close>,
  \<open>_to_int\<close>) and \<open>app/booking/domain/sessions.py\<close> (\<open>_money\<close>), with the text of a decimal
  number written and read. A snapshot dictionary is a map from keys to scalars.

  A number that is not an \<open>int\<close> (a float of a JSON value, a \<open>Decimal\<close> of a column) is given by
  its \<open>str()\<close>. The special values \<open>NaN\<close> and \<open>Infinity\<close> of \<open>Decimal\<close> are not numbers here:
  reading them is reading malformed text.
\<close>

datatype scalar = SNone | SBool bool | SInt int | SNum string | SText string

type_synonym snapshot = "string \<rightharpoonup> scalar"

section \<open>Decimal text\<close>

definition read_sign :: "string \<Rightarrow> bool \<times> string" where
  "read_sign s = (case s of [] \<Rightarrow> (False, [])
     | c # cs \<Rightarrow> if c = CHR ''-'' then (True, cs) else if c = CHR ''+'' then (False, cs) else (False, s))"

definition read_exponent :: "string \<Rightarrow> int option" where
  "read_exponent s =
     (case s of [] \<Rightarrow> Some 0
      | c # cs \<Rightarrow> (case read_sign cs of (neg, ds) \<Rightarrow>
          if isdigit ds then Some (if neg then - int (read_nat ds) else int (read_nat ds)) else None))"

definition pow10 :: "int \<Rightarrow> rat" where
  "pow10 e = (if 0 \<le> e then 10 ^ nat e else 1 / 10 ^ nat (- e))"

definition read_mantissa :: "string \<Rightarrow> rat option" where
  "read_mantissa s =
     (let whole = takeWhile (\<lambda>c. c \<noteq> CHR ''.'') s; frac = drop 1 (dropWhile (\<lambda>c. c \<noteq> CHR ''.'') s) in
      if list_all is_digit (whole @ frac) \<and> whole @ frac \<noteq> []
      then Some (of_nat (read_nat (whole @ frac)) / 10 ^ length frac) else None)"

text \<open>\<open>Decimal(text)\<close> of a finite number; None is \<open>InvalidOperation\<close>.\<close>

definition parse_decimal :: "string \<Rightarrow> rat option" where
  "parse_decimal s =
     (case read_sign (remove_chars ''_'' (strip s)) of (neg, t) \<Rightarrow>
        (case (read_mantissa (takeWhile (\<lambda>c. c \<notin> set ''eE'') t),
               read_exponent (dropWhile (\<lambda>c. c \<notin> set ''eE'') t)) of
           (Some m, Some e) \<Rightarrow> Some (if neg then - (m * pow10 e) else m * pow10 e)
         | _ \<Rightarrow> None))"

definition pad3 :: "nat \<Rightarrow> string" where
  "pad3 n = [digit (n div 100 mod 10), digit (n div 10 mod 10), digit (n mod 10)]"

text \<open>\<open>f"{value:.3f}"\<close>: three places, half to even, the sign kept.\<close>

definition money :: "rat \<Rightarrow> string" where
  "money x =
     (let n = nat \<bar>round_half_even (x * 1000)\<bar> in
      (if x < 0 then ''-'' else []) @ show_nat (n div 1000) @ ''.'' @ pad3 (n mod 1000))"

section \<open>Conversions\<close>

definition show_int :: "int \<Rightarrow> string" where
  "show_int n = (if n < 0 then CHR ''-'' # show_nat (nat (- n)) else show_nat (nat n))"

fun py_str :: "scalar \<Rightarrow> string" where
  "py_str SNone = ''None''"
| "py_str (SBool b) = (if b then ''True'' else ''False'')"
| "py_str (SInt n) = show_int n"
| "py_str (SNum t) = t"
| "py_str (SText t) = t"

fun scalar_true :: "scalar \<Rightarrow> bool" where
  "scalar_true SNone = False"
| "scalar_true (SBool b) = b"
| "scalar_true (SInt n) = (n \<noteq> 0)"
| "scalar_true (SNum t) = (parse_decimal t \<noteq> Some 0)"
| "scalar_true (SText t) = (t \<noteq> [])"

text \<open>\<open>a or b\<close>.\<close>

definition scalar_or :: "scalar \<Rightarrow> scalar \<Rightarrow> scalar" where
  "scalar_or a b = (if scalar_true a then a else b)"

text \<open>\<open>d.get(key)\<close>.\<close>

definition dget :: "snapshot \<Rightarrow> string \<Rightarrow> scalar" where
  "dget d key = (case d key of None \<Rightarrow> SNone | Some v \<Rightarrow> v)"

text \<open>\<open>str(d.get(k1) or d.get(k2) or ... or "")\<close>.\<close>

definition first_text :: "scalar list \<Rightarrow> string" where
  "first_text vs = py_str (foldr scalar_or vs (SText []))"

definition id_text :: "string option \<Rightarrow> string option" where
  "id_text v = (case v of None \<Rightarrow> None | Some s \<Rightarrow> nonempty (strip s))"

fun to_str_id :: "scalar \<Rightarrow> string option" where
  "to_str_id (SText s) = nonempty (strip s)"
| "to_str_id _ = None"

definition to_decimal :: "scalar \<Rightarrow> rat" where
  "to_decimal v = (if v = SNone \<or> v = SText [] then 0
     else (case parse_decimal (py_str v) of Some r \<Rightarrow> r | None \<Rightarrow> 0))"

definition trunc_zero :: "rat \<Rightarrow> int" where
  "trunc_zero r = (if 0 \<le> r then \<lfloor>r\<rfloor> else - \<lfloor>- r\<rfloor>)"

fun to_int :: "scalar \<Rightarrow> int" where
  "to_int SNone = 0"
| "to_int (SBool b) = (if b then 1 else 0)"
| "to_int (SInt n) = n"
| "to_int (SNum t) = (case parse_decimal t of Some r \<Rightarrow> trunc_zero r | None \<Rightarrow> 0)"
| "to_int (SText t) = (case py_int (strip t) of Some n \<Rightarrow> n | None \<Rightarrow> 0)"

definition join_texts :: "string \<Rightarrow> string list \<Rightarrow> string" where
  "join_texts sep ts = (case ts of [] \<Rightarrow> [] | t # us \<Rightarrow> t @ concat (map ((@) sep) us))"

text \<open>\<open>Decimal(a) / Decimal(b)\<close> and products are rounded to 28 significant digits, half to even.\<close>

definition dec_ctx :: "rat \<Rightarrow> rat" where
  "dec_ctx x =
     (if x = 0 then 0
      else (let (a, b) = quotient_of \<bar>x\<bar>;
                k = 27 - (int (floorlog 10 (nat a)) - int (floorlog 10 (nat b)));
                k' = (if \<bar>x\<bar> * pow10 k < 10 ^ 27 then k + 1 else k)
            in sgn x * (of_int (round_half_even (\<bar>x\<bar> * pow10 k')) / pow10 k')))"

section \<open>Lemmas\<close>

lemma scalar_or_simps [simp]: "scalar_or SNone b = b" "scalar_or (SText []) b = b"
  by (simp_all add: scalar_or_def)

lemma to_decimal_None [simp]: "to_decimal SNone = 0" "to_decimal (SText []) = 0"
  by (simp_all add: to_decimal_def)

lemma pow10_pos [simp]: "0 < pow10 e"
  by (simp add: pow10_def)

lemma pow10_0 [simp]: "pow10 0 = 1"
  by (simp add: pow10_def)

lemma pow10_powi: "pow10 e = 10 powi e"
  by (simp add: pow10_def power_int_def inverse_eq_divide power_one_over)

lemma pow10_Suc: "pow10 (e + 1) = 10 * pow10 e"
  by (simp add: pow10_powi power_int_add_1 mult.commute)

lemma read_nat_app: "read_nat (s @ t) = read_nat s * 10 ^ length t + read_nat t"
proof (induction t rule: rev_induct)
  case (snoc x xs)
  have "read_nat ((s @ xs) @ [x]) = 10 * read_nat (s @ xs) + digit_val x" by (rule read_nat_append)
  with snoc show ?case by (simp add: read_nat_append algebra_simps)
qed (simp add: read_nat_def)

lemma read_pad3: "n < 1000 \<Longrightarrow> read_nat (pad3 n) = n \<and> list_all is_digit (pad3 n) \<and> length (pad3 n) = 3"
proof -
  assume "n < 1000"
  then have "n div 100 < 10" by simp
  moreover have "n = 10 * (n div 10) + n mod 10" "n div 10 = 10 * (n div 100) + n div 10 mod 10"
    using div_mult2_eq[of n 10 10] mult_div_mod_eq[of 10 "n div 10"] by simp_all
  ultimately have "100 * (n div 100) + 10 * (n div 10 mod 10) + n mod 10 = n" by linarith
  then show ?thesis using \<open>n div 100 < 10\<close> by (simp add: pad3_def read_nat_def)
qed

lemma digits_no: "list_all is_digit s \<Longrightarrow> \<not> is_digit c \<Longrightarrow> c \<notin> set s"
  by (auto simp: list_all_iff)

lemma not_digits [simp]:
  "\<not> is_digit (CHR ''.'')" "\<not> is_digit (CHR ''-'')" "\<not> is_digit (CHR ''+'')" "\<not> is_digit (CHR ''_'')"
  "\<not> is_digit (CHR ''e'')" "\<not> is_digit (CHR ''E'')"
  by (simp_all add: is_digit_def)

definition plain_money :: "nat \<Rightarrow> string" where
  "plain_money n = show_nat (n div 1000) @ ''.'' @ pad3 (n mod 1000)"

lemma plain_money_chars: "c \<in> set (plain_money n) \<Longrightarrow> is_digit c \<or> c = CHR ''.''"
  using show_nat_digits[of "n div 1000"] read_pad3[of "n mod 1000"]
  by (auto simp: plain_money_def list_all_iff)

lemma plain_money_first: "plain_money n \<noteq> [] \<and> is_digit (hd (plain_money n)) \<and> is_digit (last (plain_money n))"
proof -
  have "is_digit (hd (show_nat (n div 1000)))" "show_nat (n div 1000) \<noteq> []"
    using show_nat_digits[of "n div 1000"] by (auto simp: list_all_iff)
  moreover have "is_digit (last (pad3 (n mod 1000)))" "pad3 (n mod 1000) \<noteq> []"
    using read_pad3[of "n mod 1000"] by (auto simp: list_all_iff pad3_def)
  ultimately show ?thesis by (simp add: plain_money_def)
qed

lemma read_plain_money: "read_mantissa (plain_money n) = Some (of_nat n / 1000)"
proof -
  let ?w = "show_nat (n div 1000)" and ?f = "pad3 (n mod 1000)"
  have w: "list_all is_digit ?w" "?w \<noteq> []" using show_nat_digits by auto
  have f: "read_nat ?f = n mod 1000" "list_all is_digit ?f" "length ?f = 3" using read_pad3[of "n mod 1000"] by auto
  have t: "takeWhile (\<lambda>c. c \<noteq> CHR ''.'') (?w @ CHR ''.'' # ?f) = ?w"
    using digits_no[OF w(1), of "CHR ''.''"] by (subst takeWhile_append2) auto
  have d: "dropWhile (\<lambda>c. c \<noteq> CHR ''.'') (?w @ CHR ''.'' # ?f) = CHR ''.'' # ?f"
    using digits_no[OF w(1), of "CHR ''.''"] by (subst dropWhile_append2) auto
  have "read_nat (?w @ ?f) = n" unfolding read_nat_app f(1,3) by simp
  then show ?thesis using w f by (simp add: read_mantissa_def plain_money_def t d)
qed

lemma money_plain: "money x = (if x < 0 then ''-'' else []) @ plain_money (nat \<bar>round_half_even (x * 1000)\<bar>)"
  by (simp add: money_def plain_money_def Let_def)

lemma strip_ends: "s \<noteq> [] \<Longrightarrow> \<not> is_space (hd s) \<Longrightarrow> \<not> is_space (last s) \<Longrightarrow> strip s = s"
  by (rule strip_no_space_ends)

lemma money_ends: "money x \<noteq> [] \<and> \<not> is_space (hd (money x)) \<and> \<not> is_space (last (money x))"
  using plain_money_first[of "nat \<bar>round_half_even (x * 1000)\<bar>"] is_space_not_digit
  by (auto simp: money_plain) (simp_all add: is_space_def)

lemma money_chars: "c \<in> set (money x) \<Longrightarrow> is_digit c \<or> c \<in> {CHR ''.'', CHR ''-''}"
  using plain_money_chars[of c] by (auto simp: money_plain split: if_splits)

lemma read_sign_plain: "is_digit (hd s) \<Longrightarrow> s \<noteq> [] \<Longrightarrow> read_sign s = (False, s)"
  by (cases s) (auto simp: read_sign_def)

text \<open>Money that was written is read back as the amount rounded to three places.\<close>

lemma parse_money [simp]: "parse_decimal (money x) = Some (quantize3 x)"
proof -
  let ?m = "round_half_even (x * 1000)"
  let ?p = "plain_money (nat \<bar>?m\<bar>)"
  have "CHR ''_'' \<notin> set (money x)" using money_chars[of "CHR ''_''" x] by auto
  then have clean: "remove_chars ''_'' (strip (money x)) = money x"
    using money_ends[of x] by (auto simp: strip_ends remove_chars_def filter_id_conv)
  have sg: "read_sign (money x) = (x < 0, ?p)"
    using plain_money_first[of "nat \<bar>?m\<bar>"] read_sign_plain[of ?p]
    by (cases "x < 0") (simp_all add: money_plain, simp add: read_sign_def)
  have no_e: "\<forall>c\<in>set ?p. c \<notin> set ''eE''" using plain_money_chars[of _ "nat \<bar>?m\<bar>"] by fastforce
  then have e: "takeWhile (\<lambda>c. c \<notin> set ''eE'') ?p = ?p" "dropWhile (\<lambda>c. c \<notin> set ''eE'') ?p = []"
    by (auto simp: takeWhile_eq_all_conv dropWhile_eq_Nil_conv)
  have sgn: "x < 0 \<Longrightarrow> ?m \<le> 0" "\<not> x < 0 \<Longrightarrow> 0 \<le> ?m"
    using round_half_even_mono[of "x * 1000" 0] round_half_even_mono[of 0 "x * 1000"] round_half_even_of_int[of 0] by auto
  have "(if x < 0 then - (of_nat (nat \<bar>?m\<bar>) / 1000) else of_nat (nat \<bar>?m\<bar>) / 1000) = quantize3 x"
    using sgn by (auto simp: quantize3_def)
  then show ?thesis
    unfolding parse_decimal_def clean sg prod.case e read_plain_money
    by (simp only: read_exponent_def list.case option.case prod.case pow10_0 mult_1_right)
qed

lemma to_decimal_money [simp]: "to_decimal (SText (money x)) = quantize3 x"
  using money_ends[of x] by (simp add: to_decimal_def)

lemma money_eq_iff_fils: "fils x \<Longrightarrow> to_decimal (SText (money x)) = x"
  by simp

text \<open>
  C31. An amount written into a stored document with three places is read back as the amount rounded to
  three places, half to even: off by at most half a fils, and not at all when it was a whole
  number of fils.
\<close>

theorem money_read_back:
  "to_decimal (SText (money x)) = quantize3 x \<and> \<bar>to_decimal (SText (money x)) - x\<bar> \<le> 1 / 2000
   \<and> to_decimal (SText (money (of_int n / 1000))) = of_int n / 1000"
proof -
  have "fils (of_int n / 1000)" by (auto simp: fils_ex)
  then show ?thesis using quantize3_error by simp
qed

text \<open>Rounding to 28 digits changes a number by less than one part in \<open>10 ^ 27\<close>.\<close>

lemma dec_ctx_sig:
  assumes "x \<noteq> 0"
  obtains k where "dec_ctx x = sgn x * (of_int (round_half_even (\<bar>x\<bar> * pow10 k)) / pow10 k)"
    and "10 ^ 27 \<le> \<bar>x\<bar> * pow10 k"
proof -
  obtain a b where q: "quotient_of \<bar>x\<bar> = (a, b)" by fastforce
  have b: "0 < b" using quotient_of_denom_pos[OF q] .
  have x: "\<bar>x\<bar> = of_int a / of_int b" using quotient_of_div[OF q] .
  with assms b have a: "0 < a" by (metis abs_ge_zero abs_eq_0_iff divide_eq_0_iff of_int_0_le_iff of_int_0_less_iff of_int_eq_0_iff order_le_less zero_le_divide_iff not_less linorder_not_le)
  define la lb where "la = floorlog 10 (nat a)" and "lb = floorlog 10 (nat b)"
  define k where "k = 27 - (int la - int lb)"
  have la: "10 ^ (la - 1) \<le> nat a" "nat a < 10 ^ la" using a floorlog_bounds[of "nat a" 10] by (simp_all add: la_def)
  then have "0 < la" using a by (cases la) auto
  have lb: "nat b < 10 ^ lb" using b floorlog_bounds[of "nat b" 10] by (simp add: lb_def)
  have "(10::rat) ^ (la - 1) \<le> of_int a"
    using la(1) a by (metis of_int_of_nat_eq of_nat_le_iff of_nat_numeral of_nat_power zero_less_imp_eq_int nat_int)
  moreover have "of_int b < (10::rat) ^ lb"
    using lb b by (metis of_int_of_nat_eq of_nat_less_iff of_nat_numeral of_nat_power zero_less_imp_eq_int nat_int)
  ultimately have "(10::rat) ^ (la - 1) / 10 ^ lb < \<bar>x\<bar>" unfolding x using a b
    by (intro frac_less2) auto
  then have "(10::rat) ^ (la - 1) / 10 ^ lb * pow10 k < \<bar>x\<bar> * pow10 k" by (intro mult_strict_right_mono) auto
  moreover have "(10::rat) ^ (la - 1) / 10 ^ lb * pow10 k = 10 ^ 26"
  proof -
    have "(10::rat) ^ (la - 1) / 10 ^ lb = 10 powi (int la - 1 - int lb)"
      using \<open>0 < la\<close> by (simp add: power_int_diff of_nat_diff flip: power_int_of_nat)
    then have "(10::rat) ^ (la - 1) / 10 ^ lb * pow10 k = 10 powi 26"
      by (simp add: pow10_powi k_def flip: power_int_add)
    then show ?thesis by simp
  qed
  ultimately have k26: "10 ^ 26 < \<bar>x\<bar> * pow10 k" by simp
  have "10 ^ 27 \<le> \<bar>x\<bar> * pow10 (if \<bar>x\<bar> * pow10 k < 10 ^ 27 then k + 1 else k)"
    using k26 by (auto simp: pow10_Suc)
  moreover have "dec_ctx x = sgn x * (of_int (round_half_even (\<bar>x\<bar> * pow10 (if \<bar>x\<bar> * pow10 k < 10 ^ 27 then k + 1 else k)))
      / pow10 (if \<bar>x\<bar> * pow10 k < 10 ^ 27 then k + 1 else k))"
    using assms by (simp add: dec_ctx_def q k_def la_def lb_def Let_def)
  ultimately show ?thesis using that by blast
qed

lemma dec_ctx_error: "\<bar>dec_ctx x - x\<bar> \<le> \<bar>x\<bar> / 10 ^ 27"
proof (cases "x = 0")
  case False
  from dec_ctx_sig[OF this] obtain k where
    d: "dec_ctx x = sgn x * (of_int (round_half_even (\<bar>x\<bar> * pow10 k)) / pow10 k)" and k: "10 ^ 27 \<le> \<bar>x\<bar> * pow10 k" .
  have "of_int (round_half_even (\<bar>x\<bar> * pow10 k)) / pow10 k - \<bar>x\<bar>
      = (of_int (round_half_even (\<bar>x\<bar> * pow10 k)) - \<bar>x\<bar> * pow10 k) / pow10 k"
    by (simp add: diff_divide_distrib less_imp_neq[OF pow10_pos, symmetric])
  then have "\<bar>of_int (round_half_even (\<bar>x\<bar> * pow10 k)) / pow10 k - \<bar>x\<bar>\<bar> \<le> 1 / pow10 k"
    using round_half_even_error[of "\<bar>x\<bar> * pow10 k"]
    by (simp only: abs_divide abs_of_pos[OF pow10_pos]) (rule divide_right_mono, auto simp: less_imp_le)
  moreover have "1 / pow10 k \<le> \<bar>x\<bar> / 10 ^ 27" using k by (simp add: field_simps)
  moreover have "dec_ctx x - x = sgn x * (of_int (round_half_even (\<bar>x\<bar> * pow10 k)) / pow10 k - \<bar>x\<bar>)"
    unfolding d by (simp add: right_diff_distrib sgn_mult_abs mult.commute abs_mult_sgn)
  ultimately show ?thesis using False by (simp add: abs_mult abs_sgn_eq)
qed (simp add: dec_ctx_def)

lemma dec_ctx_nonneg: "0 \<le> x \<Longrightarrow> 0 \<le> dec_ctx x"
proof (cases "x = 0")
  case False
  assume "0 \<le> x"
  from dec_ctx_error[of x] this have "x - x / 10 ^ 27 \<le> dec_ctx x" unfolding abs_le_iff abs_of_nonneg[OF \<open>0 \<le> x\<close>] by linarith
  moreover have "0 \<le> x - x / 10 ^ 27" using \<open>0 \<le> x\<close> by simp
  ultimately show ?thesis by linarith
qed (simp add: dec_ctx_def)

end
