(* ===== verification/Booking_Status.thy ===== *)
theory Booking_Status
  imports Prelude
begin

text \<open>
  The booking lifecycle (\<open>app/booking/domain/state_machine.py\<close>, the status enumeration of
  \<open>app/booking/domain/value_objects.py\<close>) and the business rules of
  \<open>app/booking/domain/rules.py\<close>.

  A \<open>BookingStateMachine\<close> object is its current status: \<open>transition_to\<close> returns the new one
  or raises \<open>BookingStateError\<close>. Datetimes keep whether they carry a timezone: an aware one is
  the instant it denotes, a naive one its wall-clock reading, both in microseconds.
\<close>

section \<open>Statuses and the transition table\<close>

datatype BookingStatus =
    BK_DRAFT | BK_REQUESTED | BK_PAYMENT_PENDING | BK_CONFIRMED | BK_CHECKED_IN | BK_IN_PROGRESS
  | BK_PAYMENT_FAILED | BK_RESCHEDULE_REQUESTED | BK_RESCHEDULE_APPROVED | BK_CANCELLED
  | BK_REFUNDED | BK_COMPLETED | BK_NO_SHOW | BK_PARKED

fun booking_status_value :: "BookingStatus \<Rightarrow> string" where
  "booking_status_value BK_DRAFT = ''draft''"
| "booking_status_value BK_REQUESTED = ''requested''"
| "booking_status_value BK_PAYMENT_PENDING = ''payment_pending''"
| "booking_status_value BK_CONFIRMED = ''confirmed''"
| "booking_status_value BK_CHECKED_IN = ''checked_in''"
| "booking_status_value BK_IN_PROGRESS = ''in_progress''"
| "booking_status_value BK_PAYMENT_FAILED = ''payment_failed''"
| "booking_status_value BK_RESCHEDULE_REQUESTED = ''reschedule_requested''"
| "booking_status_value BK_RESCHEDULE_APPROVED = ''reschedule_approved''"
| "booking_status_value BK_CANCELLED = ''cancelled''"
| "booking_status_value BK_REFUNDED = ''refunded''"
| "booking_status_value BK_COMPLETED = ''completed''"
| "booking_status_value BK_NO_SHOW = ''no_show''"
| "booking_status_value BK_PARKED = ''parked''"

definition NON_BLOCKING_BOOKING_STATUSES :: "string list" where
  "NON_BLOCKING_BOOKING_STATUSES = map booking_status_value
     [BK_CANCELLED, BK_NO_SHOW, BK_REFUNDED, BK_PAYMENT_FAILED, BK_PARKED]"

fun booking_transitions :: "BookingStatus \<Rightarrow> BookingStatus list" where
  "booking_transitions BK_DRAFT =
     [BK_CONFIRMED, BK_PAYMENT_PENDING, BK_REQUESTED, BK_CANCELLED, BK_PAYMENT_FAILED]"
| "booking_transitions BK_REQUESTED =
     [BK_DRAFT, BK_PAYMENT_PENDING, BK_CONFIRMED, BK_PAYMENT_FAILED, BK_CANCELLED]"
| "booking_transitions BK_PAYMENT_PENDING = [BK_CONFIRMED, BK_PAYMENT_FAILED, BK_CANCELLED]"
| "booking_transitions BK_CONFIRMED =
     [BK_CHECKED_IN, BK_IN_PROGRESS, BK_RESCHEDULE_REQUESTED, BK_CANCELLED, BK_REFUNDED,
      BK_COMPLETED, BK_NO_SHOW, BK_PARKED]"
| "booking_transitions BK_CHECKED_IN = [BK_IN_PROGRESS, BK_COMPLETED, BK_CANCELLED, BK_NO_SHOW]"
| "booking_transitions BK_IN_PROGRESS = [BK_COMPLETED, BK_CANCELLED]"
| "booking_transitions BK_PAYMENT_FAILED = [BK_PAYMENT_PENDING, BK_CANCELLED]"
| "booking_transitions BK_RESCHEDULE_REQUESTED =
     [BK_RESCHEDULE_APPROVED, BK_CONFIRMED, BK_CANCELLED, BK_REFUNDED]"
| "booking_transitions BK_RESCHEDULE_APPROVED = [BK_CONFIRMED, BK_CANCELLED, BK_REFUNDED]"
| "booking_transitions BK_PARKED = [BK_CONFIRMED, BK_CANCELLED, BK_REFUNDED]"
| "booking_transitions BK_CANCELLED = [BK_REFUNDED]"
| "booking_transitions BK_REFUNDED = []"
| "booking_transitions BK_COMPLETED = []"
| "booking_transitions BK_NO_SHOW = []"

definition booking_terminal_statuses :: "BookingStatus list" where
  "booking_terminal_statuses = [BK_CANCELLED, BK_REFUNDED, BK_COMPLETED, BK_NO_SHOW]"

datatype booking_state_error = BookingStateError BookingStatus BookingStatus "BookingStatus list"

definition booking_can_transition_to :: "BookingStatus \<Rightarrow> BookingStatus \<Rightarrow> bool" where
  "booking_can_transition_to status target \<longleftrightarrow> target \<in> set (booking_transitions status)"

definition booking_transition_to ::
  "BookingStatus \<Rightarrow> BookingStatus \<Rightarrow> booking_state_error + BookingStatus" where
  "booking_transition_to status target =
     (if \<not> booking_can_transition_to status target
      then Inl (BookingStateError status target (booking_transitions status))
      else Inr target)"

definition booking_assert_valid_transition ::
  "BookingStatus \<Rightarrow> BookingStatus \<Rightarrow> booking_state_error + unit" where
  "booking_assert_valid_transition current target =
     ebind (booking_transition_to current target) (\<lambda>_. Inr ())"

definition booking_is_terminal :: "BookingStatus \<Rightarrow> bool" where
  "booking_is_terminal status \<longleftrightarrow> status \<in> set booking_terminal_statuses"

lemmas booking_machine_defs [machine_simps] =
  booking_can_transition_to_def booking_transition_to_def booking_is_terminal_def
  booking_terminal_statuses_def

interpretation booking_machine: status_machine booking_transitions booking_transition_to
  by unfold_locales (auto simp: machine_simps)

section \<open>Business rules\<close>

datatype pydatetime = Naive instant | Aware instant

definition hours :: "int \<Rightarrow> int" where "hours h = h * 3600000000"

datatype rule_error =
    NaiveDatetimeError
  | CompareTypeError
  | RescheduleWindowError instant instant
  | InvalidRescheduleError BookingStatus
  | TherapistNotHomeServiceEligible
  | SlotTooShort int int

text \<open>
  \<open>assert_reschedule_window\<close>: \<open>clock\<close> is the reading of \<open>datetime.now(UTC)\<close>, used when no
  \<open>now\<close> is given. Comparing an aware with a naive datetime raises \<open>TypeError\<close>.
\<close>

definition assert_reschedule_window ::
  "instant \<Rightarrow> pydatetime \<Rightarrow> pydatetime option \<Rightarrow> int \<Rightarrow> rule_error + unit" where
  "assert_reschedule_window clock appointment_start now min_hours_before =
     (case appointment_start of
        Naive _ \<Rightarrow> Inl NaiveDatetimeError
      | Aware start \<Rightarrow>
          (case (case now of None \<Rightarrow> Aware clock | Some n \<Rightarrow> n) of
             Naive _ \<Rightarrow> Inl CompareTypeError
           | Aware n \<Rightarrow>
               (if start \<le> n + hours min_hours_before then Inl (RescheduleWindowError start n)
                else Inr ())))"

definition assert_booking_is_reschedulable :: "BookingStatus \<Rightarrow> rule_error + unit" where
  "assert_booking_is_reschedulable current_status =
     guard (current_status = BK_CONFIRMED) (InvalidRescheduleError current_status)"

definition assert_home_service_eligible :: "bool \<Rightarrow> rule_error + unit" where
  "assert_home_service_eligible eligible = guard eligible TherapistNotHomeServiceEligible"

text \<open>\<open>int(seconds / 60)\<close> truncates towards zero.\<close>

definition trunc_minutes :: "int \<Rightarrow> int" where
  "trunc_minutes us = sgn us * (\<bar>us\<bar> div 60000000)"

definition assert_service_duration_fits :: "instant \<Rightarrow> instant \<Rightarrow> int \<Rightarrow> rule_error + unit" where
  "assert_service_duration_fits slot_start slot_end duration_minutes =
     (let available_minutes = trunc_minutes (slot_end - slot_start)
      in guard (\<not> available_minutes < duration_minutes)
           (SlotTooShort available_minutes duration_minutes))"

section \<open>Lemmas\<close>

lemma booking_status_value_inj: "inj booking_status_value"
proof (rule injI)
  fix s t assume "booking_status_value s = booking_status_value t"
  then show "s = t" by (cases s; cases t) simp_all
qed

text \<open>The statuses that only a confirmed (paid) booking reaches.\<close>

definition served_statuses :: "BookingStatus set" where
  "served_statuses = {BK_CHECKED_IN, BK_IN_PROGRESS, BK_RESCHEDULE_REQUESTED,
     BK_RESCHEDULE_APPROVED, BK_COMPLETED, BK_NO_SHOW, BK_PARKED}"

lemma served_gate:
  "t \<in> set (booking_transitions s) \<Longrightarrow> t \<in> served_statuses \<Longrightarrow> s \<notin> served_statuses \<Longrightarrow>
   s \<in> {BK_CONFIRMED}"
  by (cases s) (auto simp: served_statuses_def)

lemma terminal_rows:
  "booking_is_terminal s \<Longrightarrow> t \<in> set (booking_transitions s) \<Longrightarrow> s = BK_CANCELLED \<and> t = BK_REFUNDED"
  by (cases s) (auto simp: machine_simps)

text \<open>A shortest way from every status to the end of the lifecycle.\<close>

fun booking_exit :: "BookingStatus \<Rightarrow> BookingStatus list" where
  "booking_exit s = (if booking_is_terminal s then [] else [BK_CANCELLED])"

lemma booking_exit_path: "table_path booking_transitions s (booking_exit s)"
  by (cases s) (auto simp: machine_simps)

lemma trunc_minutes_ge_iff:
  assumes "0 \<le> us" shows "m \<le> trunc_minutes us \<longleftrightarrow> m * 60000000 \<le> us \<or> m \<le> 0"
proof -
  have "trunc_minutes us = us div 60000000"
    using assms by (auto simp: trunc_minutes_def sgn_if)
  moreover have "us = 60000000 * (us div 60000000) + us mod 60000000" "0 \<le> us mod 60000000"
    "us mod 60000000 < 60000000" "0 \<le> us div 60000000"
    using assms by simp_all
  ultimately show ?thesis by linarith
qed

section \<open>Properties\<close>

text \<open>A run of the booking machine that starts in a status before confirmation and ends in
  a status of service delivery (checked in, in progress, reschedule requested or approved,
  completed, no-show, parked) has visited \<open>CONFIRMED\<close>: no booking is served, rescheduled or
  parked without having been confirmed.\<close>

theorem booking_served_only_after_confirmed:
  assumes "s \<notin> served_statuses" and "u \<in> served_statuses"
    and "run_targets booking_transition_to s ts = Inr u"
  shows "BK_CONFIRMED \<in> set (s # ts)"
  using booking_machine.gate_visited[OF served_gate assms(1,3,2)] by auto

theorem booking_served_only_after_confirmed_witness:
  "run_targets booking_transition_to BK_DRAFT
     [BK_PAYMENT_PENDING, BK_PAYMENT_FAILED, BK_PAYMENT_PENDING, BK_CONFIRMED, BK_COMPLETED]
   = Inr BK_COMPLETED \<and> BK_CONFIRMED \<in> set (BK_DRAFT #
     [BK_PAYMENT_PENDING, BK_PAYMENT_FAILED, BK_PAYMENT_PENDING, BK_CONFIRMED, BK_COMPLETED])"
proof -
  have run: "run_targets booking_transition_to BK_DRAFT
     [BK_PAYMENT_PENDING, BK_PAYMENT_FAILED, BK_PAYMENT_PENDING, BK_CONFIRMED, BK_COMPLETED]
     = Inr BK_COMPLETED"
    by (simp add: machine_simps)
  have "BK_DRAFT \<notin> served_statuses" "BK_COMPLETED \<in> served_statuses"
    by (simp_all add: served_statuses_def)
  from booking_served_only_after_confirmed[OF this run] run show ?thesis by blast
qed

text \<open>A run that starts in a status the machine reports as terminal is empty or consists of
  the single move from \<open>CANCELLED\<close> to \<open>REFUNDED\<close>; completed, no-show and refunded bookings are
  never left, while a cancelled booking, although terminal, still is.\<close>

theorem booking_terminal_runs:
  "booking_is_terminal s \<Longrightarrow>
   run_targets booking_transition_to s ts = Inr u \<longleftrightarrow>
     ts = [] \<and> u = s \<or> s = BK_CANCELLED \<and> ts = [BK_REFUNDED] \<and> u = BK_REFUNDED"
proof -
  assume fin: "booking_is_terminal s"
  show ?thesis
  proof (cases ts)
    case Nil
    then show ?thesis by auto
  next
    case (Cons t ts')
    show ?thesis
    proof (cases "t \<in> set (booking_transitions s)")
      case True
      from terminal_rows[OF fin True] have st: "s = BK_CANCELLED" "t = BK_REFUNDED" by auto
      have "run_targets booking_transition_to BK_REFUNDED ts' = Inr u \<longleftrightarrow> ts' = [] \<and> u = BK_REFUNDED"
        using booking_machine.sink_stuck[of BK_REFUNDED ts' u] by auto
      with st Cons show ?thesis by (auto simp: machine_simps)
    next
      case False
      with Cons show ?thesis by (auto simp: machine_simps)
    qed
  qed
qed

theorem booking_terminal_runs_witness:
  "booking_is_terminal BK_CANCELLED \<and>
   run_targets booking_transition_to BK_CANCELLED [BK_REFUNDED] = Inr BK_REFUNDED"
proof -
  have t: "booking_is_terminal BK_CANCELLED" by (simp add: machine_simps)
  then show ?thesis using booking_terminal_runs[OF t, of "[BK_REFUNDED]" BK_REFUNDED] by simp
qed

text \<open>From every status a run of at most one step reaches a terminal status: no booking is
  stuck before the end of its lifecycle.\<close>

theorem booking_can_always_end:
  "\<exists>ts u. length ts \<le> 1 \<and> run_targets booking_transition_to s ts = Inr u \<and> booking_is_terminal u"
proof -
  have "run_targets booking_transition_to s (booking_exit s) = Inr (last (s # booking_exit s))"
    using booking_machine.run_Inr_iff booking_exit_path by blast
  moreover have "booking_is_terminal (last (s # booking_exit s))" "length (booking_exit s) \<le> 1"
    by (auto simp: booking_is_terminal_def booking_terminal_statuses_def)
  ultimately show ?thesis by blast
qed

text \<open>A reschedule request of an aware appointment start passes exactly when the start is
  more than the required notice after the current time.\<close>

theorem assert_reschedule_window_ok_iff:
  "assert_reschedule_window clock (Aware start) (Some (Aware n)) h = Inr () \<longleftrightarrow> n + hours h < start"
  by (simp add: assert_reschedule_window_def not_le)

text \<open>A slot passes the duration rule exactly when its length covers the service (or the
  required duration is not positive), for every slot whose end is not before its start.\<close>

theorem assert_service_duration_fits_iff:
  "a \<le> b \<Longrightarrow> assert_service_duration_fits a b d = Inr () \<longleftrightarrow> a + d * 60000000 \<le> b \<or> d \<le> 0"
  using trunc_minutes_ge_iff[of "b - a" d]
  by (auto simp: assert_service_duration_fits_def Let_def not_less)

theorem assert_service_duration_fits_iff_witness:
  "assert_service_duration_fits 0 3600000000 60 = Inr ()"
  using assert_service_duration_fits_iff[of 0 3600000000 60] by simp

end
