(* ===== verification/Booking_Services.thy ===== *)
theory Booking_Services
  imports Py_Values Booking_Status
begin

text \<open>
  The service entries of a booking: \<open>app/booking/domain/services_snapshot.py\<close>, with the couple
  room rules of \<open>app/booking/application/multi_therapist.py\<close>.

  A service entry is the record \<open>service_entry\<close>; its snapshots of the service and of the
  arrangement are dictionaries (\<open>br_loyalty_data\<close> says only whether the column holds anything).
  Prices and durations of stored entries are read by the tolerant
  conversions, so they are scalars here. \<open>booking_row\<close> has the columns of \<open>bookings\<close> that
  the session and overlap code reads; UUIDs are their text.
\<close>

record service_entry =
  se_service_id :: "string option"
  se_name :: "string option"
  se_service_name :: "string option"
  se_service_data :: snapshot
  se_arrangement_id :: "string option"
  se_arrangement_data :: snapshot
  se_base_price :: scalar
  se_duration_minutes :: scalar
  se_position :: int
  se_session_id :: "string option"
  se_package_id :: "string option"
  se_package_name :: "string option"
  se_package_price :: scalar
  se_component_price :: scalar

record addon =
  ad_addon_id :: string
  ad_name :: string
  ad_price :: scalar
  ad_duration_minutes :: int
  ad_session_id :: "string option"

record session =
  ss_session_id :: "string option"
  ss_position :: int
  ss_therapist_id :: "string option"
  ss_therapist_data :: snapshot
  ss_secondary_therapist_id :: "string option"
  ss_secondary_therapist_data :: "snapshot option"
  ss_arrangement_id :: "string option"
  ss_arrangement_data :: snapshot
  ss_service_name :: string
  ss_services :: "service_entry list"
  ss_service_ids :: "string list"
  ss_addons :: "addon list"
  ss_extra_minutes :: scalar
  ss_price_for_extra_minutes :: scalar
  ss_services_duration :: scalar
  ss_addons_duration :: scalar
  ss_total_session_duration :: scalar
  ss_services_price :: scalar
  ss_addons_price :: scalar
  ss_session_price :: scalar
  ss_appointment_start :: "instant option"
  ss_appointment_end :: "instant option"

record booking_row =
  br_id :: "string option"
  br_status :: string
  br_payment_status :: string
  br_booking_type :: string
  br_loyalty_data :: bool
  br_booking_number :: "string option"
  br_customer_id :: string
  br_idempotency_key :: "string option"
  br_internal_notes :: "string option"
  br_payment_url :: "string option"
  br_total_amount :: rat
  br_discount :: rat
  br_services :: "service_entry list"
  br_sessions :: "session list"
  br_service_id :: "string option"
  br_service_data :: "snapshot option"
  br_service_name :: "string option"
  br_arrangement_id :: "string option"
  br_arrangement_data :: "snapshot option"
  br_therapist_id :: "string option"
  br_therapist_data :: "snapshot option"
  br_secondary_therapist_id :: "string option"
  br_secondary_therapist_data :: "snapshot option"
  br_addons :: "snapshot list"
  br_appointment_start :: "instant option"
  br_appointment_end :: "instant option"
  br_duration_minutes :: scalar
  br_extra_minutes :: scalar
  br_total_duration :: scalar
  br_addons_duration :: scalar
  br_base_price :: scalar
  br_price_for_extra_minutes :: scalar
  br_addon_price :: scalar

section \<open>Entries\<close>

definition text_scalar :: "string option \<Rightarrow> scalar" where
  "text_scalar v = (case v of None \<Rightarrow> SNone | Some s \<Rightarrow> SText s)"

definition build_service_entry ::
  "string option \<Rightarrow> snapshot \<Rightarrow> string option \<Rightarrow> snapshot \<Rightarrow> scalar \<Rightarrow> scalar \<Rightarrow> int \<Rightarrow> service_entry" where
  "build_service_entry service_id svc arrangement_id arrangement_data base_price duration_minutes position =
     (let price = to_decimal (if base_price \<noteq> SNone then base_price else dget svc ''base_price'');
          duration = to_int (if duration_minutes \<noteq> SNone then duration_minutes
                             else scalar_or (dget svc ''base_duration'') (dget svc ''duration_minutes''));
          s_name = first_text [dget svc ''name'', dget svc ''service_name'']
      in \<lparr>se_service_id = Some (case id_text service_id of Some s \<Rightarrow> s | None \<Rightarrow> []),
          se_name = Some s_name, se_service_name = Some s_name, se_service_data = svc,
          se_arrangement_id = id_text arrangement_id, se_arrangement_data = arrangement_data,
          se_base_price = SText (money price), se_duration_minutes = SInt duration,
          se_position = position, se_session_id = None, se_package_id = None, se_package_name = None,
          se_package_price = SNone, se_component_price = SNone\<rparr>)"

definition int_only :: "scalar \<Rightarrow> scalar" where
  "int_only v = (case v of SInt n \<Rightarrow> v | SBool b \<Rightarrow> v | _ \<Rightarrow> SNone)"

definition get_booking_services :: "booking_row \<Rightarrow> service_entry list" where
  "get_booking_services b =
     (if br_services b \<noteq> [] then br_services b
      else if id_text (br_service_id b) = None \<and> br_service_data b = None then []
      else [build_service_entry (id_text (br_service_id b))
              (case br_service_data b of Some d \<Rightarrow> d | None \<Rightarrow> Map.empty)
              (br_arrangement_id b)
              (case br_arrangement_data b of Some d \<Rightarrow> d | None \<Rightarrow> Map.empty)
              (br_base_price b) (int_only (br_duration_minutes b)) 0])"

definition entry_service_name :: "service_entry \<Rightarrow> string" where
  "entry_service_name e = first_text [dget (se_service_data e) ''name'', dget (se_service_data e) ''service_name'']"

definition entry_arrangement_name :: "service_entry \<Rightarrow> string" where
  "entry_arrangement_name e =
     first_text [dget (se_arrangement_data e) ''arrangement_name'', dget (se_arrangement_data e) ''room_name'',
       dget (se_arrangement_data e) ''name'']"

definition service_names :: "service_entry list \<Rightarrow> string list" where
  "service_names entries = filter (\<lambda>n. n \<noteq> []) (map entry_service_name entries)"

definition joined_service_name :: "string \<Rightarrow> service_entry list \<Rightarrow> string" where
  "joined_service_name sep entries = join_texts sep (service_names entries)"

definition total_services_price :: "service_entry list \<Rightarrow> rat" where
  "total_services_price entries = sum_list (map (\<lambda>e. to_decimal (se_base_price e)) entries)"

definition total_services_duration :: "service_entry list \<Rightarrow> int" where
  "total_services_duration entries = sum_list (map (\<lambda>e. to_int (se_duration_minutes e)) entries)"

text \<open>\<open>dict.setdefault(key, None)\<close> over the keys: the first occurrence of each, in order.\<close>

definition first_occurrences :: "'a list \<Rightarrow> 'a list" where
  "first_occurrences xs = fold (\<lambda>x seen. if x \<in> set seen then seen else seen @ [x]) xs []"

definition distinct_arrangement_ids :: "service_entry list \<Rightarrow> string list" where
  "distinct_arrangement_ids entries =
     first_occurrences (List.map_filter (\<lambda>e. id_text (se_arrangement_id e)) entries)"

definition effective_points :: "service_entry \<Rightarrow> int \<times> int" where
  "effective_points e =
     (let sd = se_service_data e; ad = se_arrangement_data e in
      (if dget ad ''loyalty_points'' \<noteq> SNone then to_int (dget ad ''loyalty_points'') else to_int (dget sd ''loyalty_points''),
       if dget ad ''price_in_points'' \<noteq> SNone then to_int (dget ad ''price_in_points'') else to_int (dget sd ''price_in_points'')))"

definition points_cost :: "service_entry \<Rightarrow> int" where
  "points_cost e =
     (let a = to_int (dget (se_arrangement_data e) ''price_in_points'') in
      if a \<noteq> 0 then a else to_int (dget (se_service_data e) ''price_in_points''))"

record cache_service =
  cs_service_id :: "string option"
  cs_service_name :: "string option"
  cs_arrangement_id :: "string option"
  cs_arrangement_name :: "string option"
  cs_duration_minutes :: int

definition or_none :: "string option \<Rightarrow> string option" where
  "or_none v = (case v of None \<Rightarrow> None | Some s \<Rightarrow> nonempty s)"

definition cache_services_payload :: "service_entry list \<Rightarrow> cache_service list" where
  "cache_services_payload entries =
     map (\<lambda>e. \<lparr>cs_service_id = or_none (se_service_id e), cs_service_name = nonempty (entry_service_name e),
               cs_arrangement_id = or_none (se_arrangement_id e),
               cs_arrangement_name = nonempty (entry_arrangement_name e),
               cs_duration_minutes = to_int (se_duration_minutes e)\<rparr>) entries"

section \<open>Couple and double rooms\<close>

definition MULTI_THERAPIST_ARRANGEMENT_TYPES :: "string list" where
  "MULTI_THERAPIST_ARRANGEMENT_TYPES = [''couple_room'', ''double_room'']"

definition required_therapist_count :: "scalar \<Rightarrow> int" where
  "required_therapist_count arrangement_type =
     (if lower (strip (py_str (scalar_or arrangement_type (SText [])))) \<in> set MULTI_THERAPIST_ARRANGEMENT_TYPES
      then 2 else 1)"

definition entries_required_therapists :: "snapshot list \<Rightarrow> int" where
  "entries_required_therapists arrangement_datas =
     fold (\<lambda>arr needed. max needed (required_therapist_count
             (scalar_or (dget arr ''arrangement_type'') (dget arr ''type'')))) arrangement_datas 1"

text \<open>\<open>unique_ids\<close>: falsy ids are dropped, duplicates too, the priority order is kept.\<close>

definition unique_ids :: "string option list \<Rightarrow> string list" where
  "unique_ids ids = first_occurrences (List.map_filter or_none ids)"

definition therapist_display_name :: "snapshot \<Rightarrow> string" where
  "therapist_display_name raw =
     (let nm = scalar_or (dget raw ''therapist_name'') (scalar_or (dget raw ''name'') (dget raw ''full_name'')) in
      if scalar_true nm then py_str nm
      else strip ((case raw ''first_name'' of Some v \<Rightarrow> py_str v | None \<Rightarrow> []) @ '' ''
                  @ (case raw ''last_name'' of Some v \<Rightarrow> py_str v | None \<Rightarrow> [])))"

section \<open>Lemmas\<close>

lemma first_occurrences_acc:
  "distinct acc \<Longrightarrow>
   distinct (fold (\<lambda>x seen. if x \<in> set seen then seen else seen @ [x]) xs acc)
   \<and> set (fold (\<lambda>x seen. if x \<in> set seen then seen else seen @ [x]) xs acc) = set acc \<union> set xs"
  by (induction xs arbitrary: acc) auto

lemma first_occurrences [simp]: "distinct (first_occurrences xs)" "set (first_occurrences xs) = set xs"
  using first_occurrences_acc[of "[]" xs] by (simp_all add: first_occurrences_def)

lemma first_occurrences_id [simp]: "distinct xs \<Longrightarrow> first_occurrences xs = xs"
proof -
  have "distinct (acc @ xs) \<Longrightarrow> fold (\<lambda>x seen. if x \<in> set seen then seen else seen @ [x]) xs acc = acc @ xs" for acc
    by (induction xs arbitrary: acc) auto
  from this[of "[]"] show "distinct xs \<Longrightarrow> first_occurrences xs = xs" by (simp add: first_occurrences_def)
qed

lemma fold_max_two:
  fixes f :: "'a \<Rightarrow> int"
  assumes "\<And>x. f x = 1 \<or> f x = 2" and "acc = 1 \<or> acc = 2"
  shows "fold (\<lambda>x m. max m (f x)) xs acc = (if acc = 2 \<or> (\<exists>x\<in>set xs. f x = 2) then 2 else 1)"
  using assms(2)
proof (induction xs arbitrary: acc)
  case (Cons x xs)
  have "max acc (f x) = (if acc = 2 \<or> f x = 2 then 2 else 1)" using assms(1)[of x] Cons.prems by auto
  then show ?case using Cons.IH[of "max acc (f x)"] by (simp split: if_split_asm)
qed auto

lemma entries_required_max:
  "entries_required_therapists ds = (if \<exists>d\<in>set ds. required_therapist_count
      (scalar_or (dget d ''arrangement_type'') (dget d ''type'')) = 2 then 2 else 1)"
  unfolding entries_required_therapists_def by (subst fold_max_two) (simp_all add: required_therapist_count_def)

end
