(* ===== verification/Booking_Sessions.thy ===== *)
theory Booking_Sessions
  imports Booking_Services
begin

text \<open>
  The sessions of a booking: \<open>app/booking/domain/sessions.py\<close>. A session is served by one
  therapist, or two in a couple room, for a window of time; the sessions of a booking lie on one
  local date and do not overlap.

  The ISO texts of a session's window are the instants they denote, None for a text that is
  missing or not a datetime. The platform timezone is Asia/Kuwait, three hours ahead of UTC
  without daylight saving, so the local date of an instant is a division. The lemmas
  characterise the input that \<open>validate_sessions\<close> accepts, and show how totals, the legacy
  columns and the busy windows of the therapists follow from the sessions.
\<close>

definition MAX_SESSIONS_PER_BOOKING :: nat where "MAX_SESSIONS_PER_BOOKING = 3"

definition MAX_PACKAGE_SESSIONS_PER_BOOKING :: nat where "MAX_PACKAGE_SESSIONS_PER_BOOKING = 5"

datatype session_error =
    NaiveStart
  | NoServices
  | NoSessions
  | TooManySessions nat
  | TherapistRequired nat
  | ServiceRequired nat
  | InvalidWindow nat
  | DateMismatch nat int
  | OverlapsPrevious nat
  | InvalidTime string
  | StartMissing
  | NotOnBookingDate string
  | PackageNotLoaded string
  | NotAPackage string
  | PackageEmpty string
  | PackageCoverage string
  | OnePackageOnly
  | PackageCombined
  | ServiceNotOffered nat
  | BranchesDiffer
  | BadNumber

section \<open>Building a session\<close>

definition compute_extra_price :: "int \<Rightarrow> scalar \<Rightarrow> scalar \<Rightarrow> rat" where
  "compute_extra_price extra_minutes unit_minutes unit_price =
     (let mins = max extra_minutes 0; rate = to_decimal unit_price;
          unit = (if to_int unit_minutes \<noteq> 0 then to_int unit_minutes else 30)
      in if mins = 0 \<or> rate \<le> 0 then 0
         else dec_ctx (dec_ctx (of_int mins / of_int unit) * rate))"

definition normalise_addons :: "snapshot list \<Rightarrow> addon list" where
  "normalise_addons addons =
     map (\<lambda>a. \<lparr>ad_addon_id = (case to_str_id (dget a ''addon_id'') of Some i \<Rightarrow> i
                 | None \<Rightarrow> (case to_str_id (dget a ''id'') of Some i \<Rightarrow> i | None \<Rightarrow> [])),
               ad_name = first_text [dget a ''name''],
               ad_price = SText (money (to_decimal (dget a ''price''))),
               ad_duration_minutes = to_int (scalar_or (dget a ''duration_minutes'') (dget a ''duration'')),
               ad_session_id = None\<rparr>) addons"

definition entry_any_name :: "service_entry \<Rightarrow> string" where
  "entry_any_name e =
     first_text [dget (se_service_data e) ''name'', dget (se_service_data e) ''service_name'',
       text_scalar (se_name e), text_scalar (se_service_name e)]"

text \<open>A truthy id: present and not the empty text.\<close>

definition present_ids :: "string option list \<Rightarrow> string list" where
  "present_ids ids = List.map_filter or_none ids"

definition build_session ::
  "int \<Rightarrow> pydatetime \<Rightarrow> string option \<Rightarrow> snapshot option \<Rightarrow> string option \<Rightarrow> snapshot option
   \<Rightarrow> service_entry list \<Rightarrow> snapshot list \<Rightarrow> int \<Rightarrow> scalar \<Rightarrow> scalar \<Rightarrow> string option \<Rightarrow> snapshot option
   \<Rightarrow> string option \<Rightarrow> string \<Rightarrow> session_error + session" where
  "build_session position start therapist_id therapist_data arrangement_id arrangement_data services addons
     extra_minutes extra_unit_minutes extra_unit_price secondary_id secondary_data session_id new_id =
     (case start of
        Naive _ \<Rightarrow> Inl NaiveStart
      | Aware t \<Rightarrow>
          if services = [] then Inl NoServices
          else
            (let entries = map2 (\<lambda>i e. e\<lparr>se_position := int i,
                   se_arrangement_id := (case id_text arrangement_id of Some a \<Rightarrow> Some a
                                         | None \<Rightarrow> se_arrangement_id e)\<rparr>) [0..<length services] services;
                 addon_list = normalise_addons addons;
                 services_duration = total_services_duration entries;
                 services_price = total_services_price entries;
                 addons_duration = sum_list (map ad_duration_minutes addon_list);
                 addons_price = sum_list (map (\<lambda>a. to_decimal (ad_price a)) addon_list);
                 extra = max extra_minutes 0;
                 extra_price = compute_extra_price extra extra_unit_minutes extra_unit_price;
                 total_duration = services_duration + addons_duration + extra
             in Inr \<lparr>ss_session_id = Some (case id_text session_id of Some s \<Rightarrow> s | None \<Rightarrow> new_id),
                  ss_position = position,
                  ss_therapist_id = id_text therapist_id,
                  ss_therapist_data = (case therapist_data of Some d \<Rightarrow> d | None \<Rightarrow> Map.empty),
                  ss_secondary_therapist_id = id_text secondary_id,
                  ss_secondary_therapist_data =
                    (if truthy secondary_id then Some (case secondary_data of Some d \<Rightarrow> d | None \<Rightarrow> Map.empty) else None),
                  ss_arrangement_id = id_text arrangement_id,
                  ss_arrangement_data = (case arrangement_data of Some d \<Rightarrow> d | None \<Rightarrow> Map.empty),
                  ss_service_name = join_texts '' + '' (filter (\<lambda>n. n \<noteq> []) (map entry_any_name entries)),
                  ss_services = entries,
                  ss_service_ids = present_ids (map se_service_id entries),
                  ss_addons = addon_list,
                  ss_extra_minutes = SInt extra,
                  ss_price_for_extra_minutes = SText (money extra_price),
                  ss_services_duration = SInt services_duration,
                  ss_addons_duration = SInt addons_duration,
                  ss_total_session_duration = SInt total_duration,
                  ss_services_price = SText (money services_price),
                  ss_addons_price = SText (money addons_price),
                  ss_session_price = SText (money (services_price + addons_price + extra_price)),
                  ss_appointment_start = Some t,
                  ss_appointment_end = Some (t + total_duration * 60000000)\<rparr>))"

section \<open>Validation\<close>

definition session_window :: "session \<Rightarrow> instant option \<times> instant option" where
  "session_window s = (ss_appointment_start s, ss_appointment_end s)"

text \<open>\<open>datetime.max\<close> in UTC.\<close>

definition DATETIME_MAX :: instant where "DATETIME_MAX = 253402300799999999"

definition start_key :: "session \<Rightarrow> instant" where
  "start_key s = (case fst (session_window s) of Some t \<Rightarrow> t | None \<Rightarrow> DATETIME_MAX)"

definition renumber :: "session list \<Rightarrow> session list" where
  "renumber ss = map2 (\<lambda>i s. s\<lparr>ss_position := int i\<rparr>) [0..<length ss] ss"

definition sort_sessions :: "session list \<Rightarrow> session list" where
  "sort_sessions sessions = renumber (sort_key start_key sessions)"

definition local_date :: "instant \<Rightarrow> int" where
  "local_date t = (t + 10800000000) div 86400000000"

fun check_each :: "nat \<Rightarrow> session list \<Rightarrow> session_error + unit" where
  "check_each i [] = Inr ()"
| "check_each i (s # ss) =
     (if \<not> truthy (ss_therapist_id s) then Inl (TherapistRequired i)
      else if ss_services s = [] then Inl (ServiceRequired i)
      else (case session_window s of
              (Some start, Some stop) \<Rightarrow>
                if stop \<le> start then Inl (InvalidWindow i) else check_each (Suc i) ss
            | _ \<Rightarrow> Inl (InvalidWindow i)))"

text \<open>The second loop; the windows are present by then.\<close>

fun check_ordered :: "int \<Rightarrow> instant option \<Rightarrow> nat \<Rightarrow> session list \<Rightarrow> session_error + unit" where
  "check_ordered day prev_end i [] = Inr ()"
| "check_ordered day prev_end i (s # ss) =
     (case session_window s of
        (Some start, Some stop) \<Rightarrow>
          if local_date start \<noteq> day \<or> local_date stop \<noteq> day then Inl (DateMismatch i day)
          else if (case prev_end of Some p \<Rightarrow> start < p | None \<Rightarrow> False) then Inl (OverlapsPrevious i)
          else check_ordered day (Some stop) (Suc i) ss
      | _ \<Rightarrow> Inl (InvalidWindow i))"

definition validate_sessions :: "nat \<Rightarrow> session list \<Rightarrow> session_error + session list" where
  "validate_sessions max_sessions sessions =
     (if sessions = [] then Inl NoSessions
      else if max_sessions < length sessions then Inl (TooManySessions max_sessions)
      else ebind (check_each 0 sessions) (\<lambda>_.
           let ordered = sort_sessions sessions;
               day = local_date (case fst (session_window (hd ordered)) of Some t \<Rightarrow> t | None \<Rightarrow> 0)
           in ebind (check_ordered day None 0 ordered) (\<lambda>_. Inr ordered)))"

section \<open>Derived values\<close>

fun tag_services :: "nat \<Rightarrow> (string option \<times> service_entry) list \<Rightarrow> service_entry list" where
  "tag_services n [] = []"
| "tag_services n ((sid, e) # es) = e\<lparr>se_session_id := sid, se_position := int n\<rparr> # tag_services (Suc n) es"

definition flatten_services :: "session list \<Rightarrow> service_entry list" where
  "flatten_services sessions =
     tag_services 0 (concat (map (\<lambda>s. map (Pair (ss_session_id s)) (ss_services s)) sessions))"

definition flatten_addons :: "session list \<Rightarrow> addon list" where
  "flatten_addons sessions =
     concat (map (\<lambda>s. map (\<lambda>a. a\<lparr>ad_session_id := ss_session_id s\<rparr>) (ss_addons s)) sessions)"

record booking_totals_rec =
  bt_services_price :: rat
  bt_addons_price :: rat
  bt_extra_price :: rat
  bt_session_price_total :: rat
  bt_services_duration :: int
  bt_addons_duration :: int
  bt_extra_minutes :: int
  bt_total_duration :: int

definition booking_totals :: "session list \<Rightarrow> booking_totals_rec" where
  "booking_totals sessions =
     \<lparr>bt_services_price = sum_list (map (\<lambda>s. to_decimal (ss_services_price s)) sessions),
      bt_addons_price = sum_list (map (\<lambda>s. to_decimal (ss_addons_price s)) sessions),
      bt_extra_price = sum_list (map (\<lambda>s. to_decimal (ss_price_for_extra_minutes s)) sessions),
      bt_session_price_total = sum_list (map (\<lambda>s. to_decimal (ss_session_price s)) sessions),
      bt_services_duration = sum_list (map (\<lambda>s. to_int (ss_services_duration s)) sessions),
      bt_addons_duration = sum_list (map (\<lambda>s. to_int (ss_addons_duration s)) sessions),
      bt_extra_minutes = sum_list (map (\<lambda>s. to_int (ss_extra_minutes s)) sessions),
      bt_total_duration = sum_list (map (\<lambda>s. to_int (ss_total_session_duration s)) sessions)\<rparr>"

record session_mirror =
  sm_therapist_id :: "string option"
  sm_therapist_data :: snapshot
  sm_secondary_therapist_id :: "string option"
  sm_secondary_therapist_data :: "snapshot option"
  sm_arrangement_id :: "string option"
  sm_arrangement_data :: snapshot
  sm_services :: "service_entry list"
  sm_addons :: "addon list"
  sm_appointment_start :: "instant option"
  sm_appointment_end :: "instant option"
  sm_duration_minutes :: int
  sm_extra_minutes :: int
  sm_addons_duration :: int
  sm_total_duration :: int
  sm_services_price :: rat
  sm_addons_price :: rat
  sm_extra_price :: rat

text \<open>None is the \<open>IndexError\<close> of an empty list.\<close>

definition legacy_mirror :: "session list \<Rightarrow> session_mirror option" where
  "legacy_mirror sessions =
     (if sessions = [] then None
      else (let first = hd sessions; final = List.last sessions; totals = booking_totals sessions in
        Some \<lparr>sm_therapist_id = ss_therapist_id first,
              sm_therapist_data = ss_therapist_data first,
              sm_secondary_therapist_id = ss_secondary_therapist_id first,
              sm_secondary_therapist_data = ss_secondary_therapist_data first,
              sm_arrangement_id = ss_arrangement_id first,
              sm_arrangement_data = ss_arrangement_data first,
              sm_services = flatten_services sessions,
              sm_addons = flatten_addons sessions,
              sm_appointment_start = fst (session_window first),
              sm_appointment_end = snd (session_window final),
              sm_duration_minutes = bt_services_duration totals,
              sm_extra_minutes = bt_extra_minutes totals,
              sm_addons_duration = bt_addons_duration totals,
              sm_total_duration = bt_total_duration totals,
              sm_services_price = bt_services_price totals,
              sm_addons_price = bt_addons_price totals,
              sm_extra_price = bt_extra_price totals\<rparr>))"

section \<open>Reading the sessions of a stored booking\<close>

definition session_from_booking :: "booking_row \<Rightarrow> string \<Rightarrow> session" where
  "session_from_booking b new_id =
     (let entries = get_booking_services b;
          base_price = total_services_price entries;
          services_duration = total_services_duration entries;
          dur = (case int_only (br_total_duration b) of SNone \<Rightarrow>
                   SInt (to_int (br_duration_minutes b) + to_int (br_extra_minutes b)) | d \<Rightarrow> d);
          addons_dur = (case int_only (br_addons_duration b) of SNone \<Rightarrow> SInt 0 | d \<Rightarrow> d);
          extra_price = to_decimal (br_price_for_extra_minutes b);
          addon_price = to_decimal (br_addon_price b)
      in \<lparr>ss_session_id = Some (case id_text (br_id b) of Some s \<Rightarrow> s | None \<Rightarrow> new_id),
          ss_position = 0,
          ss_therapist_id = id_text (br_therapist_id b),
          ss_therapist_data = (case br_therapist_data b of Some d \<Rightarrow> d | None \<Rightarrow> Map.empty),
          ss_secondary_therapist_id = id_text (br_secondary_therapist_id b),
          ss_secondary_therapist_data =
            (if truthy (br_secondary_therapist_id b) then br_secondary_therapist_data b else None),
          ss_arrangement_id = id_text (br_arrangement_id b),
          ss_arrangement_data = (case br_arrangement_data b of Some d \<Rightarrow> d | None \<Rightarrow> Map.empty),
          ss_service_name =
            (if truthy (br_service_name b) then the (br_service_name b)
             else join_texts '', '' (filter (\<lambda>n. n \<noteq> [])
               (map (\<lambda>e. first_text [text_scalar (se_name e), dget (se_service_data e) ''name'']) entries))),
          ss_services = entries,
          ss_service_ids = present_ids (map se_service_id entries),
          ss_addons = normalise_addons (br_addons b),
          ss_extra_minutes = SInt (to_int (br_extra_minutes b)),
          ss_price_for_extra_minutes = SText (money extra_price),
          ss_services_duration = SInt services_duration,
          ss_addons_duration = addons_dur,
          ss_total_session_duration = dur,
          ss_services_price = SText (money base_price),
          ss_addons_price = SText (money addon_price),
          ss_session_price = SText (money (base_price + addon_price + extra_price)),
          ss_appointment_start = br_appointment_start b,
          ss_appointment_end = br_appointment_end b\<rparr>)"

definition stored_sessions :: "booking_row \<Rightarrow> session list option" where
  "stored_sessions b = (if br_sessions b \<noteq> [] then Some (br_sessions b) else None)"

definition get_booking_sessions :: "booking_row \<Rightarrow> string \<Rightarrow> session list" where
  "get_booking_sessions b new_id =
     (if br_sessions b \<noteq> [] then br_sessions b else [session_from_booking b new_id])"

definition serves :: "string \<Rightarrow> session \<Rightarrow> bool" where
  "serves tid s \<longleftrightarrow> id_text (ss_therapist_id s) = Some tid \<or> id_text (ss_secondary_therapist_id s) = Some tid"

definition therapist_busy_windows :: "booking_row \<Rightarrow> string option \<Rightarrow> (instant \<times> instant) list" where
  "therapist_busy_windows b therapist_id =
     (case id_text therapist_id of
        None \<Rightarrow> []
      | Some tid \<Rightarrow>
          if br_sessions b \<noteq> [] then
            List.map_filter
              (\<lambda>s. if serves tid s then
                     (case session_window s of (Some start, Some stop) \<Rightarrow> Some (start, stop) | _ \<Rightarrow> None)
                   else None) (br_sessions b)
          else
            (case (br_appointment_start b, br_appointment_end b) of
               (Some start, Some stop) \<Rightarrow>
                 if Some tid \<in> {id_text (br_therapist_id b), id_text (br_secondary_therapist_id b)}
                 then [(start, stop)] else []
             | _ \<Rightarrow> []))"

definition distinct_session_arrangements :: "booking_row \<Rightarrow> int" where
  "distinct_session_arrangements b =
     int (card (set (List.map_filter (\<lambda>e. id_text (se_arrangement_id e)) (get_booking_services b))))"

record cache_session =
  cx_session_id :: "string option"
  cx_position :: int
  cx_therapist_id :: "string option"
  cx_therapist_name :: string
  cx_secondary_therapist_id :: "string option"
  cx_secondary_therapist_name :: string
  cx_arrangement_id :: "string option"
  cx_arrangement_name :: string
  cx_service_ids :: "string list"
  cx_service_name :: string
  cx_appointment_start :: "instant option"
  cx_appointment_end :: "instant option"
  cx_duration_minutes :: int

definition person_name :: "snapshot \<Rightarrow> string" where
  "person_name d = first_text [dget d ''name'', dget d ''full_name'', dget d ''therapist_name'']"

text \<open>The keys \<open>duration_minutes\<close> and \<open>duration\<close> that the payload falls back to are in no stored session.\<close>

definition cache_session_of :: "session \<Rightarrow> cache_session" where
  "cache_session_of s =
     \<lparr>cx_session_id = or_none (ss_session_id s),
      cx_position = ss_position s,
      cx_therapist_id = or_none (ss_therapist_id s),
      cx_therapist_name = person_name (ss_therapist_data s),
      cx_secondary_therapist_id = or_none (ss_secondary_therapist_id s),
      cx_secondary_therapist_name =
        person_name (case ss_secondary_therapist_data s of Some d \<Rightarrow> d | None \<Rightarrow> Map.empty),
      cx_arrangement_id = or_none (ss_arrangement_id s),
      cx_arrangement_name = first_text [dget (ss_arrangement_data s) ''arrangement_name'',
        dget (ss_arrangement_data s) ''room_name'', dget (ss_arrangement_data s) ''name''],
      cx_service_ids = ss_service_ids s,
      cx_service_name = join_texts '', '' (service_names (ss_services s)),
      cx_appointment_start = ss_appointment_start s,
      cx_appointment_end = ss_appointment_end s,
      cx_duration_minutes =
        (let d = to_int (ss_total_session_duration s) in if d \<noteq> 0 then d else 60)\<rparr>"

definition cache_sessions_payload :: "session list \<Rightarrow> cache_session list" where
  "cache_sessions_payload sessions = map cache_session_of sessions"

definition cache_payload_for :: "booking_row \<Rightarrow> cache_session list" where
  "cache_payload_for b = (case stored_sessions b of Some ss \<Rightarrow> cache_sessions_payload ss | None \<Rightarrow> [])"

section \<open>Lemmas\<close>

lemma renumber_simps [simp]:
  "length (renumber ss) = length ss"
  "i < length ss \<Longrightarrow> renumber ss ! i = (ss ! i)\<lparr>ss_position := int i\<rparr>"
  "renumber ss = [] \<longleftrightarrow> ss = []"
  by (auto simp: renumber_def)

lemma map_renumber: "(\<And>s p. f (s\<lparr>ss_position := p\<rparr>) = f s) \<Longrightarrow> map f (renumber ss) = map f ss"
  by (rule nth_equalityI) auto

lemma check_each_iff:
  "check_each i ss = Inr u \<longleftrightarrow>
     (\<forall>s\<in>set ss. truthy (ss_therapist_id s) \<and> ss_services s \<noteq> []
        \<and> (\<exists>a b. session_window s = (Some a, Some b) \<and> a < b))"
  by (induction ss arbitrary: i) (auto split: prod.splits option.splits)

text \<open>The window of a session with both ends.\<close>

definition win :: "session \<Rightarrow> instant \<times> instant" where
  "win s = (the (ss_appointment_start s), the (ss_appointment_end s))"

definition windowed :: "session \<Rightarrow> bool" where
  "windowed s \<longleftrightarrow> (\<exists>a b. session_window s = (Some a, Some b) \<and> a < b)"

lemma windowed_simps: "windowed s \<Longrightarrow> session_window s = (Some (fst (win s)), Some (snd (win s))) \<and> fst (win s) < snd (win s)"
  by (auto simp: windowed_def win_def session_window_def)

fun chained :: "(instant \<times> instant) list \<Rightarrow> bool" where
  "chained (v # w # ws) \<longleftrightarrow> snd v \<le> fst w \<and> chained (w # ws)"
| "chained _ \<longleftrightarrow> True"

lemma check_ordered_iff:
  assumes "\<forall>s\<in>set ss. windowed s"
  shows "check_ordered day p i ss = Inr u \<longleftrightarrow>
     (\<forall>s\<in>set ss. local_date (fst (win s)) = day \<and> local_date (snd (win s)) = day)
     \<and> chained (map win ss) \<and> (case (p, ss) of (Some e, s # _) \<Rightarrow> e \<le> fst (win s) | _ \<Rightarrow> True)"
  using assms
proof (induction ss arbitrary: p i)
  case (Cons s ss)
  then have w: "session_window s = (Some (fst (win s)), Some (snd (win s)))" by (simp add: windowed_simps)
  show ?case using Cons.IH[of "Some (snd (win s))" "Suc i"] Cons.prems
    by (cases ss) (auto simp: w split: option.splits)
qed (simp split: option.splits)

lemma chained_starts:
  "chained ws \<Longrightarrow> \<forall>w\<in>set ws. fst w < snd w \<Longrightarrow> sorted_wrt (\<lambda>v w. snd v \<le> fst w) ws"
proof (induction ws rule: chained.induct)
  case (1 v w ws)
  then have "sorted_wrt (\<lambda>v w. snd v \<le> fst w) (w # ws)" "snd v \<le> fst w" "fst w < snd w" by auto
  then show ?case by force
qed auto

definition disjoint_windows :: "instant \<times> instant \<Rightarrow> instant \<times> instant \<Rightarrow> bool" where
  "disjoint_windows v w \<longleftrightarrow> snd v \<le> fst w \<or> snd w \<le> fst v"

lemma sorted_disjoint_chained:
  "sorted (map fst ws) \<Longrightarrow> \<forall>w\<in>set ws. fst w < snd w \<Longrightarrow> sorted_wrt disjoint_windows ws \<Longrightarrow> chained ws"
  by (induction ws rule: chained.induct) (auto simp: disjoint_windows_def)

lemma disjoint_windows_sym: "disjoint_windows v w \<longleftrightarrow> disjoint_windows w v"
  by (auto simp: disjoint_windows_def)

lemma sorted_wrt_insort:
  assumes "\<And>x y. R x y \<longleftrightarrow> R y x"
  shows "sorted_wrt R (insort_key f a xs) \<longleftrightarrow> sorted_wrt R (a # xs)"
  using assms by (induction xs) (auto simp: set_insort_key)

lemma sorted_wrt_sort_key:
  assumes "\<And>x y. R x y \<longleftrightarrow> R y x"
  shows "sorted_wrt R (sort_key f xs) \<longleftrightarrow> sorted_wrt R xs"
  by (induction xs) (simp_all add: sorted_wrt_insort[OF assms])

lemma win_position [simp]: "win (s\<lparr>ss_position := p\<rparr>) = win s"
  by (simp add: win_def)

lemma windowed_position [simp]: "windowed (s\<lparr>ss_position := p\<rparr>) \<longleftrightarrow> windowed s"
  by (simp add: windowed_def session_window_def)

lemma map_win_sort: "map win (sort_sessions ss) = map win (sort_key start_key ss)"
  by (simp add: sort_sessions_def map_renumber)

lemma set_map_renumber: "(\<And>s p. f (s\<lparr>ss_position := p\<rparr>) = f s) \<Longrightarrow> f ` set (renumber ss) = f ` set ss"
  by (metis list.set_map map_renumber)

lemma sort_sessions_windowed:
  assumes "\<forall>s\<in>set ss. windowed s"
  shows "\<forall>s\<in>set (sort_sessions ss). windowed s"
    and "sorted (map (fst \<circ> win) (sort_sessions ss))"
proof -
  show "\<forall>s\<in>set (sort_sessions ss). windowed s"
    using assms set_map_renumber[of windowed "sort_key start_key ss"] by (auto simp: sort_sessions_def image_iff)
  have "start_key s = fst (win s)" if "windowed s" for s
    using windowed_simps[OF that] by (simp add: start_key_def)
  then have "map (fst \<circ> win) (sort_key start_key ss) = map start_key (sort_key start_key ss)"
    using assms by (intro map_cong) auto
  then show "sorted (map (fst \<circ> win) (sort_sessions ss))"
    by (simp add: map_win_sort flip: map_map)
qed

lemma hd_start:
  assumes "ss \<noteq> []" "\<forall>s\<in>set ss. windowed s"
  shows "(case fst (session_window (hd (sort_sessions ss))) of Some t \<Rightarrow> t | None \<Rightarrow> 0) = fst (win (hd (sort_sessions ss)))"
proof -
  have "hd (sort_sessions ss) \<in> set (sort_sessions ss)" using assms(1)
    by (metis hd_in_set length_0_conv length_sort renumber_simps(1) sort_sessions_def)
  then have "windowed (hd (sort_sessions ss))" using sort_sessions_windowed(1)[OF assms(2)] by blast
  then show ?thesis by (simp add: windowed_simps)
qed

lemma validate_Inr_iff:
  "validate_sessions n ss = Inr out \<longleftrightarrow>
     ss \<noteq> [] \<and> length ss \<le> n \<and> out = sort_sessions ss
     \<and> (\<forall>s\<in>set ss. truthy (ss_therapist_id s) \<and> ss_services s \<noteq> [] \<and> windowed s)
     \<and> (\<forall>s\<in>set out. local_date (fst (win s)) = local_date (fst (win (hd out))) \<and> local_date (snd (win s)) = local_date (fst (win (hd out))))
     \<and> chained (map win out)"
proof (cases "ss = [] \<or> n < length ss \<or> \<not> (\<forall>s\<in>set ss. truthy (ss_therapist_id s) \<and> ss_services s \<noteq> [] \<and> windowed s)")
  case True
  then show ?thesis
    by (auto simp: validate_sessions_def ebind_Inr_iff check_each_iff windowed_def)
next
  case False
  then have w: "\<forall>s\<in>set ss. windowed s" and ne: "ss \<noteq> []" by auto
  have "check_each 0 ss = Inr ()" using False by (subst check_each_iff) (auto simp: windowed_def)
  then show ?thesis
    using False check_ordered_iff[OF sort_sessions_windowed(1)[OF w]] hd_start[OF ne w]
    by (auto simp: validate_sessions_def ebind_Inr_iff Let_def split: option.splits)
qed

lemma set_win_sort: "win ` set (sort_sessions ss) = win ` set ss"
  by (metis list.set_map map_win_sort set_sort)

lemma sort_sessions_Nil [simp]: "sort_sessions ss = [] \<longleftrightarrow> ss = []"
  by (metis length_0_conv length_sort renumber_simps(1) sort_sessions_def)

lemma chained_sort_iff:
  assumes "\<forall>s\<in>set ss. windowed s"
  shows "chained (map win (sort_sessions ss)) \<longleftrightarrow> sorted_wrt disjoint_windows (map win ss)"
proof -
  have pos: "\<forall>w\<in>set (map win (sort_sessions ss)). fst w < snd w"
    using sort_sessions_windowed(1)[OF assms] by (auto dest: windowed_simps)
  have srt: "sorted (map fst (map win (sort_sessions ss)))"
    using sort_sessions_windowed(2)[OF assms] by simp
  have "chained (map win (sort_sessions ss)) \<longleftrightarrow> sorted_wrt disjoint_windows (map win (sort_sessions ss))"
    using chained_starts[OF _ pos] sorted_disjoint_chained[OF srt pos]
    by (metis (mono_tags, lifting) disjoint_windows_def sorted_wrt_mono_rel)
  also have "\<dots> \<longleftrightarrow> sorted_wrt disjoint_windows (map win ss)"
    unfolding map_win_sort sorted_wrt_map
    by (rule sorted_wrt_sort_key) (rule disjoint_windows_sym)
  finally show ?thesis .
qed

lemma same_day_sort_iff:
  assumes "ss \<noteq> []"
  shows "(\<forall>s\<in>set (sort_sessions ss). local_date (fst (win s)) = local_date (fst (win (hd (sort_sessions ss))))
            \<and> local_date (snd (win s)) = local_date (fst (win (hd (sort_sessions ss)))))
     \<longleftrightarrow> (\<exists>day. \<forall>s\<in>set ss. local_date (fst (win s)) = day \<and> local_date (snd (win s)) = day)"
    (is "?L \<longleftrightarrow> ?R")
proof -
  have "?R \<longleftrightarrow> (\<exists>day. \<forall>w\<in>win ` set ss. local_date (fst w) = day \<and> local_date (snd w) = day)" by auto
  also have "\<dots> \<longleftrightarrow> (\<exists>day. \<forall>s\<in>set (sort_sessions ss). local_date (fst (win s)) = day \<and> local_date (snd (win s)) = day)"
    by (subst set_win_sort[symmetric]) auto
  also have "\<dots> \<longleftrightarrow> ?L" using assms hd_in_set[of "sort_sessions ss"] by (metis sort_sessions_Nil)
  finally show ?thesis by blast
qed

lemma validate_result: "validate_sessions n ss = Inr out \<Longrightarrow> out = sort_sessions ss"
  unfolding validate_Inr_iff by (elim conjE)

lemma validate_sorted_iff:
  "validate_sessions n ss = Inr (sort_sessions ss) \<longleftrightarrow>
     ss \<noteq> [] \<and> length ss \<le> n
     \<and> (\<forall>s\<in>set ss. truthy (ss_therapist_id s) \<and> ss_services s \<noteq> [] \<and> windowed s)
     \<and> (\<exists>day. \<forall>s\<in>set ss. local_date (fst (win s)) = day \<and> local_date (snd (win s)) = day)
     \<and> sorted_wrt disjoint_windows (map win ss)"
proof (cases "ss \<noteq> [] \<and> (\<forall>s\<in>set ss. windowed s)")
  case True
  then have ne: "ss \<noteq> []" and w: "\<forall>s\<in>set ss. windowed s" by auto
  show ?thesis
    unfolding validate_Inr_iff same_day_sort_iff[OF ne] chained_sort_iff[OF w] by (simp only: simp_thms)
next
  case False
  then show ?thesis unfolding validate_Inr_iff by blast
qed

text \<open>
  C22. The sessions of a request are accepted exactly when there are between one and the maximum of
  them, each has a therapist, a service and a window that ends after it starts, all windows lie
  on one local date, and no two of them overlap - in whatever order they are sent.
\<close>

theorem validate_sessions_iff:
  "(\<exists>out. validate_sessions n ss = Inr out) \<longleftrightarrow>
     ss \<noteq> [] \<and> length ss \<le> n
     \<and> (\<forall>s\<in>set ss. truthy (ss_therapist_id s) \<and> ss_services s \<noteq> [] \<and> windowed s)
     \<and> (\<exists>day. \<forall>s\<in>set ss. local_date (fst (win s)) = day \<and> local_date (snd (win s)) = day)
     \<and> sorted_wrt disjoint_windows (map win ss)"
  using validate_result[of n ss] validate_sorted_iff[of n ss] by metis

definition demo_entry :: service_entry where
  "demo_entry = \<lparr>se_service_id = Some ''s'', se_name = Some ''massage'', se_service_name = Some ''massage'',
     se_service_data = Map.empty, se_arrangement_id = None, se_arrangement_data = Map.empty,
     se_base_price = SText ''10.000'', se_duration_minutes = SInt 60, se_position = 0, se_session_id = None,
     se_package_id = None, se_package_name = None, se_package_price = SNone, se_component_price = SNone\<rparr>"

definition demo_session :: "string \<Rightarrow> int \<Rightarrow> int \<Rightarrow> session" where
  "demo_session tid from_minute to_minute =
     \<lparr>ss_session_id = Some tid, ss_position = 0, ss_therapist_id = Some tid, ss_therapist_data = Map.empty,
      ss_secondary_therapist_id = None, ss_secondary_therapist_data = None, ss_arrangement_id = None,
      ss_arrangement_data = Map.empty, ss_service_name = ''massage'',
      ss_services = [demo_entry],
      ss_service_ids = [''s''], ss_addons = [], ss_extra_minutes = SInt 0,
      ss_price_for_extra_minutes = SText ''0.000'', ss_services_duration = SInt (to_minute - from_minute),
      ss_addons_duration = SInt 0, ss_total_session_duration = SInt (to_minute - from_minute),
      ss_services_price = SText ''10.000'', ss_addons_price = SText ''0.000'', ss_session_price = SText ''10.000'',
      ss_appointment_start = Some (from_minute * 60000000), ss_appointment_end = Some (to_minute * 60000000)\<rparr>"

lemma demo_session_simps [simp]:
  "ss_therapist_id (demo_session t a b) = Some t"
  "ss_secondary_therapist_id (demo_session t a b) = None"
  "ss_services (demo_session t a b) \<noteq> []"
  "win (demo_session t a b) = (a * 60000000, b * 60000000)"
  "windowed (demo_session t a b) \<longleftrightarrow> a < b"
  by (simp_all add: demo_session_def win_def windowed_def session_window_def)

lemma demo_accepted:
  "validate_sessions 3 [demo_session ''t2'' 120 180, demo_session ''t1'' 0 60]
     = Inr (sort_sessions [demo_session ''t2'' 120 180, demo_session ''t1'' 0 60])"
  unfolding validate_sorted_iff
  by (intro conjI exI[of _ 0]) (simp_all add: truthy_def disjoint_windows_def local_date_def)

theorem validate_sessions_iff_witness:
  "(\<exists>out. validate_sessions 3 [demo_session ''t2'' 120 180, demo_session ''t1'' 0 60] = Inr out)
   \<and> \<not> (\<exists>out. validate_sessions 3 [demo_session ''t2'' 30 90, demo_session ''t1'' 0 60] = Inr out)"
  unfolding validate_sessions_iff
  by (intro conjI exI[of _ 0]) (simp_all add: truthy_def disjoint_windows_def local_date_def)

text \<open>
  The accepted sessions are the requested ones, numbered from 0 and in the order of time: each
  ends before the next begins.
\<close>

theorem validated_sessions_in_order:
  assumes "validate_sessions n ss = Inr out"
  shows "mset (map (\<lambda>s. s\<lparr>ss_position := 0\<rparr>) out) = mset (map (\<lambda>s. s\<lparr>ss_position := 0\<rparr>) ss)
    \<and> map ss_position out = map int [0..<length ss]
    \<and> sorted_wrt (\<lambda>s t. snd (win s) \<le> fst (win t)) out"
proof -
  from assms have out: "out = sort_sessions ss" and w: "\<forall>s\<in>set ss. windowed s" and c: "chained (map win out)"
    unfolding validate_Inr_iff by blast+
  have "map (\<lambda>s. s\<lparr>ss_position := 0\<rparr>) out = map (\<lambda>s. s\<lparr>ss_position := 0\<rparr>) (sort_key start_key ss)"
    unfolding out sort_sessions_def by (rule map_renumber) simp
  then have "mset (map (\<lambda>s. s\<lparr>ss_position := 0\<rparr>) out) = mset (map (\<lambda>s. s\<lparr>ss_position := 0\<rparr>) ss)"
    by (metis mset_map mset_sort)
  moreover have "map ss_position out = map int [0..<length ss]"
    unfolding out sort_sessions_def by (rule nth_equalityI) auto
  moreover have "sorted_wrt (\<lambda>v w. snd v \<le> fst w) (map win out)"
    using chained_starts[OF c] sort_sessions_windowed(1)[OF w] out by (auto dest: windowed_simps)
  ultimately show ?thesis by (simp add: sorted_wrt_map)
qed

theorem validated_sessions_in_order_witness:
  "\<exists>out. validate_sessions 3 [demo_session ''t2'' 120 180, demo_session ''t1'' 0 60] = Inr out
     \<and> map ss_position out = [0, 1]"
  using validated_sessions_in_order[OF demo_accepted] demo_accepted by auto

section \<open>Prices and durations\<close>

lemma build_session_fields:
  assumes "build_session pos start tid td aid ad services addons extra um up sid sd sess new = Inr s"
  obtains t where "start = Aware t" "services \<noteq> []"
    "ss_appointment_start s = Some t"
    "ss_appointment_end s = Some (t + to_int (ss_total_session_duration s) * 60000000)"
    "ss_therapist_id s = id_text tid" "ss_secondary_therapist_id s = id_text sid" "ss_services s \<noteq> []"
    "ss_services_duration s = SInt (total_services_duration (ss_services s))"
    "ss_addons_duration s = SInt (sum_list (map ad_duration_minutes (ss_addons s)))"
    "ss_extra_minutes s = SInt (max extra 0)"
    "ss_total_session_duration s = SInt (to_int (ss_services_duration s) + to_int (ss_addons_duration s) + max extra 0)"
    "ss_addons s = normalise_addons addons"
    "ss_services_price s = SText (money (total_services_price (ss_services s)))"
    "ss_addons_price s = SText (money (sum_list (map (\<lambda>a. to_decimal (ad_price a)) (ss_addons s))))"
    "ss_price_for_extra_minutes s = SText (money (compute_extra_price (max extra 0) um up))"
    "ss_session_price s = SText (money (total_services_price (ss_services s)
        + sum_list (map (\<lambda>a. to_decimal (ad_price a)) (ss_addons s)) + compute_extra_price (max extra 0) um up))"
    "map se_base_price (ss_services s) = map se_base_price services"
proof (cases start)
  case (Aware t)
  have s: "Inr s = build_session pos (Aware t) tid td aid ad services addons extra um up sid sd sess new"
    using assms Aware by simp
  then have ne: "services \<noteq> []" by (auto simp: build_session_def)
  show ?thesis
  proof (rule that[of t])
    have "ss_services s = map2 (\<lambda>i e. e\<lparr>se_position := int i,
        se_arrangement_id := (case id_text aid of Some a \<Rightarrow> Some a | None \<Rightarrow> se_arrangement_id e)\<rparr>) [0..<length services] services"
      using s ne by (simp add: build_session_def Let_def)
    then show "map se_base_price (ss_services s) = map se_base_price services"
      by (auto intro!: nth_equalityI)
  qed (use s ne Aware in \<open>simp_all add: build_session_def Let_def\<close>)
qed (use assms in \<open>simp add: build_session_def\<close>)

lemma compute_extra_price_exact:
  assumes "0 < extra" "0 < to_decimal up" "to_int um \<noteq> 0"
  shows "compute_extra_price extra um up = dec_ctx (dec_ctx (of_int extra / of_int (to_int um)) * to_decimal up)"
  using assms by (simp add: compute_extra_price_def Let_def)

lemma dec_ctx_two_steps:
  assumes "0 \<le> q" "0 \<le> r"
  shows "\<bar>dec_ctx (dec_ctx q * r) - q * r\<bar> \<le> 3 * (q * r) / 10 ^ 27"
proof -
  have "\<bar>dec_ctx q * r - q * r\<bar> = \<bar>dec_ctx q - q\<bar> * r" 
    using assms abs_mult[of "dec_ctx q - q" r] by (simp add: left_diff_distrib)
  also have "\<dots> \<le> \<bar>q\<bar> / 10 ^ 27 * r" by (rule mult_right_mono[OF dec_ctx_error assms(2)])
  finally have a: "\<bar>dec_ctx q * r - q * r\<bar> \<le> q * r / 10 ^ 27" using assms by simp
  have b: "\<bar>dec_ctx (dec_ctx q * r) - dec_ctx q * r\<bar> \<le> \<bar>dec_ctx q * r\<bar> / 10 ^ 27" by (rule dec_ctx_error)
  have "0 \<le> q * r" using assms by simp
  moreover have "\<bar>dec_ctx q * r\<bar> \<le> 2 * (q * r)"
  proof -
    have "q * r / 10 ^ 27 \<le> q * r" using \<open>0 \<le> q * r\<close> by simp
    with a \<open>0 \<le> q * r\<close> show ?thesis unfolding abs_le_iff by (intro conjI; linarith)
  qed
  then have "\<bar>dec_ctx q * r\<bar> / 10 ^ 27 \<le> 2 * (q * r) / 10 ^ 27" by (simp add: divide_right_mono)
  moreover have "3 * (q * r) / 10 ^ 27 = q * r / 10 ^ 27 + 2 * (q * r) / 10 ^ 27" by (simp flip: add_divide_distrib)
  ultimately show ?thesis using a b by linarith
qed

text \<open>
  The price charged for extra minutes is the exact share of the service's own rate to within
  half a fils and the rounding to 28 digits; nothing is charged without minutes or rate.
\<close>

theorem extra_price_close:
  assumes "0 < to_int um"
  shows "\<bar>to_decimal (SText (money (compute_extra_price extra um up)))
      - of_int (max extra 0) / of_int (to_int um) * max (to_decimal up) 0\<bar>
    \<le> 1 / 2000 + 3 * (of_int (max extra 0) / of_int (to_int um) * max (to_decimal up) 0) / 10 ^ 27"
proof -
  let ?q = "of_int (max extra 0) / of_int (to_int um) :: rat" and ?r = "max (to_decimal up) 0"
  have q: "0 \<le> ?q" using assms by simp
  have "\<bar>compute_extra_price extra um up - ?q * ?r\<bar> \<le> 3 * (?q * ?r) / 10 ^ 27"
  proof (cases "0 < extra \<and> 0 < to_decimal up")
    case True
    then have "compute_extra_price extra um up = dec_ctx (dec_ctx ?q * ?r)"
      using assms compute_extra_price_exact[of extra up um] by simp
    then show ?thesis using dec_ctx_two_steps[OF q, of ?r] by simp
  next
    case False
    then have "compute_extra_price extra um up = 0" "?q * ?r = 0" by (auto simp: compute_extra_price_def Let_def)
    then show ?thesis by (simp only: abs_zero diff_0_right mult_zero_right div_0 order_refl)
  qed
  moreover have "\<bar>quantize3 (compute_extra_price extra um up) - compute_extra_price extra um up\<bar> \<le> 1 / 2000"
    by (rule quantize3_error)
  ultimately show ?thesis unfolding to_decimal_money by linarith
qed

lemma extra_price_nonneg: "0 \<le> to_int um \<Longrightarrow> 0 \<le> compute_extra_price extra um up"
  by (auto simp: compute_extra_price_def Let_def intro!: dec_ctx_nonneg mult_nonneg_nonneg divide_nonneg_nonneg)

definition built :: "session \<Rightarrow> bool" where
  "built s \<longleftrightarrow> (\<exists>pos start tid td aid ad services addons extra um up sid sd sess new.
     build_session pos start tid td aid ad services addons extra um up sid sd sess new = Inr s
     \<and> (\<forall>e\<in>set services. fils (to_decimal (se_base_price e))))"

lemma fils_addons: "fils (sum_list (map (\<lambda>a. to_decimal (ad_price a)) (normalise_addons as)))"
  by (rule fils_sum_list) (auto simp: normalise_addons_def)

lemma round_shift: "\<bar>quantize3 (f + x) - (f + quantize3 x)\<bar> \<le> 1 / 1000"
  if "fils f"
  using quantize3_error[of "f + x"] quantize3_error[of x] unfolding abs_le_iff by (intro conjI; linarith)

text \<open>The amounts and minutes of a session that was built agree with each other.\<close>

lemma built_session_sums:
  assumes "built s"
  shows "to_int (ss_total_session_duration s) = to_int (ss_services_duration s) + to_int (ss_addons_duration s) + to_int (ss_extra_minutes s)"
    and "\<bar>to_decimal (ss_session_price s) - (to_decimal (ss_services_price s) + to_decimal (ss_addons_price s) + to_decimal (ss_price_for_extra_minutes s))\<bar> \<le> 1 / 1000"
    and "ss_appointment_end s = map_option (\<lambda>t. t + to_int (ss_total_session_duration s) * 60000000) (ss_appointment_start s)"
proof -
  from assms obtain pos start tid td aid ad services addons extra um up sid sd sess new where
    b: "build_session pos start tid td aid ad services addons extra um up sid sd sess new = Inr s"
    and f: "\<forall>e\<in>set services. fils (to_decimal (se_base_price e))" unfolding built_def by blast
  from build_session_fields[OF b] obtain t where f1: "ss_appointment_start s = Some t"
    "ss_appointment_end s = Some (t + to_int (ss_total_session_duration s) * 60000000)"
    "ss_extra_minutes s = SInt (max extra 0)"
    "ss_total_session_duration s = SInt (to_int (ss_services_duration s) + to_int (ss_addons_duration s) + max extra 0)"
    and f2: "ss_addons s = normalise_addons addons"
    "ss_services_price s = SText (money (total_services_price (ss_services s)))"
    "ss_addons_price s = SText (money (sum_list (map (\<lambda>a. to_decimal (ad_price a)) (ss_addons s))))"
    "ss_price_for_extra_minutes s = SText (money (compute_extra_price (max extra 0) um up))"
    "ss_session_price s = SText (money (total_services_price (ss_services s)
        + sum_list (map (\<lambda>a. to_decimal (ad_price a)) (ss_addons s)) + compute_extra_price (max extra 0) um up))"
    and f3: "map se_base_price (ss_services s) = map se_base_price services" by metis
  show "to_int (ss_total_session_duration s) = to_int (ss_services_duration s) + to_int (ss_addons_duration s) + to_int (ss_extra_minutes s)"
    by (simp add: f1)
  show "ss_appointment_end s = map_option (\<lambda>t. t + to_int (ss_total_session_duration s) * 60000000) (ss_appointment_start s)"
    by (simp add: f1)
  have "total_services_price (ss_services s) = sum_list (map to_decimal (map se_base_price (ss_services s)))"
    by (simp add: total_services_price_def comp_def)
  also have "\<dots> = sum_list (map (\<lambda>e. to_decimal (se_base_price e)) services)" unfolding f3 by (simp add: comp_def)
  finally have sp: "fils (total_services_price (ss_services s))" using f by (auto intro: fils_sum_list)
  have ap: "fils (sum_list (map (\<lambda>a. to_decimal (ad_price a)) (ss_addons s)))" unfolding f2(1) by (rule fils_addons)
  show "\<bar>to_decimal (ss_session_price s) - (to_decimal (ss_services_price s) + to_decimal (ss_addons_price s) + to_decimal (ss_price_for_extra_minutes s))\<bar> \<le> 1 / 1000"
    using round_shift[OF fils_closed(2)[OF sp ap], of "compute_extra_price (max extra 0) um up"]
    by (simp add: f2(2-) quantize3_exact[OF sp] quantize3_exact[OF ap])
qed

text \<open>
  C23. The totals of a booking are the sums of its sessions: the minutes exactly, and the price the
  sum of the service, add-on and extra-time prices up to one fils for each session (a session
  is rounded as a whole, the extra time of it again by itself).
\<close>

theorem booking_totals_add_up:
  assumes "\<forall>s\<in>set ss. built s"
  shows "bt_total_duration (booking_totals ss)
      = bt_services_duration (booking_totals ss) + bt_addons_duration (booking_totals ss) + bt_extra_minutes (booking_totals ss)
    \<and> \<bar>bt_session_price_total (booking_totals ss)
      - (bt_services_price (booking_totals ss) + bt_addons_price (booking_totals ss) + bt_extra_price (booking_totals ss))\<bar>
      \<le> of_nat (length ss) / 1000"
  using assms
proof (induction ss)
  case (Cons s ss)
  then have "built s" by simp
  note s = built_session_sums(1,2)[OF this]
  from Cons have IH: "bt_total_duration (booking_totals ss)
      = bt_services_duration (booking_totals ss) + bt_addons_duration (booking_totals ss) + bt_extra_minutes (booking_totals ss)"
    "\<bar>bt_session_price_total (booking_totals ss)
      - (bt_services_price (booking_totals ss) + bt_addons_price (booking_totals ss) + bt_extra_price (booking_totals ss))\<bar>
      \<le> of_nat (length ss) / 1000" by simp_all
  have len: "of_nat (length (s # ss)) / 1000 = (1 / 1000 + of_nat (length ss) / 1000 :: rat)"
    by (simp add: add_divide_distrib)
  show ?case using s IH unfolding len unfolding abs_le_iff
    by (intro conjI) (simp_all only: booking_totals_def booking_totals_rec.simps list.map sum_list.Cons, linarith+)
qed (simp add: booking_totals_def)

definition demo_build :: "session_error + session" where
  "demo_build = build_session 0 (Aware 0) (Some ''t1'') None None None
     [build_service_entry (Some ''s'') Map.empty None Map.empty (SText (money 10)) (SInt 60) 0]
     [[''name'' \<mapsto> SText ''oil'', ''price'' \<mapsto> SText (money 2), ''duration_minutes'' \<mapsto> SInt 15]] 10 (SInt 30) (SText (money 5))
     None None (Some ''a'') ''n''"

lemma demo_built:
  obtains s where "demo_build = Inr s" "built s"
proof -
  obtain s where s: "demo_build = Inr s" unfolding demo_build_def build_session_def by (simp add: Let_def)
  have "fils (to_decimal (se_base_price e))"
    if "e \<in> set [build_service_entry (Some ''s'') Map.empty None Map.empty (SText (money 10)) (SInt 60) 0]" for e
    using that by (auto simp: build_service_entry_def Let_def)
  with s have "built s" unfolding built_def demo_build_def by blast
  with s show ?thesis by (rule that)
qed

theorem extra_price_close_witness:
  "\<bar>to_decimal (SText (money (compute_extra_price 10 (SInt 30) (SText (money 5))))) - of_int (max 10 0) / of_int (to_int (SInt 30)) * max (to_decimal (SText (money 5))) 0\<bar>
    \<le> 1 / 2000 + 3 * (of_int (max 10 0) / of_int (to_int (SInt 30)) * max (to_decimal (SText (money 5))) 0) / 10 ^ 27"
  by (rule extra_price_close) simp

theorem booking_totals_add_up_witness:
  "\<exists>s. demo_build = Inr s \<and> bt_total_duration (booking_totals [s])
      = bt_services_duration (booking_totals [s]) + bt_addons_duration (booking_totals [s]) + bt_extra_minutes (booking_totals [s])"
proof -
  obtain s where s: "demo_build = Inr s" "built s" by (rule demo_built)
  then have "\<forall>s\<in>set [s]. built s" by simp
  from booking_totals_add_up[OF this] s(1) show ?thesis by blast
qed

section \<open>Busy windows\<close>

text \<open>
  A booking whose columns mirror its sessions: the span of the booking covers every session.
  The overlap queries of the repository depend on it.
\<close>

definition mirrored :: "booking_row \<Rightarrow> bool" where
  "mirrored b \<longleftrightarrow> (\<forall>s\<in>set (br_sessions b). windowed s
     \<and> (\<exists>a z. br_appointment_start b = Some a \<and> br_appointment_end b = Some z \<and> a \<le> fst (win s) \<and> snd (win s) \<le> z))"

lemma busy_windows_of_sessions:
  assumes "\<forall>s\<in>set (br_sessions b). windowed s" "br_sessions b \<noteq> []"
  shows "therapist_busy_windows b t =
    (case id_text t of None \<Rightarrow> [] | Some tid \<Rightarrow> map win (filter (serves tid) (br_sessions b)))"
proof -
  have "List.map_filter (\<lambda>s. if serves tid s then
          (case session_window s of (Some start, Some stop) \<Rightarrow> Some (start, stop) | _ \<Rightarrow> None) else None) ss
      = map win (filter (serves tid) ss)" if "\<forall>s\<in>set ss. windowed s" for tid ss
    using that by (induction ss) (auto simp: List.map_filter_simps windowed_simps)
  with assms show ?thesis by (simp add: therapist_busy_windows_def split: option.splits)
qed

lemma sorted_wrt_filter_map:
  "sorted_wrt (\<lambda>s t. P (f s) (f t)) xs \<Longrightarrow> sorted_wrt P (map f (filter Q xs))"
  by (induction xs) auto

text \<open>
  A booking that stores validated sessions with the columns mirrored from them blocks each of
  its therapists exactly for the sessions he or she serves: these windows lie inside the span of
  the booking and follow each other without overlap.
\<close>

theorem mirrored_booking_windows:
  assumes "validate_sessions n ss = Inr out" "legacy_mirror out = Some m"
    and "br_sessions b = out" "br_appointment_start b = sm_appointment_start m"
    and "br_appointment_end b = sm_appointment_end m"
  shows "mirrored b
    \<and> therapist_busy_windows b t = (case id_text t of None \<Rightarrow> [] | Some tid \<Rightarrow> map win (filter (serves tid) out))
    \<and> sorted_wrt (\<lambda>v w. snd v \<le> fst w) (therapist_busy_windows b t)"
proof -
  from assms(1) have w: "\<forall>s\<in>set out. windowed s" and c: "chained (map win out)"
    using sort_sessions_windowed(1)[of ss] validate_result unfolding validate_Inr_iff by blast+
  have srt: "sorted_wrt (\<lambda>s t. snd (win s) \<le> fst (win t)) out"
    using chained_starts[OF c] w by (auto dest: windowed_simps simp: sorted_wrt_map)
  from assms(2) have ne: "out \<noteq> []" by (auto simp: legacy_mirror_def split: if_splits)
  then have m: "sm_appointment_start m = Some (fst (win (hd out)))" "sm_appointment_end m = Some (snd (win (List.last out)))"
    using assms(2) ne windowed_simps[of "hd out"] windowed_simps[of "List.last out"] w hd_in_set[OF ne] last_in_set[OF ne]
    by (auto simp: legacy_mirror_def Let_def)
  have "fst (win (hd out)) \<le> fst (win s) \<and> snd (win s) \<le> snd (win (List.last out))" if s: "s \<in> set out" for s
  proof -
    have lt: "fst (win s) < snd (win s)" if "s \<in> set out" for s using w that by (simp add: windowed_simps)
    obtain xs ys where split: "out = xs @ s # ys" using s by (metis split_list)
    then have "fst (win (hd out)) \<le> fst (win s)"
      using srt lt[of "hd xs"] by (cases xs) auto
    moreover have "snd (win s) \<le> snd (win (List.last out))"
      using split srt lt[of "List.last ys"] by (cases ys rule: rev_cases) (auto simp: sorted_wrt_append)
    ultimately show ?thesis ..
  qed
  then have "mirrored b" using w by (simp add: mirrored_def assms(3-5) m)
  moreover have tw: "therapist_busy_windows b t = (case id_text t of None \<Rightarrow> [] | Some tid \<Rightarrow> map win (filter (serves tid) out))"
    using busy_windows_of_sessions[of b t] w ne unfolding assms(3) by blast
  moreover have "sorted_wrt (\<lambda>v w. snd v \<le> fst w) (therapist_busy_windows b t)"
    unfolding tw using sorted_wrt_filter_map[where P = "\<lambda>v w. snd v \<le> fst w" and f = win, OF srt] by (simp split: option.split)
  ultimately show ?thesis by blast
qed

definition demo_booking :: "string \<Rightarrow> session list \<Rightarrow> instant option \<Rightarrow> instant option \<Rightarrow> booking_row" where
  "demo_booking i ss a z =
     \<lparr>br_id = Some i, br_status = ''confirmed'', br_payment_status = ''success'',
      br_booking_type = ''branch_service'', br_loyalty_data = False, br_booking_number = None,
      br_customer_id = ''c'', br_idempotency_key = None, br_internal_notes = None, br_payment_url = None,
      br_total_amount = 10, br_discount = 0, br_services = [], br_sessions = ss, br_service_id = None,
      br_service_data = None, br_service_name = None, br_arrangement_id = None, br_arrangement_data = None,
      br_therapist_id = Some ''t1'', br_therapist_data = None, br_secondary_therapist_id = None,
      br_secondary_therapist_data = None, br_addons = [], br_appointment_start = a, br_appointment_end = z,
      br_duration_minutes = SInt 60, br_extra_minutes = SInt 0, br_total_duration = SInt 60,
      br_addons_duration = SInt 0, br_base_price = SNone, br_price_for_extra_minutes = SNone,
      br_addon_price = SNone\<rparr>"

lemma demo_booking_simps [simp]:
  "br_id (demo_booking i ss a z) = Some i" "br_status (demo_booking i ss a z) = ''confirmed''"
  "br_sessions (demo_booking i ss a z) = ss"
  "br_appointment_start (demo_booking i ss a z) = a" "br_appointment_end (demo_booking i ss a z) = z"
  "br_therapist_id (demo_booking i ss a z) = Some ''t1''" "br_secondary_therapist_id (demo_booking i ss a z) = None"
  by (simp_all add: demo_booking_def)

lemma demo_sorted:
  "sort_sessions [demo_session ''t2'' 120 180, demo_session ''t1'' 0 60]
     = [demo_session ''t1'' 0 60, (demo_session ''t2'' 120 180)\<lparr>ss_position := 1\<rparr>]"
  by (simp add: sort_sessions_def renumber_def start_key_def session_window_def demo_session_def)

theorem mirrored_booking_windows_witness:
  "\<exists>b. mirrored b \<and> therapist_busy_windows b (Some ''t2'') = [(7200000000, 10800000000)]"
proof -
  let ?out = "[demo_session ''t1'' 0 60, (demo_session ''t2'' 120 180)\<lparr>ss_position := 1\<rparr>]"
  obtain m where m: "legacy_mirror ?out = Some m" by (simp add: legacy_mirror_def Let_def)
  let ?b = "demo_booking ''b'' ?out (sm_appointment_start m) (sm_appointment_end m)"
  from mirrored_booking_windows[OF demo_accepted[unfolded demo_sorted] m, of ?b "Some ''t2''"]
  have "mirrored ?b" "therapist_busy_windows ?b (Some ''t2'') = [(7200000000, 10800000000)]"
    by (simp_all add: serves_def id_text_def strip_def is_space_def nonempty_def)
  then show ?thesis by blast
qed

end
