(* ===== verification/Booking_Overlap.thy ===== *)
theory Booking_Overlap
  imports Booking_Sessions
begin

text \<open>
  Who is busy when: the availability queries and the temporary holds of
  \<open>app/booking/infrastructure/repository.py\<close> over the tables of bookings and holds.

  The queries first select candidates in SQL - by the span of the booking and by a coarse test
  that the booking mentions the therapist, in its columns or in the text of its \<open>sessions\<close>
  column - and then refine them session by session in Python. How PostgreSQL renders a JSONB
  column as text is not code of the repository: the test on the text is the argument
  \<open>mentions\<close>, of which the lemmas need only that it finds the therapists of the sessions. A
  query returns its rows in table order unless it orders them.
\<close>

record temporary_hold =
  th_booking_id :: string
  th_therapist_id :: string
  th_arrangement_id :: string
  th_appointment_start :: instant
  th_appointment_end :: instant
  th_expires_at :: instant

section \<open>Queries\<close>

definition therapist_involved :: "(session list \<Rightarrow> string \<Rightarrow> bool) \<Rightarrow> string list \<Rightarrow> booking_row \<Rightarrow> bool" where
  "therapist_involved mentions therapist_ids b \<longleftrightarrow>
     br_therapist_id b \<in> Some ` set therapist_ids
     \<or> br_secondary_therapist_id b \<in> Some ` set therapist_ids
     \<or> list_ex (mentions (br_sessions b)) therapist_ids"

definition overlaps_per_session :: "booking_row \<Rightarrow> string \<Rightarrow> instant \<Rightarrow> instant \<Rightarrow> bool" where
  "overlaps_per_session b therapist_id start stop \<longleftrightarrow>
     list_ex (\<lambda>(w_start, w_end). w_start < stop \<and> start < w_end) (therapist_busy_windows b (Some therapist_id))"

text \<open>The comparisons of a NULL column are not true.\<close>

definition span_overlaps :: "booking_row \<Rightarrow> instant \<Rightarrow> instant \<Rightarrow> bool" where
  "span_overlaps b start stop \<longleftrightarrow>
     (case (br_appointment_start b, br_appointment_end b) of
        (Some a, Some z) \<Rightarrow> a < stop \<and> start < z
      | _ \<Rightarrow> False)"

definition blocking :: "booking_row \<Rightarrow> bool" where
  "blocking b \<longleftrightarrow> br_status b \<notin> set NON_BLOCKING_BOOKING_STATUSES"

definition candidate ::
  "(session list \<Rightarrow> string \<Rightarrow> bool) \<Rightarrow> string list \<Rightarrow> instant \<Rightarrow> instant \<Rightarrow> booking_row \<Rightarrow> bool" where
  "candidate mentions therapist_ids start stop b \<longleftrightarrow>
     therapist_involved mentions therapist_ids b \<and> span_overlaps b start stop \<and> blocking b"

definition by_start :: "booking_row list \<Rightarrow> booking_row list" where
  "by_start bs = sort_key (\<lambda>b. the (br_appointment_start b)) bs"

definition get_active_bookings_for_therapist_in_range ::
  "(session list \<Rightarrow> string \<Rightarrow> bool) \<Rightarrow> booking_row list \<Rightarrow> string \<Rightarrow> instant \<Rightarrow> instant \<Rightarrow> booking_row list" where
  "get_active_bookings_for_therapist_in_range mentions bookings therapist_id start stop =
     filter (\<lambda>b. overlaps_per_session b therapist_id start stop)
       (by_start (filter (candidate mentions [therapist_id] start stop) bookings))"

definition get_active_bookings_for_therapists_in_range ::
  "(session list \<Rightarrow> string \<Rightarrow> bool) \<Rightarrow> booking_row list \<Rightarrow> string list \<Rightarrow> instant \<Rightarrow> instant \<Rightarrow> booking_row list" where
  "get_active_bookings_for_therapists_in_range mentions bookings therapist_ids start stop =
     (if therapist_ids = [] then []
      else by_start (filter (candidate mentions therapist_ids start stop) bookings))"

definition find_therapist_overlap ::
  "(session list \<Rightarrow> string \<Rightarrow> bool) \<Rightarrow> booking_row list \<Rightarrow> string \<Rightarrow> instant \<Rightarrow> instant \<Rightarrow> string option
   \<Rightarrow> booking_row option" where
  "find_therapist_overlap mentions bookings therapist_id start stop exclude_booking_id =
     find (\<lambda>b. overlaps_per_session b therapist_id start stop)
       (filter (\<lambda>b. candidate mentions [therapist_id] start stop b
                    \<and> (exclude_booking_id = None \<or> br_id b \<noteq> exclude_booking_id)) bookings)"

definition check_therapist_overlap ::
  "(session list \<Rightarrow> string \<Rightarrow> bool) \<Rightarrow> booking_row list \<Rightarrow> string \<Rightarrow> instant \<Rightarrow> instant \<Rightarrow> string option \<Rightarrow> bool" where
  "check_therapist_overlap mentions bookings therapist_id start stop exclude_booking_id \<longleftrightarrow>
     find_therapist_overlap mentions bookings therapist_id start stop exclude_booking_id \<noteq> None"

definition hold_active :: "instant \<Rightarrow> instant \<Rightarrow> instant \<Rightarrow> temporary_hold \<Rightarrow> bool" where
  "hold_active now start stop h \<longleftrightarrow>
     th_appointment_start h < stop \<and> start < th_appointment_end h \<and> now < th_expires_at h"

text \<open>The set of busy therapists of a list; \<open>set\<close> values are duplicate-free lists.\<close>

definition get_busy_therapist_ids_in_range ::
  "(session list \<Rightarrow> string \<Rightarrow> bool) \<Rightarrow> booking_row list \<Rightarrow> temporary_hold list \<Rightarrow> instant \<Rightarrow> string list
   \<Rightarrow> instant \<Rightarrow> instant \<Rightarrow> string set" where
  "get_busy_therapist_ids_in_range mentions bookings holds now therapist_ids start stop =
     (if therapist_ids = [] then {}
      else
        {t \<in> set therapist_ids. list_ex (\<lambda>b. overlaps_per_session b t start stop)
            (filter (candidate mentions therapist_ids start stop) bookings)}
        \<union> set (map th_therapist_id (filter (\<lambda>h. th_therapist_id h \<in> set therapist_ids \<and> hold_active now start stop h) holds)))"

section \<open>Temporary holds\<close>

definition create_hold :: "temporary_hold \<Rightarrow> temporary_hold list \<Rightarrow> temporary_hold list" where
  "create_hold hold holds = holds @ [hold]"

definition delete_hold :: "string \<Rightarrow> temporary_hold list \<Rightarrow> temporary_hold list" where
  "delete_hold booking_id holds = filter (\<lambda>h. th_booking_id h \<noteq> booking_id) holds"

definition get_active_holds_for_therapist_in_range ::
  "temporary_hold list \<Rightarrow> instant \<Rightarrow> string \<Rightarrow> instant \<Rightarrow> instant \<Rightarrow> temporary_hold list" where
  "get_active_holds_for_therapist_in_range holds now therapist_id start stop =
     filter (\<lambda>h. th_therapist_id h = therapist_id \<and> hold_active now start stop h) holds"

definition cleanup_expired_holds :: "instant \<Rightarrow> temporary_hold list \<Rightarrow> temporary_hold list \<times> int" where
  "cleanup_expired_holds now holds =
     (filter (\<lambda>h. now < th_expires_at h) holds, int (length (filter (\<lambda>h. th_expires_at h \<le> now) holds)))"

section \<open>The queries are exact\<close>

text \<open>
  What the coarse tests rely on: a booking has a span that covers its sessions (\<open>mirrored\<close>), its
  therapist ids are canonical, and the text of the sessions mentions their therapists.
\<close>

definition row_ok :: "(session list \<Rightarrow> string \<Rightarrow> bool) \<Rightarrow> booking_row \<Rightarrow> bool" where
  "row_ok mentions b \<longleftrightarrow> mirrored b
     \<and> (\<exists>a z. br_appointment_start b = Some a \<and> br_appointment_end b = Some z \<and> a < z)
     \<and> id_text (br_therapist_id b) = br_therapist_id b
     \<and> id_text (br_secondary_therapist_id b) = br_secondary_therapist_id b
     \<and> (\<forall>s\<in>set (br_sessions b). id_text (ss_therapist_id s) = ss_therapist_id s
          \<and> id_text (ss_secondary_therapist_id s) = ss_secondary_therapist_id s
          \<and> (\<forall>t. serves t s \<longrightarrow> mentions (br_sessions b) t))"

text \<open>A therapist is taken at a time: some active booking other than the excluded one keeps him busy.\<close>

definition taken :: "booking_row list \<Rightarrow> string option \<Rightarrow> string \<Rightarrow> instant \<Rightarrow> instant \<Rightarrow> bool" where
  "taken bookings excl t start stop \<longleftrightarrow>
     (\<exists>b\<in>set bookings. blocking b \<and> (excl = None \<or> br_id b \<noteq> excl)
        \<and> (\<exists>w\<in>set (therapist_busy_windows b (Some t)). fst w < stop \<and> start < snd w))"

definition canonical :: "string \<Rightarrow> bool" where
  "canonical t \<longleftrightarrow> id_text (Some t) = Some t"

lemma overlaps_per_session_iff:
  "overlaps_per_session b t start stop \<longleftrightarrow>
     (\<exists>w\<in>set (therapist_busy_windows b (Some t)). fst w < stop \<and> start < snd w)"
  by (simp add: overlaps_per_session_def list_ex_iff case_prod_beta)

lemma windows_of:
  assumes "mirrored b" "canonical t"
  shows "therapist_busy_windows b (Some t) =
    (if br_sessions b \<noteq> [] then map win (filter (serves t) (br_sessions b))
     else (case (br_appointment_start b, br_appointment_end b) of
             (Some a, Some z) \<Rightarrow>
               if Some t \<in> {id_text (br_therapist_id b), id_text (br_secondary_therapist_id b)} then [(a, z)] else []
           | _ \<Rightarrow> []))"
proof (cases "br_sessions b = []")
  case True
  then show ?thesis using assms(2) by (simp add: therapist_busy_windows_def canonical_def)
next
  case False
  then show ?thesis using assms busy_windows_of_sessions[of b "Some t"]
    by (simp add: mirrored_def canonical_def)
qed

lemma mirrored_covers:
  assumes "mirrored b" "canonical t" "br_appointment_end b = Some z"
    and "v \<in> set (therapist_busy_windows b (Some t))"
  shows "snd v \<le> z"
  using assms(3,4) assms(1)[unfolded mirrored_def] unfolding windows_of[OF assms(1,2)]
  by (auto split: if_splits option.splits)

lemma overlap_is_candidate:
  assumes "row_ok mentions b" "canonical t" "blocking b" "t \<in> set ts" "overlaps_per_session b t start stop"
  shows "candidate mentions ts start stop b"
proof -
  have m: "mirrored b" using assms(1) by (simp add: row_ok_def)
  obtain w where w: "w \<in> set (therapist_busy_windows b (Some t))" "fst w < stop" "start < snd w"
    using assms(5) by (auto simp: overlaps_per_session_iff)
  show ?thesis
  proof (cases "br_sessions b = []")
    case True
    then obtain a z where az: "br_appointment_start b = Some a" "br_appointment_end b = Some z" "w = (a, z)"
      "Some t \<in> {br_therapist_id b, br_secondary_therapist_id b}"
      using w(1) assms(1) windows_of[OF m assms(2)] by (auto simp: row_ok_def split: option.splits if_splits)
    then have "br_therapist_id b \<in> Some ` set ts \<or> br_secondary_therapist_id b \<in> Some ` set ts"
      using assms(4) az(4) by (metis imageI insertE singletonD)
    then show ?thesis using az(1-3) w assms(3)
      unfolding candidate_def span_overlaps_def therapist_involved_def by auto
  next
    case False
    then obtain s where s: "s \<in> set (br_sessions b)" "serves t s" "w = win s"
      using w(1) windows_of[OF m assms(2)] by auto
    then have "mentions (br_sessions b) t" using assms(1) by (auto simp: row_ok_def)
    moreover from s(1) m obtain a z where "br_appointment_start b = Some a" "br_appointment_end b = Some z"
      "a \<le> fst w" "snd w \<le> z" unfolding mirrored_def s(3) by blast
    ultimately show ?thesis using w assms(3,4)
      by (auto simp: candidate_def span_overlaps_def therapist_involved_def list_ex_iff)
  qed
qed

lemma check_iff_taken:
  assumes "\<forall>b\<in>set bookings. row_ok mentions b" "canonical t"
  shows "check_therapist_overlap mentions bookings t start stop excl \<longleftrightarrow> taken bookings excl t start stop"
proof -
  have "check_therapist_overlap mentions bookings t start stop excl \<longleftrightarrow>
      (\<exists>b\<in>set bookings. candidate mentions [t] start stop b \<and> (excl = None \<or> br_id b \<noteq> excl) \<and> overlaps_per_session b t start stop)"
    unfolding check_therapist_overlap_def find_therapist_overlap_def by (auto simp: find_None_iff)
  also have "\<dots> \<longleftrightarrow> (\<exists>b\<in>set bookings. blocking b \<and> (excl = None \<or> br_id b \<noteq> excl) \<and> overlaps_per_session b t start stop)"
    using overlap_is_candidate[OF _ assms(2), of mentions _ "[t]" start stop] assms(1)
    by (intro bex_cong refl) (auto simp: candidate_def)
  finally show ?thesis by (simp add: taken_def overlaps_per_session_iff)
qed

text \<open>
  The contract of the double-booking check, on which the use cases rely: on tables of well
  formed rows, a therapist it does not report is free at the time.
\<close>

locale conflict_check =
  fixes well_formed :: "booking_row \<Rightarrow> bool"
    and conflict :: "booking_row list \<Rightarrow> string \<Rightarrow> instant \<Rightarrow> instant \<Rightarrow> string option \<Rightarrow> bool"
  assumes no_conflict: "\<forall>b\<in>set bookings. well_formed b \<Longrightarrow> canonical t
      \<Longrightarrow> \<not> conflict bookings t start stop excl \<Longrightarrow> \<not> taken bookings excl t start stop"
begin

lemma free_window:
  assumes "\<forall>b\<in>set bookings. well_formed b" "canonical t" "\<not> conflict bookings t start stop excl"
    and "b \<in> set bookings" "blocking b" "excl = None \<or> br_id b \<noteq> excl"
    and "w \<in> set (therapist_busy_windows b (Some t))"
  shows "disjoint_windows (start, stop) w"
proof -
  have "\<not> (fst w < stop \<and> start < snd w)" using no_conflict[OF assms(1-3)] assms(4-7) unfolding taken_def by blast
  then show ?thesis by (auto simp: disjoint_windows_def)
qed

end

interpretation overlap_query: conflict_check "row_ok mentions" "check_therapist_overlap mentions" for mentions
  by unfold_locales (simp add: check_iff_taken)

text \<open>
  C21. The double-booking check is exact: on a table of mirrored bookings it reports a conflict
  exactly when some other active booking keeps the therapist busy at the time, although it
  selects its candidates by the span of the whole booking and by a text search.
\<close>

theorem check_therapist_overlap_exact:
  assumes "\<forall>b\<in>set bookings. row_ok mentions b" "canonical t"
  shows "check_therapist_overlap mentions bookings t start stop excl \<longleftrightarrow> taken bookings excl t start stop"
  by (rule check_iff_taken[OF assms])

definition has_text :: "session list \<Rightarrow> string \<Rightarrow> bool" where
  "has_text ss t \<longleftrightarrow> list_ex (\<lambda>s. serves t s) ss"

lemma demo_row_ok:
  "row_ok has_text (demo_booking ''b1'' [demo_session ''t1'' 0 60, demo_session ''t2'' 120 180] (Some 0) (Some 10800000000))"
  by (auto simp: row_ok_def mirrored_def has_text_def list_ex_iff id_text_def strip_def is_space_def nonempty_def)

lemma demo_canonical: "canonical ''t1''" "canonical ''t2''"
  by (simp_all add: canonical_def id_text_def strip_def is_space_def nonempty_def)

theorem check_therapist_overlap_exact_witness:
  "check_therapist_overlap has_text [demo_booking ''b1'' [demo_session ''t1'' 0 60, demo_session ''t2'' 120 180] (Some 0) (Some 10800000000)]
       ''t2'' 7300000000 7400000000 None
   \<and> \<not> check_therapist_overlap has_text [demo_booking ''b1'' [demo_session ''t1'' 0 60, demo_session ''t2'' 120 180] (Some 0) (Some 10800000000)]
       ''t2'' 0 3600000000 None"
proof -
  let ?b = "demo_booking ''b1'' [demo_session ''t1'' 0 60, demo_session ''t2'' 120 180] (Some 0) (Some 10800000000)"
  have ok: "\<forall>b\<in>set [?b]. row_ok has_text b" using demo_row_ok by simp
  then have w: "therapist_busy_windows ?b (Some ''t2'') = [(7200000000, 10800000000)]"
    by (subst windows_of) (auto simp: row_ok_def demo_canonical serves_def id_text_def strip_def is_space_def nonempty_def)
  show ?thesis
    unfolding check_therapist_overlap_exact[OF ok demo_canonical(2)] taken_def
    by (simp add: w blocking_def NON_BLOCKING_BOOKING_STATUSES_def)
qed

text \<open>
  The batch query for busy therapists returns exactly those of the list who are taken by an
  active booking or held by a hold that has not expired.
\<close>

theorem busy_therapists_exact:
  assumes "\<forall>b\<in>set bookings. row_ok mentions b" "\<forall>t\<in>set ts. canonical t"
  shows "get_busy_therapist_ids_in_range mentions bookings holds now ts start stop
    = {t \<in> set ts. taken bookings None t start stop
         \<or> (\<exists>h\<in>set holds. th_therapist_id h = t \<and> hold_active now start stop h)}"
proof -
  have "list_ex (\<lambda>b. overlaps_per_session b t start stop) (filter (candidate mentions ts start stop) bookings)
      \<longleftrightarrow> taken bookings None t start stop" if t: "t \<in> set ts" for t
  proof -
    have "(\<exists>b\<in>set bookings. candidate mentions ts start stop b \<and> overlaps_per_session b t start stop) \<longleftrightarrow>
        (\<exists>b\<in>set bookings. blocking b \<and> overlaps_per_session b t start stop)"
      using overlap_is_candidate[of mentions _ t ts start stop] assms t
      by (intro bex_cong refl) (auto simp: candidate_def)
    then show ?thesis by (auto simp: list_ex_iff taken_def overlaps_per_session_iff)
  qed
  then show ?thesis by (auto simp: get_busy_therapist_ids_in_range_def)
qed

theorem busy_therapists_exact_witness:
  "get_busy_therapist_ids_in_range has_text
     [demo_booking ''b1'' [demo_session ''t1'' 0 60, demo_session ''t2'' 120 180] (Some 0) (Some 10800000000)]
     [] 0 [''t1'', ''t2''] 7300000000 7400000000 = {''t2''}"
proof -
  let ?b = "demo_booking ''b1'' [demo_session ''t1'' 0 60, demo_session ''t2'' 120 180] (Some 0) (Some 10800000000)"
  have ok: "\<forall>b\<in>set [?b]. row_ok has_text b" and c: "\<forall>t\<in>set [''t1'', ''t2'']. canonical t"
    using demo_row_ok demo_canonical by simp_all
  have w: "therapist_busy_windows ?b (Some ''t2'') = [(7200000000, 10800000000)]"
    "therapist_busy_windows ?b (Some ''t1'') = [(0, 3600000000)]"
    using ok by (subst windows_of;
      auto simp: row_ok_def demo_canonical serves_def id_text_def strip_def is_space_def nonempty_def)+
  show ?thesis
    unfolding busy_therapists_exact[OF ok c] taken_def
    by (auto simp: w blocking_def NON_BLOCKING_BOOKING_STATUSES_def)
qed

end
