(* ===== verification/Booking_Service.thy ===== *)
theory Booking_Service
  imports Booking_Overlap
begin

text \<open>
  The scheduling use cases of \<open>BookingService\<close> (\<open>app/booking/application/services.py\<close>): creating a
  booking, editing it (\<open>update_booking\<close>, on which \<open>update_status\<close>, \<open>complete_booking\<close> and
  \<open>mark_no_show\<close> rest), re-assigning the therapist of a session, confirming after payment and
  requesting a reschedule.

  The state \<open>booking_db\<close> holds the tables of bookings, temporary holds and status history, and the
  events sent to the queue, each by its kind. An operation works on the rows of one transaction;
  one that raises leaves the state as it was. Not modelled here: the contents of the events, the
  display snapshots of people and branches, the refresh of loyalty details, invoices, payment
  links and the mirror rows in the payments table, none of which the scheduling reads.
\<close>

record booking_history =
  bh_booking_id :: string
  bh_old_status :: "BookingStatus option"
  bh_new_status :: BookingStatus
  bh_source :: string
  bh_changed_by :: "string option"
  bh_reason :: "string option"

datatype booking_event =
    BookingCreated string
  | BookingConfirmed string
  | BookingPaymentPending string
  | BookingCompleted string
  | BookingCancelled string
  | BookingNoShow string
  | BookingStatusUpdated string string string
  | RescheduleRequested string

record booking_db =
  bs_bookings :: "booking_row list"
  bs_holds :: "temporary_hold list"
  bs_history :: "booking_history list"
  bs_events :: "booking_event list"

datatype service_error =
    BookingNotFound string
  | ServiceRequired
  | TooManyServices
  | SameTherapistTwice
  | DoubleBooking string
  | MissingWindow
  | InvalidUuid
  | EmptyServices
  | SessionCount
  | SessionNotFound string
  | ParkUnpaid
  | ParkUnconfirmed
  | InvalidStatus string
  | NotAllowed booking_state_error
  | NotYourBooking
  | RuleError rule_error
  | LoyaltyNotCancellable

definition booking_statuses :: "BookingStatus list" where
  "booking_statuses =
     [BK_DRAFT, BK_REQUESTED, BK_PAYMENT_PENDING, BK_CONFIRMED, BK_CHECKED_IN, BK_IN_PROGRESS,
      BK_PAYMENT_FAILED, BK_RESCHEDULE_REQUESTED, BK_RESCHEDULE_APPROVED, BK_CANCELLED,
      BK_REFUNDED, BK_COMPLETED, BK_NO_SHOW, BK_PARKED]"

text \<open>\<open>BookingStatus(value)\<close>; None is the \<open>ValueError\<close>.\<close>

definition booking_status_of :: "string \<Rightarrow> BookingStatus option" where
  "booking_status_of v = find (\<lambda>s. booking_status_value s = v) booking_statuses"

definition get_by_id :: "string \<Rightarrow> booking_row list \<Rightarrow> service_error + booking_row" where
  "get_by_id booking_id bookings =
     (case find (\<lambda>b. br_id b = Some booking_id) bookings of
        None \<Rightarrow> Inl (BookingNotFound booking_id) | Some b \<Rightarrow> Inr b)"

definition get_by_idempotency_key :: "string \<Rightarrow> booking_row list \<Rightarrow> booking_row option" where
  "get_by_idempotency_key key bookings = find (\<lambda>b. br_idempotency_key b = Some key) bookings"

definition write_booking :: "booking_row \<Rightarrow> booking_db \<Rightarrow> booking_db" where
  "write_booking b db = db\<lparr>bs_bookings := replace_row br_id b (bs_bookings db)\<rparr>"

definition record_status_change ::
  "string \<Rightarrow> BookingStatus option \<Rightarrow> BookingStatus \<Rightarrow> string \<Rightarrow> string option \<Rightarrow> string option \<Rightarrow> booking_db \<Rightarrow> booking_db" where
  "record_status_change booking_id old_status new_status source changed_by reason db =
     db\<lparr>bs_history := bs_history db @
       [\<lparr>bh_booking_id = booking_id, bh_old_status = old_status, bh_new_status = new_status, bh_source = source,
         bh_changed_by = changed_by, bh_reason = reason\<rparr>]\<rparr>"

definition enqueue_event :: "booking_event \<Rightarrow> booking_db \<Rightarrow> booking_db" where
  "enqueue_event ev db = db\<lparr>bs_events := bs_events db @ [ev]\<rparr>"

section \<open>The double-booking check\<close>

text \<open>The therapists of one session, each against every booking in the session's window.\<close>

fun check_therapists ::
  "(session list \<Rightarrow> string \<Rightarrow> bool) \<Rightarrow> booking_row list \<Rightarrow> string option \<Rightarrow> instant \<Rightarrow> instant \<Rightarrow> string list
   \<Rightarrow> service_error + unit" where
  "check_therapists mentions bookings excl start stop [] = Inr ()"
| "check_therapists mentions bookings excl start stop (t # ts) =
     (if check_therapist_overlap mentions bookings t start stop excl then Inl (DoubleBooking t)
      else check_therapists mentions bookings excl start stop ts)"

fun check_sessions ::
  "(session list \<Rightarrow> string \<Rightarrow> bool) \<Rightarrow> booking_row list \<Rightarrow> string option \<Rightarrow> session list \<Rightarrow> service_error + unit" where
  "check_sessions mentions bookings excl [] = Inr ()"
| "check_sessions mentions bookings excl (s # ss) =
     (case session_window s of
        (Some start, Some stop) \<Rightarrow>
          ebind (check_therapists mentions bookings excl start stop
                   (present_ids [ss_therapist_id s, ss_secondary_therapist_id s]))
            (\<lambda>_. check_sessions mentions bookings excl ss)
      | _ \<Rightarrow> if present_ids [ss_therapist_id s, ss_secondary_therapist_id s] = []
             then check_sessions mentions bookings excl ss else Inl MissingWindow)"

section \<open>Creating a booking\<close>

text \<open>
  The arguments of \<open>create_booking\<close> that become columns are given as the row \<open>req\<close>; the rest are
  the stored id, the settings and the clock.
\<close>

record create_env =
  ce_mentions :: "session list \<Rightarrow> string \<Rightarrow> bool"
  ce_new_id :: string
  ce_now :: instant
  ce_year_month :: string
  ce_hold_minutes :: int

definition resolve_services :: "booking_row \<Rightarrow> service_error + service_entry list" where
  "resolve_services req =
     (if br_services req = [] then
        (case br_service_id req of
           None \<Rightarrow> Inl ServiceRequired
         | Some _ \<Rightarrow> Inr [build_service_entry (br_service_id req)
             (case br_service_data req of Some d \<Rightarrow> d | None \<Rightarrow> Map.empty)
             (br_arrangement_id req)
             (case br_arrangement_data req of Some d \<Rightarrow> d | None \<Rightarrow> Map.empty)
             (br_base_price req) (br_duration_minutes req) 0])
      else if 10 < length (br_services req) then Inl TooManyServices
      else Inr (br_services req))"

definition created_row :: "create_env \<Rightarrow> booking_row list \<Rightarrow> booking_row \<Rightarrow> service_entry list \<Rightarrow> booking_row" where
  "created_row env bookings req entries =
     req\<lparr>br_id := Some (ce_new_id env),
         br_services := entries,
         br_service_id := or_none (se_service_id (hd entries)),
         br_service_data := Some (se_service_data (hd entries)),
         br_arrangement_id := or_none (se_arrangement_id (hd entries)),
         br_arrangement_data := Some (se_arrangement_data (hd entries)),
         br_therapist_data := Some (case br_therapist_data req of Some d \<Rightarrow> d | None \<Rightarrow> Map.empty),
         br_secondary_therapist_data :=
           (if br_secondary_therapist_id req \<noteq> None
            then Some (case br_secondary_therapist_data req of Some d \<Rightarrow> d | None \<Rightarrow> Map.empty) else None),
         br_booking_number := Some (generate_booking_number (ce_year_month env)
           (List.map_filter br_booking_number bookings))\<rparr>"

definition hold_for :: "create_env \<Rightarrow> string \<Rightarrow> string \<Rightarrow> instant \<Rightarrow> instant \<Rightarrow> temporary_hold" where
  "hold_for env therapist arrangement start stop =
     \<lparr>th_booking_id = ce_new_id env, th_therapist_id = therapist, th_arrangement_id = arrangement,
      th_appointment_start = start, th_appointment_end = stop,
      th_expires_at = ce_now env + ce_hold_minutes env * 60000000\<rparr>"

definition session_hold :: "create_env \<Rightarrow> session \<Rightarrow> temporary_hold option" where
  "session_hold env s =
     (case (or_none (ss_arrangement_id s), ss_therapist_id s, session_window s) of
        (Some arr, Some t, (Some start, Some stop)) \<Rightarrow> Some (hold_for env t arr start stop)
      | _ \<Rightarrow> None)"

definition new_holds :: "create_env \<Rightarrow> booking_row \<Rightarrow> temporary_hold list" where
  "new_holds env b =
     (if br_status b \<in> {''confirmed'', ''draft''} then []
      else if br_sessions b \<noteq> [] then List.map_filter (session_hold env) (br_sessions b)
      else (case (br_arrangement_id b, br_therapist_id b, br_appointment_start b, br_appointment_end b) of
              (Some arr, Some t, Some start, Some stop) \<Rightarrow> [hold_for env t arr start stop]
            | _ \<Rightarrow> []))"

definition initial_events :: "booking_row \<Rightarrow> booking_event list" where
  "initial_events b =
     (let i = the (br_id b) in
      if br_status b = ''draft'' then []
      else BookingCreated i #
        (if br_status b = ''confirmed'' then [BookingConfirmed i]
         else if br_status b = ''payment_pending'' then [BookingPaymentPending i] else []))"

definition check_new_booking :: "create_env \<Rightarrow> booking_row list \<Rightarrow> booking_row \<Rightarrow> service_error + unit" where
  "check_new_booking env bookings req =
     (if br_secondary_therapist_id req \<noteq> None \<and> br_secondary_therapist_id req = br_therapist_id req
      then Inl SameTherapistTwice
      else if br_sessions req \<noteq> [] then check_sessions (ce_mentions env) bookings None (br_sessions req)
      else (case (br_appointment_start req, br_appointment_end req) of
              (Some start, Some stop) \<Rightarrow>
                check_therapists (ce_mentions env) bookings None start stop
                  (present_ids [br_therapist_id req, br_secondary_therapist_id req])
            | _ \<Rightarrow> Inl MissingWindow))"

definition create_booking ::
  "create_env \<Rightarrow> string \<Rightarrow> string option \<Rightarrow> booking_row \<Rightarrow> booking_db \<Rightarrow> service_error + booking_row \<times> booking_db" where
  "create_booking env source user req db =
     ebind (resolve_services req) (\<lambda>entries.
       case Option.bind (or_none (br_idempotency_key req)) (\<lambda>k. get_by_idempotency_key k (bs_bookings db)) of
         Some existing \<Rightarrow> Inr (existing, db)
       | None \<Rightarrow>
           ebind (check_new_booking env (bs_bookings db) req) (\<lambda>_.
             let b = created_row env (bs_bookings db) req entries;
                 db1 = db\<lparr>bs_bookings := bs_bookings db @ [b], bs_holds := bs_holds db @ new_holds env b\<rparr>;
                 initial = (case booking_status_of (br_status b) of Some s \<Rightarrow> s | None \<Rightarrow> BK_REQUESTED);
                 db2 = record_status_change (ce_new_id env) None initial source user None db1
             in Inr (b, db2\<lparr>bs_events := bs_events db2 @ initial_events b\<rparr>)))"

section \<open>Editing a booking\<close>

record update_args =
  ua_status :: "BookingStatus option"
  ua_payment_status :: "string option"
  ua_therapist_id :: "string option"
  ua_therapist_data :: "snapshot option"
  ua_secondary_id :: "string option"
  ua_secondary_data :: "snapshot option"
  ua_secondary_provided :: bool
  ua_arrangement_id :: "string option"
  ua_arrangement_data :: "snapshot option"
  ua_services :: "service_entry list option"
  ua_sessions :: "session list option"
  ua_appointment_start :: "instant option"
  ua_extra_minutes :: "int option"
  ua_addons :: "snapshot list option"
  ua_addon_price :: "rat option"
  ua_addons_duration :: "int option"
  ua_price_for_extra :: "rat option"
  ua_total_duration :: "int option"
  ua_total_amount :: "rat option"
  ua_reason :: "string option"
  ua_source :: string
  ua_changed_by :: "string option"

definition no_changes :: update_args where
  "no_changes = \<lparr>ua_status = None, ua_payment_status = None, ua_therapist_id = None, ua_therapist_data = None,
     ua_secondary_id = None, ua_secondary_data = None, ua_secondary_provided = False,
     ua_arrangement_id = None, ua_arrangement_data = None, ua_services = None, ua_sessions = None,
     ua_appointment_start = None, ua_extra_minutes = None, ua_addons = None, ua_addon_price = None,
     ua_addons_duration = None, ua_price_for_extra = None, ua_total_duration = None, ua_total_amount = None,
     ua_reason = None, ua_source = ''admin'', ua_changed_by = None\<rparr>"

text \<open>A parked booking that the edit leaves parked: its old slot is not checked.\<close>

definition remains_parked :: "update_args \<Rightarrow> booking_row \<Rightarrow> bool" where
  "remains_parked a b \<longleftrightarrow> lower (br_status b) = ''parked'' \<and> ua_status a \<in> {None, Some BK_PARKED}"

definition dec_col :: "rat \<Rightarrow> scalar" where "dec_col x = SNum (money x)"

definition int_or :: "int \<Rightarrow> scalar \<Rightarrow> scalar" where
  "int_or n v = (if n \<noteq> 0 then SInt n else v)"

definition addon_dict :: "addon \<Rightarrow> snapshot" where
  "addon_dict a = [''addon_id'' \<mapsto> SText (ad_addon_id a), ''name'' \<mapsto> SText (ad_name a), ''price'' \<mapsto> ad_price a,
     ''duration_minutes'' \<mapsto> SInt (ad_duration_minutes a), ''session_id'' \<mapsto> text_scalar (ad_session_id a)]"

definition mirror_columns :: "update_args \<Rightarrow> session list \<Rightarrow> session_mirror \<Rightarrow> booking_row \<Rightarrow> booking_row" where
  "mirror_columns a ss m b =
     (let e = hd (sm_services m);
          subtotal = sm_services_price m
            + (case ua_addon_price a of Some x \<Rightarrow> x | None \<Rightarrow> to_decimal (br_addon_price b))
            + (case ua_price_for_extra a of Some x \<Rightarrow> x | None \<Rightarrow> to_decimal (br_price_for_extra_minutes b))
      in b\<lparr>br_sessions := ss, br_services := sm_services m,
           br_service_id := or_none (se_service_id e), br_service_data := Some (se_service_data e),
           br_arrangement_id := or_none (se_arrangement_id e), br_arrangement_data := Some (se_arrangement_data e),
           br_therapist_id := sm_therapist_id m, br_therapist_data := Some (sm_therapist_data m),
           br_secondary_therapist_id := or_none (sm_secondary_therapist_id m),
           br_secondary_therapist_data :=
             (if truthy (sm_secondary_therapist_id m) then sm_secondary_therapist_data m else None),
           br_addons := map addon_dict (sm_addons m),
           br_appointment_start := sm_appointment_start m, br_appointment_end := sm_appointment_end m,
           br_duration_minutes := int_or (sm_duration_minutes m) (br_duration_minutes b),
           br_extra_minutes := SInt (sm_extra_minutes m),
           br_addons_duration := SInt (sm_addons_duration m),
           br_total_duration := SInt (sm_total_duration m),
           br_base_price := dec_col (sm_services_price m),
           br_total_amount := (if ua_total_amount a = None then max 0 (subtotal - br_discount b) else br_total_amount b)\<rparr>)"

definition replace_sessions ::
  "(session list \<Rightarrow> string \<Rightarrow> bool) \<Rightarrow> booking_row list \<Rightarrow> update_args \<Rightarrow> booking_row \<Rightarrow> service_error + booking_row" where
  "replace_sessions mentions bookings a b =
     (case ua_sessions a of
        None \<Rightarrow> Inr b
      | Some ss \<Rightarrow>
          (if ss = [] \<or> MAX_PACKAGE_SESSIONS_PER_BOOKING < length ss then Inl SessionCount
           else ebind (if remains_parked a b then Inr () else check_sessions mentions bookings (br_id b) ss) (\<lambda>_.
             case legacy_mirror ss of
               None \<Rightarrow> Inl SessionCount
             | Some m \<Rightarrow>
                 if sm_services m = [] then Inl EmptyServices
                 else if \<not> truthy (sm_therapist_id m) then Inl InvalidUuid
                 else Inr (mirror_columns a ss m b))))"

definition replace_services :: "update_args \<Rightarrow> booking_row \<Rightarrow> service_error + booking_row" where
  "replace_services a b =
     (case ua_services a of
        None \<Rightarrow> Inr b
      | Some es \<Rightarrow>
          (if es = [] \<or> 10 < length es then Inl TooManyServices
           else Inr (b\<lparr>br_services := es,
              br_service_id := or_none (se_service_id (hd es)), br_service_data := Some (se_service_data (hd es)),
              br_arrangement_id := or_none (se_arrangement_id (hd es)),
              br_arrangement_data := Some (se_arrangement_data (hd es)),
              br_duration_minutes := int_or (total_services_duration es) (br_duration_minutes b),
              br_base_price := dec_col (total_services_price es)\<rparr>)))"

text \<open>
  Who becomes the secondary therapist: the target for the check, and the (possibly rewritten)
  arguments. When the primary is re-assigned to the current secondary, the two are swapped.
\<close>

definition resolve_secondary ::
  "update_args \<Rightarrow> booking_row \<Rightarrow> string option \<Rightarrow> service_error + string option \<times> update_args" where
  "resolve_secondary a b target =
     (if ua_secondary_provided a \<or> ua_secondary_id a \<noteq> None then
        (if ua_secondary_id a \<noteq> None \<and> ua_secondary_id a = target then Inl SameTherapistTwice
         else Inr (ua_secondary_id a, a))
      else if br_secondary_therapist_id b \<noteq> None \<and> br_secondary_therapist_id b = target then
        (if br_therapist_id b \<noteq> None \<and> br_therapist_id b \<noteq> target
         then Inr (br_therapist_id b, a\<lparr>ua_secondary_id := br_therapist_id b,
                     ua_secondary_data := br_therapist_data b, ua_secondary_provided := True\<rparr>)
         else Inr (None, a\<lparr>ua_secondary_id := None, ua_secondary_data := None, ua_secondary_provided := True\<rparr>))
      else Inr (br_secondary_therapist_id b, a))"

definition target_end :: "update_args \<Rightarrow> booking_row \<Rightarrow> instant \<Rightarrow> int \<Rightarrow> instant" where
  "target_end a b start extra =
     start + (case ua_total_duration a of Some d \<Rightarrow> d
              | None \<Rightarrow> to_int (br_duration_minutes b) + extra
                        + (case ua_addons_duration a of Some d \<Rightarrow> d | None \<Rightarrow> to_int (int_only (br_addons_duration b))))
       * 60000000"

definition timing_given :: "update_args \<Rightarrow> bool" where
  "timing_given a \<longleftrightarrow> ua_therapist_id a \<noteq> None \<or> ua_secondary_provided a \<or> ua_secondary_id a \<noteq> None
     \<or> ua_appointment_start a \<noteq> None \<or> ua_extra_minutes a \<noteq> None \<or> ua_services a \<noteq> None"

definition timed_row :: "update_args \<Rightarrow> string option \<Rightarrow> instant \<Rightarrow> instant \<Rightarrow> int \<Rightarrow> booking_row \<Rightarrow> booking_row" where
  "timed_row a target start stop extra b =
     b\<lparr>br_therapist_id := target,
       br_therapist_data := (case ua_therapist_data a of Some d \<Rightarrow> Some d | None \<Rightarrow> br_therapist_data b),
       br_secondary_therapist_id :=
         (if ua_secondary_provided a \<or> ua_secondary_id a \<noteq> None then ua_secondary_id a else br_secondary_therapist_id b),
       br_secondary_therapist_data :=
         (if ua_secondary_provided a \<or> ua_secondary_id a \<noteq> None then
            (if ua_secondary_id a = None then None
             else (case ua_secondary_data a of Some d \<Rightarrow> Some d | None \<Rightarrow> br_secondary_therapist_data b))
          else br_secondary_therapist_data b),
       br_extra_minutes := SInt extra, br_appointment_start := Some start, br_appointment_end := Some stop\<rparr>"

definition update_timing ::
  "(session list \<Rightarrow> string \<Rightarrow> bool) \<Rightarrow> booking_row list \<Rightarrow> bool \<Rightarrow> update_args \<Rightarrow> booking_row
   \<Rightarrow> service_error + update_args \<times> booking_row" where
  "update_timing mentions bookings parked a b =
     (let target = (case ua_therapist_id a of Some t \<Rightarrow> Some t | None \<Rightarrow> br_therapist_id b) in
      ebind (resolve_secondary a b target) (\<lambda>(secondary, a').
        case (br_appointment_start b, br_appointment_end b) of
          (Some cur_start, Some cur_end) \<Rightarrow>
            (let extra = (case ua_extra_minutes a of Some e \<Rightarrow> e | None \<Rightarrow> to_int (br_extra_minutes b));
                 start0 = (case ua_appointment_start a of Some t \<Rightarrow> t | None \<Rightarrow> cur_start);
                 start = (if ua_sessions a \<noteq> None then cur_start else start0);
                 stop = (if ua_sessions a \<noteq> None then cur_end else target_end a b start0 extra)
             in if timing_given a' then
                  ebind (if parked \<or> ua_sessions a \<noteq> None then Inr ()
                         else check_therapists mentions bookings (br_id b) start stop (present_ids [target, secondary]))
                    (\<lambda>_. Inr (a', timed_row a' target start stop extra b))
                else Inr (a', if ua_secondary_data a' \<noteq> None \<and> br_secondary_therapist_id b \<noteq> None
                              then b\<lparr>br_secondary_therapist_data := ua_secondary_data a'\<rparr> else b))
        | _ \<Rightarrow> Inl MissingWindow))"

definition update_first_arrangement :: "update_args \<Rightarrow> booking_row \<Rightarrow> booking_row" where
  "update_first_arrangement a b =
     (let b1 = b\<lparr>br_arrangement_id := (case ua_arrangement_id a of Some i \<Rightarrow> Some i | None \<Rightarrow> br_arrangement_id b),
                 br_arrangement_data := (case ua_arrangement_data a of Some d \<Rightarrow> Some d | None \<Rightarrow> br_arrangement_data b)\<rparr>
      in if ua_services a = None \<and> (ua_arrangement_id a \<noteq> None \<or> ua_arrangement_data a \<noteq> None) then
           (case get_booking_services b1 of
              [] \<Rightarrow> b1
            | e # es \<Rightarrow> b1\<lparr>br_services :=
                e\<lparr>se_arrangement_id := (case ua_arrangement_id a of Some i \<Rightarrow> Some i | None \<Rightarrow> se_arrangement_id e),
                  se_arrangement_data := (case ua_arrangement_data a of Some d \<Rightarrow> d | None \<Rightarrow> se_arrangement_data e)\<rparr> # es\<rparr>)
         else b1)"

definition update_pricing :: "update_args \<Rightarrow> booking_row \<Rightarrow> booking_row" where
  "update_pricing a b =
     b\<lparr>br_addons := (case ua_addons a of Some x \<Rightarrow> x | None \<Rightarrow> br_addons b),
       br_addon_price := (case ua_addon_price a of Some x \<Rightarrow> dec_col x | None \<Rightarrow> br_addon_price b),
       br_addons_duration := (case ua_addons_duration a of Some x \<Rightarrow> SInt x | None \<Rightarrow> br_addons_duration b),
       br_price_for_extra_minutes := (case ua_price_for_extra a of Some x \<Rightarrow> dec_col x | None \<Rightarrow> br_price_for_extra_minutes b),
       br_total_duration := (case ua_total_duration a of Some x \<Rightarrow> SInt x | None \<Rightarrow> br_total_duration b),
       br_total_amount := (case ua_total_amount a of Some x \<Rightarrow> x | None \<Rightarrow> br_total_amount b)\<rparr>"

section \<open>Keeping the stored sessions in step\<close>

text \<open>
  An edit without new sessions rewrites the stored ones from the columns: the only session takes
  over the columns, several sessions are shifted by the move of the start, and a change of the
  extra minutes goes to the last.
\<close>

definition given_secondary :: "update_args \<Rightarrow> bool" where
  "given_secondary a \<longleftrightarrow> ua_secondary_provided a \<or> ua_secondary_id a \<noteq> None"

definition secondary_from_columns :: "update_args \<Rightarrow> booking_row \<Rightarrow> session \<Rightarrow> session" where
  "secondary_from_columns a b s =
     (if given_secondary a then
        s\<lparr>ss_secondary_therapist_id := br_secondary_therapist_id b,
          ss_secondary_therapist_data := (if br_secondary_therapist_id b \<noteq> None then br_secondary_therapist_data b else None)\<rparr>
      else s)"

definition primary_from_columns :: "booking_row \<Rightarrow> session \<Rightarrow> session" where
  "primary_from_columns b s =
     (if br_therapist_id b \<noteq> None then
        s\<lparr>ss_therapist_id := br_therapist_id b,
          ss_therapist_data := (case br_therapist_data b of Some d \<Rightarrow> d | None \<Rightarrow> ss_therapist_data s)\<rparr>
      else s\<lparr>ss_therapist_data := (case br_therapist_data b of Some d \<Rightarrow> d | None \<Rightarrow> ss_therapist_data s)\<rparr>)"

definition sync_single :: "update_args \<Rightarrow> int \<Rightarrow> booking_row \<Rightarrow> session \<Rightarrow> session" where
  "sync_single a eff_total b s =
     (let s1 = secondary_from_columns a b (primary_from_columns b s) in
      s1\<lparr>ss_appointment_start := (case br_appointment_start b of Some t \<Rightarrow> Some t | None \<Rightarrow> ss_appointment_start s),
         ss_appointment_end := (case br_appointment_end b of Some t \<Rightarrow> Some t | None \<Rightarrow> ss_appointment_end s),
         ss_arrangement_id := (case br_arrangement_id b of Some i \<Rightarrow> Some i | None \<Rightarrow> ss_arrangement_id s),
         ss_arrangement_data := (case br_arrangement_data b of Some d \<Rightarrow> d | None \<Rightarrow> ss_arrangement_data s),
         ss_extra_minutes := SInt (to_int (br_extra_minutes b)),
         ss_price_for_extra_minutes :=
           (if br_price_for_extra_minutes b \<noteq> SNone then SText (money (to_decimal (br_price_for_extra_minutes b)))
            else ss_price_for_extra_minutes s),
         ss_total_session_duration := SInt (to_int (int_or (to_int (br_total_duration b)) (SInt eff_total))),
         ss_addons := normalise_addons (br_addons b),
         ss_addons_price :=
           (if br_addon_price b \<noteq> SNone then SText (money (to_decimal (br_addon_price b))) else ss_addons_price s),
         ss_addons_duration :=
           (if br_addons_duration b \<noteq> SNone then SInt (to_int (br_addons_duration b)) else ss_addons_duration s),
         ss_session_price := SText (money (br_total_amount b))\<rparr>)"

definition shift_session :: "update_args \<Rightarrow> int \<Rightarrow> int \<Rightarrow> nat \<Rightarrow> booking_row \<Rightarrow> nat \<Rightarrow> session \<Rightarrow> session" where
  "shift_session a time_delta extra_diff n b i s =
     (case session_window s of
        (Some start, Some stop) \<Rightarrow>
          (let s1 = (if i = 0 then
                       secondary_from_columns a b (if br_therapist_id b \<noteq> None then primary_from_columns b s else s)
                     else s);
               more = (extra_diff \<noteq> 0 \<and> i = n - 1);
               s2 = (if more then
                       s1\<lparr>ss_extra_minutes := SInt (max 0 (to_int (ss_extra_minutes s1) + extra_diff)),
                          ss_total_session_duration := SInt (to_int (ss_total_session_duration s1) + extra_diff),
                          ss_price_for_extra_minutes :=
                            (if br_price_for_extra_minutes b \<noteq> SNone
                             then SText (money (to_decimal (br_price_for_extra_minutes b)))
                             else ss_price_for_extra_minutes s1)\<rparr>
                     else s1)
           in s2\<lparr>ss_appointment_start := Some (start + time_delta),
                 ss_appointment_end := Some (stop + time_delta + (if more then extra_diff * 60000000 else 0))\<rparr>)
      | _ \<Rightarrow> s)"

definition sync_sessions :: "update_args \<Rightarrow> int \<Rightarrow> booking_row \<Rightarrow> booking_row \<Rightarrow> booking_row" where
  "sync_sessions a eff_total initial b =
     (if ua_sessions a \<noteq> None then b
      else case br_sessions b of
        [] \<Rightarrow> b
      | [s] \<Rightarrow> b\<lparr>br_sessions := [sync_single a eff_total b s]\<rparr>
      | ss \<Rightarrow>
          (let time_delta = (case (br_appointment_start initial, br_appointment_start b) of
                 (Some old, Some new) \<Rightarrow> new - old | _ \<Rightarrow> 0);
               extra_diff = to_int (br_extra_minutes b) - to_int (br_extra_minutes initial)
           in b\<lparr>br_sessions := map2 (shift_session a time_delta extra_diff (length ss) b) [0..<length ss] ss\<rparr>))"

section \<open>The status\<close>

definition internal_source :: "string \<Rightarrow> bool" where
  "internal_source source \<longleftrightarrow> lower source \<in> {''ushnotice'', ''notice'', ''system_sync''}"

definition dispatch_status_event :: "string \<Rightarrow> string \<Rightarrow> BookingStatus \<Rightarrow> booking_event list" where
  "dispatch_status_event booking_id old_status new_status =
     (case new_status of
        BK_CONFIRMED \<Rightarrow> [BookingConfirmed booking_id]
      | BK_PAYMENT_PENDING \<Rightarrow> [BookingPaymentPending booking_id]
      | BK_COMPLETED \<Rightarrow> [BookingCompleted booking_id]
      | BK_CANCELLED \<Rightarrow> [BookingCancelled booking_id]
      | BK_PARKED \<Rightarrow> []
      | BK_NO_SHOW \<Rightarrow> [BookingNoShow booking_id]
      | BK_CHECKED_IN \<Rightarrow> []
      | BK_IN_PROGRESS \<Rightarrow> []
      | _ \<Rightarrow> [BookingStatusUpdated booking_id old_status (booking_status_value new_status)])"

definition update_payment_status :: "update_args \<Rightarrow> booking_row \<Rightarrow> booking_row" where
  "update_payment_status a b =
     (case ua_payment_status a of
        None \<Rightarrow> b
      | Some p \<Rightarrow>
          (let v = lower (strip p) in
           if lower (strip (br_payment_status b)) \<in> {''paid'', ''success''} \<and> ua_status a = Some BK_CANCELLED \<and> v = ''success''
           then b\<lparr>br_payment_status := ''success''\<rparr>
           else if v = ''refund_requested'' then b\<lparr>br_payment_status := ''refund_requested''\<rparr>
           else b\<lparr>br_payment_status := p\<rparr>))"

text \<open>\<open>f"{notes or ''}\n[...] Status changed to ..."\<close>; the timestamp is left out of the line.\<close>

definition append_note :: "string option \<Rightarrow> string \<Rightarrow> string option" where
  "append_note nts line = Some (strip (str_or nts [] @ [CHR 0x0A] @ line))"

definition park_check :: "update_args \<Rightarrow> booking_row \<Rightarrow> BookingStatus \<Rightarrow> service_error + unit" where
  "park_check a b old_status =
     (let ps = lower (str_or (ua_payment_status a) (br_payment_status b)) in
      if ua_status a \<noteq> Some BK_PARKED then Inr ()
      else if ps \<notin> {''success'', ''paid'', ''rewarded''} then Inl ParkUnpaid
      else if old_status \<notin> {BK_CONFIRMED, BK_RESCHEDULE_APPROVED} then Inl ParkUnconfirmed
      else Inr ())"

definition HOLD_RELEASING :: "BookingStatus list" where
  "HOLD_RELEASING = [BK_CONFIRMED, BK_CHECKED_IN, BK_IN_PROGRESS, BK_CANCELLED, BK_REFUNDED, BK_COMPLETED, BK_PARKED]"

text \<open>
  The new status is stored whether or not the status machine allows the move: a refusal is only
  logged.
\<close>

definition status_change_row :: "update_args \<Rightarrow> BookingStatus \<Rightarrow> booking_row \<Rightarrow> booking_row" where
  "status_change_row a new_status b =
     b\<lparr>br_status := booking_status_value new_status,
       br_internal_notes :=
         (if truthy (ua_reason a)
          then append_note (br_internal_notes b)
            (''Status changed to '' @ booking_status_value new_status @ '' by '' @ ua_source a @ '': '' @ the (ua_reason a))
          else br_internal_notes b),
       br_payment_status := (if new_status = BK_REFUNDED then ''refunded'' else br_payment_status b)\<rparr>"

definition change_status :: "update_args \<Rightarrow> BookingStatus \<Rightarrow> BookingStatus \<Rightarrow> booking_row \<Rightarrow> booking_db \<Rightarrow> booking_row \<times> booking_db" where
  "change_status a old_status new_status b db =
     (let i = the (br_id b);
          b1 = status_change_row a new_status b;
          db1 = db\<lparr>bs_holds := (if new_status \<in> set HOLD_RELEASING then delete_hold i (bs_holds db) else bs_holds db)\<rparr>;
          db2 = record_status_change i (Some old_status) new_status (ua_source a) (ua_changed_by a) (ua_reason a)
                  (write_booking b1 db1)
      in (b1, db2\<lparr>bs_events := bs_events db2 @
            (if internal_source (ua_source a) then []
             else dispatch_status_event i (booking_status_value old_status) new_status)\<rparr>))"

definition keep_status :: "update_args \<Rightarrow> booking_row \<Rightarrow> string \<Rightarrow> booking_db \<Rightarrow> booking_row \<times> booking_db" where
  "keep_status a b initial_payment_status db =
     (let db1 = write_booking b db; i = the (br_id b) in
      (b, db1\<lparr>bs_events := bs_events db1 @
        (if internal_source (ua_source a) \<or> lower (br_payment_status b) = lower initial_payment_status then []
         else (case booking_status_of (br_status b) of
                 Some s \<Rightarrow> if s \<in> {BK_CONFIRMED, BK_PAYMENT_PENDING, BK_COMPLETED}
                           then dispatch_status_event i (booking_status_value s) s else []
               | None \<Rightarrow> []))\<rparr>))"

definition apply_status :: "update_args \<Rightarrow> booking_row \<Rightarrow> string \<Rightarrow> booking_db \<Rightarrow> service_error + booking_row \<times> booking_db" where
  "apply_status a b initial_payment_status db =
     (case ua_status a of
        None \<Rightarrow> Inr (keep_status a b initial_payment_status db)
      | Some new_status \<Rightarrow>
          (case booking_status_of (br_status b) of
             None \<Rightarrow> Inl (InvalidStatus (br_status b))
           | Some old_status \<Rightarrow>
               (if old_status = new_status then Inr (keep_status a b initial_payment_status db)
                else ebind (park_check a b old_status) (\<lambda>_. Inr (change_status a old_status new_status b db)))))"

definition eff_total_duration :: "update_args \<Rightarrow> booking_row \<Rightarrow> int \<Rightarrow> int" where
  "eff_total_duration a b extra = target_end a b 0 extra div 60000000"

definition update_booking ::
  "(session list \<Rightarrow> string \<Rightarrow> bool) \<Rightarrow> string \<Rightarrow> update_args \<Rightarrow> booking_db \<Rightarrow> service_error + booking_row \<times> booking_db" where
  "update_booking mentions booking_id a db =
     ebind (get_by_id booking_id (bs_bookings db)) (\<lambda>b0.
     ebind (replace_sessions mentions (bs_bookings db) a b0) (\<lambda>b1.
     ebind (replace_services a b1) (\<lambda>b2.
     ebind (update_timing mentions (bs_bookings db) (remains_parked a b0) a b2) (\<lambda>(a', b3).
       let extra = (case ua_extra_minutes a of Some e \<Rightarrow> e | None \<Rightarrow> to_int (br_extra_minutes b2));
           b4 = update_pricing a' (update_payment_status a' (update_first_arrangement a' b3));
           b5 = sync_sessions a' (eff_total_duration a b2 extra) b0 b4
       in apply_status a' b5 (br_payment_status b0) db))))"

definition update_status ::
  "(session list \<Rightarrow> string \<Rightarrow> bool) \<Rightarrow> string \<Rightarrow> BookingStatus \<Rightarrow> string option \<Rightarrow> string option \<Rightarrow> string \<Rightarrow> booking_db
   \<Rightarrow> service_error + booking_row \<times> booking_db" where
  "update_status mentions booking_id new_status payment_status reason source db =
     update_booking mentions booking_id
       (no_changes\<lparr>ua_status := Some new_status, ua_payment_status := payment_status, ua_reason := reason, ua_source := source\<rparr>) db"

definition complete_booking :: "(session list \<Rightarrow> string \<Rightarrow> bool) \<Rightarrow> string \<Rightarrow> booking_db \<Rightarrow> service_error + booking_row \<times> booking_db" where
  "complete_booking mentions booking_id db = update_status mentions booking_id BK_COMPLETED None None ''system'' db"

definition mark_no_show :: "(session list \<Rightarrow> string \<Rightarrow> bool) \<Rightarrow> string \<Rightarrow> booking_db \<Rightarrow> service_error + booking_row \<times> booking_db" where
  "mark_no_show mentions booking_id db = update_status mentions booking_id BK_NO_SHOW None None ''system'' db"

section \<open>Re-assigning the therapist of a session\<close>

definition change_check ::
  "(session list \<Rightarrow> string \<Rightarrow> bool) \<Rightarrow> booking_row list \<Rightarrow> string option \<Rightarrow> session \<Rightarrow> string option list \<Rightarrow> service_error + unit" where
  "change_check mentions bookings excl target assigned =
     (let fresh = filter (\<lambda>t. Some t \<notin> {ss_therapist_id target, ss_secondary_therapist_id target}) (present_ids assigned) in
      if fresh = [] then Inr ()
      else (case session_window target of
              (Some start, Some stop) \<Rightarrow> check_therapists mentions bookings excl start stop fresh
            | _ \<Rightarrow> Inl MissingWindow))"

definition reassigned ::
  "string option \<Rightarrow> snapshot option \<Rightarrow> bool \<Rightarrow> string option \<Rightarrow> snapshot option \<Rightarrow> session \<Rightarrow> session" where
  "reassigned therapist_id therapist_data provided secondary secondary_data s =
     (let s1 = (if therapist_id \<noteq> None
                then s\<lparr>ss_therapist_id := therapist_id,
                       ss_therapist_data := (case therapist_data of Some d \<Rightarrow> d | None \<Rightarrow> Map.empty)\<rparr> else s)
      in if provided
         then s1\<lparr>ss_secondary_therapist_id := secondary,
                 ss_secondary_therapist_data :=
                   (if secondary \<noteq> None then Some (case secondary_data of Some d \<Rightarrow> d | None \<Rightarrow> Map.empty) else None)\<rparr>
         else s1)"

fun update_first :: "('a \<Rightarrow> bool) \<Rightarrow> ('a \<Rightarrow> 'a) \<Rightarrow> 'a list \<Rightarrow> 'a list" where
  "update_first P f [] = []"
| "update_first P f (x # xs) = (if P x then f x # xs else x # update_first P f xs)"

definition has_session_id :: "string \<Rightarrow> session \<Rightarrow> bool" where
  "has_session_id session_id s \<longleftrightarrow> py_str (text_scalar (ss_session_id s)) = session_id"

definition therapist_columns :: "session list \<Rightarrow> session_mirror \<Rightarrow> booking_row \<Rightarrow> booking_row" where
  "therapist_columns sessions m b =
     b\<lparr>br_sessions := sessions, br_therapist_id := sm_therapist_id m,
       br_therapist_data := Some (sm_therapist_data m),
       br_secondary_therapist_id := or_none (sm_secondary_therapist_id m),
       br_secondary_therapist_data :=
         (if truthy (sm_secondary_therapist_id m) then sm_secondary_therapist_data m else None)\<rparr>"

definition move_hold :: "string \<Rightarrow> session \<Rightarrow> string option \<Rightarrow> temporary_hold list \<Rightarrow> temporary_hold list" where
  "move_hold booking_id target therapist_id holds =
     (case (therapist_id, or_none (ss_therapist_id target)) of
        (Some new, Some old) \<Rightarrow>
          (if new = old then holds
           else map (\<lambda>h. if th_booking_id h = booking_id \<and> th_therapist_id h = old
                            \<and> Some (th_appointment_start h) = fst (session_window target)
                         then h\<lparr>th_therapist_id := new\<rparr> else h) holds)
      | _ \<Rightarrow> holds)"

definition change_session_therapist ::
  "(session list \<Rightarrow> string \<Rightarrow> bool) \<Rightarrow> string \<Rightarrow> string \<Rightarrow> string option \<Rightarrow> snapshot option \<Rightarrow> string option \<Rightarrow> snapshot option
   \<Rightarrow> bool \<Rightarrow> string \<Rightarrow> booking_db \<Rightarrow> service_error + booking_row \<times> booking_db" where
  "change_session_therapist mentions booking_id session_id therapist_id therapist_data secondary_id secondary_data
     provided new_id db =
     ebind (get_by_id booking_id (bs_bookings db)) (\<lambda>b.
     let sessions = get_booking_sessions b new_id in
     case find (has_session_id session_id) sessions of
       None \<Rightarrow> Inl (SessionNotFound session_id)
     | Some target \<Rightarrow>
         (let primary = (if therapist_id \<noteq> None then therapist_id else ss_therapist_id target);
              secondary = (if provided then secondary_id else ss_secondary_therapist_id target)
          in if truthy secondary \<and> secondary = primary then Inl SameTherapistTwice
             else
               ebind (change_check mentions (bs_bookings db) (br_id b) target [primary, secondary]) (\<lambda>_.
                 let sessions' = update_first (has_session_id session_id)
                       (reassigned therapist_id therapist_data provided secondary secondary_data) sessions
                 in case legacy_mirror sessions' of
                      None \<Rightarrow> Inl SessionCount
                    | Some m \<Rightarrow>
                        if \<not> truthy (sm_therapist_id m) then Inl InvalidUuid
                        else (let b' = therapist_columns sessions' m b in
                              Inr (b', write_booking b' (db\<lparr>bs_holds := move_hold booking_id target therapist_id (bs_holds db)\<rparr>))))))"

section \<open>Confirmation and reschedule requests\<close>

definition confirm_booking ::
  "string \<Rightarrow> string \<Rightarrow> bool \<Rightarrow> string option \<Rightarrow> string option \<Rightarrow> booking_db \<Rightarrow> service_error + booking_row \<times> booking_db" where
  "confirm_booking booking_id payment_id payment_data_given changed_by source db =
     ebind (get_by_id booking_id (bs_bookings db)) (\<lambda>b.
       case booking_status_of (br_status b) of
         None \<Rightarrow> Inl (InvalidStatus (br_status b))
       | Some status \<Rightarrow>
           (if status = BK_CONFIRMED then
              (let b' = (if payment_data_given then b\<lparr>br_payment_status := ''success''\<rparr> else b) in
               Inr (b', write_booking b' db))
            else
              (case booking_transition_to status BK_CONFIRMED of
                 Inl e \<Rightarrow> Inl (NotAllowed e)
               | Inr _ \<Rightarrow>
                   (let b' = b\<lparr>br_status := ''confirmed'', br_payment_status := ''success''\<rparr>;
                        db1 = write_booking b' db;
                        db2 = db1\<lparr>bs_holds := delete_hold booking_id (bs_holds db1)\<rparr>;
                        db3 = record_status_change booking_id (Some status) BK_CONFIRMED (str_or source ''payment_webhook'')
                                (Some (str_or changed_by payment_id)) None db2
                    in Inr (b', enqueue_event (BookingConfirmed booking_id) db3)))))"

text \<open>\<open>clock\<close> is \<open>datetime.now(UTC)\<close>; the note names the requested times, given as text.\<close>

definition request_reschedule ::
  "string \<Rightarrow> string \<Rightarrow> string \<Rightarrow> string option \<Rightarrow> string \<Rightarrow> instant \<Rightarrow> booking_db \<Rightarrow> service_error + booking_row \<times> booking_db" where
  "request_reschedule booking_id customer_id requested_times change_by_user source clock db =
     ebind (get_by_id booking_id (bs_bookings db)) (\<lambda>b.
       if br_customer_id b \<noteq> customer_id then Inl NotYourBooking
       else (case (booking_status_of (br_status b), br_appointment_start b) of
         (Some status, Some start) \<Rightarrow>
           (case ebind (assert_booking_is_reschedulable status)
                   (\<lambda>_. assert_reschedule_window clock (Aware start) None 6) of
              Inl e \<Rightarrow> Inl (RuleError e)
            | Inr _ \<Rightarrow>
                (case booking_transition_to status BK_RESCHEDULE_REQUESTED of
                   Inl e \<Rightarrow> Inl (NotAllowed e)
                 | Inr _ \<Rightarrow>
                     (let line = ''Reschedule requested: '' @ requested_times;
                          b' = b\<lparr>br_status := ''reschedule_requested'',
                                 br_internal_notes := append_note (br_internal_notes b) line\<rparr>;
                          db1 = record_status_change booking_id (Some status) BK_RESCHEDULE_REQUESTED source
                                  (Some (str_or change_by_user customer_id)) (Some line) (write_booking b' db)
                      in Inr (b', enqueue_event (RescheduleRequested booking_id) db1))))
       | (None, _) \<Rightarrow> Inl (InvalidStatus (br_status b))
       | (_, None) \<Rightarrow> Inl MissingWindow))"

section \<open>No therapist is booked twice\<close>

definition apart :: "booking_row \<Rightarrow> booking_row \<Rightarrow> bool" where
  "apart b c \<longleftrightarrow> (blocking b \<longrightarrow> blocking c \<longrightarrow> (\<forall>t. canonical t \<longrightarrow>
     (\<forall>v\<in>set (therapist_busy_windows b (Some t)). \<forall>w\<in>set (therapist_busy_windows c (Some t)). disjoint_windows v w)))"

definition no_double_booking :: "booking_row list \<Rightarrow> bool" where
  "no_double_booking bookings \<longleftrightarrow>
     (\<forall>b\<in>set bookings. \<forall>c\<in>set bookings. br_id b \<noteq> br_id c \<longrightarrow> apart b c)"

lemma apart_sym: "apart b c \<longleftrightarrow> apart c b"
  unfolding apart_def by (metis disjoint_windows_sym)

lemma no_double_insert:
  assumes "no_double_booking bs" "\<forall>c\<in>set bs. br_id c \<noteq> br_id b \<longrightarrow> apart b c"
  shows "no_double_booking (bs @ [b])"
  using assms unfolding no_double_booking_def by (auto simp: apart_sym)

lemma no_double_replace:
  assumes "no_double_booking bs" "\<forall>c\<in>set bs. br_id c \<noteq> br_id b \<longrightarrow> apart b c"
  shows "no_double_booking (replace_row br_id b bs)"
  unfolding no_double_booking_def
proof (intro ballI impI)
  fix c d assume c: "c \<in> set (replace_row br_id b bs)" and d: "d \<in> set (replace_row br_id b bs)" and ne: "br_id c \<noteq> br_id d"
  have cases: "x = b \<or> (x \<in> set bs \<and> br_id x \<noteq> br_id b)" if "x \<in> set (replace_row br_id b bs)" for x
    using that by (auto simp: replace_row_def)
  from cases[OF c] cases[OF d] ne assms show "apart c d"
    unfolding no_double_booking_def by (metis apart_sym)
qed

text \<open>The windows of a well formed row, and who is in them.\<close>

lemma check_therapists_Inr:
  "check_therapists m bs e a z ts = Inr u \<longleftrightarrow> (\<forall>t\<in>set ts. \<not> check_therapist_overlap m bs t a z e)"
  by (induction ts) auto

lemma check_sessions_Inr:
  assumes "check_sessions m bs e ss = Inr u" "s \<in> set ss" "windowed s"
    and "t \<in> set (present_ids [ss_therapist_id s, ss_secondary_therapist_id s])"
  shows "\<not> check_therapist_overlap m bs t (fst (win s)) (snd (win s)) e"
  using assms
proof (induction ss)
  case (Cons x xs)
  show ?case
  proof (cases "s = x")
    case True
    with Cons.prems have "check_therapists m bs e (fst (win s)) (snd (win s))
        (present_ids [ss_therapist_id s, ss_secondary_therapist_id s]) = Inr ()"
      by (auto simp: windowed_simps ebind_Inr_iff)
    then show ?thesis using Cons.prems(4) by (simp add: check_therapists_Inr)
  next
    case False
    with Cons.prems have "s \<in> set xs" by simp
    moreover from Cons.prems(1) have "check_sessions m bs e xs = Inr u"
      by (auto simp: ebind_Inr_iff split: prod.splits option.splits if_splits)
    ultimately show ?thesis using Cons.IH Cons.prems(3,4) by blast
  qed
qed simp

lemma in_present_ids: "t \<in> set (present_ids [x, y]) \<longleftrightarrow> t \<noteq> [] \<and> (x = Some t \<or> y = Some t)"
  by (auto simp: present_ids_def or_none_def List.map_filter_def nonempty_def split: option.splits if_splits)

lemma canonical_id: "id_text v = v \<Longrightarrow> id_text v = Some t \<Longrightarrow> v = Some t \<and> t \<noteq> []"
  by (auto simp: id_text_def split: option.splits)

lemma serves_present:
  assumes "id_text (ss_therapist_id s) = ss_therapist_id s" "id_text (ss_secondary_therapist_id s) = ss_secondary_therapist_id s"
    and "serves t s"
  shows "t \<in> set (present_ids [ss_therapist_id s, ss_secondary_therapist_id s])"
  using assms canonical_id[of "ss_therapist_id s" t] canonical_id[of "ss_secondary_therapist_id s" t]
  unfolding serves_def in_present_ids by blast

lemma columns_present:
  assumes "row_ok m b" "Some t \<in> {id_text (br_therapist_id b), id_text (br_secondary_therapist_id b)}"
  shows "t \<in> set (present_ids [br_therapist_id b, br_secondary_therapist_id b])"
  using assms canonical_id[of "br_therapist_id b" t] canonical_id[of "br_secondary_therapist_id b" t]
  unfolding row_ok_def in_present_ids by (metis insertE singletonD)

text \<open>A row that passed the check is apart from every booking of the table.\<close>

lemma checked_apart:
  assumes rows: "\<forall>c\<in>set bs. row_ok m c" and b: "row_ok m b"
    and chk: "if br_sessions b \<noteq> [] then check_sessions m bs e (br_sessions b) = Inr ()
              else (\<exists>a z. br_appointment_start b = Some a \<and> br_appointment_end b = Some z
                \<and> check_therapists m bs e a z (present_ids [br_therapist_id b, br_secondary_therapist_id b]) = Inr ())"
    and c: "c \<in> set bs" "e = None \<or> br_id c \<noteq> e"
  shows "apart b c"
  unfolding apart_def
proof (intro impI allI ballI)
  fix t v w assume bl: "blocking c" and t: "canonical t"
    and v: "v \<in> set (therapist_busy_windows b (Some t))" and w: "w \<in> set (therapist_busy_windows c (Some t))"
  have m: "mirrored b" using b by (simp add: row_ok_def)
  have "\<not> check_therapist_overlap m bs t (fst v) (snd v) e"
  proof (cases "br_sessions b = []")
    case True
    then obtain a z where az: "br_appointment_start b = Some a" "br_appointment_end b = Some z"
      "check_therapists m bs e a z (present_ids [br_therapist_id b, br_secondary_therapist_id b]) = Inr ()"
      using chk by auto
    then have "v = (a, z)" "t \<in> set (present_ids [br_therapist_id b, br_secondary_therapist_id b])"
      using v True windows_of[OF m t] columns_present[OF b] by (auto split: if_splits)
    then show ?thesis using az(3) by (simp add: check_therapists_Inr)
  next
    case False
    then obtain s where s: "s \<in> set (br_sessions b)" "serves t s" "v = win s"
      using v windows_of[OF m t] by auto
    then have "windowed s" "t \<in> set (present_ids [ss_therapist_id s, ss_secondary_therapist_id s])"
      using b serves_present by (auto simp: row_ok_def mirrored_def)
    then show ?thesis using check_sessions_Inr[of m bs e "br_sessions b" "()" s t] chk False s by simp
  qed
  from overlap_query.free_window[OF rows t this c(1) bl c(2) w] show "disjoint_windows v w" by simp
qed

lemma row_ok_cong:
  assumes "br_sessions b = br_sessions c" "br_therapist_id b = br_therapist_id c"
    "br_secondary_therapist_id b = br_secondary_therapist_id c"
    "br_appointment_start b = br_appointment_start c" "br_appointment_end b = br_appointment_end c"
  shows "row_ok m b = row_ok m c" "therapist_busy_windows b t = therapist_busy_windows c t"
  unfolding row_ok_def mirrored_def therapist_busy_windows_def assms by (rule refl)+

lemma created_row_fields [simp]:
  "br_sessions (created_row env bs req es) = br_sessions req"
  "br_therapist_id (created_row env bs req es) = br_therapist_id req"
  "br_secondary_therapist_id (created_row env bs req es) = br_secondary_therapist_id req"
  "br_appointment_start (created_row env bs req es) = br_appointment_start req"
  "br_appointment_end (created_row env bs req es) = br_appointment_end req"
  "br_status (created_row env bs req es) = br_status req"
  "br_id (created_row env bs req es) = Some (ce_new_id env)"
  by (simp_all add: created_row_def)

lemma create_booking_cases:
  assumes "create_booking env source user req db = Inr (b, db')"
  obtains "db' = db" | es where "b = created_row env (bs_bookings db) req es"
    "bs_bookings db' = bs_bookings db @ [b]" "bs_holds db' = bs_holds db @ new_holds env b"
    "check_new_booking env (bs_bookings db) req = Inr ()"
  using assms
  by (auto simp: create_booking_def ebind_Inr_iff Let_def record_status_change_def split: option.splits)

definition schedule_ok :: "(session list \<Rightarrow> string \<Rightarrow> bool) \<Rightarrow> booking_row list \<Rightarrow> bool" where
  "schedule_ok m bs \<longleftrightarrow> (\<forall>b\<in>set bs. row_ok m b) \<and> no_double_booking bs \<and> distinct (map br_id bs)"

lemma create_booking_ok:
  assumes ok: "schedule_ok (ce_mentions env) (bs_bookings db)" and req: "row_ok (ce_mentions env) req"
    and fresh: "Some (ce_new_id env) \<notin> br_id ` set (bs_bookings db)"
    and cr: "create_booking env source user req db = Inr (b, db')"
  shows "schedule_ok (ce_mentions env) (bs_bookings db')"
  using cr
proof (cases rule: create_booking_cases)
  case (2 es)
  let ?bs = "bs_bookings db"
  have rb: "row_ok (ce_mentions env) b" using req row_ok_cong(1)[of b req] 2 by simp
  have "if br_sessions b \<noteq> [] then check_sessions (ce_mentions env) ?bs None (br_sessions b) = Inr ()
        else (\<exists>a z. br_appointment_start b = Some a \<and> br_appointment_end b = Some z
          \<and> check_therapists (ce_mentions env) ?bs None a z (present_ids [br_therapist_id b, br_secondary_therapist_id b]) = Inr ())"
    using 2 by (auto simp: check_new_booking_def split: if_splits option.splits)
  from checked_apart[OF _ rb this] ok have "\<forall>c\<in>set ?bs. apart b c" by (simp add: schedule_ok_def)
  then show ?thesis using ok rb 2 fresh no_double_insert[of ?bs b] by (auto simp: schedule_ok_def)
qed (use ok in simp)

lemma get_by_id_Inr: "get_by_id i bs = Inr b \<Longrightarrow> b \<in> set bs \<and> br_id b = Some i"
  by (auto simp: get_by_id_def find_Some_iff split: option.splits)

lemma reassigned_fields [simp]:
  "ss_appointment_start (reassigned t d p s sd x) = ss_appointment_start x"
  "ss_appointment_end (reassigned t d p s sd x) = ss_appointment_end x"
  "ss_therapist_id (reassigned t d p s sd x) = (if t \<noteq> None then t else ss_therapist_id x)"
  "ss_secondary_therapist_id (reassigned t d p s sd x) = (if p then s else ss_secondary_therapist_id x)"
  "win (reassigned t d p s sd x) = win x" "windowed (reassigned t d p s sd x) = windowed x"
  by (simp_all add: reassigned_def win_def windowed_def session_window_def)

lemma update_first_split:
  assumes "find P xs = Some x"
  obtains ys zs where "xs = ys @ x # zs" "update_first P f xs = ys @ f x # zs" "P x"
proof -
  have "\<exists>ys zs. xs = ys @ x # zs \<and> update_first P f xs = ys @ f x # zs \<and> P x"
    using assms
  proof (induction xs)
    case (Cons a xs)
    show ?case
    proof (cases "P a")
      case True
      with Cons.prems show ?thesis by (intro exI[of _ "[]"] exI[of _ xs]) simp
    next
      case False
      with Cons obtain ys zs where "xs = ys @ x # zs" "update_first P f xs = ys @ f x # zs" "P x" by auto
      with False show ?thesis by (intro exI[of _ "a # ys"] exI[of _ zs]) simp
    qed
  qed simp
  with that show ?thesis by blast
qed

definition finds_therapists :: "(session list \<Rightarrow> string \<Rightarrow> bool) \<Rightarrow> bool" where
  "finds_therapists m \<longleftrightarrow> (\<forall>ss s t. s \<in> set ss \<longrightarrow> serves t s \<longrightarrow> m ss t)"

definition canonical_sessions :: "session list \<Rightarrow> bool" where
  "canonical_sessions ss \<longleftrightarrow> (\<forall>s\<in>set ss. id_text (ss_therapist_id s) = ss_therapist_id s
     \<and> id_text (ss_secondary_therapist_id s) = ss_secondary_therapist_id s)"

text \<open>The sessions of a well formed booking, stored or made up from its columns, are well formed.\<close>

lemma id_text_idem [simp]: "id_text (id_text v) = id_text v"
  by (auto simp: id_text_def nonempty_def split: option.splits)

lemma or_none_id [simp]: "id_text v = v \<Longrightarrow> or_none v = v"
  by (auto simp: id_text_def or_none_def nonempty_def split: option.splits if_splits)

lemma sessions_of_row:
  assumes "row_ok m b" "br_appointment_start b = Some a" "br_appointment_end b = Some z"
  shows "get_booking_sessions b new \<noteq> []" "canonical_sessions (get_booking_sessions b new)"
    and "\<forall>s\<in>set (get_booking_sessions b new). windowed s \<and> a \<le> fst (win s) \<and> snd (win s) \<le> z"
    and "canonical t \<Longrightarrow> therapist_busy_windows b (Some t) = map win (filter (serves t) (get_booking_sessions b new))"
proof -
  let ?s = "session_from_booking b new"
  have f: "ss_therapist_id ?s = id_text (br_therapist_id b)" "ss_secondary_therapist_id ?s = id_text (br_secondary_therapist_id b)"
    "ss_appointment_start ?s = Some a" "ss_appointment_end ?s = Some z"
    using assms(2,3) by (simp_all add: session_from_booking_def Let_def)
  have lt: "a < z" using assms by (auto simp: row_ok_def)
  then have w: "windowed ?s" "win ?s = (a, z)" using f by (simp_all add: windowed_def session_window_def win_def)
  have ms: "\<forall>s\<in>set (br_sessions b). windowed s \<and> a \<le> fst (win s) \<and> snd (win s) \<le> z"
    using assms by (auto simp: row_ok_def mirrored_def)
  show "get_booking_sessions b new \<noteq> []" by (simp add: get_booking_sessions_def)
  show "canonical_sessions (get_booking_sessions b new)"
    using assms(1) f by (auto simp: get_booking_sessions_def canonical_sessions_def row_ok_def)
  show "\<forall>s\<in>set (get_booking_sessions b new). windowed s \<and> a \<le> fst (win s) \<and> snd (win s) \<le> z"
    using ms w by (auto simp: get_booking_sessions_def)
  assume t: "canonical t"
  have m: "mirrored b" using assms(1) by (simp add: row_ok_def)
  show "therapist_busy_windows b (Some t) = map win (filter (serves t) (get_booking_sessions b new))"
  proof (cases "br_sessions b = []")
    case True
    then show ?thesis using windows_of[OF m t] assms(2,3) f w
      by (auto simp: get_booking_sessions_def serves_def)
  next
    case False
    then show ?thesis using windows_of[OF m t] by (simp add: get_booking_sessions_def)
  qed
qed

lemma row_with_sessions:
  assumes "finds_therapists m" "br_sessions b = ss" "ss \<noteq> []" "canonical_sessions ss"
    "br_appointment_start b = Some a" "br_appointment_end b = Some z"
    "\<forall>s\<in>set ss. windowed s \<and> a \<le> fst (win s) \<and> snd (win s) \<le> z"
    "id_text (br_therapist_id b) = br_therapist_id b" "id_text (br_secondary_therapist_id b) = br_secondary_therapist_id b"
  shows "row_ok m b"
    and "canonical t \<Longrightarrow> therapist_busy_windows b (Some t) = map win (filter (serves t) ss)"
proof -
  have m: "mirrored b" using assms by (auto simp: mirrored_def)
  have "fst (win (hd ss)) < snd (win (hd ss))" "a \<le> fst (win (hd ss))" "snd (win (hd ss)) \<le> z"
    using assms(3,7) by (auto simp: windowed_simps)
  then have "a < z" by linarith
  then show "row_ok m b" using assms m
    by (auto simp: row_ok_def canonical_sessions_def finds_therapists_def)
  show "canonical t \<Longrightarrow> therapist_busy_windows b (Some t) = map win (filter (serves t) ss)"
    using windows_of[OF m] assms(2,3) by simp
qed

lemma change_session_cases:
  assumes "change_session_therapist m booking_id session_id therapist_id td secondary_id sd provided new_id db = Inr (b', db')"
  obtains b target prim sec mm where "get_by_id booking_id (bs_bookings db) = Inr b"
    "find (has_session_id session_id) (get_booking_sessions b new_id) = Some target"
    "prim = (if therapist_id \<noteq> None then therapist_id else ss_therapist_id target)"
    "sec = (if provided then secondary_id else ss_secondary_therapist_id target)"
    "change_check m (bs_bookings db) (br_id b) target [prim, sec] = Inr ()"
    "legacy_mirror (update_first (has_session_id session_id) (reassigned therapist_id td provided sec sd)
       (get_booking_sessions b new_id)) = Some mm"
    "b' = therapist_columns (update_first (has_session_id session_id) (reassigned therapist_id td provided sec sd)
       (get_booking_sessions b new_id)) mm b"
    "bs_bookings db' = replace_row br_id b' (bs_bookings db)"
proof -
  from assms obtain b where b: "get_by_id booking_id (bs_bookings db) = Inr b"
    by (auto simp: change_session_therapist_def ebind_Inr_iff)
  show ?thesis
  proof (cases "find (has_session_id session_id) (get_booking_sessions b new_id)")
    case None
    then show ?thesis using assms b by (simp add: change_session_therapist_def)
  next
    case (Some target)
    define prim where "prim = (if therapist_id \<noteq> None then therapist_id else ss_therapist_id target)"
    define sec where "sec = (if provided then secondary_id else ss_secondary_therapist_id target)"
    define ss' where "ss' = update_first (has_session_id session_id) (reassigned therapist_id td provided sec sd)
       (get_booking_sessions b new_id)"
    have run: "(if truthy sec \<and> sec = prim then Inl SameTherapistTwice
             else ebind (change_check m (bs_bookings db) (br_id b) target [prim, sec]) (\<lambda>_.
                 case legacy_mirror ss' of None \<Rightarrow> Inl SessionCount
                 | Some mm \<Rightarrow> if \<not> truthy (sm_therapist_id mm) then Inl InvalidUuid
                     else Inr (therapist_columns ss' mm b,
                       write_booking (therapist_columns ss' mm b) (db\<lparr>bs_holds := move_hold booking_id target therapist_id (bs_holds db)\<rparr>))))
        = Inr (b', db')"
      using assms b Some unfolding change_session_therapist_def Let_def
      by (simp only: ebind_simps option.case prim_def[symmetric] sec_def[symmetric] ss'_def[symmetric])
    then have chk: "change_check m (bs_bookings db) (br_id b) target [prim, sec] = Inr ()"
      by (auto simp: ebind_Inr_iff split: if_splits)
    obtain mm where mm: "legacy_mirror ss' = Some mm" using run by (cases "legacy_mirror ss'") (auto simp: ebind_Inr_iff split: if_splits)
    with run chk show ?thesis
      by (intro that[OF b Some prim_def sec_def chk, of mm])
        (auto simp: ss'_def write_booking_def split: if_splits)
  qed
qed

lemma change_session_ok:
  assumes ok: "schedule_ok m (bs_bookings db)" and fm: "finds_therapists m"
    and args: "id_text therapist_id = therapist_id" "id_text secondary_id = secondary_id"
    and ch: "change_session_therapist m booking_id session_id therapist_id td secondary_id sd provided new_id db = Inr (b', db')"
  shows "schedule_ok m (bs_bookings db')"
proof -
  let ?bs = "bs_bookings db"
  from change_session_cases[OF ch] obtain b target prim sec mm where b: "get_by_id booking_id ?bs = Inr b"
    and target: "find (has_session_id session_id) (get_booking_sessions b new_id) = Some target"
    and prim: "prim = (if therapist_id \<noteq> None then therapist_id else ss_therapist_id target)"
    and sec: "sec = (if provided then secondary_id else ss_secondary_therapist_id target)"
    and chk: "change_check m ?bs (br_id b) target [prim, sec] = Inr ()"
    and mm: "legacy_mirror (update_first (has_session_id session_id) (reassigned therapist_id td provided sec sd)
       (get_booking_sessions b new_id)) = Some mm"
    and b': "b' = therapist_columns (update_first (has_session_id session_id) (reassigned therapist_id td provided sec sd)
       (get_booking_sessions b new_id)) mm b"
    and db': "bs_bookings db' = replace_row br_id b' ?bs" .
  let ?ss = "get_booking_sessions b new_id" and ?f = "reassigned therapist_id td provided sec sd"
  let ?ss' = "update_first (has_session_id session_id) ?f ?ss"
  have bin: "b \<in> set ?bs" "br_id b = Some booking_id" using get_by_id_Inr[OF b] by auto
  then have rb: "row_ok m b" using ok by (simp add: schedule_ok_def)
  then obtain a z where az: "br_appointment_start b = Some a" "br_appointment_end b = Some z" by (auto simp: row_ok_def)
  note sb = sessions_of_row[OF rb az, where new = new_id]
  obtain ys zs where split: "?ss = ys @ target # zs" "?ss' = ys @ ?f target # zs"
    using update_first_split[OF target] by metis
  have ne': "?ss' \<noteq> []" unfolding split(2) by simp
  have can': "canonical_sessions ?ss'" using sb(2) args unfolding split(2) unfolding split(1) canonical_sessions_def by (auto simp: sec)
  have win': "\<forall>s\<in>set ?ss'. windowed s \<and> a \<le> fst (win s) \<and> snd (win s) \<le> z" using sb(3) unfolding split(2) unfolding split(1) by auto
  have hd': "id_text (ss_therapist_id (hd ?ss')) = ss_therapist_id (hd ?ss')"
    "id_text (ss_secondary_therapist_id (hd ?ss')) = ss_secondary_therapist_id (hd ?ss')"
    using can' ne' by (auto simp: canonical_sessions_def)
  have cols: "br_sessions b' = ?ss'" "br_therapist_id b' = ss_therapist_id (hd ?ss')"
    "br_secondary_therapist_id b' = ss_secondary_therapist_id (hd ?ss')" "br_id b' = br_id b"
    "br_status b' = br_status b" "br_appointment_start b' = Some a" "br_appointment_end b' = Some z"
    using mm ne' hd' az unfolding b' by (auto simp: therapist_columns_def legacy_mirror_def Let_def)
  note rb' = row_with_sessions[OF fm cols(1) ne' can' cols(6,7) win']
  have row': "row_ok m b'" using rb'(1) hd' cols(2,3) by simp
  have win_b': "therapist_busy_windows b' (Some t) = map win (filter (serves t) ?ss')" if "canonical t" for t
    using rb'(2)[OF _ _ that] hd' cols(2,3) by simp
  have "apart b' c" if c: "c \<in> set ?bs" "br_id c \<noteq> br_id b'" for c
    unfolding apart_def
  proof (intro impI allI ballI)
    fix t v w assume bl: "blocking b'" "blocking c" and t: "canonical t"
      and v: "v \<in> set (therapist_busy_windows b' (Some t))" and w: "w \<in> set (therapist_busy_windows c (Some t))"
    have "blocking b" using bl(1) cols(5) by (simp add: blocking_def)
    then have old: "disjoint_windows u w" if "u \<in> set (therapist_busy_windows b (Some t))" for u
      using ok bin(1) c cols(4) bl(2) t w that unfolding schedule_ok_def no_double_booking_def apart_def by metis
    obtain s where s: "s \<in> set ?ss'" "serves t s" "v = win s" using v win_b'[OF t] by auto
    show "disjoint_windows v w"
    proof (cases "s \<in> set ?ss \<or> Some t \<in> {ss_therapist_id target, ss_secondary_therapist_id target}")
      case True
      have "v \<in> win ` set (filter (serves t) ?ss)"
      proof (cases "s \<in> set ?ss")
        case True
        then show ?thesis using s by simp
      next
        case False
        then have "v = win target" using s(1,3) unfolding split(2) unfolding split(1) by auto
        moreover have "serves t target" using \<open>s \<in> set ?ss \<or> _\<close> False sb(2) unfolding split(1)
          by (auto simp: canonical_sessions_def serves_def)
        ultimately show ?thesis unfolding split(1) by auto
      qed
      then have "v \<in> set (therapist_busy_windows b (Some t))" unfolding sb(4)[OF t] by simp
      then show ?thesis by (rule old)
    next
      case False
      then have "s = ?f target" using s(1) unfolding split(2) unfolding split(1) by auto
      then have "t \<in> set (present_ids [prim, sec])" (is "t \<in> set ?present")
        using serves_present[of s t] s(1,2) can' by (auto simp: canonical_sessions_def prim sec in_present_ids)
      then have "check_therapists m ?bs (br_id b) (fst (win target)) (snd (win target))
          (filter (\<lambda>t. Some t \<notin> {ss_therapist_id target, ss_secondary_therapist_id target})
            ?present) = Inr ()"
        using chk False sb(3) unfolding split(1) change_check_def
        by (auto simp: Let_def windowed_simps filter_empty_conv split: if_splits)
      then have "\<not> check_therapist_overlap m ?bs t (fst (win target)) (snd (win target)) (br_id b)"
        using False \<open>t \<in> set ?present\<close> unfolding check_therapists_Inr by auto
      from overlap_query.free_window[OF _ t this c(1) bl(2) _ w] ok c(2) cols(4)
      have "disjoint_windows (win target) w" by (simp add: schedule_ok_def)
      then show ?thesis using \<open>s = ?f target\<close> s(3) by simp
    qed
  qed
  then show ?thesis using ok row' no_double_replace[of ?bs b'] set_replace_row[of br_id b' ?bs]
    unfolding schedule_ok_def db' by auto
qed

lemma schedule_ok_replace:
  assumes ok: "schedule_ok m bs" and b: "b \<in> set bs" "br_id b' = br_id b" and row: "row_ok m b'"
    and same: "\<not> blocking b' \<or> (blocking b \<and> (\<forall>t. therapist_busy_windows b' t = therapist_busy_windows b t))"
  shows "schedule_ok m (replace_row br_id b' bs)"
proof -
  have "apart b' c" if c: "c \<in> set bs" "br_id c \<noteq> br_id b'" for c
  proof -
    have "apart b c" using ok b c unfolding schedule_ok_def no_double_booking_def by metis
    then show ?thesis using same unfolding apart_def by auto
  qed
  then show ?thesis using ok row no_double_replace[of bs b'] set_replace_row[of br_id b' bs]
    unfolding schedule_ok_def by auto
qed

definition plain_edit :: "update_args \<Rightarrow> bool" where
  "plain_edit a \<longleftrightarrow> (\<exists>st ps rs src who. a = no_changes\<lparr>ua_status := st, ua_payment_status := ps, ua_reason := rs,
      ua_source := src, ua_changed_by := who\<rparr>)"

lemma plain_edit_fields:
  assumes "plain_edit a"
  shows "ua_sessions a = None" "ua_services a = None" "ua_therapist_id a = None" "ua_secondary_id a = None"
    "\<not> ua_secondary_provided a" "\<not> given_secondary a" "\<not> timing_given a" "ua_secondary_data a = None"
    "ua_appointment_start a = None" "ua_extra_minutes a = None"
  using assms by (auto simp: plain_edit_def no_changes_def given_secondary_def timing_given_def)

lemma plain_pricing: "plain_edit a \<Longrightarrow> update_pricing a b = b"
  by (auto simp: plain_edit_def no_changes_def update_pricing_def)

lemma plain_arrangement: "plain_edit a \<Longrightarrow> update_first_arrangement a b = b"
  by (auto simp: plain_edit_def no_changes_def update_first_arrangement_def Let_def)

lemma update_plain:
  assumes "plain_edit a" "get_by_id i (bs_bookings db) = Inr b" "row_ok m b"
    and "br_secondary_therapist_id b = None \<or> br_secondary_therapist_id b \<noteq> br_therapist_id b"
  shows "\<exists>eff. update_booking m i a db
     = apply_status a (sync_sessions a eff b (update_payment_status a b)) (br_payment_status b) db"
proof -
  note f = plain_edit_fields[OF assms(1)]
  obtain s z where sz: "br_appointment_start b = Some s" "br_appointment_end b = Some z"
    using assms(3) by (auto simp: row_ok_def)
  have r: "resolve_secondary a b (br_therapist_id b) = Inr (br_secondary_therapist_id b, a)"
    using assms(4) f by (auto simp: resolve_secondary_def)
  have t: "update_timing m (bs_bookings db) p a b = Inr (a, b)" for p
    using f sz r by (simp add: update_timing_def Let_def)
  show ?thesis
    using assms(2) f t by (simp add: update_booking_def replace_sessions_def replace_services_def
        plain_pricing[OF assms(1)] plain_arrangement[OF assms(1)] Let_def) blast
qed

lemma update_payment_status_fields [simp]:
  "br_sessions (update_payment_status a b) = br_sessions b"
  "br_therapist_id (update_payment_status a b) = br_therapist_id b"
  "br_secondary_therapist_id (update_payment_status a b) = br_secondary_therapist_id b"
  "br_appointment_start (update_payment_status a b) = br_appointment_start b"
  "br_appointment_end (update_payment_status a b) = br_appointment_end b"
  "br_extra_minutes (update_payment_status a b) = br_extra_minutes b"
  "br_id (update_payment_status a b) = br_id b" "br_status (update_payment_status a b) = br_status b"
  by (auto simp: update_payment_status_def Let_def split: option.splits)

lemma sync_sessions_fields [simp]:
  "br_therapist_id (sync_sessions a e b0 b) = br_therapist_id b"
  "br_secondary_therapist_id (sync_sessions a e b0 b) = br_secondary_therapist_id b"
  "br_appointment_start (sync_sessions a e b0 b) = br_appointment_start b"
  "br_appointment_end (sync_sessions a e b0 b) = br_appointment_end b"
  "br_id (sync_sessions a e b0 b) = br_id b" "br_status (sync_sessions a e b0 b) = br_status b"
  by (auto simp: sync_sessions_def Let_def split: list.splits)

lemma primary_fields_of [simp]:
  "ss_therapist_id (primary_from_columns b s) = (if br_therapist_id b \<noteq> None then br_therapist_id b else ss_therapist_id s)"
  "ss_secondary_therapist_id (primary_from_columns b s) = ss_secondary_therapist_id s"
  "win (primary_from_columns b s) = win s"
  by (simp_all add: primary_from_columns_def win_def)

lemma sync_row_ok:
  assumes a: "plain_edit a" and row: "row_ok m b" and fm: "finds_therapists m"
  shows "row_ok m (sync_sessions a e b (update_payment_status a b))"
proof -
  let ?b = "update_payment_status a b"
  note f = plain_edit_fields[OF a]
  obtain s z where sz: "br_appointment_start b = Some s" "br_appointment_end b = Some z" "s < z"
    using row by (auto simp: row_ok_def)
  have cols: "id_text (br_therapist_id b) = br_therapist_id b" "id_text (br_secondary_therapist_id b) = br_secondary_therapist_id b"
    using row by (auto simp: row_ok_def)
  have old: "canonical_sessions (br_sessions b)" "\<forall>x\<in>set (br_sessions b). windowed x \<and> s \<le> fst (win x) \<and> snd (win x) \<le> z"
    using row sz by (auto simp: row_ok_def canonical_sessions_def mirrored_def)
  consider "br_sessions b = []" | x where "br_sessions b = [x]" | x y ys where "br_sessions b = x # y # ys"
    by (metis neq_Nil_conv)
  then show ?thesis
  proof cases
    case 1
    then have "sync_sessions a e b ?b = ?b" using f by (simp add: sync_sessions_def)
    then show ?thesis using row row_ok_cong(1)[of ?b b m] by simp
  next
    case 2
    let ?x = "sync_single a e ?b x"
    have x: "win ?x = (s, z)" "ss_therapist_id ?x = (if br_therapist_id b \<noteq> None then br_therapist_id b else ss_therapist_id x)"
      "ss_secondary_therapist_id ?x = ss_secondary_therapist_id x" "session_window ?x = (Some s, Some z)"
      using f sz by (simp_all add: sync_single_def secondary_from_columns_def win_def session_window_def Let_def)
    have "br_sessions (sync_sessions a e b ?b) = [?x]" using 2 f by (simp add: sync_sessions_def)
    then show ?thesis
      using row_with_sessions(1)[OF fm, of "sync_sessions a e b ?b" "[?x]" s z] old cols sz x 2
      by (auto simp: canonical_sessions_def windowed_def)
  next
    case 3
    let ?g = "shift_session a 0 0 (length (br_sessions b)) ?b"
    have g: "win (?g i x) = win x" "windowed (?g i x)" "id_text (ss_therapist_id (?g i x)) = ss_therapist_id (?g i x)"
      "id_text (ss_secondary_therapist_id (?g i x)) = ss_secondary_therapist_id (?g i x)" if "x \<in> set (br_sessions b)" for i x
      using that old cols f windowed_simps[of x]
      by (auto simp: shift_session_def secondary_from_columns_def canonical_sessions_def Let_def windowed_def
          session_window_def win_def)
    have ss: "br_sessions (sync_sessions a e b ?b) = map2 ?g [0..<length (br_sessions b)] (br_sessions b)"
      using 3 f sz by (simp add: sync_sessions_def)
    let ?ss = "map2 ?g [0..<length (br_sessions b)] (br_sessions b)"
    have mem: "\<exists>i y. y \<in> set (br_sessions b) \<and> x = ?g i y" if "x \<in> set ?ss" for x
      using that by (auto dest: set_zip_rightD)
    have can: "canonical_sessions ?ss"
      unfolding canonical_sessions_def
    proof
      fix x assume "x \<in> set ?ss"
      then obtain i y where "y \<in> set (br_sessions b)" "x = ?g i y" using mem by blast
      then show "id_text (ss_therapist_id x) = ss_therapist_id x \<and> id_text (ss_secondary_therapist_id x) = ss_secondary_therapist_id x"
        using g(3,4) by metis
    qed
    have wins: "\<forall>x\<in>set ?ss. windowed x \<and> s \<le> fst (win x) \<and> snd (win x) \<le> z"
    proof
      fix x assume "x \<in> set ?ss"
      then obtain i y where y: "y \<in> set (br_sessions b)" "x = ?g i y" using mem by blast
      then have "win x = win y" "windowed x" using g(1,2) by metis+
      then show "windowed x \<and> s \<le> fst (win x) \<and> snd (win x) \<le> z" using old(2) y(1) by metis
    qed
    have "?ss \<noteq> []" using 3 by (metis length_0_conv length_map length_upt length_zip list.distinct(1) min.idem minus_nat.diff_0)
    from row_with_sessions(1)[OF fm ss this can _ _ wins] show ?thesis using sz cols by simp
  qed
qed

lemma write_booking_bookings [simp]: "bs_bookings (write_booking b db) = replace_row br_id b (bs_bookings db)"
  by (simp add: write_booking_def)

lemma apply_status_bookings:
  assumes "apply_status a b ps db = Inr (b', db')"
  shows "bs_bookings db' = replace_row br_id b' (bs_bookings db)"
    and "b' = b \<or> (\<exists>s. ua_status a = Some s \<and> b' = status_change_row a s b)"
  using assms
  by (auto simp: apply_status_def keep_status_def change_status_def record_status_change_def Let_def ebind_Inr_iff
      split: option.splits if_splits)

lemma status_change_row_fields [simp]:
  "br_sessions (status_change_row a s b) = br_sessions b"
  "br_therapist_id (status_change_row a s b) = br_therapist_id b"
  "br_secondary_therapist_id (status_change_row a s b) = br_secondary_therapist_id b"
  "br_appointment_start (status_change_row a s b) = br_appointment_start b"
  "br_appointment_end (status_change_row a s b) = br_appointment_end b"
  "br_id (status_change_row a s b) = br_id b"
  "br_status (status_change_row a s b) = booking_status_value s"
  by (simp_all add: status_change_row_def)

lemma release_ok:
  assumes ok: "schedule_ok m (bs_bookings db)" and fm: "finds_therapists m" and a: "plain_edit a"
    and b: "get_by_id i (bs_bookings db) = Inr b"
    and sec: "br_secondary_therapist_id b = None \<or> br_secondary_therapist_id b \<noteq> br_therapist_id b"
    and st: "ua_status a = Some s" "booking_status_value s \<in> set NON_BLOCKING_BOOKING_STATUSES" "booking_status_value s \<noteq> br_status b"
    and up: "update_booking m i a db = Inr (b', db')"
  shows "schedule_ok m (bs_bookings db')"
proof -
  have bin: "b \<in> set (bs_bookings db)" "br_id b = Some i" using get_by_id_Inr[OF b] by auto
  then have rb: "row_ok m b" using ok by (simp add: schedule_ok_def)
  from update_plain[OF a b rb sec] obtain e where
    ap: "apply_status a (sync_sessions a e b (update_payment_status a b)) (br_payment_status b) db = Inr (b', db')"
    using up by auto
  let ?b = "sync_sessions a e b (update_payment_status a b)"
  have rs: "row_ok m ?b" by (rule sync_row_ok[OF a rb fm])
  have b': "b' = ?b \<or> b' = status_change_row a s ?b" using apply_status_bookings(2)[OF ap] st(1) by auto
  moreover have "b' \<noteq> ?b \<or> \<not> blocking b'"
  proof (cases "booking_status_of (br_status ?b)")
    case None
    then show ?thesis using ap st(1) by (simp add: apply_status_def)
  next
    case (Some old)
    then have "booking_status_value old = br_status b" by (auto simp: booking_status_of_def find_Some_iff)
    then have "old \<noteq> s" using st(3) by auto
    then have "b' = status_change_row a s ?b" using ap st(1) Some
      by (auto simp: apply_status_def ebind_Inr_iff change_status_def Let_def)
    then show ?thesis using st(2) by (simp add: blocking_def)
  qed
  ultimately have "row_ok m b'" "\<not> blocking b'" "br_id b' = br_id b"
    using rs row_ok_cong(1)[of "status_change_row a s ?b" ?b m] st(2) by (auto simp: blocking_def)
  then show ?thesis using schedule_ok_replace[OF ok bin(1)] apply_status_bookings(1)[OF ap] by simp
qed

lemma confirm_ok:
  assumes ok: "schedule_ok m (bs_bookings db)" and b: "get_by_id i (bs_bookings db) = Inr b" and np: "br_status b \<noteq> ''parked''"
    and c: "confirm_booking i p d who src db = Inr (b', db')"
  shows "schedule_ok m (bs_bookings db')"
proof -
  have bin: "b \<in> set (bs_bookings db)" "br_id b = Some i" using get_by_id_Inr[OF b] by auto
  from c b obtain st where st: "booking_status_of (br_status b) = Some st" by (auto simp: confirm_booking_def split: option.splits)
  then have v: "booking_status_value st = br_status b" by (auto simp: booking_status_of_def find_Some_iff)
  have "st = BK_CONFIRMED \<or> BK_CONFIRMED \<in> set (booking_transitions st)"
    using c b st by (auto simp: confirm_booking_def machine_simps split: if_splits)
  then have bl: "blocking b" using v[symmetric] np by (cases st) (auto simp: blocking_def NON_BLOCKING_BOOKING_STATUSES_def)
  have up: "bs_bookings db' = replace_row br_id b' (bs_bookings db)" "br_id b' = br_id b"
    "br_sessions b' = br_sessions b" "br_therapist_id b' = br_therapist_id b"
    "br_secondary_therapist_id b' = br_secondary_therapist_id b"
    "br_appointment_start b' = br_appointment_start b" "br_appointment_end b' = br_appointment_end b"
    using c b st by (auto simp: confirm_booking_def enqueue_event_def record_status_change_def Let_def
        split: if_splits sum.splits)
  have "row_ok m b'" using row_ok_cong(1)[OF up(3-7)] ok bin by (simp add: schedule_ok_def)
  from schedule_ok_replace[OF ok bin(1) up(2) this] bl row_ok_cong(2)[OF up(3-7)] up(1) show ?thesis by simp
qed

lemma reschedule_ok:
  assumes ok: "schedule_ok m (bs_bookings db)" and r: "request_reschedule i cu tx who src clock db = Inr (b', db')"
  shows "schedule_ok m (bs_bookings db')"
proof -
  from r obtain b where b: "get_by_id i (bs_bookings db) = Inr b" by (auto simp: request_reschedule_def ebind_Inr_iff)
  have bin: "b \<in> set (bs_bookings db)" "br_id b = Some i" using get_by_id_Inr[OF b] by auto
  from r b obtain st t where st: "booking_status_of (br_status b) = Some st" "br_appointment_start b = Some t" "br_customer_id b = cu"
    by (auto simp: request_reschedule_def split: option.splits if_splits)
  have "st = BK_CONFIRMED" using r b st
    by (auto simp: request_reschedule_def assert_booking_is_reschedulable_def guard_def split: if_splits sum.splits)
  then have bl: "blocking b" using st(1)
    by (auto simp: booking_status_of_def find_Some_iff blocking_def NON_BLOCKING_BOOKING_STATUSES_def)
  have up: "bs_bookings db' = replace_row br_id b' (bs_bookings db)" "br_id b' = br_id b"
    "br_sessions b' = br_sessions b" "br_therapist_id b' = br_therapist_id b"
    "br_secondary_therapist_id b' = br_secondary_therapist_id b"
    "br_appointment_start b' = br_appointment_start b" "br_appointment_end b' = br_appointment_end b"
    using r b st by (auto simp: request_reschedule_def enqueue_event_def record_status_change_def Let_def
        split: if_splits sum.splits)
  have "row_ok m b'" using row_ok_cong(1)[OF up(3-7)] ok bin by (simp add: schedule_ok_def)
  from schedule_ok_replace[OF ok bin(1) up(2) this] bl row_ok_cong(2)[OF up(3-7)] up(1) show ?thesis by simp
qed

section \<open>The schedule as a whole\<close>

inductive schedule_step :: "(session list \<Rightarrow> string \<Rightarrow> bool) \<Rightarrow> booking_db \<Rightarrow> booking_db \<Rightarrow> bool" for m where
  create: "\<lbrakk>ce_mentions env = m; row_ok m req; Some (ce_new_id env) \<notin> br_id ` set (bs_bookings db);
      create_booking env source user req db = Inr (b, db')\<rbrakk> \<Longrightarrow> schedule_step m db db'"
| reassign: "\<lbrakk>id_text therapist_id = therapist_id; id_text secondary_id = secondary_id;
      change_session_therapist m booking_id session_id therapist_id td secondary_id sd provided new_id db = Inr (b, db')\<rbrakk>
      \<Longrightarrow> schedule_step m db db'"
| confirm: "\<lbrakk>get_by_id booking_id (bs_bookings db) = Inr b0; br_status b0 \<noteq> ''parked'';
      confirm_booking booking_id pid given who src db = Inr (b, db')\<rbrakk> \<Longrightarrow> schedule_step m db db'"
| reschedule: "request_reschedule booking_id cust tx who src clock db = Inr (b, db') \<Longrightarrow> schedule_step m db db'"
| release: "\<lbrakk>plain_edit a; get_by_id booking_id (bs_bookings db) = Inr b0;
      br_secondary_therapist_id b0 = None \<or> br_secondary_therapist_id b0 \<noteq> br_therapist_id b0;
      ua_status a = Some s; booking_status_value s \<in> set NON_BLOCKING_BOOKING_STATUSES; booking_status_value s \<noteq> br_status b0;
      update_booking m booking_id a db = Inr (b, db')\<rbrakk> \<Longrightarrow> schedule_step m db db'"

inductive schedule_reachable :: "(session list \<Rightarrow> string \<Rightarrow> bool) \<Rightarrow> booking_db \<Rightarrow> bool" for m where
  empty: "schedule_reachable m \<lparr>bs_bookings = [], bs_holds = [], bs_history = [], bs_events = []\<rparr>"
| step: "schedule_reachable m db \<Longrightarrow> schedule_step m db db' \<Longrightarrow> schedule_reachable m db'"

lemma schedule_reachable_ok:
  assumes "schedule_reachable m db" "finds_therapists m"
  shows "schedule_ok m (bs_bookings db)"
  using assms(1)
proof induction
  case empty
  then show ?case by (simp add: schedule_ok_def no_double_booking_def)
next
  case (step db db')
  from step.hyps(2) step.IH show ?case
    by cases (blast intro: create_booking_ok change_session_ok[OF _ assms(2)] confirm_ok reschedule_ok
        release_ok[OF _ assms(2)])+
qed


lemma has_text_finds: "finds_therapists has_text"
  by (auto simp: finds_therapists_def has_text_def list_ex_iff)

definition demo_env :: "string \<Rightarrow> create_env" where
  "demo_env i = \<lparr>ce_mentions = has_text, ce_new_id = i, ce_now = 0, ce_year_month = ''202501'', ce_hold_minutes = 15\<rparr>"

definition demo_request :: "instant \<Rightarrow> instant \<Rightarrow> booking_row" where
  "demo_request a z = (demo_booking [] [] (Some a) (Some z))\<lparr>br_services := [demo_entry]\<rparr>"

lemma demo_request_ok: "a < z \<Longrightarrow> row_ok has_text (demo_request a z)"
  by (simp add: demo_request_def row_ok_def mirrored_def id_text_def strip_def is_space_def nonempty_def)

lemma no_later_booking:
  assumes "\<forall>b\<in>set bs. \<exists>e. br_appointment_end b = Some e \<and> e \<le> a"
  shows "\<not> check_therapist_overlap m bs t a z excl"
proof -
  have "filter (\<lambda>b. candidate m [t] a z b \<and> (excl = None \<or> br_id b \<noteq> excl)) bs = []"
    using assms by (fastforce simp: filter_empty_conv candidate_def span_overlaps_def split: option.splits)
  then show ?thesis by (simp add: check_therapist_overlap_def find_therapist_overlap_def)
qed

lemma demo_created:
  assumes "\<forall>b\<in>set (bs_bookings db). \<exists>e. br_appointment_end b = Some e \<and> e \<le> a"
  obtains b db' where "create_booking (demo_env i) src who (demo_request a z) db = Inr (b, db')"
    "bs_bookings db' = bs_bookings db @ [b]" "br_id b = Some i" "blocking b" "br_appointment_end b = Some z"
    "therapist_busy_windows b (Some ''t1'') = [(a, z)]"
proof -
  let ?b = "created_row (demo_env i) (bs_bookings db) (demo_request a z) [demo_entry]"
  have b: "br_id ?b = Some i" "br_sessions ?b = []" "br_status ?b = ''confirmed''" "br_appointment_start ?b = Some a"
    "br_appointment_end ?b = Some z" "br_therapist_id ?b = Some ''t1''"
    by (simp_all add: created_row_def demo_env_def demo_request_def)
  have "check_new_booking (demo_env i) (bs_bookings db) (demo_request a z) = Inr ()"
    using no_later_booking[OF assms] by (simp add: check_new_booking_def demo_request_def check_therapists_Inr)
  then have "\<exists>db'. create_booking (demo_env i) src who (demo_request a z) db = Inr (?b, db')
      \<and> bs_bookings db' = bs_bookings db @ [?b]"
    by (simp add: create_booking_def resolve_services_def demo_request_def demo_booking_def or_none_def nonempty_def
        Let_def record_status_change_def)
  moreover have "therapist_busy_windows ?b (Some ''t1'') = [(a, z)]"
    using windows_of[OF _ demo_canonical(1), of ?b] b demo_canonical(1) by (simp add: mirrored_def canonical_def)
  ultimately show ?thesis using b that by (auto simp: blocking_def NON_BLOCKING_BOOKING_STATUSES_def)
qed


end
