(* ===== verification/Booking_Edits.thy ===== *)
theory Booking_Edits
  imports Booking_Service
begin

text \<open>
  What \<open>BookingService.update_booking\<close> lets through although creating a booking would refuse it:
  status changes outside the machine, the move of a booking of several sessions, and the return
  of a parked booking to an active status.
\<close>

section \<open>Status changes\<close>

lemma status_update_applied:
  assumes b: "get_by_id i (bs_bookings db) = Inr b" and row: "row_ok m b"
    and sec: "br_secondary_therapist_id b = None \<or> br_secondary_therapist_id b \<noteq> br_therapist_id b"
    and st: "booking_status_of (br_status b) = Some old" "old \<noteq> new" "new \<noteq> BK_PARKED"
  obtains b' db' where "update_status m i new ps why src db = Inr (b', db')"
    "br_status b' = booking_status_value new" "br_appointment_start b' = br_appointment_start b"
    "br_appointment_end b' = br_appointment_end b" "br_id b' = br_id b" "br_therapist_id b' = br_therapist_id b"
    "br_sessions b = [] \<Longrightarrow> br_sessions b' = []"
    "bs_bookings db' = replace_row br_id b' (bs_bookings db)"
    "bs_history db' = bs_history db @ [\<lparr>bh_booking_id = i, bh_old_status = Some old, bh_new_status = new,
       bh_source = src, bh_changed_by = None, bh_reason = why\<rparr>]"
proof -
  let ?a = "no_changes\<lparr>ua_status := Some new, ua_payment_status := ps, ua_reason := why, ua_source := src\<rparr>"
  have a: "plain_edit ?a" unfolding plain_edit_def no_changes_def by auto
  from update_plain[OF a b row sec] obtain e where
    up: "update_booking m i ?a db = apply_status ?a (sync_sessions ?a e b (update_payment_status ?a b)) (br_payment_status b) db" ..
  let ?b = "sync_sessions ?a e b (update_payment_status ?a b)"
  have i: "br_id b = Some i" using get_by_id_Inr[OF b] by simp
  obtain db' where ap: "apply_status ?a ?b (br_payment_status b) db = Inr (status_change_row ?a new ?b, db')"
    and h: "bs_history db' = bs_history db @ [\<lparr>bh_booking_id = i, bh_old_status = Some old, bh_new_status = new,
       bh_source = src, bh_changed_by = None, bh_reason = why\<rparr>]"
    using st i by (simp add: apply_status_def park_check_def change_status_def Let_def record_status_change_def
        write_booking_def no_changes_def)
  have "br_sessions ?b = []" if "br_sessions b = []" using that by (simp add: sync_sessions_def)
  then show ?thesis
    using that[of "status_change_row ?a new ?b" db'] up ap h apply_status_bookings(1)[OF ap] by (simp add: update_status_def)
qed

text \<open>
  \<open>update_status\<close> stores every new status but \<open>parked\<close>, and writes it to the history, whatever
  the status machine says of the move: \<open>machine.transition_to\<close> raises inside a \<open>try\<close> whose
  handler only logs. The times and the therapist stay.
\<close>

theorem status_update_unchecked:
  assumes "get_by_id i (bs_bookings db) = Inr b" "row_ok m b"
    and "br_secondary_therapist_id b = None \<or> br_secondary_therapist_id b \<noteq> br_therapist_id b"
    and "booking_status_of (br_status b) = Some old" "old \<noteq> new" "new \<noteq> BK_PARKED"
  shows "\<exists>b' db'. update_status m i new ps why src db = Inr (b', db')
     \<and> br_status b' = booking_status_value new
     \<and> br_appointment_start b' = br_appointment_start b \<and> br_appointment_end b' = br_appointment_end b
     \<and> bs_history db' = bs_history db @ [\<lparr>bh_booking_id = i, bh_old_status = Some old, bh_new_status = new,
          bh_source = src, bh_changed_by = None, bh_reason = why\<rparr>]"
  by (rule status_update_applied[OF assms]) blast

definition row_in_status :: "BookingStatus \<Rightarrow> string \<Rightarrow> booking_row" where
  "row_in_status s i = (demo_booking i [] (Some 0) (Some 3600000000))\<lparr>br_status := booking_status_value s\<rparr>"

lemma row_in_status_simps [simp]:
  "br_id (row_in_status s i) = Some i" "br_status (row_in_status s i) = booking_status_value s"
  "br_sessions (row_in_status s i) = []" "br_therapist_id (row_in_status s i) = Some ''t1''"
  "br_secondary_therapist_id (row_in_status s i) = None"
  "br_appointment_start (row_in_status s i) = Some 0" "br_appointment_end (row_in_status s i) = Some 3600000000"
  by (simp_all add: row_in_status_def)

lemma row_in_status_ok: "row_ok m (row_in_status s i)"
  by (simp add: row_ok_def mirrored_def id_text_def strip_def is_space_def nonempty_def)

lemma status_of_value: "booking_status_of (booking_status_value s) = Some s"
  by (cases s) (simp_all add: booking_status_of_def booking_statuses_def)

lemma row_in_status_prems:
  "br_secondary_therapist_id (row_in_status s i) = None
    \<or> br_secondary_therapist_id (row_in_status s i) \<noteq> br_therapist_id (row_in_status s i)"
  "booking_status_of (br_status (row_in_status s i)) = Some s"
  by (simp_all add: status_of_value)

definition two_rows :: "BookingStatus \<Rightarrow> BookingStatus \<Rightarrow> booking_db" where
  "two_rows s t = \<lparr>bs_bookings = [row_in_status s ''b1'', row_in_status t ''b2''], bs_holds = [], bs_history = [], bs_events = []\<rparr>"

lemma two_rows_get: "get_by_id ''b1'' (bs_bookings (two_rows s t)) = Inr (row_in_status s ''b1'')"
  by (simp add: two_rows_def get_by_id_def)

theorem status_update_unchecked_witness:
  "BK_DRAFT \<notin> set (booking_transitions BK_COMPLETED)
   \<and> (\<exists>b' db'. update_status has_text ''b1'' BK_DRAFT None None ''admin'' (two_rows BK_COMPLETED BK_CANCELLED) = Inr (b', db')
        \<and> br_status b' = ''draft'')"
  using status_update_unchecked[OF two_rows_get[of BK_COMPLETED BK_CANCELLED] row_in_status_ok row_in_status_prems,
      where m = has_text and new = BK_DRAFT and ps = None and why = None and src = "''admin''"]
  by (auto simp: machine_simps)

section \<open>Double bookings\<close>

lemma double_booked:
  assumes "b \<in> set bs" "c \<in> set bs" "br_id b \<noteq> br_id c" "blocking b" "blocking c" "canonical t"
    "(a, z) \<in> set (therapist_busy_windows b (Some t))" "(a, z) \<in> set (therapist_busy_windows c (Some t))" "a < z"
  shows "\<not> no_double_booking bs"
proof
  assume "no_double_booking bs"
  then have "disjoint_windows (a, z) (a, z)" using assms unfolding no_double_booking_def apart_def by blast
  then show False using assms(9) by (simp add: disjoint_windows_def)
qed

lemmas eval_update =
  update_booking_def get_by_id_def replace_sessions_def replace_services_def no_changes_def update_timing_def
  resolve_secondary_def timing_given_def remains_parked_def target_end_def Let_def int_only_def present_ids_def
  or_none_def nonempty_def List.map_filter_simps lower_def char_lower_def demo_booking_def update_pricing_def
  update_payment_status_def update_first_arrangement_def sync_sessions_def shift_session_def demo_session_def
  session_window_def timed_row_def apply_status_def keep_status_def write_booking_def replace_row_def
  primary_from_columns_def secondary_from_columns_def given_secondary_def therapist_busy_windows_def serves_def
  id_text_def strip_def is_space_def

lemma demo_windows:
  "therapist_busy_windows (demo_booking i [demo_session ''t2'' a z] st sp) (Some ''t2'') = [(a * 60000000, z * 60000000)]"
  "therapist_busy_windows (demo_booking i [demo_session ''t2'' a z] st sp) (Some ''t1'') = []"
  "therapist_busy_windows (demo_booking i [] (Some x) (Some y)) (Some ''t1'') = [(x, y)]"
  by (simp_all add: eval_update)

definition moved_db :: booking_db where
  "moved_db = \<lparr>bs_bookings =
     [demo_booking ''b1'' [demo_session ''t1'' 0 60, demo_session ''t2'' 120 180] (Some 0) (Some 10800000000),
      demo_booking ''b2'' [demo_session ''t2'' 300 360] (Some 18000000000) (Some 21600000000)],
     bs_holds = [], bs_history = [], bs_events = []\<rparr>"

lemma moved_db_ok: "schedule_ok has_text (bs_bookings moved_db)"
proof -
  have w: "therapist_busy_windows (demo_booking ''b1'' [demo_session ''t1'' 0 60, demo_session ''t2'' 120 180] (Some 0) (Some 10800000000)) (Some t)
     = map win (filter (serves t) [demo_session ''t1'' 0 60, demo_session ''t2'' 120 180])" if "canonical t" for t
    using that windows_of[OF _ that, of "demo_booking ''b1'' [demo_session ''t1'' 0 60, demo_session ''t2'' 120 180] (Some 0) (Some 10800000000)"]
    by (simp add: mirrored_def)
  have "row_ok has_text b" if "b \<in> set (bs_bookings moved_db)" for b
    using that demo_row_ok
    by (auto simp: moved_db_def row_ok_def mirrored_def has_text_def list_ex_iff id_text_def strip_def is_space_def nonempty_def)
  moreover have "apart (demo_booking ''b1'' [demo_session ''t1'' 0 60, demo_session ''t2'' 120 180] (Some 0) (Some 10800000000))
      (demo_booking ''b2'' [demo_session ''t2'' 300 360] (Some 18000000000) (Some 21600000000))"
  proof -
    have "therapist_busy_windows (demo_booking ''b2'' [demo_session ''t2'' 300 360] (Some 18000000000) (Some 21600000000)) (Some t)
       = map win (filter (serves t) [demo_session ''t2'' 300 360])" if "canonical t" for t
      using windows_of[OF _ that, of "demo_booking ''b2'' [demo_session ''t2'' 300 360] (Some 18000000000) (Some 21600000000)"]
      by (simp add: mirrored_def)
    then show ?thesis using w by (auto simp: apart_def disjoint_windows_def split: if_splits)
  qed
  ultimately show ?thesis
    by (auto simp: schedule_ok_def no_double_booking_def moved_db_def apart_sym)
qed

text \<open>
  C30. Moving a booking of several sessions checks only its first therapist, for the minutes of the
  booking from the new start. The other sessions move along unchecked: here the second session
  lands on another active booking of its therapist, and the span of the moved booking no longer
  covers it.
\<close>

theorem moved_booking_double_books:
  "\<exists>db b' db'. schedule_ok has_text (bs_bookings db)
     \<and> update_booking has_text ''b1'' (no_changes\<lparr>ua_appointment_start := Some 10800000000\<rparr>) db = Inr (b', db')
     \<and> \<not> no_double_booking (bs_bookings db') \<and> \<not> mirrored b'"
proof -
  have free: "\<not> check_therapist_overlap has_text (bs_bookings moved_db) ''t1'' 10800000000 14400000000 (Some ''b1'')"
    by (simp add: moved_db_def check_therapist_overlap_def find_therapist_overlap_def overlaps_per_session_def demo_windows)
  have "case update_booking has_text ''b1'' (no_changes\<lparr>ua_appointment_start := Some 10800000000\<rparr>) moved_db of Inl _ \<Rightarrow> False
   | Inr (b', db') \<Rightarrow> bs_bookings db' = [b', demo_booking ''b2'' [demo_session ''t2'' 300 360] (Some 18000000000) (Some 21600000000)]
      \<and> br_id b' = Some ''b1'' \<and> br_status b' = ''confirmed'' \<and> br_appointment_end b' = Some 14400000000
      \<and> therapist_busy_windows b' (Some ''t2'') = [(18000000000, 21600000000)]"
    using free by (simp add: eval_update moved_db_def)
  then obtain b' db' where up: "update_booking has_text ''b1'' (no_changes\<lparr>ua_appointment_start := Some 10800000000\<rparr>) moved_db = Inr (b', db')"
    and b': "bs_bookings db' = [b', demo_booking ''b2'' [demo_session ''t2'' 300 360] (Some 18000000000) (Some 21600000000)]"
      "br_id b' = Some ''b1''" "br_status b' = ''confirmed''" "br_appointment_end b' = Some 14400000000"
      "therapist_busy_windows b' (Some ''t2'') = [(18000000000, 21600000000)]"
    by (auto split: sum.splits)
  have "\<not> no_double_booking (bs_bookings db')"
    by (rule double_booked[of b' _ "demo_booking ''b2'' [demo_session ''t2'' 300 360] (Some 18000000000) (Some 21600000000)" "''t2''" 18000000000 21600000000])
      (use b' in \<open>simp_all add: blocking_def NON_BLOCKING_BOOKING_STATUSES_def demo_canonical demo_windows\<close>)
  moreover have "\<not> mirrored b'"
    using mirrored_covers[OF _ demo_canonical(2) b'(4), of "(18000000000, 21600000000)"] b'(5) by auto
  ultimately show ?thesis using moved_db_ok up by blast
qed

lemma row_in_status_windows: "therapist_busy_windows (row_in_status s i) (Some ''t1'') = [(0, 3600000000)]"
  using windows_of[OF _ demo_canonical(1), of "row_in_status s i"] demo_canonical(1) by (simp add: mirrored_def canonical_def)

text \<open>
  A parked booking holds no slot, so its hour may be given away. Setting its status back to
  \<open>confirmed\<close>, with no new time, checks nothing: both bookings are then active in the same hour of
  the same therapist.
\<close>

theorem unparking_double_books:
  "\<exists>db b' db'. schedule_ok has_text (bs_bookings db)
     \<and> update_status has_text ''b1'' BK_CONFIRMED None None ''admin'' db = Inr (b', db')
     \<and> \<not> no_double_booking (bs_bookings db')"
proof -
  let ?db = "two_rows BK_PARKED BK_CONFIRMED"
  obtain b' db' where up: "update_status has_text ''b1'' BK_CONFIRMED None None ''admin'' ?db = Inr (b', db')"
    and b': "br_status b' = ''confirmed''" "br_appointment_start b' = Some 0" "br_appointment_end b' = Some 3600000000"
      "br_id b' = Some ''b1''" "br_therapist_id b' = Some ''t1''" "br_sessions b' = []"
      "bs_bookings db' = replace_row br_id b' (bs_bookings ?db)"
    by (rule status_update_applied[OF two_rows_get[of BK_PARKED BK_CONFIRMED] row_in_status_ok row_in_status_prems,
          where m = has_text and new = BK_CONFIRMED and ps = None and why = None and src = "''admin''"]) auto
  have "bs_bookings db' = [b', row_in_status BK_CONFIRMED ''b2'']" using b' by (simp add: two_rows_def replace_row_def)
  moreover have "therapist_busy_windows b' (Some ''t1'') = [(0, 3600000000)]"
    using windows_of[OF _ demo_canonical(1), of b'] b' demo_canonical(1) by (simp add: mirrored_def canonical_def)
  ultimately have "\<not> no_double_booking (bs_bookings db')"
    using double_booked[of b' _ "row_in_status BK_CONFIRMED ''b2''" "''t1''" 0 3600000000] b' demo_canonical(1)
    by (simp add: blocking_def NON_BLOCKING_BOOKING_STATUSES_def row_in_status_windows)
  moreover have "schedule_ok has_text (bs_bookings ?db)"
    by (simp add: two_rows_def schedule_ok_def row_in_status_ok no_double_booking_def apart_def blocking_def
        NON_BLOCKING_BOOKING_STATUSES_def)
  ultimately show ?thesis using up by blast
qed

end
