(* ===== verification/Service_Resolution.thy ===== *)
theory Service_Resolution
  imports Booking_Sessions
begin

text \<open>
  Resolving the requested services of a booking against the staff service:
  \<open>app/booking/application/multi_service.py\<close>.

  The staff service is a parameter: \<open>ua_get_service\<close> and \<open>ua_get_arrangement\<close> give the unwrapped
  record of an id, None when the call fails. Its scalar fields are read by key from the
  snapshot; the nested lists are typed. A request item is the validated
  \<open>BookingServiceItem\<close> of the API.
\<close>

record service_item =
  si_service_id :: "string option"
  si_service_name :: "string option"
  si_service_category :: "string option"
  si_service_data :: "snapshot option"
  si_arrangement_id :: "string option"
  si_arrangement_name :: "string option"
  si_arrangement_type :: "string option"
  si_room_name :: "string option"
  si_arrangement_data :: "snapshot option"
  si_base_price :: scalar
  si_base_duration :: "int option"
  si_is_eligible_for_loyalty :: bool
  si_loyalty_points :: int
  si_arrangement_loyalty_points :: "int option"
  si_price_in_points :: int
  si_arrangement_price_in_points :: "int option"
  si_package_id :: "string option"

record db_service =
  ds_data :: snapshot
  ds_included :: "(string \<times> int option) list"

record offered_service =
  os_service_id :: string
  os_is_active :: bool
  os_loyalty_points :: scalar
  os_price_in_points :: scalar

record db_arrangement =
  da_data :: snapshot
  da_services :: "offered_service list"
  da_addons :: "snapshot list"

record ushauth =
  ua_get_service :: "string \<Rightarrow> db_service option"
  ua_get_arrangement :: "string \<Rightarrow> db_arrangement option"

definition no_service :: db_service where "no_service = \<lparr>ds_data = Map.empty, ds_included = []\<rparr>"

definition no_arrangement :: db_arrangement where
  "no_arrangement = \<lparr>da_data = Map.empty, da_services = [], da_addons = []\<rparr>"

section \<open>Merging one item\<close>

text \<open>\<open>int(value)\<close>, which raises on other texts, and \<open>a or b or ... or default\<close>.\<close>

definition strict_int :: "scalar \<Rightarrow> session_error + int" where
  "strict_int v =
     (case v of
        SNone \<Rightarrow> Inl BadNumber
      | SText t \<Rightarrow> (case py_int (strip t) of Some n \<Rightarrow> Inr n | None \<Rightarrow> Inl BadNumber)
      | _ \<Rightarrow> Inr (to_int v))"

definition first_true :: "scalar list \<Rightarrow> scalar \<Rightarrow> scalar" where
  "first_true vs d = foldr scalar_or vs d"

definition int_scalar :: "int option \<Rightarrow> scalar" where
  "int_scalar v = (case v of None \<Rightarrow> SNone | Some n \<Rightarrow> SInt n)"

definition pick_points :: "scalar \<Rightarrow> int \<Rightarrow> scalar \<Rightarrow> session_error + int" where
  "pick_points db given own =
     ebind (if db = SNone then Inr 0 else strict_int db) (\<lambda>n.
       if 0 < n then Inr n
       else if 0 < given then Inr given
       else if scalar_true own then strict_int own else Inr 0)"

definition pick_arrangement_points :: "scalar \<Rightarrow> int option \<Rightarrow> scalar \<Rightarrow> session_error + scalar" where
  "pick_arrangement_points db given own =
     ebind (if db = SNone then Inr 0 else strict_int db) (\<lambda>n.
       Inr (if 0 < n then SInt n else (case given of Some g \<Rightarrow> SInt g | None \<Rightarrow> own)))"

definition item_sd :: "service_item \<Rightarrow> snapshot" where
  "item_sd item = (case si_service_data item of Some d \<Rightarrow> d | None \<Rightarrow> Map.empty)"

definition item_ad :: "service_item \<Rightarrow> snapshot" where
  "item_ad item = (case si_arrangement_data item of Some d \<Rightarrow> d | None \<Rightarrow> Map.empty)"

definition merged_service_data ::
  "service_item \<Rightarrow> db_service \<Rightarrow> bool \<Rightarrow> string \<Rightarrow> int \<Rightarrow> bool \<Rightarrow> int \<Rightarrow> int \<Rightarrow> snapshot" where
  "merged_service_data item db full_details base_price base_duration eligible loyalty_points price_in_points =
     (let sd = item_sd item; d = ds_data db;
          own = [''id'' \<mapsto> SText (str_or (si_service_id item) []),
                 ''name'' \<mapsto> first_true [text_scalar (si_service_name item), dget d ''name'', dget sd ''service_name'',
                   dget sd ''name''] (SText []),
                 ''category'' \<mapsto> first_true [text_scalar (si_service_category item), dget d ''category'',
                   dget sd ''service_category'', dget sd ''category''] (SText []),
                 ''base_price'' \<mapsto> SText base_price, ''base_duration'' \<mapsto> SInt base_duration];
          data = (own ++ sd)(''is_eligible_for_loyalty'' \<mapsto> SBool eligible,
                   ''loyalty_points'' \<mapsto> SInt loyalty_points, ''price_in_points'' \<mapsto> SInt price_in_points)
      in if full_details then
           fold (\<lambda>key m. if dget d key \<noteq> SNone then m(key \<mapsto> dget d key) else m)
             [''extra_minutes'', ''price_for_extra_minutes''] (d ++ data)
         else data)"

definition merged_arrangement_data :: "service_item \<Rightarrow> db_arrangement \<Rightarrow> scalar \<Rightarrow> scalar \<Rightarrow> snapshot" where
  "merged_arrangement_data item db loyalty_points price_in_points =
     (let ad = item_ad item; d = da_data db;
          room = first_true [text_scalar (si_room_name item), text_scalar (si_arrangement_name item), dget d ''name'',
            dget ad ''arrangement_name'', dget ad ''room_name'', dget ad ''name''] (SText [])
      in ([''id'' \<mapsto> SText (str_or (si_arrangement_id item) []),
           ''arrangement_type'' \<mapsto> first_true [text_scalar (si_arrangement_type item), dget d ''arrangement_type'',
             dget ad ''arrangement_type'', dget ad ''type''] (SText []),
           ''room_name'' \<mapsto> room, ''arrangement_name'' \<mapsto> room] ++ ad)
         (''loyalty_points'' \<mapsto> loyalty_points, ''price_in_points'' \<mapsto> price_in_points))"

text \<open>The price and the minutes of the item: what the client sent comes first.\<close>

definition item_base_price :: "service_item \<Rightarrow> db_service \<Rightarrow> string" where
  "item_base_price item db =
     py_str (first_true [si_base_price item, dget (ds_data db) ''base_price'', dget (item_sd item) ''base_price''] (SText ''0''))"

definition item_base_duration :: "service_item \<Rightarrow> db_service \<Rightarrow> session_error + int" where
  "item_base_duration item db =
     strict_int (first_true [int_scalar (si_base_duration item), dget (ds_data db) ''duration_minutes'',
       dget (item_sd item) ''base_duration'', dget (item_sd item) ''duration''] (SInt 60))"

definition item_eligible :: "service_item \<Rightarrow> db_service \<Rightarrow> bool" where
  "item_eligible item db =
     (let v = dget (ds_data db) ''is_eligible_for_loyalty'' in
      if v \<noteq> SNone then scalar_true v
      else si_is_eligible_for_loyalty item \<or> scalar_true (dget (item_sd item) ''is_eligible_for_loyalty''))"

definition item_offer :: "service_item \<Rightarrow> db_arrangement \<Rightarrow> offered_service option" where
  "item_offer item db =
     (case si_service_id item of None \<Rightarrow> None | Some sid \<Rightarrow> find (\<lambda>x. os_service_id x = sid) (da_services db))"

definition build_one ::
  "service_item \<Rightarrow> int \<Rightarrow> db_service \<Rightarrow> db_arrangement \<Rightarrow> bool \<Rightarrow> bool \<Rightarrow> string \<Rightarrow> session_error + service_entry" where
  "build_one item position db arr is_loyalty_booking full_details new_id =
     (let offer = item_offer item arr;
          offer_loyalty = (case offer of Some os \<Rightarrow> os_loyalty_points os | None \<Rightarrow> SNone);
          offer_price = (case offer of Some os \<Rightarrow> os_price_in_points os | None \<Rightarrow> SNone);
          sd = item_sd item; ad = item_ad item
      in ebind (pick_points (dget (ds_data db) ''loyalty_points'') (si_loyalty_points item) (dget sd ''loyalty_points'')) (\<lambda>loyalty.
         ebind (pick_points (dget (ds_data db) ''price_in_points'') (si_price_in_points item) (dget sd ''price_in_points'')) (\<lambda>price_pts.
         ebind (pick_arrangement_points offer_loyalty (si_arrangement_loyalty_points item) (dget ad ''loyalty_points'')) (\<lambda>arr_loyalty.
         ebind (pick_arrangement_points offer_price (si_arrangement_price_in_points item) (dget ad ''price_in_points'')) (\<lambda>arr_price.
         ebind (item_base_duration item db) (\<lambda>base_duration.
           let base_price = item_base_price item db;
               loyalty_points = (if is_loyalty_booking then 0 else loyalty);
               arr_loyalty_points = (if is_loyalty_booking then SInt 0 else arr_loyalty);
               eligible = (\<not> is_loyalty_booking \<and> item_eligible item db)
           in Inr (build_service_entry
                (Some (case or_none (si_service_id item) of Some i \<Rightarrow> i | None \<Rightarrow> new_id))
                (merged_service_data item db full_details base_price base_duration eligible loyalty_points price_pts)
                (si_arrangement_id item)
                (merged_arrangement_data item arr arr_loyalty_points arr_price)
                (SText base_price) (SInt base_duration) position)))))))"

section \<open>All items\<close>

definition service_of :: "ushauth \<Rightarrow> service_item \<Rightarrow> db_service" where
  "service_of ua item =
     (case or_none (si_service_id item) of None \<Rightarrow> no_service
      | Some i \<Rightarrow> (case ua_get_service ua i of Some d \<Rightarrow> d | None \<Rightarrow> no_service))"

definition arrangement_of :: "ushauth \<Rightarrow> service_item \<Rightarrow> db_arrangement" where
  "arrangement_of ua item =
     (case or_none (si_arrangement_id item) of None \<Rightarrow> no_arrangement
      | Some i \<Rightarrow> (case ua_get_arrangement ua i of Some d \<Rightarrow> d | None \<Rightarrow> no_arrangement))"

fun build_all ::
  "ushauth \<Rightarrow> bool \<Rightarrow> bool \<Rightarrow> (nat \<Rightarrow> string) \<Rightarrow> nat \<Rightarrow> service_item list \<Rightarrow> session_error + service_entry list" where
  "build_all ua is_loyalty full new_id pos [] = Inr []"
| "build_all ua is_loyalty full new_id pos (item # items) =
     ebind (build_one item (int pos) (service_of ua item) (arrangement_of ua item) is_loyalty full (new_id pos)) (\<lambda>e.
     ebind (build_all ua is_loyalty full new_id (Suc pos) items) (\<lambda>es. Inr (e # es)))"

text \<open>Each service must be offered by its arrangement; an arrangement without a list is skipped.\<close>

fun check_offered :: "ushauth \<Rightarrow> nat \<Rightarrow> service_item list \<Rightarrow> session_error + unit" where
  "check_offered ua idx [] = Inr ()"
| "check_offered ua idx (item # items) =
     (case (or_none (si_service_id item), or_none (si_arrangement_id item)) of
        (Some sid, Some _) \<Rightarrow>
          (let offered = da_services (arrangement_of ua item) in
           if offered \<noteq> [] \<and> sid \<notin> set (map os_service_id (filter os_is_active offered))
           then Inl (ServiceNotOffered idx)
           else check_offered ua (Suc idx) items)
      | _ \<Rightarrow> check_offered ua (Suc idx) items)"

definition branch_names :: "ushauth \<Rightarrow> service_item list \<Rightarrow> string list" where
  "branch_names ua items =
     remdups (map (\<lambda>v. lower (strip (py_str v)))
       (filter scalar_true (map (\<lambda>item. dget (da_data (arrangement_of ua item)) ''branch_name'') items)))"

definition validate_consistency :: "ushauth \<Rightarrow> service_item list \<Rightarrow> session_error + unit" where
  "validate_consistency ua items =
     ebind (check_offered ua 0 items) (\<lambda>_.
       if 1 < length (branch_names ua items) then Inl BranchesDiffer else Inr ())"

definition resolve_service_entries ::
  "ushauth \<Rightarrow> service_item list \<Rightarrow> bool \<Rightarrow> bool \<Rightarrow> bool option \<Rightarrow> (nat \<Rightarrow> string) \<Rightarrow> session_error + service_entry list" where
  "resolve_service_entries ua items is_loyalty full_details validate new_id =
     ebind (build_all ua is_loyalty full_details new_id 0 items) (\<lambda>entries.
       if (case validate of Some v \<Rightarrow> v | None \<Rightarrow> 1 < length items)
       then ebind (validate_consistency ua items) (\<lambda>_. Inr entries)
       else Inr entries)"

section \<open>Lemmas\<close>

lemma build_service_entry_fields [simp]:
  "se_position (build_service_entry i s a ad p d pos) = pos"
  "se_service_data (build_service_entry i s a ad p d pos) = s"
  "se_arrangement_data (build_service_entry i s a ad p d pos) = ad"
  "se_arrangement_id (build_service_entry i s a ad p d pos) = id_text a"
  "se_service_id (build_service_entry i s a ad p d pos) = Some (case id_text i of Some x \<Rightarrow> x | None \<Rightarrow> [])"
  "se_package_id (build_service_entry i s a ad p d pos) = None"
  "p \<noteq> SNone \<Longrightarrow> se_base_price (build_service_entry i s a ad p d pos) = SText (money (to_decimal p))"
  by (simp_all add: build_service_entry_def Let_def)

lemma build_one_fields:
  assumes "build_one item pos db arr loyal full new_id = Inr e"
  shows "se_position e = pos" "se_base_price e = SText (money (to_decimal (SText (item_base_price item db))))"
    and "loyal \<Longrightarrow> fst (effective_points e) = 0"
    and "se_package_id e = None"
  using assms
  by (auto simp: build_one_def ebind_Inr_iff Let_def effective_points_def merged_arrangement_data_def dget_def)

lemma build_all_nth:
  assumes "build_all ua loyal full new_id pos items = Inr es"
  shows "length es = length items \<and> (\<forall>i<length items. build_one (items ! i) (int (pos + i)) (service_of ua (items ! i))
    (arrangement_of ua (items ! i)) loyal full (new_id (pos + i)) = Inr (es ! i))"
  using assms
proof (induction items arbitrary: pos es)
  case (Cons item items)
  then obtain e es' where es: "es = e # es'"
    and e: "build_one item (int pos) (service_of ua item) (arrangement_of ua item) loyal full (new_id pos) = Inr e"
    and es': "build_all ua loyal full new_id (Suc pos) items = Inr es'"
    by (auto simp: ebind_Inr_iff)
  show ?case using Cons.IH[OF es'] e unfolding es by (auto simp: nth_Cons' less_Suc_eq_0_disj ac_simps)
qed simp

definition offered_by_arrangement :: "ushauth \<Rightarrow> service_item \<Rightarrow> bool" where
  "offered_by_arrangement ua item \<longleftrightarrow>
     (\<forall>sid. or_none (si_service_id item) = Some sid \<longrightarrow> or_none (si_arrangement_id item) \<noteq> None
        \<longrightarrow> da_services (arrangement_of ua item) \<noteq> []
        \<longrightarrow> (\<exists>x\<in>set (da_services (arrangement_of ua item)). os_is_active x \<and> os_service_id x = sid))"

lemma check_offered_iff: "check_offered ua idx items = Inr () \<longleftrightarrow> list_all (offered_by_arrangement ua) items"
proof (induction items arbitrary: idx)
  case (Cons item items)
  then show ?case
    by (auto simp: offered_by_arrangement_def Let_def split: option.splits)
qed simp

lemma validate_consistency_iff:
  "validate_consistency ua items = Inr () \<longleftrightarrow>
     list_all (offered_by_arrangement ua) items \<and> length (branch_names ua items) \<le> 1"
proof (cases "check_offered ua 0 items")
  case (Inl e)
  then have "\<not> list_all (offered_by_arrangement ua) items" using check_offered_iff[of ua 0 items] by auto
  with Inl show ?thesis by (simp add: validate_consistency_def)
next
  case (Inr u)
  then have "list_all (offered_by_arrangement ua) items" using check_offered_iff[of ua 0 items] by simp
  with Inr show ?thesis by (simp add: validate_consistency_def)
qed

lemma resolved:
  assumes "resolve_service_entries ua items loyal full (Some True) new_id = Inr es"
  shows "length es = length items"
    and "i < length items \<Longrightarrow> se_position (es ! i) = int i"
    and "i < length items \<Longrightarrow> se_base_price (es ! i)
       = SText (money (to_decimal (SText (item_base_price (items ! i) (service_of ua (items ! i))))))"
    and "list_all (offered_by_arrangement ua) items" "length (branch_names ua items) \<le> 1"
    and "loyal \<Longrightarrow> e \<in> set es \<Longrightarrow> fst (effective_points e) = 0"
proof -
  from assms have b: "build_all ua loyal full new_id 0 items = Inr es" and v: "validate_consistency ua items = Inr ()"
    by (auto simp: resolve_service_entries_def ebind_Inr_iff)
  note n = build_all_nth[OF b]
  show "length es = length items" using n by simp
  show "i < length items \<Longrightarrow> se_position (es ! i) = int i" using n build_one_fields(1) by fastforce
  show "i < length items \<Longrightarrow> se_base_price (es ! i)
       = SText (money (to_decimal (SText (item_base_price (items ! i) (service_of ua (items ! i))))))"
    using n build_one_fields(2) by blast
  show "list_all (offered_by_arrangement ua) items" "length (branch_names ua items) \<le> 1"
    using v unfolding validate_consistency_iff by simp_all
  show "loyal \<Longrightarrow> e \<in> set es \<Longrightarrow> fst (effective_points e) = 0"
    using n build_one_fields(3) unfolding in_set_conv_nth by metis
qed

text \<open>
  Services that pass the consistency check are stored in the order of the request, each offered
  by the arrangement it is booked in as far as the staff service lists them, all of one branch,
  at the price of \<open>item_base_price\<close>, and a booking paid with points earns no points by them. That
  price is the one the client sent, whenever it sent one that is not zero.
\<close>

theorem resolved_entries_checked:
  assumes "resolve_service_entries ua items loyal full (Some True) new_id = Inr es"
  shows "length es = length items
    \<and> list_all (offered_by_arrangement ua) items \<and> length (branch_names ua items) \<le> 1
    \<and> (\<forall>i<length items. se_position (es ! i) = int i
         \<and> (scalar_true (si_base_price (items ! i)) \<longrightarrow>
              se_base_price (es ! i) = SText (money (to_decimal (SText (py_str (si_base_price (items ! i))))))))
    \<and> (loyal \<longrightarrow> (\<forall>e\<in>set es. fst (effective_points e) = 0))"
  using resolved[OF assms] by (auto simp: item_base_price_def first_true_def scalar_or_def)

definition demo_item :: "string \<Rightarrow> scalar \<Rightarrow> string option \<Rightarrow> service_item" where
  "demo_item i price pkg =
     \<lparr>si_service_id = Some i, si_service_name = None, si_service_category = None, si_service_data = None,
      si_arrangement_id = Some ''a'', si_arrangement_name = None, si_arrangement_type = None, si_room_name = None,
      si_arrangement_data = None, si_base_price = price, si_base_duration = None, si_is_eligible_for_loyalty = False,
      si_loyalty_points = 0, si_arrangement_loyalty_points = None, si_price_in_points = 0,
      si_arrangement_price_in_points = None, si_package_id = pkg\<rparr>"

definition demo_ushauth :: ushauth where
  "demo_ushauth =
     \<lparr>ua_get_service = (\<lambda>i.
        if i = ''p'' then Some \<lparr>ds_data = [''name'' \<mapsto> SText ''day off'', ''base_price'' \<mapsto> SText ''40.000'',
            ''is_packaged_services'' \<mapsto> SBool True], ds_included = [(''s1'', Some 30), (''s2'', Some 60)]\<rparr>
        else Some \<lparr>ds_data = [''name'' \<mapsto> SText i, ''base_price'' \<mapsto> SText ''25.000'', ''duration_minutes'' \<mapsto> SInt 60],
            ds_included = []\<rparr>),
      ua_get_arrangement = (\<lambda>_. Some \<lparr>da_data = [''branch_name'' \<mapsto> SText ''Salmiya''],
        da_services = [\<lparr>os_service_id = ''s1'', os_is_active = True, os_loyalty_points = SInt 5, os_price_in_points = SNone\<rparr>,
          \<lparr>os_service_id = ''s2'', os_is_active = True, os_loyalty_points = SNone, os_price_in_points = SNone\<rparr>],
        da_addons = []\<rparr>)\<rparr>"

lemma demo_resolved:
  "\<exists>es. resolve_service_entries demo_ushauth [demo_item ''s1'' (SText ''1.000'') None, demo_item ''s2'' SNone None]
     True True (Some True) (\<lambda>_. ''n'') = Inr es"
  by (simp add: resolve_service_entries_def demo_item_def build_one_def service_of_def arrangement_of_def demo_ushauth_def
      or_none_def nonempty_def pick_points_def pick_arrangement_points_def item_offer_def item_base_duration_def first_true_def
      int_scalar_def item_sd_def item_ad_def strict_int_def dget_def scalar_or_def validate_consistency_def branch_names_def
      Let_def del: list.set_map set_filter)

theorem resolved_entries_checked_witness:
  "\<exists>es. resolve_service_entries demo_ushauth [demo_item ''s1'' (SText ''1.000'') None, demo_item ''s2'' SNone None]
     True True (Some True) (\<lambda>_. ''n'') = Inr es
   \<and> se_base_price (es ! 0) = SText (money (to_decimal (SText ''1.000''))) \<and> fst (effective_points (es ! 1)) = 0"
proof -
  obtain es where es: "resolve_service_entries demo_ushauth [demo_item ''s1'' (SText ''1.000'') None, demo_item ''s2'' SNone None]
     True True (Some True) (\<lambda>_. ''n'') = Inr es" using demo_resolved by blast
  from resolved_entries_checked[OF es] have "length es = 2" "\<forall>e\<in>set es. fst (effective_points e) = 0"
    "se_base_price (es ! 0) = SText (money (to_decimal (SText ''1.000'')))" by (simp_all add: demo_item_def)
  then show ?thesis using es by simp
qed

end
