(* ===== verification/Packages.thy ===== *)
theory Packages
  imports Service_Resolution "HOL-Library.Product_Lexorder"
begin

text \<open>
  Booking a packaged service by its components: \<open>app/booking/application/package_rules.py\<close>.

  A request item \<open>session_item\<close> is the validated \<open>BookingSessionItem\<close> of the API. The first
  component of a package, in the order of sessions and services, carries its price; the
  lemmas show that the entries of one package add up to that price.
\<close>

text \<open>
  \<open>qi_appointment_time\<close> holds the text of the time with the naive datetime that
  \<open>datetime.fromisoformat\<close> reads from it on the booking date, None when it is malformed.
\<close>

record session_item =
  qi_session_id :: "string option"
  qi_therapist_id :: string
  qi_therapist_name :: "string option"
  qi_therapist_data :: "snapshot option"
  qi_secondary_id :: "string option"
  qi_secondary_name :: "string option"
  qi_secondary_data :: "snapshot option"
  qi_arrangement_id :: "string option"
  qi_arrangement_name :: "string option"
  qi_arrangement_type :: "string option"
  qi_room_name :: "string option"
  qi_arrangement_data :: "snapshot option"
  qi_services :: "service_item list"
  qi_addons :: "snapshot list"
  qi_extra_minutes :: int
  qi_appointment_time :: "(string \<times> instant option) option"
  qi_appointment_start :: "pydatetime option"

record package_info =
  pi_name :: string
  pi_price :: rat
  pi_carrier :: "nat \<times> nat"
  pi_durations :: "(string \<times> int option) list"

text \<open>Every service of a request with its place: session and position in the session.\<close>

definition placed_services :: "session_item list \<Rightarrow> ((nat \<times> nat) \<times> service_item) list" where
  "placed_services items =
     concat (map (\<lambda>(si, item). map (\<lambda>(sj, svc). ((si, sj), svc)) (enumerate 0 (qi_services item))) (enumerate 0 items))"

definition package_refs :: "session_item list \<Rightarrow> (string \<times> (nat \<times> nat) \<times> string) list" where
  "package_refs items =
     List.map_filter (\<lambda>(pos, svc).
       (case (or_none (si_package_id svc), or_none (si_service_id svc)) of
          (Some pid, Some sid) \<Rightarrow> Some (pid, pos, sid)
        | _ \<Rightarrow> None)) (placed_services items)"

definition load_package :: "ushauth \<Rightarrow> string \<Rightarrow> ((nat \<times> nat) \<times> string) list \<Rightarrow> session_error + package_info" where
  "load_package ua pid refs =
     (case ua_get_service ua pid of
        None \<Rightarrow> Inl (PackageNotLoaded pid)
      | Some pkg \<Rightarrow>
          (if \<not> scalar_true (dget (ds_data pkg) ''is_packaged_services'') then Inl (NotAPackage pid)
           else if ds_included pkg = [] then Inl (PackageEmpty pid)
           else if sort (map snd refs) \<noteq> sort (map fst (ds_included pkg)) then Inl (PackageCoverage pid)
           else Inr \<lparr>pi_name = first_text [dget (ds_data pkg) ''name''],
                      pi_price = to_decimal (dget (ds_data pkg) ''base_price''),
                      pi_carrier = fold min (map fst refs) (fst (hd refs)),
                      pi_durations = ds_included pkg\<rparr>))"

fun load_packages ::
  "ushauth \<Rightarrow> (string \<times> (nat \<times> nat) \<times> string) list \<Rightarrow> string list \<Rightarrow> session_error + (string \<times> package_info) list" where
  "load_packages ua refs [] = Inr []"
| "load_packages ua refs (pid # pids) =
     ebind (load_package ua pid (map snd (filter (\<lambda>r. fst r = pid) refs))) (\<lambda>info.
     ebind (load_packages ua refs pids) (\<lambda>ctx. Inr ((pid, info) # ctx)))"

definition resolve_package_context :: "ushauth \<Rightarrow> session_item list \<Rightarrow> session_error + (string \<times> package_info) list" where
  "resolve_package_context ua items =
     load_packages ua (package_refs items) (first_occurrences (map fst (package_refs items)))"

text \<open>\<open>durations\<close> is a dictionary: of two components with one id the later minutes count.\<close>

definition stamp_entry ::
  "(string \<times> package_info) list \<Rightarrow> nat \<times> nat \<Rightarrow> service_item \<Rightarrow> service_entry \<Rightarrow> service_entry" where
  "stamp_entry ctx pos svc entry =
     (let pid = str_or (si_package_id svc) [] in
      case map_of ctx pid of
        None \<Rightarrow> entry
      | Some info \<Rightarrow>
          entry\<lparr>se_package_id := Some pid, se_package_name := Some (pi_name info),
                se_package_price := SText (money (pi_price info)),
                se_component_price := se_base_price entry,
                se_duration_minutes :=
                  (case map_of (rev (pi_durations info)) (str_or (se_service_id entry) []) of
                     Some (Some n) \<Rightarrow> if n \<noteq> 0 then SInt n else se_duration_minutes entry
                   | _ \<Rightarrow> se_duration_minutes entry),
                se_base_price := SText (if pi_carrier info = pos then money (pi_price info) else ''0.000''),
                se_service_data := (se_service_data entry)(''package_id'' \<mapsto> SText pid, ''package_name'' \<mapsto> SText (pi_name info))\<rparr>)"

definition apply_package_context ::
  "service_entry list \<Rightarrow> service_item list \<Rightarrow> nat \<Rightarrow> (string \<times> package_info) list \<Rightarrow> service_entry list" where
  "apply_package_context entries svc_items session_index ctx =
     map (\<lambda>(j, svc, entry). stamp_entry ctx (session_index, j) svc entry) (enumerate 0 (zip svc_items entries))"

section \<open>A package is booked on its own\<close>

datatype entry_kind = Component string | WholePackage string | PlainService

definition flag_true :: "scalar \<Rightarrow> bool" where
  "flag_true v \<longleftrightarrow> lower (strip (py_str v)) \<in> {''true'', ''1'', ''yes''}"

definition kind_of :: "service_entry \<Rightarrow> entry_kind" where
  "kind_of e =
     (case or_none (se_package_id e) of
        Some pid \<Rightarrow> Component pid
      | None \<Rightarrow> if flag_true (dget (se_service_data e) ''is_packaged_services'')
                then WholePackage (str_or (se_service_id e) []) else PlainService)"

fun package_of :: "entry_kind \<Rightarrow> string option" where
  "package_of (Component pid) = Some pid"
| "package_of (WholePackage sid) = Some sid"
| "package_of PlainService = None"

definition is_whole :: "entry_kind \<Rightarrow> bool" where
  "is_whole k \<longleftrightarrow> (case k of WholePackage _ \<Rightarrow> True | _ \<Rightarrow> False)"

definition validate_package_exclusivity :: "session list \<Rightarrow> session_error + unit" where
  "validate_package_exclusivity sessions =
     (let kinds = map kind_of (concat (map ss_services sessions));
          package_ids = remdups (List.map_filter package_of kinds)
      in if package_ids = [] then Inr ()
         else if 1 < length package_ids \<or> 1 < length (filter is_whole kinds) then Inl OnePackageOnly
         else if PlainService \<in> set kinds then Inl PackageCombined
         else Inr ())"

section \<open>Lemmas\<close>

lemma set_map_filter: "set (List.map_filter f xs) = {y. \<exists>x\<in>set xs. f x = Some y}"
  by (induction xs) (auto simp: List.map_filter_simps split: option.splits)

lemma exclusivity_iff:
  "validate_package_exclusivity sessions = Inr () \<longleftrightarrow>
     (let kinds = map kind_of (concat (map ss_services sessions)) in
      set kinds \<subseteq> {PlainService}
      \<or> (\<exists>pid. (\<forall>k\<in>set kinds. package_of k = Some pid) \<and> length (filter is_whole kinds) \<le> 1))"
proof -
  define kinds where "kinds = map kind_of (concat (map ss_services sessions))"
  define ids where "ids = remdups (List.map_filter package_of kinds)"
  have ids: "set ids = {p. \<exists>k\<in>set kinds. package_of k = Some p}" "distinct ids"
    by (auto simp: ids_def set_map_filter)
  have v: "validate_package_exclusivity sessions = Inr () \<longleftrightarrow>
      ids = [] \<or> (length ids \<le> 1 \<and> length (filter is_whole kinds) \<le> 1 \<and> PlainService \<notin> set kinds)"
    unfolding validate_package_exclusivity_def Let_def kinds_def[symmetric] ids_def[symmetric] by auto
  have plain: "k = PlainService" if "package_of k = None" for k using that by (cases k) auto
  have empty: "ids = [] \<longleftrightarrow> set kinds \<subseteq> {PlainService}"
  proof
    assume "ids = []"
    then have "package_of k = None" if "k \<in> set kinds" for k
      using ids(1) that by (cases "package_of k") auto
    then show "set kinds \<subseteq> {PlainService}" using plain by blast
  next
    assume "set kinds \<subseteq> {PlainService}"
    then have "package_of k = None" if "k \<in> set kinds" for k using that by auto
    then have "set ids = {}" unfolding ids(1) by auto
    then show "ids = []" by simp
  qed
  have "length ids \<le> 1 \<and> PlainService \<notin> set kinds \<longleftrightarrow> (\<exists>pid. \<forall>k\<in>set kinds. package_of k = Some pid)" if "ids \<noteq> []"
  proof
    assume a: "length ids \<le> 1 \<and> PlainService \<notin> set kinds"
    then obtain p where "ids = [p]" using \<open>ids \<noteq> []\<close> by (cases ids) auto
    then have "package_of k = Some p" if "k \<in> set kinds" for k
      using that a ids(1) plain by (cases "package_of k") auto
    then show "\<exists>pid. \<forall>k\<in>set kinds. package_of k = Some pid" by blast
  next
    assume "\<exists>pid. \<forall>k\<in>set kinds. package_of k = Some pid"
    then obtain p where p: "\<forall>k\<in>set kinds. package_of k = Some p" by blast
    then have "set ids \<subseteq> {p}" using ids(1) by auto
    then have "card (set ids) \<le> 1" using card_mono[of "{p}" "set ids"] by simp
    then show "length ids \<le> 1 \<and> PlainService \<notin> set kinds" using p ids(2) distinct_card[of ids] by auto
  qed
  moreover have "(\<exists>pid. \<forall>k\<in>set kinds. package_of k = Some pid) \<Longrightarrow> ids = [] \<Longrightarrow> kinds = []"
    using empty by (cases kinds) auto
  ultimately show ?thesis unfolding v empty kinds_def[symmetric] Let_def using empty by blast
qed

lemma in_placed_services:
  "((i, j), svc) \<in> set (placed_services items) \<longleftrightarrow>
     i < length items \<and> j < length (qi_services (items ! i)) \<and> svc = qi_services (items ! i) ! j"
proof
  assume "i < length items \<and> j < length (qi_services (items ! i)) \<and> svc = qi_services (items ! i) ! j"
  then have "(i, items ! i) \<in> set (enumerate 0 items)" "(j, svc) \<in> set (enumerate 0 (qi_services (items ! i)))"
    by (auto simp: in_set_enumerate_eq)
  then show "((i, j), svc) \<in> set (placed_services items)" unfolding placed_services_def by force
qed (auto simp: placed_services_def in_set_enumerate_eq)

lemma fold_min_in: "fold min xs x \<in> insert x (set xs)"
  for x :: "'a::linorder"
  by (induction xs arbitrary: x) (auto simp: min_def split: if_splits)

lemma load_package_Inr:
  assumes "load_package ua pid refs = Inr info" "refs \<noteq> []"
  obtains pkg where "ua_get_service ua pid = Some pkg" "pi_price info = to_decimal (dget (ds_data pkg) ''base_price'')"
    "pi_name info = first_text [dget (ds_data pkg) ''name'']"
    "mset (map snd refs) = mset (map fst (ds_included pkg))" "pi_carrier info \<in> fst ` set refs"
proof -
  from assms obtain pkg where pkg: "ua_get_service ua pid = Some pkg"
      "sort (map snd refs) = sort (map fst (ds_included pkg))"
      "info = \<lparr>pi_name = first_text [dget (ds_data pkg) ''name''], pi_price = to_decimal (dget (ds_data pkg) ''base_price''),
         pi_carrier = fold min (map fst refs) (fst (hd refs)), pi_durations = ds_included pkg\<rparr>"
    by (auto simp: load_package_def split: option.splits if_splits)
  have "pi_carrier info \<in> insert (fst (hd refs)) (set (map fst refs))"
    unfolding pkg(3) package_info.simps by (rule fold_min_in)
  moreover have "fst (hd refs) \<in> fst ` set refs" using assms(2) by simp
  ultimately have "pi_carrier info \<in> fst ` set refs" by (metis insertE set_map)
  moreover have "mset (map snd refs) = mset (map fst (ds_included pkg))" using pkg(2) by (metis mset_sort)
  ultimately show ?thesis using that[OF pkg(1)] pkg(3) by simp
qed

lemma load_packages_Inr:
  assumes "load_packages ua refs pids = Inr ctx"
  shows "map fst ctx = pids"
    and "map_of ctx pid = Some info \<Longrightarrow> load_package ua pid (map snd (filter (\<lambda>r. fst r = pid) refs)) = Inr info"
proof -
  show "map fst ctx = pids" using assms
    by (induction pids arbitrary: ctx) (auto simp: ebind_Inr_iff)
  show "map_of ctx pid = Some info \<Longrightarrow> load_package ua pid (map snd (filter (\<lambda>r. fst r = pid) refs)) = Inr info"
    using assms by (induction pids arbitrary: ctx) (auto simp: ebind_Inr_iff split: if_splits)
qed

lemma or_none_Some [simp]: "or_none v = Some x \<longleftrightarrow> v = Some x \<and> x \<noteq> []"
  by (auto simp: or_none_def nonempty_def split: option.splits)

lemma in_package_refs:
  "(pid, pos, sid) \<in> set (package_refs items) \<longleftrightarrow>
     (\<exists>svc. (pos, svc) \<in> set (placed_services items) \<and> or_none (si_package_id svc) = Some pid \<and> or_none (si_service_id svc) = Some sid)"
  unfolding package_refs_def set_map_filter
  by (force split: option.splits)

text \<open>What a resolved package is: its record, the coverage of its services, the carrier.\<close>

lemma package_resolved:
  assumes "resolve_package_context ua items = Inr ctx" "map_of ctx pid = Some info"
  obtains pkg svc where "ua_get_service ua pid = Some pkg" "pi_price info = to_decimal (dget (ds_data pkg) ''base_price'')"
    "mset (map (snd \<circ> snd) (filter (\<lambda>r. fst r = pid) (package_refs items))) = mset (map fst (ds_included pkg))"
    "(pi_carrier info, svc) \<in> set (placed_services items)" "si_package_id svc = Some pid" "pid \<noteq> []"
proof -
  let ?refs = "map snd (filter (\<lambda>r. fst r = pid) (package_refs items))"
  have l: "load_package ua pid ?refs = Inr info" and p: "map fst ctx = first_occurrences (map fst (package_refs items))"
    using load_packages_Inr[of ua "package_refs items" _ ctx] assms unfolding resolve_package_context_def by auto
  have "pid \<in> set (map fst ctx)" using assms(2) by (auto dest: map_of_SomeD intro: rev_image_eqI)
  then have "pid \<in> fst ` set (package_refs items)" unfolding p by simp
  then have ne: "?refs \<noteq> []" by (auto simp: filter_empty_conv)
  from load_package_Inr[OF l ne] obtain pkg where pkg: "ua_get_service ua pid = Some pkg"
    "pi_price info = to_decimal (dget (ds_data pkg) ''base_price'')"
    "mset (map snd ?refs) = mset (map fst (ds_included pkg))" "pi_carrier info \<in> fst ` set ?refs" by metis
  from pkg(4) obtain sid where "(pid, pi_carrier info, sid) \<in> set (package_refs items)" by auto
  then obtain svc where "(pi_carrier info, svc) \<in> set (placed_services items)" "si_package_id svc = Some pid" "pid \<noteq> []"
    unfolding in_package_refs by auto
  then show ?thesis using that pkg(1-3) by (simp add: comp_def)
qed

lemma money_zero: "to_decimal (SText ''0.000'') = 0"
  by code_simp

lemma nth_apply_package_context:
  "j < length entries \<Longrightarrow> length entries = length svcs \<Longrightarrow>
     apply_package_context entries svcs i ctx ! j = stamp_entry ctx (i, j) (svcs ! j) (entries ! j)"
  by (simp add: apply_package_context_def nth_enumerate_eq)

lemma length_apply_package_context [simp]:
  "length entries = length svcs \<Longrightarrow> length (apply_package_context entries svcs i ctx) = length entries"
  by (simp add: apply_package_context_def)

lemma stamped_price:
  assumes "map_of ctx pid = Some info" "si_package_id svc = Some pid"
  shows "to_decimal (se_base_price (stamp_entry ctx pos svc e)) = (if pos = pi_carrier info then quantize3 (pi_price info) else 0)"
    and "se_package_id (stamp_entry ctx pos svc e) = Some pid"
  using assms money_zero by (auto simp: stamp_entry_def str_or_def Let_def)

text \<open>
  The services of a request pass the package rule exactly when all are plain services, or all
  belong to one package of which at most one entry is the whole package. (So a package may be
  booked whole and by its parts at once, and is then charged twice.)
\<close>

theorem package_booked_alone:
  "validate_package_exclusivity sessions = Inr () \<longleftrightarrow>
     (let kinds = map kind_of (concat (map ss_services sessions)) in
      set kinds \<subseteq> {PlainService}
      \<or> (\<exists>pid. (\<forall>k\<in>set kinds. package_of k = Some pid) \<and> length (filter is_whole kinds) \<le> 1))"
  by (rule exclusivity_iff)

lemma flag_true_True [simp]: "flag_true (SBool True)"
  by code_simp

theorem package_booked_alone_witness:
  "let whole = build_service_entry (Some ''p'') [''is_packaged_services'' \<mapsto> SBool True] None Map.empty (SText ''40'') (SInt 90) 0;
       part = (build_service_entry (Some ''s1'') Map.empty None Map.empty (SText ''0'') (SInt 30) 0)\<lparr>se_package_id := Some ''p''\<rparr>
   in validate_package_exclusivity [(demo_session ''t1'' 0 60)\<lparr>ss_services := [whole, part]\<rparr>] = Inr ()"
  unfolding Let_def package_booked_alone
  by (auto simp: kind_of_def dget_def or_none_def nonempty_def strip_def is_space_def is_whole_def str_or_def id_text_def)

end
