(* ===== verification/Session_Planner.thy ===== *)
theory Session_Planner
  imports Packages
begin

text \<open>
  Planning the sessions of a request: \<open>app/booking/application/session_planner.py\<close>.

  \<open>planner_env\<close> holds the calls to the staff service that the planner makes (None when the call
  raises) and the fresh identifiers. The tasks that \<open>asyncio.gather\<close> runs together are
  independent of each other; they are run here in the order of the sessions, so that of several errors
  the first in that order is raised. An availability check gets the session, from which
  its arguments are built.
\<close>

record availability =
  av_available :: bool
  av_therapist_id :: "string option"
  av_therapist_ids :: "string option list"
  av_secondary_id :: "string option"

record planner_env =
  pe_ushauth :: ushauth
  pe_get_therapist :: "string \<Rightarrow> snapshot option"
  pe_check_arrangement :: "session \<Rightarrow> availability option"
  pe_check_therapist :: "session \<Rightarrow> string \<Rightarrow> bool option"
  pe_session_id :: "nat \<Rightarrow> string"
  pe_service_id :: "nat \<Rightarrow> nat \<Rightarrow> string"

datatype planner_error = PlanInvalid session_error | NotAvailable int | GatewayError

record session_plan =
  sp_sessions :: "session list"
  sp_mirror :: session_mirror
  sp_totals :: booking_totals_rec
  sp_service_entries :: "service_entry list"

section \<open>Building one session\<close>

definition kuwait :: "instant \<Rightarrow> instant" where "kuwait naive = naive - 10800000000"

definition to_local_tz :: "pydatetime \<Rightarrow> instant" where
  "to_local_tz d = (case d of Naive n \<Rightarrow> kuwait n | Aware t \<Rightarrow> t)"

definition start_of :: "session_item \<Rightarrow> session_error + instant" where
  "start_of item =
     (case qi_appointment_time item of
        Some (txt, Some n) \<Rightarrow> Inr (to_local_tz (Naive n))
      | Some (txt, None) \<Rightarrow> Inl (InvalidTime txt)
      | None \<Rightarrow> (case qi_appointment_start item of
                   Some d \<Rightarrow> Inr (to_local_tz d)
                 | None \<Rightarrow> Inl StartMissing))"

definition set_default :: "string \<Rightarrow> scalar \<Rightarrow> snapshot \<Rightarrow> snapshot" where
  "set_default k v m = (if m k = None then m(k \<mapsto> v) else m)"

definition therapist_snapshot :: "planner_env \<Rightarrow> string \<Rightarrow> snapshot option \<Rightarrow> string option \<Rightarrow> snapshot" where
  "therapist_snapshot env tid provided nm0 =
     (let data = (case provided of Some d \<Rightarrow> d | None \<Rightarrow> Map.empty);
          nm1 = (case or_none nm0 of Some n \<Rightarrow> n | None \<Rightarrow> therapist_display_name data);
          avatar1 = scalar_or (dget data ''avatar'') (dget data ''photo_url'');
          profile = (if tid \<noteq> [] \<and> (nm1 = [] \<or> \<not> scalar_true avatar1) then pe_get_therapist env tid else None);
          nm = (if nm1 \<noteq> [] then nm1 else (case profile of Some p \<Rightarrow> therapist_display_name p | None \<Rightarrow> nm1));
          avatar = (case profile of Some p \<Rightarrow> scalar_or avatar1 (scalar_or (dget p ''avatar'') (dget p ''photo_url'')) | None \<Rightarrow> avatar1);
          snap = [''id'' \<mapsto> SText tid, ''name'' \<mapsto> SText nm, ''therapist_name'' \<mapsto> SText nm, ''full_name'' \<mapsto> SText nm] ++ data
      in if scalar_true avatar then set_default ''photo_url'' avatar (set_default ''avatar'' avatar snap) else snap)"

definition enrich_addon :: "snapshot list \<Rightarrow> snapshot \<Rightarrow> snapshot" where
  "enrich_addon db_addons a =
     (let aid = first_text [dget a ''addon_id'', dget a ''id'']
      in case map_of (rev (map (\<lambda>d. (py_str (scalar_or (dget d ''id'') (dget d ''addon_id'')), d)) db_addons)) aid of
           None \<Rightarrow> a
         | Some db \<Rightarrow>
             (let a1 = a(''name'' \<mapsto> scalar_or (dget db ''name'') (dget a ''name''));
                  a2 = (if dget db ''price'' \<noteq> SNone then a1(''price'' \<mapsto> dget db ''price'') else a1)
              in if dget db ''duration_minutes'' \<noteq> SNone
                 then a2(''duration_minutes'' \<mapsto> dget db ''duration_minutes'') else a2))"

definition enrich_addons :: "snapshot list \<Rightarrow> db_arrangement \<Rightarrow> snapshot list" where
  "enrich_addons raw db = map (enrich_addon (da_addons db)) raw"

definition session_services :: "session_item \<Rightarrow> service_item list" where
  "session_services item =
     map (\<lambda>s. s\<lparr>si_arrangement_id := (case or_none (qi_arrangement_id item) of Some a \<Rightarrow> Some a | None \<Rightarrow> si_arrangement_id s)\<rparr>)
       (qi_services item)"

definition session_arrangement :: "planner_env \<Rightarrow> session_item \<Rightarrow> db_arrangement" where
  "session_arrangement env item =
     (case or_none (qi_arrangement_id item) of None \<Rightarrow> no_arrangement
      | Some a \<Rightarrow> (case ua_get_arrangement (pe_ushauth env) a of Some d \<Rightarrow> d | None \<Rightarrow> no_arrangement))"

definition session_arrangement_data :: "session_item \<Rightarrow> db_arrangement \<Rightarrow> service_entry list \<Rightarrow> snapshot" where
  "session_arrangement_data item db entries =
     (let d = da_data db;
          data = [''id'' \<mapsto> SText (str_or (qi_arrangement_id item) []),
                  ''arrangement_type'' \<mapsto> first_true [text_scalar (qi_arrangement_type item), dget d ''arrangement_type''] (SText []),
                  ''room_name'' \<mapsto> first_true [text_scalar (qi_room_name item), text_scalar (qi_arrangement_name item), dget d ''name''] (SText []),
                  ''arrangement_name'' \<mapsto> first_true [text_scalar (qi_arrangement_name item), text_scalar (qi_room_name item), dget d ''name''] (SText [])]
                 ++ (case qi_arrangement_data item of Some x \<Rightarrow> x | None \<Rightarrow> Map.empty)
      in if scalar_true (dget data ''arrangement_type'') then data
         else data(''arrangement_type'' \<mapsto>
           (case se_arrangement_data (hd entries) ''arrangement_type'' of Some v \<Rightarrow> v | None \<Rightarrow> SText [])))"

definition build_one_session ::
  "planner_env \<Rightarrow> session_item \<Rightarrow> nat \<Rightarrow> bool \<Rightarrow> (string \<times> package_info) list \<Rightarrow> session_error + session" where
  "build_one_session env item position is_loyalty ctx =
     ebind (resolve_service_entries (pe_ushauth env) (session_services item) is_loyalty True (Some True) (pe_service_id env position)) (\<lambda>resolved.
       let entries = apply_package_context resolved (session_services item) position ctx;
           db = session_arrangement env item;
           primary = se_service_data (hd entries)
       in ebind (start_of item) (\<lambda>start.
            build_session (int position) (Aware start) (Some (qi_therapist_id item))
              (Some (therapist_snapshot env (qi_therapist_id item) (qi_therapist_data item) (qi_therapist_name item)))
              (qi_arrangement_id item) (Some (session_arrangement_data item db entries))
              entries (enrich_addons (qi_addons item) db) (qi_extra_minutes item)
              (dget primary ''extra_minutes'') (dget primary ''price_for_extra_minutes'')
              (qi_secondary_id item)
              (map_option (\<lambda>i. therapist_snapshot env i (qi_secondary_data item) (qi_secondary_name item)) (or_none (qi_secondary_id item)))
              (qi_session_id item) (pe_session_id env position)))"

fun build_sessions ::
  "planner_env \<Rightarrow> bool \<Rightarrow> (string \<times> package_info) list \<Rightarrow> nat \<Rightarrow> session_item list \<Rightarrow> session_error + session list" where
  "build_sessions env is_loyalty ctx idx [] = Inr []"
| "build_sessions env is_loyalty ctx idx (item # items) =
     ebind (build_one_session env item idx is_loyalty ctx) (\<lambda>s.
     ebind (build_sessions env is_loyalty ctx (Suc idx) items) (\<lambda>ss. Inr (s # ss)))"

section \<open>Availability\<close>

fun check_roomless :: "planner_env \<Rightarrow> session \<Rightarrow> string list \<Rightarrow> planner_error + unit" where
  "check_roomless env s [] = Inr ()"
| "check_roomless env s (tid # tids) =
     (case pe_check_therapist env s tid of
        None \<Rightarrow> Inl GatewayError
      | Some ok \<Rightarrow> if ok then check_roomless env s tids else Inl (NotAvailable (ss_position s + 1)))"

text \<open>The staff service decides which therapists are reserved.\<close>

definition reserve :: "session \<Rightarrow> availability \<Rightarrow> session" where
  "reserve s res =
     (let required = entries_required_therapists [ss_arrangement_data s];
          s1 = (case or_none (av_therapist_id res) of
                  Some c \<Rightarrow> if Some c \<noteq> ss_therapist_id s then s\<lparr>ss_therapist_id := Some c\<rparr> else s
                | None \<Rightarrow> s)
      in if 1 < required \<and> \<not> truthy (ss_secondary_therapist_id s1) then
           (case unique_ids (av_therapist_id res # av_therapist_ids res @ [av_secondary_id res]) of
              _ # sec # _ \<Rightarrow>
                if Some sec \<noteq> ss_therapist_id s1
                then s1\<lparr>ss_secondary_therapist_id := Some sec, ss_secondary_therapist_data := Some [''id'' \<mapsto> SText sec]\<rparr>
                else s1
            | _ \<Rightarrow> s1)
         else s1)"

definition check_session_availability :: "planner_env \<Rightarrow> bool \<Rightarrow> session \<Rightarrow> planner_error + session" where
  "check_session_availability env excluding s =
     (if \<not> truthy (ss_arrangement_id s) then
        (if excluding then Inr s
         else ebind (check_roomless env s (unique_ids [ss_therapist_id s, ss_secondary_therapist_id s])) (\<lambda>_. Inr s))
      else (case pe_check_arrangement env s of
              None \<Rightarrow> Inl GatewayError
            | Some res \<Rightarrow> if av_available res then Inr (reserve s res) else Inl (NotAvailable (ss_position s + 1))))"

fun check_all :: "planner_env \<Rightarrow> bool \<Rightarrow> session list \<Rightarrow> planner_error + session list" where
  "check_all env excluding [] = Inr []"
| "check_all env excluding (s # ss) =
     ebind (check_session_availability env excluding s) (\<lambda>s'.
     ebind (check_all env excluding ss) (\<lambda>ss'. Inr (s' # ss')))"

section \<open>The plan\<close>

definition as_invalid :: "session_error + 'a \<Rightarrow> planner_error + 'a" where
  "as_invalid r = (case r of Inl e \<Rightarrow> Inl (PlanInvalid e) | Inr x \<Rightarrow> Inr x)"

text \<open>\<open>day\<close> is the booking date, \<open>day_text\<close> its text in the error message.\<close>

definition plan_sessions ::
  "planner_env \<Rightarrow> session_item list \<Rightarrow> int \<Rightarrow> string \<Rightarrow> bool \<Rightarrow> bool \<Rightarrow> bool \<Rightarrow> planner_error + session_plan" where
  "plan_sessions env items day day_text is_loyalty check_availability excluding =
     ebind (as_invalid (resolve_package_context (pe_ushauth env) items)) (\<lambda>ctx.
     ebind (as_invalid (build_sessions env is_loyalty ctx 0 items)) (\<lambda>built.
     ebind (as_invalid (validate_package_exclusivity built)) (\<lambda>_.
     ebind (as_invalid (validate_sessions
              (if ctx \<noteq> [] then MAX_PACKAGE_SESSIONS_PER_BOOKING else MAX_SESSIONS_PER_BOOKING) built)) (\<lambda>sessions.
       if (case fst (session_window (hd sessions)) of Some t \<Rightarrow> local_date t \<noteq> day | None \<Rightarrow> True)
       then Inl (PlanInvalid (NotOnBookingDate day_text))
       else ebind (if check_availability then check_all env excluding sessions else Inr sessions) (\<lambda>final.
              case legacy_mirror final of
                None \<Rightarrow> Inl (PlanInvalid NoSessions)
              | Some m \<Rightarrow> Inr \<lparr>sp_sessions = final, sp_mirror = m, sp_totals = booking_totals final,
                              sp_service_entries = flatten_services final\<rparr>)))))"

definition totals_as_decimals :: "session_plan \<Rightarrow> rat \<times> rat \<times> rat" where
  "totals_as_decimals plan =
     (bt_services_price (sp_totals plan), bt_addons_price (sp_totals plan), bt_extra_price (sp_totals plan))"

section \<open>Lemmas\<close>

lemma as_invalid_Inr [simp]: "as_invalid r = Inr x \<longleftrightarrow> r = Inr x"
  by (cases r) (simp_all add: as_invalid_def)

lemma plan_cases:
  assumes "plan_sessions env items day dt loyal check excl = Inr plan"
  obtains ctx built sessions where "resolve_package_context (pe_ushauth env) items = Inr ctx"
    "build_sessions env loyal ctx 0 items = Inr built" "validate_package_exclusivity built = Inr ()"
    "validate_sessions (if ctx \<noteq> [] then MAX_PACKAGE_SESSIONS_PER_BOOKING else MAX_SESSIONS_PER_BOOKING) built = Inr sessions"
    "\<exists>t. fst (session_window (hd sessions)) = Some t \<and> local_date t = day"
    "(if check then check_all env excl sessions else Inr sessions) = Inr (sp_sessions plan)"
    "legacy_mirror (sp_sessions plan) = Some (sp_mirror plan)" "sp_totals plan = booking_totals (sp_sessions plan)"
    "sp_service_entries plan = flatten_services (sp_sessions plan)"
proof -
  from assms obtain ctx built u sessions where
    c: "resolve_package_context (pe_ushauth env) items = Inr ctx" "build_sessions env loyal ctx 0 items = Inr built"
      "validate_package_exclusivity built = Inr u"
      "validate_sessions (if ctx \<noteq> [] then MAX_PACKAGE_SESSIONS_PER_BOOKING else MAX_SESSIONS_PER_BOOKING) built = Inr sessions"
    and rest: "(if (case fst (session_window (hd sessions)) of Some t \<Rightarrow> local_date t \<noteq> day | None \<Rightarrow> True)
       then Inl (PlanInvalid (NotOnBookingDate dt))
       else ebind (if check then check_all env excl sessions else Inr sessions) (\<lambda>final.
              case legacy_mirror final of
                None \<Rightarrow> Inl (PlanInvalid NoSessions)
              | Some m \<Rightarrow> Inr \<lparr>sp_sessions = final, sp_mirror = m, sp_totals = booking_totals final,
                              sp_service_entries = flatten_services final\<rparr>)) = Inr plan"
    unfolding plan_sessions_def by (simp only: ebind_Inr_iff as_invalid_Inr) blast
  from rest have day: "\<exists>t. fst (session_window (hd sessions)) = Some t \<and> local_date t = day"
    by (auto split: if_splits option.splits)
  with rest obtain final where final: "(if check then check_all env excl sessions else Inr sessions) = Inr final"
    and m: "(case legacy_mirror final of None \<Rightarrow> Inl (PlanInvalid NoSessions)
      | Some m \<Rightarrow> Inr \<lparr>sp_sessions = final, sp_mirror = m, sp_totals = booking_totals final,
                      sp_service_entries = flatten_services final\<rparr>) = Inr plan"
    by (auto simp: ebind_Inr_iff simp del: if_split)
  from m have "sp_sessions plan = final" "legacy_mirror final = Some (sp_mirror plan)" "sp_totals plan = booking_totals final"
    "sp_service_entries plan = flatten_services final" by (auto split: option.splits)
  with that[OF c(1,2) _ c(4) day] c(3) final show ?thesis by simp
qed

lemma build_sessions_nth:
  assumes "build_sessions env loyal ctx idx items = Inr ss"
  shows "length ss = length items
    \<and> (\<forall>i<length items. build_one_session env (items ! i) (idx + i) loyal ctx = Inr (ss ! i))"
  using assms
proof (induction items arbitrary: idx ss)
  case (Cons item items)
  then obtain s ss' where s: "ss = s # ss'" "build_one_session env item idx loyal ctx = Inr s"
    "build_sessions env loyal ctx (Suc idx) items = Inr ss'" by (auto simp: ebind_Inr_iff)
  show ?case using Cons.IH[OF s(3)] s(1,2) by (auto simp: nth_Cons' less_Suc_eq_0_disj ac_simps)
qed simp

lemma reserve_fields [simp]:
  "ss_services (reserve s r) = ss_services s" "session_window (reserve s r) = session_window s"
  "ss_position (reserve s r) = ss_position s" "ss_services_price (reserve s r) = ss_services_price s"
  "truthy (ss_therapist_id s) \<Longrightarrow> truthy (ss_therapist_id (reserve s r))"
  by (auto simp: reserve_def Let_def session_window_def truthy_def split: option.splits list.splits)

text \<open>What the availability checks leave alone.\<close>

definition same_schedule :: "session \<Rightarrow> session \<Rightarrow> bool" where
  "same_schedule s s' \<longleftrightarrow> ss_services s' = ss_services s \<and> session_window s' = session_window s
     \<and> ss_position s' = ss_position s \<and> (truthy (ss_therapist_id s) \<longrightarrow> truthy (ss_therapist_id s'))"

lemma check_all_schedule:
  assumes "check_all env excl ss = Inr ss'"
  shows "list_all2 same_schedule ss ss'"
  using assms
proof (induction ss arbitrary: ss')
  case (Cons s ss)
  then obtain t ts where t: "ss' = t # ts" "check_session_availability env excl s = Inr t" "check_all env excl ss = Inr ts"
    by (auto simp: ebind_Inr_iff)
  have "same_schedule s t" using t(2)
    by (auto simp: check_session_availability_def same_schedule_def ebind_Inr_iff split: if_splits option.splits)
  then show ?case using Cons.IH[OF t(3)] t(1) by simp
qed simp

lemma final_schedule:
  assumes "(if check then check_all env excl ss else Inr ss) = Inr ss'"
  shows "list_all2 same_schedule ss ss'"
  using assms check_all_schedule by (cases check) (auto simp: same_schedule_def intro: list_all2_refl)

lemma same_schedule_win: "same_schedule s s' \<Longrightarrow> win s' = win s \<and> (windowed s' \<longleftrightarrow> windowed s)"
  by (auto simp: same_schedule_def win_def windowed_def session_window_def)

lemma list_all2_map_eq: "list_all2 R xs ys \<Longrightarrow> (\<And>x y. R x y \<Longrightarrow> f x = f y) \<Longrightarrow> map f xs = map f ys"
  by (induction rule: list_all2_induct) auto

definition books_package :: "session_item list \<Rightarrow> bool" where
  "books_package items \<longleftrightarrow> (\<exists>item\<in>set items. \<exists>svc\<in>set (qi_services item).
     or_none (si_package_id svc) \<noteq> None \<and> or_none (si_service_id svc) \<noteq> None)"

lemma package_refs_ne: "package_refs items \<noteq> [] \<longleftrightarrow> books_package items" (is "?L \<longleftrightarrow> ?R")
  unfolding books_package_def
proof
  assume ?L
  then obtain pid i j sid where "(pid, (i, j), sid) \<in> set (package_refs items)" by (metis list.set_intros(1) neq_Nil_conv surj_pair)
  then obtain svc where "i < length items" "j < length (qi_services (items ! i))" "svc = qi_services (items ! i) ! j"
    "or_none (si_package_id svc) = Some pid" "or_none (si_service_id svc) = Some sid"
    unfolding in_package_refs in_placed_services by blast
  then show "\<exists>item\<in>set items. \<exists>svc\<in>set (qi_services item).
     or_none (si_package_id svc) \<noteq> None \<and> or_none (si_service_id svc) \<noteq> None" by (metis nth_mem option.distinct(1))
next
  assume "\<exists>item\<in>set items. \<exists>svc\<in>set (qi_services item).
     or_none (si_package_id svc) \<noteq> None \<and> or_none (si_service_id svc) \<noteq> None"
  then obtain i j pid sid where "i < length items" "j < length (qi_services (items ! i))"
    "or_none (si_package_id (qi_services (items ! i) ! j)) = Some pid" "or_none (si_service_id (qi_services (items ! i) ! j)) = Some sid"
    by (metis in_set_conv_nth not_Some_eq)
  then have "(pid, (i, j), sid) \<in> set (package_refs items)" unfolding in_package_refs in_placed_services by blast
  then show ?L by auto
qed

lemma planned_sound:
  assumes "plan_sessions env items day dt loyal check excl = Inr plan"
  shows "sp_sessions plan \<noteq> []" "length (sp_sessions plan) = length items"
    and "length items \<le> (if books_package items then 5 else 3)"
    and "map ss_position (sp_sessions plan) = map int [0..<length items]"
    and "\<forall>s\<in>set (sp_sessions plan). truthy (ss_therapist_id s) \<and> ss_services s \<noteq> [] \<and> windowed s
           \<and> local_date (fst (win s)) = day \<and> local_date (snd (win s)) = day"
    and "sorted_wrt (\<lambda>s t. snd (win s) \<le> fst (win t)) (sp_sessions plan)"
proof -
  obtain ctx built sessions where ctx: "resolve_package_context (pe_ushauth env) items = Inr ctx"
    and built: "build_sessions env loyal ctx 0 items = Inr built"
    and v: "validate_sessions (if ctx \<noteq> [] then MAX_PACKAGE_SESSIONS_PER_BOOKING else MAX_SESSIONS_PER_BOOKING) built = Inr sessions"
    and day: "\<exists>t. fst (session_window (hd sessions)) = Some t \<and> local_date t = day"
    and fin: "(if check then check_all env excl sessions else Inr sessions) = Inr (sp_sessions plan)"
    by (rule plan_cases[OF assms])
  note va = v[unfolded validate_Inr_iff]
  have eq: "sessions = sort_sessions built" using validate_result[OF v] .
  have w: "\<forall>s\<in>set sessions. windowed s" unfolding eq by (rule sort_sessions_windowed) (use va in blast)
  have attrs: "\<forall>s\<in>set sessions. truthy (ss_therapist_id s) \<and> ss_services s \<noteq> []"
  proof -
    let ?f = "\<lambda>s. truthy (ss_therapist_id s) \<and> ss_services s \<noteq> []"
    have "?f ` set sessions = ?f ` set built"
      unfolding eq sort_sessions_def using set_map_renumber[of ?f] by simp
    moreover have "\<forall>y\<in>?f ` set built. y" using va by blast
    ultimately show ?thesis by (metis (mono_tags, lifting) image_eqI)
  qed
  have ne: "sessions \<noteq> []" using va eq by auto
  have hd: "fst (win (hd sessions)) = t" if "fst (session_window (hd sessions)) = Some t" for t
    using that by (simp add: win_def session_window_def)
  have dates: "\<forall>s\<in>set sessions. local_date (fst (win s)) = day \<and> local_date (snd (win s)) = day"
    using va day hd by blast
  have srt: "sorted_wrt (\<lambda>s t. snd (win s) \<le> fst (win t)) sessions"
    using chained_starts[of "map win sessions"] va w by (auto dest: windowed_simps simp: sorted_wrt_map)
  have pos: "map ss_position sessions = map int [0..<length sessions]"
    unfolding eq sort_sessions_def by (simp add: renumber_def map_equality_iff)
  have len: "length sessions = length built" using eq by (simp add: sort_sessions_def renumber_def)
  have lb: "length built = length items" using build_sessions_nth[OF built] by simp
  note sched = final_schedule[OF fin]
  have l2: "length (sp_sessions plan) = length sessions" using list_all2_lengthD[OF sched] by simp
  show "sp_sessions plan \<noteq> []" using ne l2 by auto
  show "length (sp_sessions plan) = length items" using l2 len lb by simp
  show "map ss_position (sp_sessions plan) = map int [0..<length items]"
    using list_all2_map_eq[OF sched, of ss_position] pos len lb by (simp add: same_schedule_def)
  have mw: "map win sessions = map win (sp_sessions plan)"
    using list_all2_map_eq[OF sched, of win] same_schedule_win by metis
  show "sorted_wrt (\<lambda>s t. snd (win s) \<le> fst (win t)) (sp_sessions plan)"
    using srt mw sorted_wrt_map[of "\<lambda>v w. snd v \<le> fst w" win] by (metis (no_types, lifting))
  show "\<forall>s\<in>set (sp_sessions plan). truthy (ss_therapist_id s) \<and> ss_services s \<noteq> [] \<and> windowed s
           \<and> local_date (fst (win s)) = day \<and> local_date (snd (win s)) = day"
  proof
    fix s' assume "s' \<in> set (sp_sessions plan)"
    then obtain s where "s \<in> set sessions" "same_schedule s s'" using sched by (metis list_all2_conv_all_nth in_set_conv_nth)
    moreover from this have "win s' = win s \<and> windowed s'" using w same_schedule_win by blast
    ultimately show "truthy (ss_therapist_id s') \<and> ss_services s' \<noteq> [] \<and> windowed s'
           \<and> local_date (fst (win s')) = day \<and> local_date (snd (win s')) = day"
      using attrs dates unfolding same_schedule_def by metis
  qed
  have "map fst ctx = first_occurrences (map fst (package_refs items))"
    using ctx load_packages_Inr(1) unfolding resolve_package_context_def by blast
  then have "ctx \<noteq> [] \<longleftrightarrow> package_refs items \<noteq> []" by (metis first_occurrences(2) list.map_disc_iff set_empty)
  moreover have "length items \<le> (if ctx \<noteq> [] then MAX_PACKAGE_SESSIONS_PER_BOOKING else MAX_SESSIONS_PER_BOOKING)"
    using va lb by simp
  ultimately show "length items \<le> (if books_package items then 5 else 3)"
    using package_refs_ne[of items] by (simp add: MAX_PACKAGE_SESSIONS_PER_BOOKING_def MAX_SESSIONS_PER_BOOKING_def split: if_splits)
qed

section \<open>Packages in a plan\<close>

definition charge :: "service_entry \<Rightarrow> string option \<times> scalar" where
  "charge e = (se_package_id e, se_base_price e)"

lemma charge_tag: "map charge (tag_services n es) = map (charge \<circ> snd) es"
  by (induction n es rule: tag_services.induct) (auto simp: charge_def)

lemma charge_flatten: "map charge (flatten_services ss) = concat (map (\<lambda>s. map charge (ss_services s)) ss)"
  by (simp add: flatten_services_def charge_tag map_concat comp_def)

lemma build_session_charges:
  assumes "build_session p st t td a ad es addons x um up s2 sd sid nid = Inr s"
  shows "map charge (ss_services s) = map charge es"
proof -
  have "map charge (map2 (\<lambda>i e. e\<lparr>se_position := int i, se_arrangement_id := f e\<rparr>) [0..<length es] es) = map charge es" for f
    by (rule nth_equalityI) (simp_all add: charge_def)
  with assms show ?thesis by (auto simp: build_session_def Let_def split: pydatetime.splits if_splits)
qed

text \<open>The entries of one planned session: what its items resolve to, stamped with the packages.\<close>

lemma built_session:
  assumes "build_one_session env item i loyal ctx = Inr s"
  obtains es where "length es = length (qi_services item)" "\<forall>e\<in>set es. se_package_id e = None"
    "map charge (ss_services s) = map charge (apply_package_context es (session_services item) i ctx)"
proof -
  from assms obtain es where es: "resolve_service_entries (pe_ushauth env) (session_services item) loyal True (Some True) (pe_service_id env i) = Inr es"
    and s: "\<exists>p st t td a ad ad' x um up s2 sd sid nid. build_session p st t td a ad (apply_package_context es (session_services item) i ctx) ad' x um up s2 sd sid nid = Inr s"
    unfolding build_one_session_def by (auto simp: ebind_Inr_iff Let_def) blast
  have len: "length es = length (qi_services item)" using resolved(1)[OF es] by (simp add: session_services_def)
  from es have b: "build_all (pe_ushauth env) loyal True (pe_service_id env i) 0 (session_services item) = Inr es"
    by (auto simp: resolve_service_entries_def ebind_Inr_iff)
  have "se_package_id e = None" if "e \<in> set es" for e
    using that build_all_nth[OF b] build_one_fields(4) unfolding in_set_conv_nth by metis
  with len that build_session_charges s show ?thesis by blast
qed

lemma stamp_other:
  assumes "se_package_id e = None"
  shows "se_package_id (stamp_entry ctx pos svc e) = Some pid \<longleftrightarrow> str_or (si_package_id svc) [] = pid \<and> map_of ctx pid \<noteq> None"
  using assms by (auto simp: stamp_entry_def Let_def split: option.splits)

lemma session_services_nth:
  "length (session_services item) = length (qi_services item)"
  "j < length (qi_services item) \<Longrightarrow> si_package_id (session_services item ! j) = si_package_id (qi_services item ! j)"
  by (simp_all add: session_services_def)

definition package_charges :: "string \<Rightarrow> (string option \<times> scalar) list \<Rightarrow> rat" where
  "package_charges pid cs = (\<Sum>c\<leftarrow>cs. if fst c = Some pid then to_decimal (snd c) else 0)"

lemma package_charges_append [simp]:
  "package_charges pid (xs @ ys) = package_charges pid xs + package_charges pid ys" "package_charges pid [] = 0"
  by (simp_all add: package_charges_def)

lemma package_charges_mset: "mset xs = mset ys \<Longrightarrow> package_charges pid xs = package_charges pid ys"
  unfolding package_charges_def by (metis (no_types, lifting) mset_map sum_mset_sum_list)

lemma package_charges_concat: "package_charges pid (concat (map f ss)) = (\<Sum>i<length ss. package_charges pid (f (ss ! i)))"
proof -
  have "package_charges pid (concat (map f ss)) = sum_list (map (\<lambda>s. package_charges pid (f s)) ss)"
    by (induction ss) simp_all
  then show ?thesis by (simp add: sum_list_sum_nth atLeast0LessThan)
qed

lemma row_charges:
  assumes ctx: "map_of ctx pid = Some info" "pid \<noteq> []"
    and es: "length es = length svcs" "\<forall>e\<in>set es. se_package_id e = None"
    and carrier: "\<And>j. j < length svcs \<Longrightarrow> pi_carrier info = (i, j) \<Longrightarrow> si_package_id (svcs ! j) = Some pid"
  shows "package_charges pid (map charge (apply_package_context es svcs i ctx))
    = (\<Sum>j<length svcs. if pi_carrier info = (i, j) then quantize3 (pi_price info) else 0)"
proof -
  have "(if fst (charge (stamp_entry ctx (i, j) (svcs ! j) (es ! j))) = Some pid
         then to_decimal (snd (charge (stamp_entry ctx (i, j) (svcs ! j) (es ! j)))) else 0)
      = (if pi_carrier info = (i, j) then quantize3 (pi_price info) else 0)" if j: "j < length svcs" for j
  proof (cases "str_or (si_package_id (svcs ! j)) [] = pid")
    case True
    then have "si_package_id (svcs ! j) = Some pid" using ctx(2) by (auto simp: str_or_def split: option.splits if_splits)
    from stamped_price[OF ctx(1) this] show ?thesis by (auto simp: charge_def)
  next
    case False
    then have "si_package_id (svcs ! j) \<noteq> Some pid" using ctx(2) by (auto simp: str_or_def)
    then have "pi_carrier info \<noteq> (i, j)" using carrier[OF j] by blast
    moreover have "se_package_id (es ! j) = None" using es j by (metis nth_mem)
    ultimately show ?thesis using False stamp_other[of "es ! j" ctx "(i, j)" "svcs ! j" pid] by (simp add: charge_def)
  qed
  then show ?thesis
    using es(1) by (simp add: package_charges_def sum_list_sum_nth atLeast0LessThan nth_apply_package_context)
qed

lemma sum_at_carrier:
  fixes n b :: nat
  assumes "a < n" "b < m a"
  shows "(\<Sum>i<n. \<Sum>j<m i. if (a, b) = (i, j) then (q :: rat) else 0) = q"
proof -
  have "(\<Sum>j<m i. if (a, b) = (i, j) then q else 0) = (if a = i then q else 0)" if "i < n" for i
    using assms(2) by (cases "a = i") simp_all
  then have "(\<Sum>i<n. \<Sum>j<m i. if (a, b) = (i, j) then q else 0) = (\<Sum>i<n. if a = i then q else 0)"
    by (intro sum.cong) auto
  then show ?thesis using assms(1) by simp
qed

lemma built_charges:
  assumes bs: "build_sessions env loyal ctx 0 items = Inr bs"
    and ctx: "resolve_package_context (pe_ushauth env) items = Inr ctx" "map_of ctx pid = Some info"
  shows "package_charges pid (concat (map (\<lambda>s. map charge (ss_services s)) bs)) = quantize3 (pi_price info)"
proof -
  obtain a b svc where c: "pi_carrier info = (a, b)" by (metis surj_pair)
  from package_resolved[OF ctx] obtain svc where svc: "((a, b), svc) \<in> set (placed_services items)"
    "si_package_id svc = Some pid" and ne: "pid \<noteq> []" unfolding c by blast
  then have ab: "a < length items" "b < length (qi_services (items ! a))" "svc = qi_services (items ! a) ! b"
    by (auto simp: in_placed_services)
  have row: "package_charges pid (map charge (ss_services (bs ! i)))
      = (\<Sum>j<length (qi_services (items ! i)). if (a, b) = (i, j) then quantize3 (pi_price info) else 0)" if i: "i < length items" for i
  proof -
    from build_sessions_nth[OF bs] i have "build_one_session env (items ! i) i loyal ctx = Inr (bs ! i)" by simp
    from built_session[OF this] obtain es where es: "length es = length (qi_services (items ! i))"
      "\<forall>e\<in>set es. se_package_id e = None"
      "map charge (ss_services (bs ! i)) = map charge (apply_package_context es (session_services (items ! i)) i ctx)" .
    show ?thesis unfolding es(3)
      using row_charges[OF ctx(2) ne _ es(2), of "session_services (items ! i)" i] es(1) c svc(2) ab(3)
      by (auto simp: session_services_nth)
  qed
  have "(\<Sum>i<length bs. package_charges pid (map charge (ss_services (bs ! i))))
      = (\<Sum>i<length items. \<Sum>j<length (qi_services (items ! i)). if (a, b) = (i, j) then quantize3 (pi_price info) else 0)"
    using build_sessions_nth[OF bs] by (intro sum.cong) (simp_all add: row del: prod.inject)
  then show ?thesis
    unfolding package_charges_concat
    by (simp add: sum_at_carrier[of a "length items" b "\<lambda>i. length (qi_services (items ! i))", OF ab(1,2)] del: prod.inject)
qed

lemma mset_concat_cong: "mset xss = mset yss \<Longrightarrow> mset (concat xss) = mset (concat yss)"
  unfolding mset_concat by (metis mset_map sum_mset_sum_list)

lemma plan_charges:
  assumes "plan_sessions env items day dt loyal check excl = Inr plan"
    and "or_none (si_package_id svc) = Some pid" "or_none (si_service_id svc) \<noteq> None"
    and "svc \<in> set (qi_services item)" "item \<in> set items"
  obtains pkg where "ua_get_service (pe_ushauth env) pid = Some pkg"
    "package_charges pid (map charge (sp_service_entries plan)) = quantize3 (to_decimal (dget (ds_data pkg) ''base_price''))"
    "mset (map (snd \<circ> snd) (filter (\<lambda>r. fst r = pid) (package_refs items))) = mset (map fst (ds_included pkg))"
proof -
  obtain ctx bs sessions where ctx: "resolve_package_context (pe_ushauth env) items = Inr ctx"
    and bs: "build_sessions env loyal ctx 0 items = Inr bs"
    and v: "validate_sessions (if ctx \<noteq> [] then MAX_PACKAGE_SESSIONS_PER_BOOKING else MAX_SESSIONS_PER_BOOKING) bs = Inr sessions"
    and fin: "(if check then check_all env excl sessions else Inr sessions) = Inr (sp_sessions plan)"
    and entries: "sp_service_entries plan = flatten_services (sp_sessions plan)"
    by (rule plan_cases[OF assms(1)])
  let ?c = "\<lambda>s. map charge (ss_services s)"
  obtain sid where sid: "or_none (si_service_id svc) = Some sid" using assms(3) by blast
  obtain i j where "i < length items" "item = items ! i" "j < length (qi_services item)" "svc = qi_services item ! j"
    using assms(4,5) by (metis in_set_conv_nth)
  then have "(pid, (i, j), sid) \<in> set (package_refs items)" using assms(2) sid unfolding in_package_refs in_placed_services by blast
  then have "pid \<in> set (map fst ctx)"
    using load_packages_Inr(1)[OF ctx[unfolded resolve_package_context_def]] by (force simp: image_iff)
  then obtain info where info: "map_of ctx pid = Some info" by (metis map_of_eq_None_iff list.set_map not_None_eq)
  from package_resolved[OF ctx info] obtain pkg where pkg: "ua_get_service (pe_ushauth env) pid = Some pkg"
    "pi_price info = to_decimal (dget (ds_data pkg) ''base_price'')"
    "mset (map (snd \<circ> snd) (filter (\<lambda>r. fst r = pid) (package_refs items))) = mset (map fst (ds_included pkg))" by blast
  have "map ?c sessions = map ?c (sp_sessions plan)"
    by (rule list_all2_map_eq[OF final_schedule[OF fin]]) (simp add: same_schedule_def)
  moreover have "mset (map ?c sessions) = mset (map ?c bs)"
    unfolding validate_result[OF v] sort_sessions_def by (simp add: map_renumber)
  ultimately have "mset (concat (map ?c (sp_sessions plan))) = mset (concat (map ?c bs))"
    by (intro mset_concat_cong) simp
  then have "package_charges pid (map charge (sp_service_entries plan)) = quantize3 (pi_price info)"
    unfolding entries charge_flatten using package_charges_mset built_charges[OF bs ctx info] by metis
  then show ?thesis using that pkg by simp
qed

section \<open>What a plan guarantees\<close>

text \<open>
  C12. The sessions of a plan: one per requested session, numbered from 0 in the order of time, each
  with a therapist and a service, all on the booking date and without overlap; at most three, or
  five when the request books a package by its parts. The reservations that the staff service
  makes while the availability is checked change none of this.
\<close>

theorem planned_sessions_sound:
  assumes "plan_sessions env items day day_text loyal check_avail excluding = Inr plan"
  shows "sp_sessions plan \<noteq> [] \<and> length (sp_sessions plan) = length items
    \<and> length items \<le> (if books_package items then 5 else 3)
    \<and> map ss_position (sp_sessions plan) = map int [0..<length items]
    \<and> (\<forall>s\<in>set (sp_sessions plan). truthy (ss_therapist_id s) \<and> ss_services s \<noteq> [] \<and> windowed s
         \<and> local_date (fst (win s)) = day \<and> local_date (snd (win s)) = day)
    \<and> sorted_wrt (\<lambda>s t. snd (win s) \<le> fst (win t)) (sp_sessions plan)"
  using planned_sound[OF assms] by blast

text \<open>
  C11. A package booked by its parts is charged exactly once: in every plan, wherever its parts are
  placed, the entries stamped with the package add up to the price of its record, and the parts
  that name a service are the included services, each exactly as often as included.
\<close>

theorem package_charged_once:
  assumes "plan_sessions env items day day_text loyal check_avail excluding = Inr plan"
    and "item \<in> set items" "svc \<in> set (qi_services item)"
    and "or_none (si_package_id svc) = Some pid" "or_none (si_service_id svc) \<noteq> None"
  shows "\<exists>pkg. ua_get_service (pe_ushauth env) pid = Some pkg
    \<and> (\<Sum>e\<leftarrow>sp_service_entries plan. if se_package_id e = Some pid then to_decimal (se_base_price e) else 0)
        = quantize3 (to_decimal (dget (ds_data pkg) ''base_price''))
    \<and> mset (map (snd \<circ> snd) (filter (\<lambda>r. fst r = pid) (package_refs items))) = mset (map fst (ds_included pkg))"
  by (rule plan_charges[OF assms(1,4,5,3,2)])
    (auto simp: package_charges_def charge_def comp_def cong: if_cong)

definition demo_env_planner :: planner_env where
  "demo_env_planner = \<lparr>pe_ushauth = demo_ushauth, pe_get_therapist = (\<lambda>_. None),
     pe_check_arrangement = (\<lambda>_. Some \<lparr>av_available = True, av_therapist_id = None, av_therapist_ids = [], av_secondary_id = None\<rparr>),
     pe_check_therapist = (\<lambda>_ _. Some True), pe_session_id = (\<lambda>_. ''x''), pe_service_id = (\<lambda>_ _. ''y'')\<rparr>"

definition demo_request_item :: "service_item list \<Rightarrow> session_item" where
  "demo_request_item svcs =
     \<lparr>qi_session_id = None, qi_therapist_id = ''t1'', qi_therapist_name = Some ''Mai'', qi_therapist_data = None,
      qi_secondary_id = None, qi_secondary_name = None, qi_secondary_data = None, qi_arrangement_id = Some ''a'',
      qi_arrangement_name = None, qi_arrangement_type = None, qi_room_name = None, qi_arrangement_data = None,
      qi_services = svcs, qi_addons = [], qi_extra_minutes = 0,
      qi_appointment_time = Some (''10:00:00'', Some 36000000000), qi_appointment_start = None\<rparr>"

lemmas eval_resolve =
  resolve_service_entries_def demo_item_def build_one_def service_of_def arrangement_of_def demo_ushauth_def
  or_none_def nonempty_def pick_points_def pick_arrangement_points_def item_offer_def item_base_duration_def first_true_def
  int_scalar_def item_sd_def item_ad_def strict_int_def dget_def scalar_or_def validate_consistency_def branch_names_def
  Let_def

definition demo_info :: package_info where
  "demo_info = \<lparr>pi_name = ''day off'', pi_price = to_decimal (SText ''40.000''), pi_carrier = (0, 0),
     pi_durations = [(''s1'', Some 30), (''s2'', Some 60)]\<rparr>"

definition demo_parts :: "service_item list" where
  "demo_parts = [demo_item ''s1'' SNone (Some ''p''), demo_item ''s2'' SNone (Some ''p'')]"

text \<open>A third item tagged with the package that names no service.\<close>

definition demo_extra :: service_item where
  "demo_extra = (demo_item [] SNone (Some ''p''))\<lparr>si_service_id := None, si_service_name := Some ''facial''\<rparr>"

lemma demo_context:
  "resolve_package_context demo_ushauth [demo_request_item demo_parts] = Inr [(''p'', demo_info)]"
  "resolve_package_context demo_ushauth [demo_request_item (demo_parts @ [demo_extra])] = Inr [(''p'', demo_info)]"
  by (simp_all add: resolve_package_context_def package_refs_def placed_services_def demo_request_item_def demo_item_def
      List.map_filter_simps or_none_def nonempty_def first_occurrences_def load_package_def demo_ushauth_def dget_def
      demo_parts_def demo_extra_def demo_info_def first_text_def scalar_or_def)

lemmas eval_built =
  build_one_session_def eval_resolve demo_env_planner_def demo_request_item_def session_services_def demo_parts_def demo_extra_def
  apply_package_context_def stamp_entry_def demo_info_def start_of_def to_local_tz_def kuwait_def build_session_def
  build_service_entry_def total_services_duration_def session_window_def kind_of_def str_or_def id_text_def strip_def is_space_def
  truthy_def enrich_addons_def normalise_addons_def no_service_def

lemma demo_plan_built:
  "\<exists>s. build_one_session demo_env_planner (demo_request_item demo_parts) 0 False [(''p'', demo_info)] = Inr s
     \<and> session_window s = (Some 25200000000, Some 30600000000) \<and> truthy (ss_therapist_id s)
     \<and> map kind_of (ss_services s) = [Component ''p'', Component ''p'']"
  by (simp add: eval_built del: list.set_map set_filter)

lemma demo_built_extra:
  "\<exists>s. build_one_session demo_env_planner (demo_request_item (demo_parts @ [demo_extra])) 0 False [(''p'', demo_info)] = Inr s
     \<and> session_window s = (Some 25200000000, Some 34200000000) \<and> truthy (ss_therapist_id s)
     \<and> map kind_of (ss_services s) = [Component ''p'', Component ''p'', Component ''p'']"
  by (simp add: eval_built del: list.set_map set_filter)

lemma one_session_plan:
  assumes "resolve_package_context (pe_ushauth env) [item] = Inr ctx" "build_one_session env item 0 loyal ctx = Inr s"
    and "session_window s = (Some a, Some z)" "a < z" "truthy (ss_therapist_id s)" "local_date a = day" "local_date z = day"
    and "map kind_of (ss_services s) = Component pid # map Component pids" "set pids \<subseteq> {pid}"
  shows "\<exists>plan. plan_sessions env [item] day dt loyal False excl = Inr plan \<and> map ss_services (sp_sessions plan) = [ss_services s]"
proof -
  have ne: "ss_services s \<noteq> []" using assms(8) by auto
  have "validate_package_exclusivity [s] = Inr ()"
    unfolding exclusivity_iff using assms(8,9) by (auto simp: Let_def is_whole_def filter_map comp_def intro!: exI[of _ pid])
  moreover have "sort_sessions [s] = [s\<lparr>ss_position := 0\<rparr>]" by (simp add: sort_sessions_def renumber_def)
  moreover have "validate_sessions n [s] = Inr (sort_sessions [s])" if "0 < n" for n
    using that assms(3-7) ne by (simp add: validate_sorted_iff windowed_def win_def session_window_def)
  ultimately show ?thesis
    using assms(1,2,3,6)
    by (auto simp: plan_sessions_def as_invalid_def MAX_PACKAGE_SESSIONS_PER_BOOKING_def MAX_SESSIONS_PER_BOOKING_def
        legacy_mirror_def session_window_def Let_def)
qed

lemma demo_plan:
  obtains plan where "plan_sessions demo_env_planner [demo_request_item demo_parts] 0 ''1970-01-01'' False False False = Inr plan"
proof -
  from demo_plan_built obtain s where s: "build_one_session demo_env_planner (demo_request_item demo_parts) 0 False [(''p'', demo_info)] = Inr s"
    "session_window s = (Some 25200000000, Some 30600000000)" "truthy (ss_therapist_id s)"
    "map kind_of (ss_services s) = Component ''p'' # map Component [''p'']" by auto
  from one_session_plan[OF _ s(1,2) _ s(3) _ _ s(4)] that show ?thesis
    by (fastforce simp: demo_env_planner_def demo_context local_date_def)
qed

lemma demo_plan_extra:
  obtains plan where "plan_sessions demo_env_planner [demo_request_item (demo_parts @ [demo_extra])] 0 ''1970-01-01'' False False False = Inr plan"
    "map (length \<circ> ss_services) (sp_sessions plan) = [3]"
proof -
  from demo_built_extra obtain s where s: "build_one_session demo_env_planner (demo_request_item (demo_parts @ [demo_extra])) 0 False [(''p'', demo_info)] = Inr s"
    "session_window s = (Some 25200000000, Some 34200000000)" "truthy (ss_therapist_id s)"
    "map kind_of (ss_services s) = Component ''p'' # map Component [''p'', ''p'']" by auto
  from arg_cong[OF s(4), of length] have "length (ss_services s) = 3" by simp
  with one_session_plan[OF _ s(1,2) _ s(3) _ _ s(4)] that show ?thesis
    by (fastforce simp: demo_env_planner_def demo_context local_date_def)
qed

theorem planned_sessions_sound_witness:
  "\<exists>plan. plan_sessions demo_env_planner [demo_request_item demo_parts] 0 ''1970-01-01'' False False False = Inr plan
     \<and> length (sp_sessions plan) = 1 \<and> sp_sessions plan \<noteq> []"
proof -
  obtain plan where p: "plan_sessions demo_env_planner [demo_request_item demo_parts] 0 ''1970-01-01'' False False False = Inr plan"
    by (rule demo_plan)
  from planned_sessions_sound[OF p] p show ?thesis by simp
qed

theorem package_charged_once_witness:
  "\<exists>plan. plan_sessions demo_env_planner [demo_request_item demo_parts] 0 ''1970-01-01'' False False False = Inr plan
     \<and> (\<Sum>e\<leftarrow>sp_service_entries plan. if se_package_id e = Some ''p'' then to_decimal (se_base_price e) else 0)
         = quantize3 (to_decimal (SText ''40.000''))"
proof -
  obtain plan where p: "plan_sessions demo_env_planner [demo_request_item demo_parts] 0 ''1970-01-01'' False False False = Inr plan"
    by (rule demo_plan)
  have "\<exists>pkg. ua_get_service (pe_ushauth demo_env_planner) ''p'' = Some pkg
    \<and> (\<Sum>e\<leftarrow>sp_service_entries plan. if se_package_id e = Some ''p'' then to_decimal (se_base_price e) else 0)
        = quantize3 (to_decimal (dget (ds_data pkg) ''base_price''))"
    using package_charged_once[OF p, of "demo_request_item demo_parts" "demo_item ''s1'' SNone (Some ''p'')" "''p''"]
    by (auto simp: demo_request_item_def demo_parts_def demo_item_def)
  then show ?thesis using p by (auto simp: demo_env_planner_def demo_ushauth_def dget_def)
qed

text \<open>
  An item that is tagged with the package but names no service is not counted among its parts:
  it passes every check and joins the booking at no price. Here a request for the two parts of a
  package carries a third service, and the plan holds three services for the price of the package.
\<close>

theorem package_free_rider:
  "\<exists>plan. plan_sessions demo_env_planner [demo_request_item (demo_parts @ [demo_extra])] 0 ''1970-01-01'' False False False = Inr plan
     \<and> length (sp_service_entries plan) = 3
     \<and> (\<Sum>e\<leftarrow>sp_service_entries plan. if se_package_id e = Some ''p'' then to_decimal (se_base_price e) else 0)
         = quantize3 (to_decimal (SText ''40.000''))"
proof -
  let ?items = "[demo_request_item (demo_parts @ [demo_extra])]"
  obtain plan where p: "plan_sessions demo_env_planner ?items 0 ''1970-01-01'' False False False = Inr plan"
    and n: "map (length \<circ> ss_services) (sp_sessions plan) = [3]" by (rule demo_plan_extra)
  obtain pkg where "ua_get_service (pe_ushauth demo_env_planner) ''p'' = Some pkg"
    "package_charges ''p'' (map charge (sp_service_entries plan)) = quantize3 (to_decimal (dget (ds_data pkg) ''base_price''))"
    by (rule plan_charges[OF p, of "demo_item ''s1'' SNone (Some ''p'')" "''p''" "hd ?items"])
      (auto simp: demo_request_item_def demo_parts_def demo_item_def)
  then have "(\<Sum>e\<leftarrow>sp_service_entries plan. if se_package_id e = Some ''p'' then to_decimal (se_base_price e) else 0)
         = quantize3 (to_decimal (SText ''40.000''))"
    by (auto simp: package_charges_def charge_def comp_def demo_env_planner_def demo_ushauth_def dget_def cong: if_cong)
  moreover have "length (sp_service_entries plan) = 3"
  proof -
    have "sp_service_entries plan = flatten_services (sp_sessions plan)" by (rule plan_cases[OF p])
    then have "length (sp_service_entries plan) = length (map charge (flatten_services (sp_sessions plan)))" by simp
    also have "\<dots> = sum_list (map (length \<circ> ss_services) (sp_sessions plan))"
      unfolding charge_flatten by (simp add: length_concat comp_def)
    finally show ?thesis unfolding n by simp
  qed
  ultimately show ?thesis using p by blast
qed

end
