(* ===== verification/Payment_Status.thy ===== *)
theory Payment_Status
  imports Prelude
begin

text \<open>
  The payment lifecycle: \<open>app/payment/domain/state_machine.py\<close> and the status enumerations of
  \<open>app/payment/domain/value_objects.py\<close>. The refund statuses and methods used by the refund
  components are here too.
\<close>

datatype PaymentTransactionStatus =
    PT_INITIATED | PT_PENDING | PT_SUCCESS | PT_FAILED | PT_CANCELLED | PT_REFUNDED
  | PT_PARTIALLY_REFUNDED

datatype RefundStatus =
    RS_REQUESTED | RS_APPROVED | RS_REJECTED | RS_PROCESSING | RS_COMPLETED | RS_FAILED | RS_CANCELLED

datatype RefundType = RT_AUTOMATED | RT_MANUAL

datatype RefundMethod =
    RM_PAYMENT_GATEWAY | RM_PAYMENT_LINK | RM_CASH | RM_CARD | RM_BANK_TRANSFER
  | RM_LOYALTY_POINTS | RM_MONEY | RM_OTHER

fun payment_transitions :: "PaymentTransactionStatus \<Rightarrow> PaymentTransactionStatus list" where
  "payment_transitions PT_INITIATED = [PT_PENDING, PT_FAILED, PT_CANCELLED]"
| "payment_transitions PT_PENDING = [PT_SUCCESS, PT_FAILED, PT_CANCELLED]"
| "payment_transitions PT_SUCCESS = [PT_REFUNDED, PT_PARTIALLY_REFUNDED]"
| "payment_transitions PT_FAILED = [PT_PENDING]"
| "payment_transitions PT_CANCELLED = []"
| "payment_transitions PT_REFUNDED = []"
| "payment_transitions PT_PARTIALLY_REFUNDED = [PT_REFUNDED]"

definition terminal_payment_statuses :: "PaymentTransactionStatus list" where
  "terminal_payment_statuses = [PT_CANCELLED, PT_REFUNDED]"

datatype payment_state_error =
  PaymentStateError PaymentTransactionStatus PaymentTransactionStatus "PaymentTransactionStatus list"

definition payment_can_transition_to :: "PaymentTransactionStatus \<Rightarrow> PaymentTransactionStatus \<Rightarrow> bool" where
  "payment_can_transition_to status target \<longleftrightarrow> target \<in> set (payment_transitions status)"

definition payment_transition_to ::
  "PaymentTransactionStatus \<Rightarrow> PaymentTransactionStatus \<Rightarrow> payment_state_error + PaymentTransactionStatus" where
  "payment_transition_to status target =
     (if \<not> payment_can_transition_to status target
      then Inl (PaymentStateError status target (payment_transitions status)) else Inr target)"

definition payment_assert_valid_transition ::
  "PaymentTransactionStatus \<Rightarrow> PaymentTransactionStatus \<Rightarrow> payment_state_error + unit" where
  "payment_assert_valid_transition current target =
     ebind (payment_transition_to current target) (\<lambda>_. Inr ())"

definition payment_is_terminal :: "PaymentTransactionStatus \<Rightarrow> bool" where
  "payment_is_terminal status \<longleftrightarrow> status \<in> set terminal_payment_statuses"

lemmas payment_machine_defs [machine_simps] =
  payment_can_transition_to_def payment_transition_to_def payment_is_terminal_def
  terminal_payment_statuses_def

interpretation payment_machine: status_machine payment_transitions payment_transition_to
  by unfold_locales (auto simp: machine_simps)

text \<open>The statuses a payment has after the provider reported success.\<close>

definition paid_statuses :: "PaymentTransactionStatus set" where
  "paid_statuses = {PT_SUCCESS, PT_REFUNDED, PT_PARTIALLY_REFUNDED}"

lemma paid_gate:
  "t \<in> set (payment_transitions s) \<Longrightarrow> t \<in> paid_statuses \<Longrightarrow> s \<notin> paid_statuses \<Longrightarrow> s \<in> {PT_PENDING}"
  by (cases s) (auto simp: paid_statuses_def)

lemma refund_gate:
  "t \<in> set (payment_transitions s) \<Longrightarrow> t \<in> {PT_REFUNDED, PT_PARTIALLY_REFUNDED} \<Longrightarrow>
   s \<notin> {PT_REFUNDED, PT_PARTIALLY_REFUNDED} \<Longrightarrow> s \<in> {PT_SUCCESS}"
  by (cases s) auto

lemma paid_closed: "s \<in> paid_statuses \<Longrightarrow> t \<in> set (payment_transitions s) \<Longrightarrow> t \<in> paid_statuses"
  by (cases s) (auto simp: paid_statuses_def)

text \<open>A payment that has not succeeded becomes paid only through \<open>PENDING\<close>, is refunded
  only after \<open>SUCCESS\<close>, and once paid it stays paid: no run leads from success back to pending,
  failed or cancelled.\<close>

theorem payment_money_flow:
  assumes "run_targets payment_transition_to s ts = Inr u"
  shows "(s \<notin> paid_statuses \<and> u \<in> paid_statuses \<longrightarrow> PT_PENDING \<in> set (s # ts)) \<and>
    (s \<notin> paid_statuses \<and> u \<in> {PT_REFUNDED, PT_PARTIALLY_REFUNDED} \<longrightarrow> PT_SUCCESS \<in> set (s # ts)) \<and>
    (s \<in> paid_statuses \<longrightarrow> u \<in> paid_statuses)"
proof (intro conjI impI)
  assume "s \<notin> paid_statuses \<and> u \<in> paid_statuses"
  then show "PT_PENDING \<in> set (s # ts)"
    using payment_machine.gate_visited[OF paid_gate _ assms] by auto
next
  assume "s \<notin> paid_statuses \<and> u \<in> {PT_REFUNDED, PT_PARTIALLY_REFUNDED}"
  then show "PT_SUCCESS \<in> set (s # ts)"
    using payment_machine.gate_visited[where C = "{PT_REFUNDED, PT_PARTIALLY_REFUNDED}", OF refund_gate _ assms]
    by (auto simp: paid_statuses_def)
next
  assume "s \<in> paid_statuses"
  from payment_machine.closed_run[OF _ this assms] show "u \<in> paid_statuses"
    using paid_closed by blast
qed

theorem payment_money_flow_witness:
  "run_targets payment_transition_to PT_INITIATED
     [PT_FAILED, PT_PENDING, PT_SUCCESS, PT_PARTIALLY_REFUNDED, PT_REFUNDED] = Inr PT_REFUNDED \<and>
   PT_SUCCESS \<in> set (PT_INITIATED # [PT_FAILED, PT_PENDING, PT_SUCCESS, PT_PARTIALLY_REFUNDED, PT_REFUNDED])"
proof -
  have run: "run_targets payment_transition_to PT_INITIATED
     [PT_FAILED, PT_PENDING, PT_SUCCESS, PT_PARTIALLY_REFUNDED, PT_REFUNDED] = Inr PT_REFUNDED"
    by (simp add: machine_simps)
  from payment_money_flow[OF run] run show ?thesis by (simp add: paid_statuses_def)
qed

end
