(* ===== verification/Voucher_Status.thy ===== *)
theory Voucher_Status
  imports Prelude
begin

text \<open>
  The lifecycles of gift vouchers (\<open>app/voucher/domain/state_machine.py\<close>), of gift purchases
  (\<open>app/gifts/domain/state_machine.py\<close>) and of shop deliveries
  (\<open>app/shop/domain/state_machine.py\<close>), with their status enumerations. The first two accept
  the current status again (an idempotent retry): their rows are the table's rows plus the
  status itself.
\<close>

section \<open>Gift vouchers\<close>

datatype GiftVoucherStatus =
    GV_CREATED | GV_PAYMENT_PENDING | GV_SCHEDULED | GV_ACTIVE | GV_PARTIALLY_REDEEMED
  | GV_REDEEMED | GV_FULFILLED | GV_EXPIRED | GV_CANCELLED

definition gift_voucher_is_terminal :: "GiftVoucherStatus \<Rightarrow> bool" where
  "gift_voucher_is_terminal s \<longleftrightarrow> s \<in> set [GV_FULFILLED, GV_EXPIRED, GV_CANCELLED]"

fun voucher_transitions :: "GiftVoucherStatus \<Rightarrow> GiftVoucherStatus list" where
  "voucher_transitions GV_CREATED = [GV_PAYMENT_PENDING, GV_ACTIVE, GV_SCHEDULED, GV_CANCELLED]"
| "voucher_transitions GV_PAYMENT_PENDING = [GV_ACTIVE, GV_SCHEDULED, GV_PAYMENT_PENDING, GV_CANCELLED]"
| "voucher_transitions GV_SCHEDULED = [GV_SCHEDULED, GV_ACTIVE, GV_CANCELLED]"
| "voucher_transitions GV_ACTIVE = [GV_PARTIALLY_REDEEMED, GV_REDEEMED, GV_EXPIRED, GV_CANCELLED]"
| "voucher_transitions GV_PARTIALLY_REDEEMED =
     [GV_PARTIALLY_REDEEMED, GV_REDEEMED, GV_EXPIRED, GV_CANCELLED]"
| "voucher_transitions GV_REDEEMED = [GV_FULFILLED]"
| "voucher_transitions GV_FULFILLED = []"
| "voucher_transitions GV_EXPIRED = []"
| "voucher_transitions GV_CANCELLED = []"

datatype voucher_state_error =
  InvalidVoucherTransition GiftVoucherStatus GiftVoucherStatus "GiftVoucherStatus list"

definition voucher_allowed_transitions :: "GiftVoucherStatus \<Rightarrow> GiftVoucherStatus list" where
  "voucher_allowed_transitions current = voucher_transitions current"

definition voucher_validate_transition ::
  "GiftVoucherStatus \<Rightarrow> GiftVoucherStatus \<Rightarrow> voucher_state_error + unit" where
  "voucher_validate_transition current new =
     (if current = new then Inr ()
      else guard (new \<in> set (voucher_transitions current))
             (InvalidVoucherTransition current new (voucher_transitions current)))"

text \<open>The callers validate and then store the new status.\<close>

definition voucher_move :: "GiftVoucherStatus \<Rightarrow> GiftVoucherStatus \<Rightarrow> voucher_state_error + GiftVoucherStatus" where
  "voucher_move current new = ebind (voucher_validate_transition current new) (\<lambda>_. Inr new)"

lemmas voucher_machine_defs [machine_simps] =
  voucher_validate_transition_def voucher_move_def gift_voucher_is_terminal_def

interpretation voucher_machine: status_machine "\<lambda>s. s # voucher_transitions s" voucher_move
  by unfold_locales (auto simp: machine_simps)

section \<open>Gift purchases\<close>

datatype GiftPurchaseStatus =
    GP_PENDING_PAYMENT | GP_PAID | GP_ACTIVE | GP_CLAIMED | GP_REDEEMED | GP_CANCELLED | GP_EXPIRED

definition gift_purchase_is_terminal :: "GiftPurchaseStatus \<Rightarrow> bool" where
  "gift_purchase_is_terminal s \<longleftrightarrow> s \<in> set [GP_REDEEMED, GP_CANCELLED, GP_EXPIRED]"

fun gift_transitions :: "GiftPurchaseStatus \<Rightarrow> GiftPurchaseStatus list" where
  "gift_transitions GP_PENDING_PAYMENT = [GP_PAID, GP_ACTIVE, GP_CANCELLED]"
| "gift_transitions GP_PAID = [GP_ACTIVE, GP_CANCELLED]"
| "gift_transitions GP_ACTIVE = [GP_CLAIMED, GP_REDEEMED, GP_EXPIRED, GP_CANCELLED]"
| "gift_transitions GP_CLAIMED = [GP_REDEEMED, GP_EXPIRED, GP_CANCELLED]"
| "gift_transitions GP_REDEEMED = []"
| "gift_transitions GP_CANCELLED = []"
| "gift_transitions GP_EXPIRED = []"

datatype gift_state_error = InvalidGiftTransition

definition gift_validate_transition ::
  "GiftPurchaseStatus \<Rightarrow> GiftPurchaseStatus \<Rightarrow> gift_state_error + unit" where
  "gift_validate_transition current new =
     (if current = new then Inr ()
      else guard (new \<in> set (gift_transitions current)) InvalidGiftTransition)"

definition gift_move :: "GiftPurchaseStatus \<Rightarrow> GiftPurchaseStatus \<Rightarrow> gift_state_error + GiftPurchaseStatus" where
  "gift_move current new = ebind (gift_validate_transition current new) (\<lambda>_. Inr new)"

lemmas gift_machine_defs [machine_simps] =
  gift_validate_transition_def gift_move_def gift_purchase_is_terminal_def

interpretation gift_machine: status_machine "\<lambda>s. s # gift_transitions s" gift_move
  by unfold_locales (auto simp: machine_simps)

section \<open>Shop deliveries\<close>

datatype DeliveryStatus = DV_ORDERED | DV_READY_TO_GO | DV_ON_THE_WAY | DV_DELIVERED | DV_RECEIVED

fun delivery_transitions :: "DeliveryStatus \<Rightarrow> DeliveryStatus list" where
  "delivery_transitions DV_ORDERED = [DV_READY_TO_GO]"
| "delivery_transitions DV_READY_TO_GO = [DV_ON_THE_WAY]"
| "delivery_transitions DV_ON_THE_WAY = [DV_DELIVERED]"
| "delivery_transitions DV_DELIVERED = [DV_RECEIVED]"
| "delivery_transitions DV_RECEIVED = []"

definition customer_only_transitions :: "(DeliveryStatus \<times> DeliveryStatus) list" where
  "customer_only_transitions = []"

definition customer_allowed_transitions :: "(DeliveryStatus \<times> DeliveryStatus) list" where
  "customer_allowed_transitions = [(DV_DELIVERED, DV_RECEIVED)]"

datatype delivery_error =
    InvalidDeliveryTransition DeliveryStatus DeliveryStatus
  | CustomerOnlyTransition DeliveryStatus DeliveryStatus
  | NotForCustomers DeliveryStatus DeliveryStatus

definition delivery_can_transition :: "DeliveryStatus \<Rightarrow> DeliveryStatus \<Rightarrow> bool" where
  "delivery_can_transition current to \<longleftrightarrow> to \<in> set (delivery_transitions current)"

definition assert_can_transition :: "DeliveryStatus \<Rightarrow> DeliveryStatus \<Rightarrow> delivery_error + unit" where
  "assert_can_transition current to =
     guard (delivery_can_transition current to) (InvalidDeliveryTransition current to)"

definition assert_staff_can_transition :: "DeliveryStatus \<Rightarrow> DeliveryStatus \<Rightarrow> delivery_error + unit" where
  "assert_staff_can_transition current to =
     ebind (assert_can_transition current to)
       (\<lambda>_. guard ((current, to) \<notin> set customer_only_transitions) (CustomerOnlyTransition current to))"

definition assert_customer_can_transition :: "DeliveryStatus \<Rightarrow> DeliveryStatus \<Rightarrow> delivery_error + unit" where
  "assert_customer_can_transition current to =
     ebind (assert_can_transition current to)
       (\<lambda>_. guard ((current, to) \<in> set customer_allowed_transitions) (NotForCustomers current to))"

text \<open>The callers check and then store the new status.\<close>

definition staff_move :: "DeliveryStatus \<Rightarrow> DeliveryStatus \<Rightarrow> delivery_error + DeliveryStatus" where
  "staff_move current to = ebind (assert_staff_can_transition current to) (\<lambda>_. Inr to)"

definition customer_move :: "DeliveryStatus \<Rightarrow> DeliveryStatus \<Rightarrow> delivery_error + DeliveryStatus" where
  "customer_move current to = ebind (assert_customer_can_transition current to) (\<lambda>_. Inr to)"

lemmas delivery_machine_defs [machine_simps] =
  delivery_can_transition_def assert_can_transition_def assert_staff_can_transition_def
  assert_customer_can_transition_def staff_move_def customer_move_def customer_only_transitions_def
  customer_allowed_transitions_def

interpretation staff_machine: status_machine delivery_transitions staff_move
  by unfold_locales (auto simp: machine_simps guard_def)

interpretation customer_machine: status_machine "\<lambda>s. if s = DV_DELIVERED then [DV_RECEIVED] else []" customer_move
proof unfold_locales
  fix s t
  show "t \<in> set (if s = DV_DELIVERED then [DV_RECEIVED] else []) \<Longrightarrow> customer_move s t = Inr t"
    by (auto simp: machine_simps split: if_splits)
  show "t \<notin> set (if s = DV_DELIVERED then [DV_RECEIVED] else []) \<Longrightarrow> isl (customer_move s t)"
    by (auto simp: machine_simps isl_ebind guard_def split: if_splits)
qed

section \<open>Properties\<close>

definition usable_voucher_statuses :: "GiftVoucherStatus set" where
  "usable_voucher_statuses = {GV_PARTIALLY_REDEEMED, GV_REDEEMED, GV_FULFILLED, GV_EXPIRED}"

lemma voucher_gate:
  "t \<in> set (s # voucher_transitions s) \<Longrightarrow> t \<in> usable_voucher_statuses \<Longrightarrow>
   s \<notin> usable_voucher_statuses \<Longrightarrow> s \<in> {GV_ACTIVE}"
  by (cases s) (auto simp: usable_voucher_statuses_def)

lemma used_voucher_closed:
  "s \<in> {GV_REDEEMED, GV_FULFILLED} \<Longrightarrow> t \<in> set (s # voucher_transitions s) \<Longrightarrow> t \<in> {GV_REDEEMED, GV_FULFILLED}"
  by (cases s) auto

text \<open>A voucher that is not yet usable becomes (partially) redeemed, fulfilled or expired
  only after it has been \<open>ACTIVE\<close> (paid and delivered): a scheduled or unpaid voucher cannot be
  redeemed; and a redeemed voucher only ever becomes fulfilled, it cannot be redeemed again,
  expired or cancelled.\<close>

theorem voucher_redeemed_only_after_active:
  assumes "run_targets voucher_move s ts = Inr u"
  shows "(s \<notin> usable_voucher_statuses \<and> u \<in> usable_voucher_statuses \<longrightarrow> GV_ACTIVE \<in> set (s # ts)) \<and>
    (s = GV_REDEEMED \<longrightarrow> u = GV_REDEEMED \<or> u = GV_FULFILLED)"
proof (intro conjI impI)
  assume "s \<notin> usable_voucher_statuses \<and> u \<in> usable_voucher_statuses"
  then show "GV_ACTIVE \<in> set (s # ts)"
    using voucher_machine.gate_visited[OF voucher_gate _ assms] by auto
next
  assume "s = GV_REDEEMED"
  then show "u = GV_REDEEMED \<or> u = GV_FULFILLED"
    using voucher_machine.closed_run[OF used_voucher_closed _ assms] by auto
qed

theorem voucher_redeemed_only_after_active_witness:
  "run_targets voucher_move GV_CREATED [GV_PAYMENT_PENDING, GV_SCHEDULED, GV_ACTIVE, GV_REDEEMED]
     = Inr GV_REDEEMED \<and>
   GV_ACTIVE \<in> set (GV_CREATED # [GV_PAYMENT_PENDING, GV_SCHEDULED, GV_ACTIVE, GV_REDEEMED])"
proof -
  have run: "run_targets voucher_move GV_CREATED [GV_PAYMENT_PENDING, GV_SCHEDULED, GV_ACTIVE, GV_REDEEMED]
     = Inr GV_REDEEMED"
    by (simp add: machine_simps)
  from voucher_redeemed_only_after_active[OF run] run show ?thesis
    by (simp add: usable_voucher_statuses_def)
qed

text \<open>A delivery driven by staff visits the statuses in order, each once: a run from
  \<open>ORDERED\<close> that ends in \<open>RECEIVED\<close> is exactly ready-to-go, on-the-way, delivered, received;
  a customer can only confirm the receipt of a delivered order.\<close>

theorem delivery_runs_in_order:
  "(run_targets staff_move DV_ORDERED ts = Inr DV_RECEIVED) =
     (ts = [DV_READY_TO_GO, DV_ON_THE_WAY, DV_DELIVERED, DV_RECEIVED]) \<and>
   (customer_move s t = Inr u) = (s = DV_DELIVERED \<and> t = DV_RECEIVED \<and> u = DV_RECEIVED)"
proof
  have last_run: "table_path delivery_transitions DV_RECEIVED xs \<longleftrightarrow> xs = []" for xs
    by (cases xs) auto
  have d: "table_path delivery_transitions DV_DELIVERED xs \<Longrightarrow> last (DV_DELIVERED # xs) = DV_RECEIVED \<Longrightarrow>
      xs = [DV_RECEIVED]" for xs
    by (cases xs) (auto simp: last_run)
  have w: "table_path delivery_transitions DV_ON_THE_WAY xs \<Longrightarrow> last (DV_ON_THE_WAY # xs) = DV_RECEIVED \<Longrightarrow>
      xs = [DV_DELIVERED, DV_RECEIVED]" for xs
    by (cases xs) (auto dest!: d)
  have r: "table_path delivery_transitions DV_READY_TO_GO xs \<Longrightarrow> last (DV_READY_TO_GO # xs) = DV_RECEIVED \<Longrightarrow>
      xs = [DV_ON_THE_WAY, DV_DELIVERED, DV_RECEIVED]" for xs
    by (cases xs) (auto dest!: w)
  have "table_path delivery_transitions DV_ORDERED ts \<and> DV_RECEIVED = last (DV_ORDERED # ts) \<longleftrightarrow>
      ts = [DV_READY_TO_GO, DV_ON_THE_WAY, DV_DELIVERED, DV_RECEIVED]"
    by (cases ts) (auto dest!: r simp: eq_commute[of DV_RECEIVED])
  then show "(run_targets staff_move DV_ORDERED ts = Inr DV_RECEIVED) =
     (ts = [DV_READY_TO_GO, DV_ON_THE_WAY, DV_DELIVERED, DV_RECEIVED])"
    by (simp only: staff_machine.run_Inr_iff)
  show "(customer_move s t = Inr u) = (s = DV_DELIVERED \<and> t = DV_RECEIVED \<and> u = DV_RECEIVED)"
    by (auto simp: customer_machine.step_Inr_iff)
qed

end
