(* ===== verification/Payment_Attribution.thy ===== *)
theory Payment_Attribution
  imports Py_Strings Payment_Status Voucher_Status
begin

text \<open>
  How a payment is attributed: \<open>app/common/payment_attribution.py\<close> and the \<open>normalise\<close> class
  methods of the value objects of the payment, booking, voucher and shop packages.

  A database object has some of the attribution attributes: a field of \<open>attribution_obj\<close> is
  None when the object has no such attribute and \<open>Some None\<close> when the attribute is NULL. JSON
  values are the datatype \<open>json\<close>; \<open>json.loads\<close> is the argument \<open>loads\<close>, None when it raises
  \<open>ValueError\<close>.
\<close>

datatype json = JNull | JBool bool | JNum int | JStr string | JList "json list" | JObj "(string \<times> json) list"

section \<open>Canonical values\<close>

definition THROUGH_VALUES :: "string list" where
  "THROUGH_VALUES = [''ushweb'', ''ushspa'', ''ushdesk'']"

definition PROVIDER_VALUES :: "string list" where
  "PROVIDER_VALUES = [''myfatoorah'', ''tap'', ''knet_pos'', ''boubyan'']"

definition METHOD_VALUES :: "string list" where
  "METHOD_VALUES = [''knet_card'', ''apple_pay'', ''deema_link'', ''boubyan_link'', ''gift_voucher'']"

definition PAID_STATUSES :: "string list" where
  "PAID_STATUSES = [''success'', ''paid'', ''completed'', ''rewarded'']"

text \<open>\<open>re.sub(r"[\s_\-]+", "", str(value or "").strip().lower())\<close>.\<close>

definition attr_key :: "string option \<Rightarrow> string" where
  "attr_key value =
     filter (\<lambda>c. \<not> is_space c \<and> c \<noteq> CHR ''_'' \<and> c \<noteq> CHR ''-'') (lower (strip (str_or value [])))"

definition through_table :: "(string \<times> string) list" where
  "through_table =
     [(''ushdesk'', ''ushdesk''), (''desk'', ''ushdesk''), (''pos'', ''ushdesk''),
      (''counter'', ''ushdesk''), (''reception'', ''ushdesk''), (''frontdesk'', ''ushdesk''),
      (''dashboard'', ''ushdesk''), (''admin'', ''ushdesk''), (''staff'', ''ushdesk''),
      (''ushweb'', ''ushweb''), (''web'', ''ushweb''), (''website'', ''ushweb''),
      (''ushspa'', ''ushspa''), (''app'', ''ushspa''), (''mobile'', ''ushspa''),
      (''mobileapp'', ''ushspa''), (''ios'', ''ushspa''), (''android'', ''ushspa''),
      (''ushspaapp'', ''ushspa'')]"

definition normalise_through :: "string option \<Rightarrow> string option" where
  "normalise_through value = map_of through_table (attr_key value)"

definition provider_table :: "(string \<times> string) list" where
  "provider_table =
     [(''myfatoorah'', ''myfatoorah''), (''myfatora'', ''myfatoorah''), (''fatoorah'', ''myfatoorah''),
      (''paymentlink'', ''myfatoorah''), (''directlink'', ''myfatoorah''), (''direct'', ''myfatoorah''),
      (''deema'', ''tap''), (''deemapaymentlink'', ''tap''), (''deemalink'', ''tap''),
      (''tapdeema'', ''tap''), (''tap'', ''tap''), (''tapknet'', ''tap''),
      (''tapcard'', ''tap''), (''tapapplepay'', ''tap''),
      (''knetcard'', ''knet_pos''), (''knetpos'', ''knet_pos''), (''knetterminal'', ''knet_pos''),
      (''boubyan'', ''boubyan''), (''boubyanlink'', ''boubyan'')]"

definition normalise_provider :: "string option \<Rightarrow> string option" where
  "normalise_provider value = map_of provider_table (attr_key value)"

section \<open>The payment method\<close>

definition gateway_keys :: "string list" where
  "gateway_keys =
     [''paymentgateway'', ''payment_gateway'', ''paymentmethod'', ''payment_method'', ''gateway'',
      ''source'', ''invoicetransactions'', ''transactions'', ''data'', ''transaction'']"

text \<open>\<open>walk(obj, depth)\<close> with \<open>levels = 7 - depth\<close> levels left: nothing is read below depth 6.\<close>

fun walk :: "nat \<Rightarrow> json \<Rightarrow> string list" where
  "walk 0 obj = []"
| "walk (Suc n) (JStr s) = [s]"
| "walk (Suc n) (JObj kvs) =
     concat (map (\<lambda>kv. if lower (fst kv) \<in> set gateway_keys then walk n (snd kv) else []) kvs)"
| "walk (Suc n) (JList items) = concat (map (walk n) items)"
| "walk (Suc n) obj = []"

fun source_parts :: "(string \<Rightarrow> json option) \<Rightarrow> json \<Rightarrow> string list" where
  "source_parts loads (JStr s) =
     (case strip s of
        [] \<Rightarrow> (case loads [] of Some j \<Rightarrow> walk 7 j | None \<Rightarrow> [s])
      | c # cs \<Rightarrow>
          if c = CHR ''{'' \<or> c = CHR ''['' then
            (case loads (c # cs) of Some j \<Rightarrow> walk 7 j | None \<Rightarrow> [s])
          else [s])"
| "source_parts loads s = walk 7 s"

definition space_join :: "string list \<Rightarrow> string" where
  "space_join parts = (case parts of [] \<Rightarrow> [] | p # ps \<Rightarrow> p @ concat (map ((#) (CHR '' '')) ps))"

definition gateway_text :: "(string \<Rightarrow> json option) \<Rightarrow> json list \<Rightarrow> string" where
  "gateway_text loads sources = lower (space_join (concat (map (source_parts loads) sources)))"

definition text_json :: "string option \<Rightarrow> json" where
  "text_json v = (case v of None \<Rightarrow> JNull | Some s \<Rightarrow> JStr s)"

definition normalise_method ::
  "(string \<Rightarrow> json option) \<Rightarrow> string option \<Rightarrow> string option \<Rightarrow> string option \<Rightarrow> json \<Rightarrow> bool \<Rightarrow> string option" where
  "normalise_method loads value provider gateway payment_data paid =
     (let text = gateway_text loads [text_json value, text_json gateway, payment_data] in
      if contains_str text ''apple'' then Some ''apple_pay''
      else if contains_str text ''deema'' then Some ''deema_link''
      else if contains_str text ''boubyan'' then Some ''boubyan_link''
      else if contains_str text ''voucher'' then Some ''gift_voucher''
      else if provider = Some ''tap'' then Some ''deema_link''
      else if provider = Some ''boubyan'' then Some ''boubyan_link''
      else if provider = Some ''knet_pos'' then Some ''knet_card''
      else if provider = Some ''myfatoorah'' then
        (if list_ex (contains_str text) [''knet'', ''visa'', ''master'', ''mada''] then Some ''knet_card''
         else if paid then Some ''knet_card'' else None)
      else None)"

section \<open>Normalising a stored object\<close>

record attribution_obj =
  ao_payment_through :: "string option option"
  ao_payment_provider :: "string option option"
  ao_payment_method :: "string option option"
  ao_payment_gateway :: "string option option"
  ao_payment_data :: json
  ao_payment_status :: "string option"
  ao_status :: "string option"
  ao_transaction_status :: "string option"
  ao_branch_name :: "string option option"
  ao_branch_data :: json

definition attr_is_paid :: "attribution_obj \<Rightarrow> bool" where
  "attr_is_paid obj \<longleftrightarrow>
     list_ex (\<lambda>v. lower (strip (str_or v [])) \<in> set PAID_STATUSES)
       [ao_payment_status obj, ao_status obj, ao_transaction_status obj]"

text \<open>\<open>getattr(obj, name, None) if has(name) else None\<close>.\<close>

definition attr_value :: "string option option \<Rightarrow> string option" where
  "attr_value a = (case a of None \<Rightarrow> None | Some v \<Rightarrow> v)"

definition METHOD_BY_KEY :: "(string \<times> string) list" where
  "METHOD_BY_KEY = map (\<lambda>v. (attr_key (Some v), v)) METHOD_VALUES"

definition resolve_provider ::
  "(string \<Rightarrow> json option) \<Rightarrow> string option \<Rightarrow> string option \<Rightarrow> string option \<Rightarrow> string option" where
  "resolve_provider loads raw_provider gateway raw_method =
     (case normalise_provider raw_provider of
        Some p \<Rightarrow> Some p
      | None \<Rightarrow>
          (let hint = gateway_text loads [text_json gateway, text_json raw_method] in
           if contains_str hint ''boubyan'' then Some ''boubyan''
           else if contains_str hint ''deema'' then Some ''tap'' else None))"

definition clean_gateway :: "string option \<Rightarrow> string option" where
  "clean_gateway v =
     (if lower (strip (str_or v [])) \<in> {[], ''other'', ''unknown'', ''none'', ''null''} then None else v)"

definition apply_attribution :: "(string \<Rightarrow> json option) \<Rightarrow> attribution_obj \<Rightarrow> attribution_obj" where
  "apply_attribution loads obj =
     (let gateway = attr_value (ao_payment_gateway obj);
          raw_method = attr_value (ao_payment_method obj);
          provider = (case ao_payment_provider obj of None \<Rightarrow> None
                      | Some raw \<Rightarrow> resolve_provider loads raw gateway raw_method);
          method = (case map_of METHOD_BY_KEY (attr_key raw_method) of
                      Some m \<Rightarrow> Some m
                    | None \<Rightarrow> normalise_method loads raw_method provider gateway (ao_payment_data obj)
                                (attr_is_paid obj));
          no_gateway = (ao_payment_method obj \<noteq> None \<and> method = Some ''gift_voucher'')
      in obj\<lparr>ao_payment_through := map_option normalise_through (ao_payment_through obj),
             ao_payment_provider :=
               map_option (\<lambda>_. if no_gateway then None else provider) (ao_payment_provider obj),
             ao_payment_method := map_option (\<lambda>_. method) (ao_payment_method obj),
             ao_payment_gateway := map_option clean_gateway (ao_payment_gateway obj)\<rparr>)"

text \<open>\<open>data.get("name") or data.get("branch_name")\<close>, then \<open>str(name)[:255]\<close>; names are text.\<close>

fun json_text :: "json option \<Rightarrow> string option" where
  "json_text (Some (JStr s)) = nonempty s"
| "json_text _ = None"

definition apply_branch_name :: "attribution_obj \<Rightarrow> attribution_obj" where
  "apply_branch_name obj =
     (case ao_branch_name obj of
        None \<Rightarrow> obj
      | Some v \<Rightarrow>
          if truthy v then obj
          else (case ao_branch_data obj of
                  JObj d \<Rightarrow>
                    (case (case json_text (map_of d ''name'') of Some n \<Rightarrow> Some n
                           | None \<Rightarrow> json_text (map_of d ''branch_name'')) of
                       Some n \<Rightarrow> obj\<lparr>ao_branch_name := Some (Some (take 255 n))\<rparr>
                     | None \<Rightarrow> obj)
                | _ \<Rightarrow> obj))"

section \<open>Value objects\<close>

datatype PaymentProvider = PP_MYFATOORAH | PP_TAP | PP_KNET_POS | PP_BOUBYAN | PP_OTHER

definition provider_of_value :: "string \<Rightarrow> PaymentProvider" where
  "provider_of_value s =
     (if s = ''myfatoorah'' then PP_MYFATOORAH else if s = ''tap'' then PP_TAP
      else if s = ''knet_pos'' then PP_KNET_POS else if s = ''boubyan'' then PP_BOUBYAN else PP_OTHER)"

definition PaymentProvider_normalise :: "string option \<Rightarrow> PaymentProvider" where
  "PaymentProvider_normalise value =
     (case normalise_provider value of
        None \<Rightarrow> (if lower (strip (str_or value [])) \<in> {''knet'', ''card''} then PP_KNET_POS else PP_OTHER)
      | Some canonical \<Rightarrow> provider_of_value canonical)"

datatype PaymentThrough = TH_USHSPA | TH_USHWEB | TH_USHDESK | TH_OTHER

definition PaymentThrough_normalise :: "string option \<Rightarrow> PaymentThrough" where
  "PaymentThrough_normalise value =
     (case normalise_through value of
        None \<Rightarrow> TH_OTHER
      | Some c \<Rightarrow> (if c = ''ushspa'' then TH_USHSPA else if c = ''ushweb'' then TH_USHWEB else TH_USHDESK))"

datatype PaymentGateway = PG_KNET | PG_TAP | PG_DEEMA | PG_OTHER

definition PaymentGateway_normalise :: "string option \<Rightarrow> PaymentGateway" where
  "PaymentGateway_normalise value =
     (if \<not> truthy value then PG_OTHER
      else (let v = remove_chars ''-_ '' (upper (strip (str_or value []))) in
        if v = ''KNET'' then PG_KNET else if v = ''TAP'' then PG_TAP
        else if v \<in> {''DEEMA'', ''DEEMAPAYMENTLINK''} then PG_DEEMA else PG_OTHER))"

text \<open>\<open>value.strip().lower().replace("-", "_").replace(" ", "_")\<close>.\<close>

definition snake :: "string option \<Rightarrow> string" where
  "snake value = replace_char (CHR '' '') (CHR ''_'') (replace_char (CHR ''-'') (CHR ''_'')
     (lower (strip (str_or value []))))"

datatype PaymentFor = PF_BRANCH_SERVICE | PF_HOME_SERVICE | PF_GIFT_VOUCHER | PF_PRODUCT_ITEMS

definition PaymentFor_normalise :: "string option \<Rightarrow> PaymentFor" where
  "PaymentFor_normalise value =
     (if \<not> truthy value then PF_BRANCH_SERVICE
      else (case map_of
        [(''branch_service'', PF_BRANCH_SERVICE), (''service'', PF_BRANCH_SERVICE),
         (''home_service'', PF_HOME_SERVICE), (''home'', PF_HOME_SERVICE),
         (''gift_voucher'', PF_GIFT_VOUCHER), (''voucher'', PF_GIFT_VOUCHER),
         (''product_items'', PF_PRODUCT_ITEMS), (''products'', PF_PRODUCT_ITEMS),
         (''product'', PF_PRODUCT_ITEMS)] (snake value) of Some p \<Rightarrow> p | None \<Rightarrow> PF_BRANCH_SERVICE))"

definition RefundType_normalise :: "string option \<Rightarrow> RefundType" where
  "RefundType_normalise value =
     (if \<not> truthy value then RT_MANUAL
      else (let v = lower (strip (str_or value [])) in
        if contains_str v ''auto'' \<or> contains_str v ''gateway'' then RT_AUTOMATED else RT_MANUAL))"

definition RefundMethod_table :: "(string \<times> RefundMethod) list" where
  "RefundMethod_table =
     [(''payment_gateway'', RM_PAYMENT_GATEWAY), (''gateway'', RM_PAYMENT_GATEWAY),
      (''tap'', RM_PAYMENT_GATEWAY), (''deema'', RM_PAYMENT_GATEWAY),
      (''myfatoorah'', RM_PAYMENT_GATEWAY), (''knet'', RM_PAYMENT_GATEWAY),
      (''payment_link'', RM_PAYMENT_LINK), (''deema_paymentlink'', RM_PAYMENT_LINK), (''link'', RM_PAYMENT_LINK),
      (''cash'', RM_CASH), (''card'', RM_CARD), (''pos'', RM_CARD), (''credit_card'', RM_CARD),
      (''debit_card'', RM_CARD), (''bank_transfer'', RM_BANK_TRANSFER), (''bank'', RM_BANK_TRANSFER),
      (''transfer'', RM_BANK_TRANSFER), (''loyalty_points'', RM_LOYALTY_POINTS),
      (''loyalty'', RM_LOYALTY_POINTS), (''points'', RM_LOYALTY_POINTS), (''money'', RM_MONEY),
      (''other'', RM_OTHER)]"

definition RefundMethod_normalise :: "string option \<Rightarrow> RefundMethod" where
  "RefundMethod_normalise value =
     (if \<not> truthy value then RM_OTHER
      else (case map_of RefundMethod_table (snake value) of Some m \<Rightarrow> m | None \<Rightarrow> RM_OTHER))"

fun refund_method_value :: "RefundMethod \<Rightarrow> string" where
  "refund_method_value RM_PAYMENT_GATEWAY = ''payment_gateway''"
| "refund_method_value RM_PAYMENT_LINK = ''payment_link''"
| "refund_method_value RM_CASH = ''cash''"
| "refund_method_value RM_CARD = ''card''"
| "refund_method_value RM_BANK_TRANSFER = ''bank_transfer''"
| "refund_method_value RM_LOYALTY_POINTS = ''loyalty_points''"
| "refund_method_value RM_MONEY = ''money''"
| "refund_method_value RM_OTHER = ''other''"

text \<open>The booking package has its own copies of three of the value objects.\<close>

definition BookingPaymentProvider_normalise :: "string option \<Rightarrow> PaymentProvider" where
  "BookingPaymentProvider_normalise value =
     (case normalise_provider value of
        None \<Rightarrow> (if lower (strip (str_or value [])) \<in> {''knet'', ''card''} then PP_KNET_POS else PP_OTHER)
      | Some canonical \<Rightarrow> provider_of_value canonical)"

definition BookingPaymentGateway_normalise :: "string option \<Rightarrow> PaymentGateway" where
  "BookingPaymentGateway_normalise value =
     (if \<not> truthy value then PG_OTHER
      else (let v = remove_chars ''-_ '' (upper (strip (str_or value []))) in
        if v = ''KNET'' then PG_KNET else if v = ''TAP'' then PG_TAP
        else if v \<in> {''DEEMA'', ''DEEMAPAYMENTLINK''} then PG_DEEMA else PG_OTHER))"

definition BookingPaymentThrough_normalise :: "string option \<Rightarrow> PaymentThrough" where
  "BookingPaymentThrough_normalise value =
     (case normalise_through value of
        None \<Rightarrow> TH_OTHER
      | Some c \<Rightarrow> (if c = ''ushspa'' then TH_USHSPA else if c = ''ushweb'' then TH_USHWEB else TH_USHDESK))"

fun gift_voucher_status_value :: "GiftVoucherStatus \<Rightarrow> string" where
  "gift_voucher_status_value GV_CREATED = ''created''"
| "gift_voucher_status_value GV_PAYMENT_PENDING = ''payment_pending''"
| "gift_voucher_status_value GV_SCHEDULED = ''scheduled''"
| "gift_voucher_status_value GV_ACTIVE = ''active''"
| "gift_voucher_status_value GV_PARTIALLY_REDEEMED = ''partially_redeemed''"
| "gift_voucher_status_value GV_REDEEMED = ''redeemed''"
| "gift_voucher_status_value GV_FULFILLED = ''fulfilled''"
| "gift_voucher_status_value GV_EXPIRED = ''expired''"
| "gift_voucher_status_value GV_CANCELLED = ''cancelled''"

definition GiftVoucherStatus_normalise :: "string option \<Rightarrow> string option" where
  "GiftVoucherStatus_normalise val =
     (let s = strip (str_or val []); cleaned = lower s in
      if s = [] then None
      else if cleaned \<in> set (map gift_voucher_status_value
             [GV_CREATED, GV_PAYMENT_PENDING, GV_SCHEDULED, GV_ACTIVE, GV_PARTIALLY_REDEEMED,
              GV_REDEEMED, GV_FULFILLED, GV_EXPIRED, GV_CANCELLED])
      then Some cleaned else Some s)"

definition VoucherDeliveryMode_normalise :: "string option \<Rightarrow> string" where
  "VoucherDeliveryMode_normalise val =
     (if snake val = ''scheduled'' then ''scheduled'' else ''on_activation'')"

definition GiftCategory_normalise :: "string option \<Rightarrow> string" where
  "GiftCategory_normalise val =
     (let s = strip (str_or val []) in if s = [] then ''service'' else lower s)"

definition VoucherPaymentProvider_normalise :: "string option \<Rightarrow> string option" where
  "VoucherPaymentProvider_normalise val =
     (let s = strip (str_or val []) in
      if s = [] then None
      else (case normalise_provider val of
              Some canonical \<Rightarrow> Some canonical
            | None \<Rightarrow> (if lower s = ''other'' then Some ''other'' else Some s)))"

definition VoucherPaymentThrough_normalise :: "string option \<Rightarrow> string option" where
  "VoucherPaymentThrough_normalise val =
     (let s = strip (str_or val []) in
      if s = [] then None
      else (case normalise_through val of Some c \<Rightarrow> Some c | None \<Rightarrow> Some s))"

definition ShopPaymentThrough_normalise :: "string option \<Rightarrow> string option" where
  "ShopPaymentThrough_normalise value =
     (if \<not> truthy value then None
      else (case map_of
        [(''ushspa'', ''ushspa''), (''app'', ''ushspa''), (''mobile'', ''ushspa''), (''ushweb'', ''ushweb''),
         (''web'', ''ushweb''), (''ushdesk'', ''ushdesk''), (''desk'', ''ushdesk''), (''pos'', ''ushdesk''),
         (''counter'', ''ushdesk''), (''other'', ''other'')] (lower (strip (str_or value [])))
       of Some c \<Rightarrow> Some c | None \<Rightarrow> Some ''other''))"

section \<open>Lemmas\<close>

lemma map_of_values: "map_of xs k = Some v \<Longrightarrow> v \<in> snd ` set xs"
  by (force dest: map_of_SomeD)

lemma normalise_through_values: "normalise_through v = Some t \<Longrightarrow> t \<in> set THROUGH_VALUES"
  using map_of_values[of through_table] by (fastforce simp: normalise_through_def through_table_def THROUGH_VALUES_def)

lemma normalise_provider_values: "normalise_provider v = Some p \<Longrightarrow> p \<in> set PROVIDER_VALUES"
  using map_of_values[of provider_table] by (fastforce simp: normalise_provider_def provider_table_def PROVIDER_VALUES_def)

lemma normalise_through_canonical: "t \<in> set THROUGH_VALUES \<Longrightarrow> normalise_through (Some t) = Some t"
proof -
  have "list_all (\<lambda>t. normalise_through (Some t) = Some t) THROUGH_VALUES" by code_simp
  then show "t \<in> set THROUGH_VALUES \<Longrightarrow> ?thesis" by (simp add: list_all_iff)
qed

lemma normalise_provider_canonical: "p \<in> set PROVIDER_VALUES \<Longrightarrow> normalise_provider (Some p) = Some p"
proof -
  have "list_all (\<lambda>p. normalise_provider (Some p) = Some p) PROVIDER_VALUES" by code_simp
  then show "p \<in> set PROVIDER_VALUES \<Longrightarrow> ?thesis" by (simp add: list_all_iff)
qed

lemma normalise_None [simp]: "normalise_through None = None" "normalise_provider None = None"
  "map_of METHOD_BY_KEY (attr_key None) = None"
  by code_simp+

lemma normalise_through_idem [simp]: "normalise_through (normalise_through v) = normalise_through v"
  using normalise_through_values[of v] normalise_through_canonical
  by (cases "normalise_through v") auto

lemma method_by_key_canonical: "m \<in> set METHOD_VALUES \<Longrightarrow> map_of METHOD_BY_KEY (attr_key (Some m)) = Some m"
proof -
  have "list_all (\<lambda>m. map_of METHOD_BY_KEY (attr_key (Some m)) = Some m) METHOD_VALUES" by code_simp
  then show "m \<in> set METHOD_VALUES \<Longrightarrow> ?thesis" by (simp add: list_all_iff)
qed

lemma method_by_key_values: "map_of METHOD_BY_KEY k = Some m \<Longrightarrow> m \<in> set METHOD_VALUES"
  using map_of_values[of METHOD_BY_KEY k m] by (auto simp: METHOD_BY_KEY_def)

lemma normalise_method_values:
  "normalise_method loads v p g d paid = Some m \<Longrightarrow> m \<in> set METHOD_VALUES"
  by (auto simp: normalise_method_def METHOD_VALUES_def Let_def split: if_splits)

lemma resolve_provider_values:
  "resolve_provider loads v g m = Some p \<Longrightarrow> p \<in> set PROVIDER_VALUES"
  using normalise_provider_values[of v]
  by (auto simp: resolve_provider_def PROVIDER_VALUES_def Let_def split: option.splits if_splits)

lemma clean_gateway_idem [simp]: "clean_gateway (clean_gateway v) = clean_gateway v"
  by (simp add: clean_gateway_def)

text \<open>
  \<open>next_method\<close> and \<open>next_provider\<close> name what one application computes for the two columns.
\<close>

definition next_method ::
  "(string \<Rightarrow> json option) \<Rightarrow> json \<Rightarrow> bool \<Rightarrow> string option \<Rightarrow> string option \<Rightarrow> string option \<Rightarrow> string option" where
  "next_method loads d paid p g m =
     (case map_of METHOD_BY_KEY (attr_key m) of Some m' \<Rightarrow> Some m'
      | None \<Rightarrow> normalise_method loads m p g d paid)"

lemma next_method_values: "next_method loads d paid p g m = Some m' \<Longrightarrow> m' \<in> set METHOD_VALUES"
  by (auto simp: next_method_def split: option.splits
      dest: method_by_key_values normalise_method_values)

lemma next_method_stable:
  "m' \<in> set METHOD_VALUES \<Longrightarrow> next_method loads d paid p g (Some m') = Some m'"
  by (simp add: next_method_def method_by_key_canonical)

lemma resolve_provider_stable:
  "p \<in> set PROVIDER_VALUES \<Longrightarrow> resolve_provider loads (Some p) g m = Some p"
  by (simp add: resolve_provider_def normalise_provider_canonical)

lemma apply_attribution_fields:
  "ao_payment_through (apply_attribution loads x) = map_option normalise_through (ao_payment_through x)"
  "ao_payment_gateway (apply_attribution loads x) = map_option clean_gateway (ao_payment_gateway x)"
  "ao_payment_data (apply_attribution loads x) = ao_payment_data x"
  "attr_is_paid (apply_attribution loads x) = attr_is_paid x"
  by (simp_all add: apply_attribution_def Let_def attr_is_paid_def)

text \<open>The text that is searched only loses a front part when the method is dropped.\<close>

lemma contains_str_append: "contains_str s p \<Longrightarrow> contains_str (t @ s) p"
  by (induction t) auto

lemma space_join_append: "\<exists>t. space_join (xs @ ys) = t @ space_join ys"
proof (cases xs)
  case (Cons x xs')
  show ?thesis
  proof (cases ys)
    case Nil
    then have "space_join (xs @ ys) = space_join xs @ space_join ys" by (simp add: space_join_def)
    then show ?thesis by blast
  next
    case (Cons y ys')
    then have "space_join (xs @ ys) = (x @ concat (map ((#) (CHR '' '')) xs') @ [CHR '' '']) @ space_join ys"
      using \<open>xs = x # xs'\<close> by (simp add: space_join_def)
    then show ?thesis by blast
  qed
qed simp

lemma gateway_text_drop:
  assumes "contains_str (gateway_text loads zs) p"
  shows "contains_str (gateway_text loads (ws @ zs)) p"
proof -
  obtain t where "space_join (concat (map (source_parts loads) (ws @ zs)))
      = t @ space_join (concat (map (source_parts loads) zs))"
    using space_join_append by (metis concat_append map_append)
  then show ?thesis using assms by (simp add: gateway_text_def contains_str_append)
qed

lemma gateway_text_drop_method:
  assumes "contains_str (gateway_text loads [text_json None, text_json (clean_gateway g), d]) p"
  shows "contains_str (gateway_text loads [text_json m, text_json g, d]) p"
proof (cases "clean_gateway g = g")
  case True
  have "gateway_text loads [text_json None, text_json g, d] = gateway_text loads [text_json g, d]"
    by (simp add: gateway_text_def text_json_def numeral_eq_Suc)
  with assms True gateway_text_drop[of loads "[text_json g, d]" p "[text_json m]"] show ?thesis by simp
next
  case False
  then have "clean_gateway g = None" by (auto simp: clean_gateway_def split: if_splits)
  then have "gateway_text loads [text_json None, text_json (clean_gateway g), d] = gateway_text loads [d]"
    by (simp add: gateway_text_def text_json_def numeral_eq_Suc)
  with assms gateway_text_drop[of loads "[d]" p "[text_json m, text_json g]"] show ?thesis by simp
qed

lemma next_method_dropped:
  assumes "next_method loads d paid p g m = None"
  shows "next_method loads d paid None (clean_gateway g) None = None"
proof -
  have "normalise_method loads m p g d paid = None"
    using assms by (auto simp: next_method_def split: option.splits)
  then have "\<not> contains_str (gateway_text loads [text_json m, text_json g, d]) k"
    if "k \<in> {''apple'', ''deema'', ''boubyan'', ''voucher''}" for k
    using that by (auto simp: normalise_method_def Let_def split: if_splits)
  then have "\<not> contains_str (gateway_text loads [text_json None, text_json (clean_gateway g), d]) k"
    if "k \<in> {''apple'', ''deema'', ''boubyan'', ''voucher''}" for k
    using that gateway_text_drop_method[of loads g d k m] by metis
  then show ?thesis by (simp add: next_method_def normalise_method_def Let_def)
qed

text \<open>One application on the provider and method columns of an object that has both.\<close>

definition next_pair ::
  "(string \<Rightarrow> json option) \<Rightarrow> json \<Rightarrow> bool \<Rightarrow> string option \<Rightarrow> string option \<times> string option \<Rightarrow> string option \<times> string option" where
  "next_pair loads d paid g pm =
     (let pr = resolve_provider loads (fst pm) g (snd pm); me = next_method loads d paid pr g (snd pm)
      in (if me = Some ''gift_voucher'' then None else pr, me))"

lemma resolve_provider_idem:
  "resolve_provider loads (resolve_provider loads p g m) g m = resolve_provider loads p g m"
proof (cases "resolve_provider loads p g m")
  case None
  then have "normalise_provider p = None" by (auto simp: resolve_provider_def split: option.splits)
  then have "resolve_provider loads None g m = resolve_provider loads p g m"
    by (simp add: resolve_provider_def)
  with None show ?thesis by simp
next
  case (Some q)
  with resolve_provider_values[OF Some] show ?thesis by (simp add: resolve_provider_stable)
qed

lemma next_pair_settled:
  assumes m: "set_option (snd pm) \<subseteq> set METHOD_VALUES"
    and H: "pm = (None, None) \<Longrightarrow> next_method loads d paid None g None = None"
    and pc: "set_option (fst pm) \<subseteq> set PROVIDER_VALUES"
  shows "next_pair loads d paid g (next_pair loads d paid g pm) = next_pair loads d paid g pm"
proof (cases "snd pm")
  case (Some c)
  with m show ?thesis by (simp add: next_pair_def Let_def next_method_stable resolve_provider_idem)
next
  case None
  let ?q = "resolve_provider loads (fst pm) g None" and ?me = "\<lambda>q. next_method loads d paid q g None"
  show ?thesis
  proof (cases "?me ?q")
    case None
    with \<open>snd pm = None\<close> show ?thesis by (simp add: next_pair_def Let_def resolve_provider_idem)
  next
    case (Some c)
    then have c: "c \<in> set METHOD_VALUES" by (rule next_method_values)
    have "?q \<noteq> None"
    proof
      assume q: "?q = None"
      with pc have "fst pm = None" by (cases "fst pm") (auto simp: resolve_provider_stable)
      with H \<open>snd pm = None\<close> have "?me None = None" by (cases pm) auto
      with Some q show False by simp
    qed
    then obtain q where "?q = Some q" by auto
    with c Some \<open>snd pm = None\<close> resolve_provider_values[OF this] show ?thesis
      by (simp add: next_pair_def Let_def next_method_stable resolve_provider_stable)
  qed
qed

lemma next_pair_settles:
  "next_pair loads d paid (clean_gateway g) (next_pair loads d paid (clean_gateway g) (next_pair loads d paid g pm))
     = next_pair loads d paid (clean_gateway g) (next_pair loads d paid g pm)"
proof (rule next_pair_settled)
  show "set_option (snd (next_pair loads d paid g pm)) \<subseteq> set METHOD_VALUES"
    by (auto simp: next_pair_def Let_def dest: next_method_values)
  show "set_option (fst (next_pair loads d paid g pm)) \<subseteq> set PROVIDER_VALUES"
    by (auto simp: next_pair_def Let_def dest: resolve_provider_values split: if_splits)
  show "next_method loads d paid None (clean_gateway g) None = None"
    if "next_pair loads d paid g pm = (None, None)"
    using that next_method_dropped by (auto simp: next_pair_def Let_def)
qed

lemma next_method_settles:
  "next_method loads d paid None (clean_gateway g) (next_method loads d paid None (clean_gateway g) (next_method loads d paid None g m))
     = next_method loads d paid None (clean_gateway g) (next_method loads d paid None g m)"
proof (cases "next_method loads d paid None g m")
  case None
  then show ?thesis by (simp add: next_method_dropped[OF None])
next
  case (Some c)
  with next_method_values[OF Some] show ?thesis by (simp add: next_method_stable)
qed

text \<open>The two columns after one application, for each set of attributes the object has.\<close>

lemma apply_attribution_pair:
  assumes "ao_payment_provider x = Some p" "ao_payment_method x = Some m"
  shows "ao_payment_provider (apply_attribution loads x)
           = Some (fst (next_pair loads (ao_payment_data x) (attr_is_paid x) (attr_value (ao_payment_gateway x)) (p, m)))"
    and "ao_payment_method (apply_attribution loads x)
           = Some (snd (next_pair loads (ao_payment_data x) (attr_is_paid x) (attr_value (ao_payment_gateway x)) (p, m)))"
  using assms by (simp_all add: apply_attribution_def Let_def attr_value_def next_pair_def next_method_def)

lemma apply_attribution_no_provider:
  assumes "ao_payment_provider x = None"
  shows "ao_payment_provider (apply_attribution loads x) = None"
    and "ao_payment_method (apply_attribution loads x)
           = map_option (next_method loads (ao_payment_data x) (attr_is_paid x) None (attr_value (ao_payment_gateway x)))
               (ao_payment_method x)"
  using assms by (auto simp: apply_attribution_def Let_def attr_value_def next_method_def split: option.splits)

lemma apply_attribution_no_method:
  assumes "ao_payment_method x = None"
  shows "ao_payment_method (apply_attribution loads x) = None"
    and "ao_payment_provider (apply_attribution loads x)
           = map_option (\<lambda>p. resolve_provider loads p (attr_value (ao_payment_gateway x)) None) (ao_payment_provider x)"
  using assms by (auto simp: apply_attribution_def Let_def attr_value_def split: option.splits)

lemma attr_value_clean: "attr_value (map_option clean_gateway g) = clean_gateway (attr_value g)"
  by (cases g) (auto simp: attr_value_def clean_gateway_def str_or_def)

lemma apply_attribution_cong:
  assumes "ao_payment_provider (apply_attribution loads y) = ao_payment_provider y"
    and "ao_payment_method (apply_attribution loads y) = ao_payment_method y"
    and "map_option normalise_through (ao_payment_through y) = ao_payment_through y"
    and "map_option clean_gateway (ao_payment_gateway y) = ao_payment_gateway y"
  shows "apply_attribution loads y = y"
proof (rule attribution_obj.equality)
  show "ao_payment_through (apply_attribution loads y) = ao_payment_through y"
    "ao_payment_gateway (apply_attribution loads y) = ao_payment_gateway y"
    "ao_payment_provider (apply_attribution loads y) = ao_payment_provider y"
    "ao_payment_method (apply_attribution loads y) = ao_payment_method y"
    using assms by (simp_all add: apply_attribution_fields)
qed (simp_all add: apply_attribution_def Let_def)

section \<open>Properties\<close>

text \<open>
  C26. Whatever a stored object carries, after \<open>apply_attribution\<close> its channel, provider and
  method columns are NULL or one of the canonical values, and a gift-voucher payment has no
  provider.
\<close>

theorem attribution_canonical:
  "(let y = apply_attribution loads x in
      set_option (attr_value (ao_payment_through y)) \<subseteq> set THROUGH_VALUES
    \<and> set_option (attr_value (ao_payment_provider y)) \<subseteq> set PROVIDER_VALUES
    \<and> set_option (attr_value (ao_payment_method y)) \<subseteq> set METHOD_VALUES
    \<and> \<not> (attr_value (ao_payment_method y) = Some ''gift_voucher'' \<and> attr_value (ao_payment_provider y) \<noteq> None))"
proof -
  have "set_option (attr_value (map_option normalise_through t)) \<subseteq> set THROUGH_VALUES" for t
    by (auto simp: attr_value_def split: option.splits dest: normalise_through_values)
  moreover have "set_option (attr_value (ao_payment_provider (apply_attribution loads x))) \<subseteq> set PROVIDER_VALUES"
    by (auto simp: apply_attribution_def attr_value_def Let_def split: option.splits if_splits
        dest: resolve_provider_values)
  moreover have "set_option (attr_value (ao_payment_method (apply_attribution loads x))) \<subseteq> set METHOD_VALUES"
    by (auto simp: apply_attribution_def attr_value_def Let_def split: option.splits
        dest: method_by_key_values normalise_method_values)
  moreover have "\<not> (attr_value (ao_payment_method (apply_attribution loads x)) = Some ''gift_voucher''
      \<and> attr_value (ao_payment_provider (apply_attribution loads x)) \<noteq> None)"
    by (auto simp: apply_attribution_def attr_value_def Let_def split: option.splits if_splits)
  ultimately show ?thesis by (simp add: Let_def apply_attribution_fields)
qed

text \<open>
  Attribution settles: from the second application on, applying it again changes nothing,
  whatever the object, its payment data and the JSON parser are.
\<close>

theorem apply_attribution_settles:
  "apply_attribution loads (apply_attribution loads (apply_attribution loads x))
     = apply_attribution loads (apply_attribution loads x)"
proof (rule apply_attribution_cong)
  let ?f = "apply_attribution loads"
  let ?g = "attr_value (ao_payment_gateway x)"
  note fields = apply_attribution_fields attr_value_clean
  show "map_option normalise_through (ao_payment_through (?f (?f x))) = ao_payment_through (?f (?f x))"
    "map_option clean_gateway (ao_payment_gateway (?f (?f x))) = ao_payment_gateway (?f (?f x))"
    by (simp_all add: fields option.map_comp comp_def)
  have "ao_payment_provider (?f (?f (?f x))) = ao_payment_provider (?f (?f x))
      \<and> ao_payment_method (?f (?f (?f x))) = ao_payment_method (?f (?f x))"
  proof (cases "ao_payment_provider x")
    case None
    then show ?thesis
      by (cases "ao_payment_method x") (simp_all add: apply_attribution_no_provider fields next_method_settles)
  next
    case (Some p)
    show ?thesis
    proof (cases "ao_payment_method x")
      case None
      then show ?thesis using Some
        by (simp add: apply_attribution_no_method fields resolve_provider_idem)
    next
      case (Some m)
      with \<open>ao_payment_provider x = Some p\<close> show ?thesis
        by (simp add: apply_attribution_pair fields next_pair_settles)
    qed
  qed
  then show "ao_payment_provider (?f (?f (?f x))) = ao_payment_provider (?f (?f x))"
    "ao_payment_method (?f (?f (?f x))) = ao_payment_method (?f (?f x))" by auto
qed

text \<open>
  One application is not enough: a payment with no clear provider whose gateway response
  names Deema gets the method \<open>deema_link\<close> and a NULL provider from the first application, and
  the provider \<open>tap\<close> only from the second. The stored provider depends on how often the row is
  written.
\<close>

theorem apply_attribution_not_idempotent:
  "(let x = \<lparr>ao_payment_through = Some (Some ''desk''), ao_payment_provider = Some (Some ''Other''),
             ao_payment_method = Some None, ao_payment_gateway = Some None,
             ao_payment_data = JObj [(''PaymentGateway'', JStr ''Deema'')],
             ao_payment_status = Some ''success'', ao_status = None, ao_transaction_status = None,
             ao_branch_name = None, ao_branch_data = JNull\<rparr>;
        y = apply_attribution (\<lambda>_. None) x; z = apply_attribution (\<lambda>_. None) y
    in ao_payment_method y = Some (Some ''deema_link'') \<and> ao_payment_provider y = Some None
       \<and> ao_payment_provider z = Some (Some ''tap''))"
  by code_simp

text \<open>
  Every refund method's stored value is read back as that method by
  \<open>RefundMethod.normalise\<close>, in any letter case.
\<close>

theorem refund_method_roundtrip:
  "RefundMethod_normalise (Some (refund_method_value m)) = m
   \<and> RefundMethod_normalise (Some (upper (refund_method_value m))) = m"
proof -
  have all: "list_all (\<lambda>m. RefundMethod_normalise (Some (refund_method_value m)) = m
      \<and> RefundMethod_normalise (Some (upper (refund_method_value m))) = m)
    [RM_PAYMENT_GATEWAY, RM_PAYMENT_LINK, RM_CASH, RM_CARD, RM_BANK_TRANSFER, RM_LOYALTY_POINTS, RM_MONEY, RM_OTHER]"
    by code_simp
  show ?thesis by (cases m) (use all in simp_all)
qed

end
