(* ===== verification/Refund_Lifecycle.thy ===== *)
theory Refund_Lifecycle
  imports Decimals Numbering Payment_Attribution "HOL-Library.Product_Lexorder"
begin

text \<open>
  The refund lifecycle: \<open>app/payment/application/refund_lifecycle.py\<close>.

  The state is the rows the lifecycle reads and writes: the payments, the refunds, the bookings,
  the audit rows and the completed events handed to the queue. A row is updated by replacing the
  row with its key, which is what a flush of the changed object does. Amounts are \<open>Numeric(10, 3)\<close>
  columns; a payment's status is set when the row is created, so it is not NULL here. The clock, the month of the refund number and the new row's key are the argument
  \<open>env\<close>. Snapshots of customer, branch, actor and gateway responses (JSON copied through) and the
  free text of audit rows are left out.
\<close>

section \<open>Rows\<close>

datatype payment_ref = RefUuid uuid | RefText string

record Payment =
  pm_id :: uuid
  pm_booking_id :: "uuid option"
  pm_status :: string
  pm_total_amount :: rat
  pm_amount_refunded :: rat
  pm_currency :: string
  pm_payment_gateway :: "string option"
  pm_payment_provider :: "string option"
  pm_transaction_id :: "string option"
  pm_invoice_id :: "string option"
  pm_payment_id :: "string option"
  pm_invoice_number :: "string option"
  pm_needs_attention :: bool
  pm_created_at :: instant
  pm_voucher_id :: "string option"
  pm_payment_link_id :: "uuid option"

record Refund =
  rf_id :: uuid
  rf_refund_number :: string
  rf_idempotency_key :: "string option"
  rf_booking_id :: "uuid option"
  rf_payment_id :: "uuid option"
  rf_invoice_number :: "string option"
  rf_customer_id :: "uuid option"
  rf_branch_id :: "uuid option"
  rf_refund_type :: RefundType
  rf_refund_method :: string
  rf_status :: RefundStatus
  rf_requested_amount :: rat
  rf_cancellation_fee :: rat
  rf_refunded_amount :: rat
  rf_currency :: string
  rf_reason :: string
  rf_notes :: "string option"
  rf_payment_gateway :: "string option"
  rf_gateway_transaction_id :: "string option"
  rf_gateway_refund_id :: "string option"
  rf_reference_number :: "string option"
  rf_customer_confirmation :: "string option"
  rf_credit_note_number :: "string option"
  rf_credit_note_id :: "string option"
  rf_processed_by :: "string option"
  rf_processed_at :: instant
  rf_completed_at :: "instant option"
  rf_failure_reason :: "string option"
  rf_created_at :: instant

record Booking =
  bk_id :: uuid
  bk_booking_number :: "string option"
  bk_status :: string
  bk_payment_status :: string
  bk_payment_ref :: "payment_ref option"
  bk_customer_id :: "uuid option"
  bk_branch_id :: "uuid option"
  bk_currency :: "string option"
  bk_invoice_number :: "string option"
  bk_total_amount :: rat
  bk_payment_gateway :: "string option"
  bk_payment_provider :: "string option"
  bk_internal_notes :: "string option"

record PaymentStatusHistory =
  ph_payment_id :: uuid
  ph_old_status :: string
  ph_new_status :: string
  ph_source :: string
  ph_provider_reference :: "string option"
  ph_refund_number :: string
  ph_refund_status :: RefundStatus
  ph_refunded_amount :: rat
  ph_amount_refunded_total :: rat
  ph_change_by_user :: string

record RefundCompletedEvent =
  ev_refund_id :: uuid
  ev_refund_number :: string
  ev_booking_id :: "uuid option"
  ev_payment_id :: "uuid option"
  ev_refund_method :: string
  ev_status :: RefundStatus
  ev_refund_amount :: rat
  ev_payment_amount_refunded :: rat
  ev_booking_payment_status :: string
  ev_is_fully_refunded :: bool

record refund_db =
  db_payments :: "Payment list"
  db_refunds :: "Refund list"
  db_bookings :: "Booking list"
  db_history :: "PaymentStatusHistory list"
  db_events :: "RefundCompletedEvent list"

record refund_env =
  env_now :: instant
  env_month :: string
  env_uuid :: uuid

datatype refund_error =
    AmountNotPositive
  | FeeNegative
  | ExceedsRefundableBalance rat
  | ExceedsPaidAmount string
  | CannotModify string RefundStatus
  | CannotReject string RefundStatus
  | CannotApprove string RefundStatus
  | CannotProcess string RefundStatus
  | CannotComplete string RefundStatus

definition TOLERANCE :: rat where "TOLERANCE = 1/2000"

definition OPEN_STATUSES :: "RefundStatus list" where
  "OPEN_STATUSES = [RS_REQUESTED, RS_APPROVED, RS_PROCESSING]"

definition PAID_PAYMENT_STATUSES :: "string list" where
  "PAID_PAYMENT_STATUSES =
     [''success'', ''paid'', ''partially_refunded'', ''refunded'', ''refunded_with_points'']"

definition cancellation_idempotency_key :: "uuid \<Rightarrow> string" where
  "cancellation_idempotency_key booking_id = ''booking-cancel:'' @ show_nat booking_id"

text \<open>\<open>_dec\<close> of a stored or computed Decimal.\<close>

definition dec :: "rat \<Rightarrow> rat" where "dec v = quantize3 v"

section \<open>Row access\<close>

definition put_refund :: "Refund \<Rightarrow> refund_db \<Rightarrow> refund_db" where
  "put_refund r db = db\<lparr>db_refunds := replace_row rf_id r (db_refunds db)\<rparr>"

definition put_payment :: "Payment \<Rightarrow> refund_db \<Rightarrow> refund_db" where
  "put_payment p db = db\<lparr>db_payments := replace_row pm_id p (db_payments db)\<rparr>"

definition put_booking :: "Booking \<Rightarrow> refund_db \<Rightarrow> refund_db" where
  "put_booking b db = db\<lparr>db_bookings := replace_row bk_id b (db_bookings db)\<rparr>"

definition add_refund :: "Refund \<Rightarrow> refund_db \<Rightarrow> refund_db" where
  "add_refund r db = db\<lparr>db_refunds := db_refunds db @ [r]\<rparr>"

definition payment_by_id :: "uuid \<Rightarrow> refund_db \<Rightarrow> Payment option" where
  "payment_by_id i db = find (\<lambda>p. pm_id p = i) (db_payments db)"

definition booking_by_id :: "uuid \<Rightarrow> refund_db \<Rightarrow> Booking option" where
  "booking_by_id i db = find (\<lambda>b. bk_id b = i) (db_bookings db)"

definition refund_by_id :: "uuid \<Rightarrow> refund_db \<Rightarrow> Refund option" where
  "refund_by_id i db = find (\<lambda>r. rf_id r = i) (db_refunds db)"

definition payment_of :: "Refund \<Rightarrow> refund_db \<Rightarrow> Payment option" where
  "payment_of r db = (case rf_payment_id r of None \<Rightarrow> None | Some i \<Rightarrow> payment_by_id i db)"

definition booking_of :: "Refund \<Rightarrow> refund_db \<Rightarrow> Booking option" where
  "booking_of r db = (case rf_booking_id r of None \<Rightarrow> None | Some i \<Rightarrow> booking_by_id i db)"

section \<open>Lookups\<close>

definition first_row :: "'a list \<Rightarrow> 'a option" where
  "first_row xs = (case xs of [] \<Rightarrow> None | x # _ \<Rightarrow> Some x)"

text \<open>Rows with equal sort keys come in table order.\<close>

definition find_payment_for_booking :: "Booking \<Rightarrow> refund_db \<Rightarrow> Payment option" where
  "find_payment_for_booking booking db =
     (let rows = filter (\<lambda>p. pm_booking_id p = Some (bk_id booking)) (db_payments db);
          ranked = sort_key (\<lambda>p. (pm_status p \<notin> set PAID_PAYMENT_STATUSES, - pm_created_at p)) rows
      in case ranked of
           p # _ \<Rightarrow> Some p
         | [] \<Rightarrow>
             (case bk_payment_ref booking of
                None \<Rightarrow> None
              | Some (RefUuid i) \<Rightarrow> payment_by_id i db
              | Some (RefText raw) \<Rightarrow> find (\<lambda>p. pm_payment_id p = Some raw) (db_payments db)))"

definition find_open_refund :: "uuid \<Rightarrow> refund_db \<Rightarrow> Refund option" where
  "find_open_refund booking_id db =
     first_row (sort_key rf_created_at
       (filter (\<lambda>r. rf_booking_id r = Some booking_id \<and> rf_status r \<in> set OPEN_STATUSES) (db_refunds db)))"

definition refund_sum :: "uuid \<Rightarrow> RefundStatus list \<Rightarrow> uuid option \<Rightarrow> refund_db \<Rightarrow> rat" where
  "refund_sum payment_id statuses exclude_id db =
     dec (sum_list (map rf_refunded_amount
       (filter (\<lambda>r. rf_payment_id r = Some payment_id \<and> rf_status r \<in> set statuses
                   \<and> (case exclude_id of None \<Rightarrow> True | Some i \<Rightarrow> rf_id r \<noteq> i)) (db_refunds db))))"

definition completed_total :: "Payment \<Rightarrow> uuid option \<Rightarrow> refund_db \<Rightarrow> rat" where
  "completed_total payment exclude_id db = refund_sum (pm_id payment) [RS_COMPLETED] exclude_id db"

definition committed_total :: "Payment \<Rightarrow> uuid option \<Rightarrow> refund_db \<Rightarrow> rat" where
  "committed_total payment exclude_id db =
     refund_sum (pm_id payment) (RS_COMPLETED # OPEN_STATUSES) exclude_id db"

definition retained_fee :: "Payment \<Rightarrow> refund_db \<Rightarrow> rat" where
  "retained_fee payment db =
     dec (case map rf_cancellation_fee
            (filter (\<lambda>r. rf_payment_id r = Some (pm_id payment)
                        \<and> rf_status r \<in> set (RS_COMPLETED # OPEN_STATUSES)) (db_refunds db)) of
            [] \<Rightarrow> 0 | f # fs \<Rightarrow> fold max fs f)"

definition refundable_target :: "Payment \<Rightarrow> refund_db \<Rightarrow> rat" where
  "refundable_target payment db = max 0 (dec (pm_total_amount payment) - retained_fee payment db)"

definition is_fully_refunded :: "Booking \<Rightarrow> refund_db \<Rightarrow> bool" where
  "is_fully_refunded booking db =
     (case find_payment_for_booking booking db of
        None \<Rightarrow> False
      | Some payment \<Rightarrow>
          (let target = refundable_target payment db
           in 0 < target \<and> target \<le> completed_total payment None db + TOLERANCE))"

section \<open>Audit rows and events\<close>

definition audit ::
  "Payment \<Rightarrow> Refund \<Rightarrow> string \<Rightarrow> string option \<Rightarrow> string option \<Rightarrow> string option \<Rightarrow> refund_db \<Rightarrow> refund_db" where
  "audit payment refund source actor_id provider_reference old_status db =
     db\<lparr>db_history := db_history db @
       [\<lparr>ph_payment_id = pm_id payment,
         ph_old_status = str_or old_status (pm_status payment),
         ph_new_status = (if pm_status payment = [] then ''success'' else pm_status payment),
         ph_source = source, ph_provider_reference = provider_reference,
         ph_refund_number = rf_refund_number refund, ph_refund_status = rf_status refund,
         ph_refunded_amount = rf_refunded_amount refund,
         ph_amount_refunded_total = pm_amount_refunded payment,
         ph_change_by_user = str_or actor_id source\<rparr>]\<rparr>"

definition audit_opt ::
  "Payment option \<Rightarrow> Refund \<Rightarrow> string \<Rightarrow> string option \<Rightarrow> string option \<Rightarrow> refund_db \<Rightarrow> refund_db" where
  "audit_opt payment refund source actor_id provider_reference db =
     (case payment of None \<Rightarrow> db | Some p \<Rightarrow> audit p refund source actor_id provider_reference None db)"

definition publish_completed_event ::
  "Refund \<Rightarrow> Booking option \<Rightarrow> Payment option \<Rightarrow> bool \<Rightarrow> refund_db \<Rightarrow> refund_db" where
  "publish_completed_event refund booking payment fully db =
     db\<lparr>db_events := db_events db @
       [\<lparr>ev_refund_id = rf_id refund, ev_refund_number = rf_refund_number refund,
         ev_booking_id = rf_booking_id refund, ev_payment_id = map_option pm_id payment,
         ev_refund_method = rf_refund_method refund, ev_status = rf_status refund,
         ev_refund_amount = rf_refunded_amount refund,
         ev_payment_amount_refunded = (case payment of None \<Rightarrow> 0 | Some p \<Rightarrow> pm_amount_refunded p),
         ev_booking_payment_status = (case booking of None \<Rightarrow> [] | Some b \<Rightarrow> bk_payment_status b),
         ev_is_fully_refunded = fully\<rparr>]\<rparr>"

section \<open>Transitions\<close>

text \<open>\<open>x or y\<close> on nullable text.\<close>

definition or_text :: "string option \<Rightarrow> string option \<Rightarrow> string option" where
  "or_text a b = (if truthy a then a else b)"

definition set_actor :: "string option \<Rightarrow> Refund \<Rightarrow> Refund" where
  "set_actor actor_id r = (if truthy actor_id then r\<lparr>rf_processed_by := actor_id\<rparr> else r)"

definition new_refund ::
  "refund_env \<Rightarrow> Booking \<Rightarrow> Payment option \<Rightarrow> rat \<Rightarrow> rat \<Rightarrow> RefundType \<Rightarrow> string \<Rightarrow> string option \<Rightarrow> string option
   \<Rightarrow> string option \<Rightarrow> string option \<Rightarrow> refund_db \<Rightarrow> Refund" where
  "new_refund env booking payment net fee refund_type refund_method reason notes idempotency_key actor_id db =
     \<lparr>rf_id = env_uuid env,
      rf_refund_number = generate_refund_number (env_month env) (map rf_refund_number (db_refunds db)),
      rf_idempotency_key = idempotency_key,
      rf_booking_id = Some (bk_id booking),
      rf_payment_id = map_option pm_id payment,
      rf_invoice_number = or_text (case payment of None \<Rightarrow> None | Some p \<Rightarrow> pm_invoice_number p) (bk_invoice_number booking),
      rf_customer_id = bk_customer_id booking, rf_branch_id = bk_branch_id booking,
      rf_refund_type = refund_type, rf_refund_method = refund_method, rf_status = RS_REQUESTED,
      rf_requested_amount = net + fee, rf_cancellation_fee = fee, rf_refunded_amount = net,
      rf_currency = str_or (bk_currency booking)
        (case payment of None \<Rightarrow> ''KWD'' | Some p \<Rightarrow> pm_currency p),
      rf_reason = str_or reason ''Booking cancellation refund'', rf_notes = notes,
      rf_payment_gateway = (case payment of None \<Rightarrow> None
        | Some p \<Rightarrow> or_text (pm_payment_gateway p) (pm_payment_provider p)),
      rf_gateway_transaction_id = (case payment of None \<Rightarrow> None | Some p \<Rightarrow> pm_transaction_id p),
      rf_gateway_refund_id = None, rf_reference_number = None, rf_customer_confirmation = None,
      rf_credit_note_number = None, rf_credit_note_id = None,
      rf_processed_by = (if truthy actor_id then actor_id else None),
      rf_processed_at = env_now env, rf_completed_at = None, rf_failure_reason = None,
      rf_created_at = env_now env\<rparr>"

definition refund_request ::
  "refund_env \<Rightarrow> Booking \<Rightarrow> Payment option \<Rightarrow> rat \<Rightarrow> rat \<Rightarrow> RefundType \<Rightarrow> string \<Rightarrow> string option \<Rightarrow> string option
   \<Rightarrow> string option \<Rightarrow> string option \<Rightarrow> refund_db \<Rightarrow> refund_error + (Refund \<times> bool \<times> refund_db)" where
  "refund_request env booking payment refund_amount cancellation_fee refund_type refund_method reason notes
     idempotency_key actor_id db =
     (case (if truthy idempotency_key
            then find (\<lambda>r. rf_idempotency_key r = idempotency_key) (db_refunds db) else None) of
        Some existing \<Rightarrow> Inr (existing, False, db)
      | None \<Rightarrow>
          (let net = dec refund_amount; fee = dec cancellation_fee in
           if net \<le> 0 then Inl AmountNotPositive
           else if fee < 0 then Inl FeeNegative
           else ebind
             (case payment of None \<Rightarrow> Inr ()
              | Some p \<Rightarrow>
                  (let total = dec (pm_total_amount p); committed = committed_total p None db
                   in guard (\<not> (total + TOLERANCE < committed + net))
                        (ExceedsRefundableBalance (max 0 (total - committed)))))
             (\<lambda>_. let r = new_refund env booking payment net fee refund_type refund_method reason notes
                            idempotency_key actor_id db
                  in Inr (r, True, audit_opt payment r ''refund_requested'' actor_id None (add_refund r db)))))"

definition update_requested_amounts ::
  "Refund \<Rightarrow> Payment option \<Rightarrow> rat \<Rightarrow> rat \<Rightarrow> refund_db \<Rightarrow> refund_error + (Refund \<times> refund_db)" where
  "update_requested_amounts refund payment refund_amount cancellation_fee db =
     (if rf_status refund \<noteq> RS_REQUESTED then Inl (CannotModify (rf_refund_number refund) (rf_status refund))
      else
        (let net = dec refund_amount; fee = dec cancellation_fee in
         if net \<le> 0 then Inl AmountNotPositive
         else ebind
           (case payment of None \<Rightarrow> Inr ()
            | Some p \<Rightarrow>
                (let committed = committed_total p (Some (rf_id refund)) db
                 in guard (\<not> (dec (pm_total_amount p) + TOLERANCE < committed + net))
                      (ExceedsRefundableBalance (max 0 (dec (pm_total_amount p) - committed)))))
           (\<lambda>_. let r = refund\<lparr>rf_refunded_amount := net, rf_cancellation_fee := fee,
                               rf_requested_amount := net + fee\<rparr>
                in Inr (r, put_refund r db))))"

definition rejected_row :: "refund_env \<Rightarrow> string option \<Rightarrow> string option \<Rightarrow> Refund \<Rightarrow> Refund" where
  "rejected_row env reason actor_id refund =
     (set_actor actor_id (refund\<lparr>rf_status := RS_REJECTED,
        rf_failure_reason := Some (str_or reason ''Refund rejected by staff'')\<rparr>))
     \<lparr>rf_processed_at := env_now env\<rparr>"

definition refund_reject ::
  "refund_env \<Rightarrow> Refund \<Rightarrow> string option \<Rightarrow> string option \<Rightarrow> refund_db \<Rightarrow> refund_error + (Refund \<times> refund_db)" where
  "refund_reject env refund reason actor_id db =
     (if rf_status refund \<in> {RS_COMPLETED, RS_REJECTED} then Inr (refund, db)
      else if rf_status refund \<noteq> RS_REQUESTED
      then Inl (CannotReject (rf_refund_number refund) (rf_status refund))
      else (let r = rejected_row env reason actor_id refund in Inr (r, put_refund r db)))"

definition approved_row ::
  "refund_env \<Rightarrow> string \<Rightarrow> rat \<Rightarrow> string option \<Rightarrow> string option \<Rightarrow> Refund \<Rightarrow> Refund" where
  "approved_row env norm_method net notes actor_id refund =
     (let r0 = refund\<lparr>rf_status := RS_APPROVED, rf_refund_method := norm_method, rf_refunded_amount := net,
                      rf_requested_amount := net + dec (rf_cancellation_fee refund)\<rparr>;
          r1 = (if truthy notes then r0\<lparr>rf_notes := notes\<rparr> else r0)
      in (set_actor actor_id r1)\<lparr>rf_processed_at := env_now env\<rparr>)"

definition refund_approve ::
  "refund_env \<Rightarrow> Refund \<Rightarrow> string \<Rightarrow> rat \<Rightarrow> string option \<Rightarrow> string option \<Rightarrow> refund_db
   \<Rightarrow> refund_error + (Refund \<times> refund_db)" where
  "refund_approve env refund refund_method approved_amount notes actor_id db =
     (if rf_status refund = RS_APPROVED then Inr (refund, db)
      else if rf_status refund \<noteq> RS_REQUESTED
      then Inl (CannotApprove (rf_refund_number refund) (rf_status refund))
      else
        (let net = dec approved_amount; norm_method = RefundMethod_normalise (Some refund_method) in
         if net \<le> 0 then Inl AmountNotPositive
         else ebind
           (case payment_of refund db of None \<Rightarrow> Inr ()
            | Some p \<Rightarrow>
                if norm_method = RM_LOYALTY_POINTS then Inr ()
                else (let committed = committed_total p (Some (rf_id refund)) db
                      in guard (\<not> (dec (pm_total_amount p) + TOLERANCE < committed + net))
                           (ExceedsRefundableBalance (max 0 (dec (pm_total_amount p) - committed)))))
           (\<lambda>_. let r = approved_row env (refund_method_value norm_method) net notes actor_id refund;
                    db1 = put_refund r db
                in Inr (r, if norm_method = RM_LOYALTY_POINTS
                           then (case booking_of r db1 of None \<Rightarrow> db1
                                 | Some b \<Rightarrow> put_booking (b\<lparr>bk_payment_status := ''refunded_with_points''\<rparr>) db1)
                           else db1))))"

definition processing_row :: "refund_env \<Rightarrow> string option \<Rightarrow> string option \<Rightarrow> Refund \<Rightarrow> Refund" where
  "processing_row env provider_refund_id actor_id refund =
     (let r0 = refund\<lparr>rf_status := RS_PROCESSING, rf_refund_type := RT_AUTOMATED,
                      rf_refund_method := ''payment_gateway''\<rparr>;
          r1 = (if truthy provider_refund_id then r0\<lparr>rf_gateway_refund_id := provider_refund_id\<rparr> else r0)
      in (set_actor actor_id r1)\<lparr>rf_processed_at := env_now env\<rparr>)"

definition mark_processing ::
  "refund_env \<Rightarrow> Refund \<Rightarrow> string option \<Rightarrow> string option \<Rightarrow> refund_db \<Rightarrow> refund_error + (Refund \<times> refund_db)" where
  "mark_processing env refund provider_refund_id actor_id db =
     (if rf_status refund \<in> {RS_COMPLETED, RS_PROCESSING} then Inr (refund, db)
      else if rf_status refund \<notin> {RS_REQUESTED, RS_APPROVED}
      then Inl (CannotProcess (rf_refund_number refund) (rf_status refund))
      else
        (let r = processing_row env provider_refund_id actor_id refund;
             db1 = put_refund r db
         in Inr (r, audit_opt (payment_of r db1) r ''refund_processing'' actor_id provider_refund_id db1)))"

definition is_loyalty_method :: "string \<Rightarrow> bool" where
  "is_loyalty_method m \<longleftrightarrow> lower m \<in> {''loyalty_points'', ''loyalty'', ''points''}"

text \<open>The refund row as \<open>complete\<close> leaves it.\<close>

definition completed_row :: "refund_env \<Rightarrow> string option \<Rightarrow> Refund \<Rightarrow> Refund" where
  "completed_row env provider_reference refund =
     (let r = refund\<lparr>rf_status := RS_COMPLETED, rf_completed_at := Some (env_now env), rf_failure_reason := None\<rparr>
      in if truthy provider_reference then
           (if rf_refund_method r = ''payment_gateway''
            then r\<lparr>rf_gateway_refund_id := or_text (rf_gateway_refund_id r) provider_reference\<rparr>
            else r\<lparr>rf_reference_number := or_text (rf_reference_number r) provider_reference\<rparr>)
         else r)"

text \<open>
  The payment part of \<open>complete\<close> for money: the refunded summary, the status, and whether the
  refundable part is fully returned. \<open>db\<close> already holds the completed refund row.
\<close>

definition settle_payment :: "Payment \<Rightarrow> Refund \<Rightarrow> refund_db \<Rightarrow> Payment \<times> bool" where
  "settle_payment payment refund db =
     (let db_total = completed_total payment None db;
          calc_total = dec (pm_amount_refunded payment) + dec (rf_refunded_amount refund);
          refunded = max db_total calc_total;
          fee = max (retained_fee payment db) (dec (rf_cancellation_fee refund));
          booking_target = max 0 (dec (pm_total_amount payment) - fee);
          fully = (0 < booking_target \<and> booking_target \<le> dec refunded + TOLERANCE);
          status = (if dec (pm_total_amount payment) \<le> dec refunded + TOLERANCE then ''refunded''
                    else if 0 < dec refunded then ''partially_refunded'' else pm_status payment)
      in (payment\<lparr>pm_amount_refunded := refunded, pm_status := status\<rparr>, fully))"

definition settle_booking :: "bool \<Rightarrow> bool \<Rightarrow> bool \<Rightarrow> Booking \<Rightarrow> Booking" where
  "settle_booking is_loyalty no_payment fully b =
     (if is_loyalty then b\<lparr>bk_payment_status := ''refunded_with_points'', bk_status := ''cancelled''\<rparr>
      else b\<lparr>bk_payment_status := (if fully \<or> no_payment then ''refunded'' else ''partially_refunded''),
             bk_status := (if lower (bk_status b) \<noteq> ''cancelled'' then ''refunded'' else bk_status b)\<rparr>)"

definition refund_complete ::
  "refund_env \<Rightarrow> Refund \<Rightarrow> string \<Rightarrow> string option \<Rightarrow> string option \<Rightarrow> bool \<Rightarrow> refund_db
   \<Rightarrow> refund_error + (Refund \<times> bool \<times> refund_db)" where
  "refund_complete env refund source provider_reference actor_id publish_event db =
     (if rf_status refund = RS_COMPLETED then Inr (refund, False, db)
      else if rf_status refund \<notin> set OPEN_STATUSES
      then Inl (CannotComplete (rf_refund_number refund) (rf_status refund))
      else
        (let payment = payment_of refund db; is_loyalty = is_loyalty_method (rf_refund_method refund) in
         ebind
           (case payment of None \<Rightarrow> Inr ()
            | Some p \<Rightarrow>
                if is_loyalty then Inr ()
                else guard (\<not> (dec (pm_total_amount p) + TOLERANCE
                                < completed_total p (Some (rf_id refund)) db + dec (rf_refunded_amount refund)))
                       (ExceedsPaidAmount (rf_refund_number refund)))
           (\<lambda>_. let r = completed_row env provider_reference refund;
                    db1 = put_refund r db;
                    booking = booking_of r db1;
                    settled = (case payment of None \<Rightarrow> (None, False, db1)
                      | Some p \<Rightarrow>
                          if is_loyalty then (Some p, False, audit p r source actor_id None (Some (pm_status p)) db1)
                          else (case settle_payment p r db1 of (p', fully) \<Rightarrow>
                            (Some p', fully,
                             audit p' r source actor_id (or_text provider_reference (rf_gateway_refund_id r))
                               (Some (pm_status p)) (put_payment p' db1))));
                    payment' = fst settled; fully = fst (snd settled); db2 = snd (snd settled);
                    booking' = map_option (settle_booking is_loyalty (payment = None) fully) booking;
                    db3 = (case booking' of None \<Rightarrow> db2 | Some b \<Rightarrow> put_booking b db2)
                in Inr (r, True, if publish_event then publish_completed_event r booking' payment' fully db3 else db3))))"

definition failed_row :: "string \<Rightarrow> Refund \<Rightarrow> Refund" where
  "failed_row reason refund = refund\<lparr>rf_status := RS_FAILED, rf_failure_reason := Some reason\<rparr>"

definition reversed_payment :: "bool \<Rightarrow> rat \<Rightarrow> Payment \<Rightarrow> Payment" where
  "reversed_payment was_completed refunded p =
     p\<lparr>pm_amount_refunded := refunded, pm_needs_attention := (was_completed \<or> pm_needs_attention p)\<rparr>"

definition refund_fail ::
  "Refund \<Rightarrow> string \<Rightarrow> string \<Rightarrow> string option \<Rightarrow> string option \<Rightarrow> refund_db \<Rightarrow> Refund \<times> refund_db" where
  "refund_fail refund reason source provider_reference actor_id db =
     (if rf_status refund \<in> {RS_FAILED, RS_CANCELLED} then (refund, db)
      else
        (let was_completed = (rf_status refund = RS_COMPLETED);
             r = failed_row reason refund;
             db1 = put_refund r db
         in case payment_of r db1 of
              None \<Rightarrow> (r, db1)
            | Some p \<Rightarrow>
                let p' = reversed_payment was_completed (completed_total p None db1) p;
                    db2 = audit p' r source actor_id provider_reference None (put_payment p' db1)
                in (r, if was_completed
                       then (case booking_of r db2 of None \<Rightarrow> db2
                             | Some b \<Rightarrow> put_booking (b\<lparr>bk_payment_status :=
                                 (if 0 < dec (pm_amount_refunded p') then ''partially_refunded'' else ''success'')\<rparr>) db2)
                       else db2)))"

section \<open>What each operation changes\<close>

text \<open>
  Every transition is one of two changes of the refund table, a new row or a rewritten row; the
  keys and totals of the payments stay.
\<close>

definition payment_keys :: "refund_db \<Rightarrow> (uuid \<times> rat) list" where
  "payment_keys db = map (\<lambda>p. (pm_id p, pm_total_amount p)) (db_payments db)"

definition moved :: "Refund \<Rightarrow> Refund \<Rightarrow> refund_db \<Rightarrow> refund_db \<Rightarrow> bool" where
  "moved r r' db db' \<longleftrightarrow>
     rf_id r' = rf_id r \<and> rf_payment_id r' = rf_payment_id r \<and> rf_booking_id r' = rf_booking_id r \<and>
     rf_idempotency_key r' = rf_idempotency_key r \<and> rf_refund_number r' = rf_refund_number r \<and>
     db_refunds db' = replace_row rf_id r' (db_refunds db) \<and> payment_keys db' = payment_keys db"

lemma table_access [simp, effect_simps]:
  "db_refunds (put_payment p db) = db_refunds db" "db_refunds (put_booking b db) = db_refunds db"
  "db_refunds (audit p' r s a pr os db) = db_refunds db" "db_refunds (audit_opt po r s a pr db) = db_refunds db"
  "db_refunds (publish_completed_event r bo po fl db) = db_refunds db"
  "db_refunds (put_refund r db) = replace_row rf_id r (db_refunds db)"
  "db_refunds (add_refund r db) = db_refunds db @ [r]"
  "db_payments (put_refund r db) = db_payments db" "db_payments (put_booking b db) = db_payments db"
  "db_payments (audit p' r s a pr os db) = db_payments db" "db_payments (audit_opt po r s a pr db) = db_payments db"
  "db_payments (publish_completed_event r bo po fl db) = db_payments db"
  "db_payments (put_payment p db) = replace_row pm_id p (db_payments db)"
  "db_payments (add_refund r db) = db_payments db"
  "db_events (put_payment p db) = db_events db" "db_events (put_booking b db) = db_events db"
  "db_events (audit p' r s a pr os db) = db_events db" "db_events (audit_opt po r s a pr db) = db_events db"
  "db_events (put_refund r db) = db_events db" "db_events (add_refund r db) = db_events db"
  by (simp_all add: put_payment_def put_booking_def put_refund_def audit_def audit_opt_def add_refund_def
      publish_completed_event_def split: option.splits)

lemma events_publish [simp]:
  "map ev_refund_id (db_events (publish_completed_event r bo po fl db)) = map ev_refund_id (db_events db) @ [rf_id r]"
  by (simp add: publish_completed_event_def)

lemma payment_keys_access [simp]:
  "payment_keys (put_refund r db) = payment_keys db" "payment_keys (put_booking b db) = payment_keys db"
  "payment_keys (audit p' r s a pr os db) = payment_keys db"
  "payment_keys (audit_opt po r s a pr db) = payment_keys db"
  "payment_keys (publish_completed_event r bo po fl db) = payment_keys db"
  "payment_keys (add_refund r db) = payment_keys db"
  by (simp_all add: payment_keys_def)

lemma payment_of_row:
  "payment_of r db = Some p \<Longrightarrow> p \<in> set (db_payments db) \<and> rf_payment_id r = Some (pm_id p)"
  by (auto simp: payment_of_def payment_by_id_def find_Some_iff split: option.splits)

text \<open>A payment row that only differs in summary columns from the row it replaces.\<close>

lemma payment_keys_put:
  assumes "distinct (map pm_id (db_payments db))" "p \<in> set (db_payments db)"
    and "pm_id p' = pm_id p" "pm_total_amount p' = pm_total_amount p"
  shows "payment_keys (put_payment p' db) = payment_keys db"
proof -
  have "x = p" if "x \<in> set (db_payments db)" "pm_id x = pm_id p'" for x
    using replace_row_same_key[OF assms(1,2) that(1)] that assms(3) by simp
  then show ?thesis using assms(3,4) by (auto simp: payment_keys_def put_payment_def replace_row_def)
qed

lemma set_actor_fields [simp]:
  "rf_id (set_actor a r) = rf_id r" "rf_payment_id (set_actor a r) = rf_payment_id r"
  "rf_booking_id (set_actor a r) = rf_booking_id r"
  "rf_idempotency_key (set_actor a r) = rf_idempotency_key r" "rf_status (set_actor a r) = rf_status r"
  "rf_refunded_amount (set_actor a r) = rf_refunded_amount r" "rf_refund_method (set_actor a r) = rf_refund_method r"
  "rf_refund_number (set_actor a r) = rf_refund_number r"
  "rf_cancellation_fee (set_actor a r) = rf_cancellation_fee r"
  by (simp_all add: set_actor_def)

lemma rejected_row_fields [simp]:
  "rf_id (rejected_row env reason a r) = rf_id r" "rf_payment_id (rejected_row env reason a r) = rf_payment_id r"
  "rf_booking_id (rejected_row env reason a r) = rf_booking_id r"
  "rf_idempotency_key (rejected_row env reason a r) = rf_idempotency_key r"
  "rf_status (rejected_row env reason a r) = RS_REJECTED"
  "rf_refunded_amount (rejected_row env reason a r) = rf_refunded_amount r"
  "rf_refund_method (rejected_row env reason a r) = rf_refund_method r"
  "rf_refund_number (rejected_row env reason a r) = rf_refund_number r"
  "rf_cancellation_fee (rejected_row env reason a r) = rf_cancellation_fee r"
  by (simp_all add: rejected_row_def Let_def)

lemma approved_row_fields [simp]:
  "rf_id (approved_row env m net notes a r) = rf_id r" "rf_payment_id (approved_row env m net notes a r) = rf_payment_id r"
  "rf_booking_id (approved_row env m net notes a r) = rf_booking_id r"
  "rf_idempotency_key (approved_row env m net notes a r) = rf_idempotency_key r"
  "rf_status (approved_row env m net notes a r) = RS_APPROVED"
  "rf_refunded_amount (approved_row env m net notes a r) = net"
  "rf_refund_method (approved_row env m net notes a r) = m"
  "rf_refund_number (approved_row env m net notes a r) = rf_refund_number r"
  "rf_cancellation_fee (approved_row env m net notes a r) = rf_cancellation_fee r"
  by (simp_all add: approved_row_def Let_def)

lemma processing_row_fields [simp]:
  "rf_id (processing_row env pid a r) = rf_id r" "rf_payment_id (processing_row env pid a r) = rf_payment_id r"
  "rf_booking_id (processing_row env pid a r) = rf_booking_id r"
  "rf_idempotency_key (processing_row env pid a r) = rf_idempotency_key r"
  "rf_status (processing_row env pid a r) = RS_PROCESSING"
  "rf_refunded_amount (processing_row env pid a r) = rf_refunded_amount r"
  "rf_refund_method (processing_row env pid a r) = ''payment_gateway''"
  "rf_refund_number (processing_row env pid a r) = rf_refund_number r"
  "rf_cancellation_fee (processing_row env pid a r) = rf_cancellation_fee r"
  by (simp_all add: processing_row_def Let_def)

lemma failed_row_fields [simp]:
  "rf_id (failed_row reason r) = rf_id r" "rf_payment_id (failed_row reason r) = rf_payment_id r"
  "rf_booking_id (failed_row reason r) = rf_booking_id r"
  "rf_idempotency_key (failed_row reason r) = rf_idempotency_key r"
  "rf_status (failed_row reason r) = RS_FAILED"
  "rf_refunded_amount (failed_row reason r) = rf_refunded_amount r"
  "rf_refund_method (failed_row reason r) = rf_refund_method r"
  "rf_refund_number (failed_row reason r) = rf_refund_number r"
  "rf_cancellation_fee (failed_row reason r) = rf_cancellation_fee r"
  by (simp_all add: failed_row_def Let_def)

lemma reversed_payment_fields [simp]:
  "pm_id (reversed_payment w v p) = pm_id p" "pm_total_amount (reversed_payment w v p) = pm_total_amount p"
  "pm_amount_refunded (reversed_payment w v p) = v" "pm_booking_id (reversed_payment w v p) = pm_booking_id p"
  "pm_status (reversed_payment w v p) = pm_status p"
  by (simp_all add: reversed_payment_def)

lemma payment_of_put [simp]: "payment_of r (put_refund x db) = payment_of r db"
  by (simp add: payment_of_def payment_by_id_def split: option.splits)

lemma completed_row_fields [simp]:
  "rf_id (completed_row env pr r) = rf_id r" "rf_payment_id (completed_row env pr r) = rf_payment_id r"
  "rf_booking_id (completed_row env pr r) = rf_booking_id r"
  "rf_idempotency_key (completed_row env pr r) = rf_idempotency_key r"
  "rf_status (completed_row env pr r) = RS_COMPLETED"
  "rf_refunded_amount (completed_row env pr r) = rf_refunded_amount r"
  "rf_refund_method (completed_row env pr r) = rf_refund_method r"
  "rf_refund_number (completed_row env pr r) = rf_refund_number r"
  "rf_cancellation_fee (completed_row env pr r) = rf_cancellation_fee r"
  by (simp_all add: completed_row_def Let_def)

lemma settle_payment_fields:
  "settle_payment p r db = (p', fl) \<Longrightarrow> pm_id p' = pm_id p \<and> pm_total_amount p' = pm_total_amount p
     \<and> pm_booking_id p' = pm_booking_id p
     \<and> pm_amount_refunded p' = max (completed_total p None db) (dec (pm_amount_refunded p) + dec (rf_refunded_amount r))"
  by (auto simp: settle_payment_def Let_def)

text \<open>The amount of a refund fits the payment beside the refunds already counted.\<close>

definition fits :: "RefundStatus list \<Rightarrow> Payment \<Rightarrow> uuid option \<Rightarrow> rat \<Rightarrow> refund_db \<Rightarrow> bool" where
  "fits sts p excl amt db \<longleftrightarrow> \<not> (dec (pm_total_amount p) + TOLERANCE < refund_sum (pm_id p) sts excl db + amt)"

lemma request_effect:
  assumes "refund_request env b po amt fee ty m reason notes key actor db = Inr (r, created, db')"
  shows "created = False \<and> db' = db \<and> r \<in> set (db_refunds db) \<and> rf_idempotency_key r = key \<and> truthy key
       \<or> created \<and> db_refunds db' = db_refunds db @ [r] \<and> db_payments db' = db_payments db \<and> db_events db' = db_events db
         \<and> r = new_refund env b po (dec amt) (dec fee) ty m reason notes key actor db
         \<and> 0 < dec amt \<and> 0 \<le> dec fee
         \<and> (truthy key \<longrightarrow> key \<notin> rf_idempotency_key ` set (db_refunds db))
         \<and> (\<forall>p. po = Some p \<longrightarrow> fits (RS_COMPLETED # OPEN_STATUSES) p None (dec amt) db)"
  using assms
  by (auto simp: refund_request_def Let_def ebind_Inr_iff fits_def committed_total_def find_Some_iff find_None_iff
      split: option.splits if_splits)

lemma update_effect:
  assumes "update_requested_amounts r po amt fee db = Inr (r', db')"
  shows "moved r r' db db' \<and> rf_status r = RS_REQUESTED \<and> rf_status r' = RS_REQUESTED
       \<and> rf_refunded_amount r' = dec amt \<and> 0 < dec amt \<and> rf_refund_method r' = rf_refund_method r
       \<and> db_events db' = db_events db \<and> db_payments db' = db_payments db
       \<and> (\<forall>p. po = Some p \<longrightarrow> fits (RS_COMPLETED # OPEN_STATUSES) p (Some (rf_id r)) (dec amt) db)"
  using assms
  by (auto simp: update_requested_amounts_def Let_def ebind_Inr_iff moved_def fits_def committed_total_def
      split: option.splits if_splits)

lemma reject_effect:
  assumes "refund_reject env r reason actor db = Inr (r', db')"
  shows "db' = db \<and> r' = r \<or> moved r r' db db' \<and> rf_status r = RS_REQUESTED \<and> rf_status r' = RS_REJECTED
       \<and> rf_refunded_amount r' = rf_refunded_amount r \<and> rf_refund_method r' = rf_refund_method r
       \<and> db_events db' = db_events db \<and> db_payments db' = db_payments db"
  using assms by (auto simp: refund_reject_def Let_def moved_def split: if_splits)

lemma approve_effect:
  assumes "refund_approve env r m amt notes actor db = Inr (r', db')"
  shows "db' = db \<and> r' = r \<or> moved r r' db db' \<and> rf_status r = RS_REQUESTED \<and> rf_status r' = RS_APPROVED
       \<and> rf_refunded_amount r' = dec amt \<and> 0 < dec amt
       \<and> rf_refund_method r' = refund_method_value (RefundMethod_normalise (Some m))
       \<and> db_events db' = db_events db \<and> db_payments db' = db_payments db
       \<and> (RefundMethod_normalise (Some m) \<noteq> RM_LOYALTY_POINTS \<longrightarrow>
           (\<forall>p. payment_of r db = Some p \<longrightarrow> fits (RS_COMPLETED # OPEN_STATUSES) p (Some (rf_id r)) (dec amt) db))"
  using assms
  by (auto simp: refund_approve_def Let_def ebind_Inr_iff moved_def fits_def committed_total_def
      split: option.splits if_splits)

lemma processing_effect:
  assumes "mark_processing env r pid actor db = Inr (r', db')"
  shows "db' = db \<and> r' = r \<or> moved r r' db db' \<and> rf_status r \<in> {RS_REQUESTED, RS_APPROVED} \<and> rf_status r' = RS_PROCESSING
       \<and> rf_refunded_amount r' = rf_refunded_amount r \<and> rf_refund_method r' = ''payment_gateway''
       \<and> db_events db' = db_events db \<and> db_payments db' = db_payments db"
  using assms by (auto simp: mark_processing_def Let_def moved_def split: if_splits)

text \<open>How the refunded summary of the payment follows a move.\<close>

definition payments_follow :: "Refund \<Rightarrow> Refund \<Rightarrow> refund_db \<Rightarrow> refund_db \<Rightarrow> bool" where
  "payments_follow r r' db db' \<longleftrightarrow>
     (case payment_of r db of
        None \<Rightarrow> db_payments db' = db_payments db
      | Some p \<Rightarrow>
          db_payments db' = db_payments db
            \<and> (RS_COMPLETED \<notin> {rf_status r, rf_status r'} \<or> is_loyalty_method (rf_refund_method r))
          \<or> (\<exists>p'. db_payments db' = replace_row pm_id p' (db_payments db) \<and> pm_id p' = pm_id p
               \<and> (rf_status r' = RS_COMPLETED \<and> pm_amount_refunded p'
                      = max (completed_total p None db') (dec (pm_amount_refunded p) + dec (rf_refunded_amount r))
                  \<or> rf_status r' = RS_FAILED \<and> pm_amount_refunded p' = completed_total p None db')))"

lemma payments_follow_same:
  "db_payments db' = db_payments db \<Longrightarrow> RS_COMPLETED \<notin> {rf_status r, rf_status r'} \<Longrightarrow> payments_follow r r' db db'"
  by (simp add: payments_follow_def split: option.splits)

lemma completed_total_cong: "db_refunds a = db_refunds b \<Longrightarrow> completed_total p e a = completed_total p e b"
  by (simp add: completed_total_def refund_sum_def)

lemma complete_payments:
  assumes "refund_complete env r src pr actor pub db = Inr (r', True, db')"
  shows "payments_follow r r' db db'"
proof (cases "payment_of r db")
  case None
  with assms show ?thesis
    by (auto simp: refund_complete_def Let_def payments_follow_def split: option.splits if_splits)
next
  case (Some p)
  let ?r = "completed_row env pr r"
  obtain p' fl where st: "settle_payment p ?r (put_refund ?r db) = (p', fl)" by fastforce
  have eq: "completed_total p None db' = completed_total p None (put_refund ?r db)"
    by (rule completed_total_cong)
       (use assms st Some in \<open>auto simp: refund_complete_def Let_def ebind_Inr_iff split: option.splits if_splits\<close>)
  have "db_payments db' = (if is_loyalty_method (rf_refund_method r) then db_payments db
      else replace_row pm_id p' (db_payments db)) \<and> r' = ?r"
    using assms st Some
    by (auto simp: refund_complete_def Let_def ebind_Inr_iff split: option.splits if_splits)
  with settle_payment_fields[OF st] Some eq show ?thesis
    by (auto simp: payments_follow_def)
qed

lemma fail_payments:
  assumes "refund_fail r reason src pr actor db = (r', db')" "rf_status r \<notin> {RS_FAILED, RS_CANCELLED}"
  shows "payments_follow r r' db db'"
proof (cases "payment_of r db")
  case None
  then have "payment_of (failed_row reason r) db = None" by (simp add: payment_of_def)
  with None assms show ?thesis
    by (auto simp: refund_fail_def Let_def payments_follow_def)
next
  case (Some p)
  let ?r = "failed_row reason r"
  let ?p = "reversed_payment (rf_status r = RS_COMPLETED) (completed_total p None (put_refund ?r db)) p"
  have p: "payment_of ?r db = Some p" using Some by (simp add: payment_of_def)
  have "db_refunds db' = db_refunds (put_refund ?r db) \<and> db_payments db' = replace_row pm_id ?p (db_payments db) \<and> r' = ?r"
    using assms p by (auto simp: refund_fail_def Let_def split: option.splits if_splits)
  with completed_total_cong[of db' "put_refund ?r db" p None] Some show ?thesis
    by (auto simp: payments_follow_def)
qed

lemma complete_effect:
  assumes "refund_complete env r src pr actor pub db = Inr (r', changed, db')"
    and keys: "distinct (map pm_id (db_payments db))"
  shows "changed = False \<and> db' = db \<and> r' = r \<and> rf_status r = RS_COMPLETED
       \<or> changed \<and> moved r r' db db' \<and> rf_status r \<in> set OPEN_STATUSES \<and> rf_status r' = RS_COMPLETED
         \<and> rf_refunded_amount r' = rf_refunded_amount r \<and> rf_refund_method r' = rf_refund_method r
         \<and> map ev_refund_id (db_events db') = map ev_refund_id (db_events db) @ (if pub then [rf_id r] else [])
         \<and> (\<not> is_loyalty_method (rf_refund_method r) \<longrightarrow>
             (\<forall>p. payment_of r db = Some p \<longrightarrow> fits [RS_COMPLETED] p (Some (rf_id r)) (dec (rf_refunded_amount r)) db))"
proof -
  have pk: "payment_keys (put_payment p' (put_refund x db)) = payment_keys db"
    if "payment_of r db = Some p" "settle_payment p x' dbx = (p', fl)" for p p' x x' dbx fl
  proof -
    from payment_of_row[OF that(1)] settle_payment_fields[OF that(2)] keys
    show ?thesis using payment_keys_put[of "put_refund x db" p p'] by simp
  qed
  show ?thesis using assms(1) pk
    by (auto simp: refund_complete_def Let_def ebind_Inr_iff moved_def fits_def completed_total_def
        split: option.splits if_splits prod.splits)
qed

lemma fail_effect:
  assumes "refund_fail r reason src pr actor db = (r', db')"
    and keys: "distinct (map pm_id (db_payments db))"
  shows "db' = db \<and> r' = r \<or> moved r r' db db' \<and> rf_status r \<notin> {RS_FAILED, RS_CANCELLED} \<and> rf_status r' = RS_FAILED
       \<and> rf_refunded_amount r' = rf_refunded_amount r \<and> rf_refund_method r' = rf_refund_method r
       \<and> db_events db' = db_events db"
proof -
  have pk: "payment_keys (put_payment (reversed_payment w v p) (put_refund x db)) = payment_keys db"
    if "payment_of y db = Some p" for p v w x y
    using payment_keys_put[of "put_refund x db" p "reversed_payment w v p"] keys payment_of_row[OF that] by simp
  show ?thesis using assms(1)
    by (auto simp: refund_fail_def Let_def moved_def pk split: option.splits if_splits)
qed

section \<open>Runs of the lifecycle\<close>

text \<open>
  One call of a lifecycle operation that succeeds. The rows handed in are rows of the tables and
  a new refund's key is fresh. In a \<open>cash\<close> run no refund is paid in loyalty points and amounts
  are only changed against the refund's own payment.
\<close>

inductive refund_step :: "bool \<Rightarrow> refund_db \<Rightarrow> refund_db \<Rightarrow> bool" for cash where
  request: "refund_step cash db db'"
    if "refund_request env b po amt fee ty m reason notes key actor db = Inr (r, created, db')"
      "env_uuid env \<notin> rf_id ` set (db_refunds db)" "set_option po \<subseteq> set (db_payments db)"
      "cash \<longrightarrow> \<not> is_loyalty_method m"
| update: "refund_step cash db db'"
    if "update_requested_amounts r po amt fee db = Inr (r', db')" "r \<in> set (db_refunds db)"
      "set_option po \<subseteq> set (db_payments db)" "cash \<longrightarrow> po = payment_of r db"
| reject: "refund_step cash db db'"
    if "refund_reject env r reason actor db = Inr (r', db')" "r \<in> set (db_refunds db)"
| approve: "refund_step cash db db'"
    if "refund_approve env r m amt notes actor db = Inr (r', db')" "r \<in> set (db_refunds db)"
      "cash \<longrightarrow> RefundMethod_normalise (Some m) \<noteq> RM_LOYALTY_POINTS"
| processing: "refund_step cash db db'"
    if "mark_processing env r pid actor db = Inr (r', db')" "r \<in> set (db_refunds db)"
| complete: "refund_step cash db db'"
    if "refund_complete env r src pr actor pub db = Inr (r', changed, db')" "r \<in> set (db_refunds db)"
| fail: "refund_step cash db db'"
    if "refund_fail r reason src pr actor db = (r', db')" "r \<in> set (db_refunds db)"

text \<open>Payments before any refund: nothing refunded yet, amounts in whole fils.\<close>

definition refund_start :: "refund_db \<Rightarrow> bool" where
  "refund_start db \<longleftrightarrow> db_refunds db = [] \<and> db_events db = [] \<and> distinct (map pm_id (db_payments db)) \<and>
     list_all (\<lambda>p. fils (pm_total_amount p) \<and> 0 \<le> pm_total_amount p \<and> pm_amount_refunded p = 0) (db_payments db)"

inductive refund_reachable :: "bool \<Rightarrow> refund_db \<Rightarrow> bool" for cash where
  start: "refund_start db \<Longrightarrow> refund_reachable cash db"
| step: "refund_reachable cash db \<Longrightarrow> refund_step cash db db' \<Longrightarrow> refund_reachable cash db'"

text \<open>The amounts counted for a payment: refunds in the given statuses, with or without points.\<close>

definition counted :: "RefundStatus list \<Rightarrow> uuid \<Rightarrow> Refund \<Rightarrow> rat" where
  "counted sts pid r =
     (if rf_payment_id r = Some pid \<and> rf_status r \<in> set sts then rf_refunded_amount r else 0)"

definition total_counted :: "RefundStatus list \<Rightarrow> uuid \<Rightarrow> refund_db \<Rightarrow> rat" where
  "total_counted sts pid db = sum_list (map (counted sts pid) (db_refunds db))"

definition money_counted :: "uuid \<Rightarrow> Refund \<Rightarrow> rat" where
  "money_counted pid r = (if is_loyalty_method (rf_refund_method r) then 0 else counted [RS_COMPLETED] pid r)"

definition money_completed :: "uuid \<Rightarrow> refund_db \<Rightarrow> rat" where
  "money_completed pid db = sum_list (map (money_counted pid) (db_refunds db))"

definition amounts_ok :: "refund_db \<Rightarrow> bool" where
  "amounts_ok db \<longleftrightarrow> distinct (map pm_id (db_payments db)) \<and> distinct (map rf_id (db_refunds db)) \<and>
     (\<forall>r\<in>set (db_refunds db). fils (rf_refunded_amount r) \<and> 0 < rf_refunded_amount r) \<and>
     (\<forall>(i, t)\<in>set (payment_keys db). fils t \<and> 0 \<le> t)"

text \<open>Each step as one of three changes, with the status pairs it may cause.\<close>

definition refund_moves :: "(RefundStatus \<times> RefundStatus) list" where
  "refund_moves =
     [(RS_REQUESTED, RS_REQUESTED), (RS_REQUESTED, RS_APPROVED), (RS_REQUESTED, RS_REJECTED),
      (RS_REQUESTED, RS_PROCESSING), (RS_REQUESTED, RS_COMPLETED), (RS_REQUESTED, RS_FAILED),
      (RS_APPROVED, RS_PROCESSING), (RS_APPROVED, RS_COMPLETED), (RS_APPROVED, RS_FAILED),
      (RS_PROCESSING, RS_COMPLETED), (RS_PROCESSING, RS_FAILED), (RS_REJECTED, RS_FAILED),
      (RS_COMPLETED, RS_FAILED)]"

lemma dec_fils [simp]: "fils (dec x)" and dec_exact [simp]: "fils x \<Longrightarrow> dec x = x"
  by (simp_all add: dec_def)

lemma refund_step_cases [consumes 2, case_names same new move]:
  assumes "refund_step cash db db'" and keys: "distinct (map pm_id (db_payments db))"
  obtains "db' = db"
  | r where "db_refunds db' = db_refunds db @ [r]" "payment_keys db' = payment_keys db"
      "map ev_refund_id (db_events db') = map ev_refund_id (db_events db)"
      "rf_id r \<notin> rf_id ` set (db_refunds db)" "rf_status r = RS_REQUESTED"
      "fils (rf_refunded_amount r)" "0 < rf_refunded_amount r" "cash \<longrightarrow> \<not> is_loyalty_method (rf_refund_method r)"
      "\<And>pid. rf_payment_id r = Some pid \<Longrightarrow> \<exists>p\<in>set (db_payments db). pm_id p = pid \<and>
         fits (RS_COMPLETED # OPEN_STATUSES) p None (rf_refunded_amount r) db"
      "db_payments db' = db_payments db"
      "truthy (rf_idempotency_key r) \<longrightarrow> rf_idempotency_key r \<notin> rf_idempotency_key ` set (db_refunds db)"
  | r r' pub where "r \<in> set (db_refunds db)" "moved r r' db db'"
      "(rf_status r, rf_status r') \<in> set refund_moves"
      "map ev_refund_id (db_events db') = map ev_refund_id (db_events db) @ (if pub then [rf_id r] else [])"
      "pub \<longrightarrow> rf_status r' = RS_COMPLETED"
      "rf_refunded_amount r' = rf_refunded_amount r \<or> fils (rf_refunded_amount r') \<and> 0 < rf_refunded_amount r'"
      "rf_status r' = RS_COMPLETED \<longrightarrow> rf_refunded_amount r' = rf_refunded_amount r \<and> rf_refund_method r' = rf_refund_method r
         \<and> (\<not> is_loyalty_method (rf_refund_method r) \<longrightarrow>
             (\<forall>p. payment_of r db = Some p \<longrightarrow> fits [RS_COMPLETED] p (Some (rf_id r)) (dec (rf_refunded_amount r)) db))"
      "cash \<longrightarrow> rf_refunded_amount r' \<noteq> rf_refunded_amount r \<longrightarrow>
         (\<forall>p. payment_of r db = Some p \<longrightarrow> fits (RS_COMPLETED # OPEN_STATUSES) p (Some (rf_id r)) (rf_refunded_amount r') db)"
      "cash \<longrightarrow> \<not> is_loyalty_method (rf_refund_method r) \<longrightarrow> \<not> is_loyalty_method (rf_refund_method r')"
      "payments_follow r r' db db'"
  using assms(1)
proof cases
  case (request env b po amt fee ty m reason nts key actor r created)
  have new: "rf_refunded_amount (new_refund env b po (dec amt) (dec fee) ty m reason nts key actor db) = dec amt"
    "rf_payment_id (new_refund env b po (dec amt) (dec fee) ty m reason nts key actor db) = map_option pm_id po"
    by (simp_all add: new_refund_def)
  from request_effect[OF request(1)] show ?thesis
  proof (elim disjE conjE)
    assume eff: "db_refunds db' = db_refunds db @ [r]" "db_payments db' = db_payments db"
      "db_events db' = db_events db"
      "r = new_refund env b po (dec amt) (dec fee) ty m reason nts key actor db" "0 < dec amt"
      "\<forall>p. po = Some p \<longrightarrow> fits (RS_COMPLETED # OPEN_STATUSES) p None (dec amt) db"
      "truthy key \<longrightarrow> key \<notin> rf_idempotency_key ` set (db_refunds db)"
    show ?thesis
      by (rule that(2)[of r]) (use eff request in \<open>auto simp: new_refund_def payment_keys_def\<close>)
  qed (use that(1) in simp)
next
  case (update r po amt fee r')
  note eff = update_effect[OF update(1)]
  show ?thesis
    by (rule that(3)[of r r' False]) (use eff update in \<open>auto simp: refund_moves_def payments_follow_same\<close>)
next
  case (reject env r reason actor r')
  from reject_effect[OF reject(1)] show ?thesis
    by (elim disjE conjE) (use that(1) that(3)[of r r' False] reject in \<open>auto simp: refund_moves_def payments_follow_same\<close>)
next
  case (approve env r m amt nts actor r')
  have loy: "is_loyalty_method (refund_method_value k) \<longleftrightarrow> k = RM_LOYALTY_POINTS" for k
    by (cases k; simp add: is_loyalty_method_def; code_simp)
  from approve_effect[OF approve(1)] show ?thesis
    by (elim disjE conjE) (use that(1) that(3)[of r r' False] approve loy in \<open>auto simp: refund_moves_def payments_follow_same\<close>)
next
  case (processing env r pid actor r')
  have gw: "\<not> is_loyalty_method ''payment_gateway''" by code_simp
  from processing_effect[OF processing(1)] show ?thesis
    by (elim disjE conjE) (use that(1) that(3)[of r r' False] processing gw in \<open>auto simp: refund_moves_def payments_follow_same\<close>)
next
  case (complete env r src pr actor pub r' changed)
  from complete_effect[OF complete(1) keys] show ?thesis
    by (elim disjE conjE) (use that(1) that(3)[of r r' pub] complete complete_payments[of env r src pr actor pub db r' db'] in \<open>auto simp: refund_moves_def OPEN_STATUSES_def\<close>)
next
  case (fail r reason src pr actor r')
  from fail_effect[OF fail(1) keys] show ?thesis
  proof (elim disjE conjE)
    assume *: "moved r r' db db'" "rf_status r \<notin> {RS_FAILED, RS_CANCELLED}" "rf_status r' = RS_FAILED"
      "rf_refunded_amount r' = rf_refunded_amount r" "rf_refund_method r' = rf_refund_method r" "db_events db' = db_events db"
    then have "(rf_status r, rf_status r') \<in> set refund_moves" by (cases "rf_status r") (auto simp: refund_moves_def)
    with * fail fail_payments[OF fail(1)] show ?thesis by (intro that(3)[of r r' False]) auto
  qed (use that(1) in simp)
qed

section \<open>Invariants of the runs\<close>

lemma refund_sum_eq:
  assumes "amounts_ok db" shows "refund_sum pid sts None db = total_counted sts pid db"
proof -
  have "fils (sum_list (map (counted sts pid) (db_refunds db)))"
    using assms by (intro fils_sum_list) (auto simp: counted_def amounts_ok_def)
  then show ?thesis
    by (simp add: refund_sum_def total_counted_def sum_filter_if counted_def[abs_def])
qed

lemma refund_sum_excl:
  assumes ok: "amounts_ok db" and r: "r \<in> set (db_refunds db)"
  shows "refund_sum pid sts (Some (rf_id r)) db = total_counted sts pid db - counted sts pid r"
proof -
  let ?g = "\<lambda>x. if rf_id x = rf_id r then 0 else counted sts pid x"
  have "fils (sum_list (map ?g (db_refunds db)))"
    using ok by (intro fils_sum_list) (auto simp: counted_def amounts_ok_def)
  moreover have "(\<lambda>x. if (rf_payment_id x = Some pid \<and> rf_status x \<in> set sts \<and> rf_id x \<noteq> rf_id r)
      then rf_refunded_amount x else 0) = ?g"
    by (auto simp: counted_def)
  ultimately have "refund_sum pid sts (Some (rf_id r)) db = sum_list (map ?g (db_refunds db))"
    by (simp add: refund_sum_def sum_filter_if)
  then show ?thesis
    using ok r sum_exclude_row[of rf_id "db_refunds db" r "counted sts pid"]
    by (simp add: total_counted_def amounts_ok_def)
qed

lemma moved_sum:
  assumes "amounts_ok db" "r \<in> set (db_refunds db)" "moved r r' db db'"
  shows "sum_list (map g (db_refunds db')) = sum_list (map g (db_refunds db)) - g r + (g r' :: rat)"
  using assms sum_replace_row[of rf_id "db_refunds db" r r' g] by (simp add: amounts_ok_def moved_def)

lemma amounts_nonneg: "amounts_ok db \<Longrightarrow> r \<in> set (db_refunds db) \<Longrightarrow> 0 \<le> counted sts pid r \<and> fils (counted sts pid r)"
  by (auto simp: counted_def amounts_ok_def intro: less_imp_le)

lemma payment_keys_iff:
  "(i, t) \<in> set (payment_keys db) \<longleftrightarrow> (\<exists>p\<in>set (db_payments db). pm_id p = i \<and> pm_total_amount p = t)"
  by (auto simp: payment_keys_def)

lemma payment_of_key:
  assumes "amounts_ok db" "p \<in> set (db_payments db)" "rf_payment_id r = Some (pm_id p)"
  shows "payment_of r db = Some p"
  using assms find_key_row[of pm_id "db_payments db" p] by (simp add: payment_of_def payment_by_id_def amounts_ok_def)

lemma amounts_ok_total: "amounts_ok db \<Longrightarrow> p \<in> set (db_payments db) \<Longrightarrow> fils (pm_total_amount p) \<and> 0 \<le> pm_total_amount p"
  by (force simp: amounts_ok_def payment_keys_iff)

lemma moved_set: "moved r r' db db' \<Longrightarrow> x \<in> set (db_refunds db') \<Longrightarrow> x = r' \<or> x \<in> set (db_refunds db)"
  using set_replace_row[of rf_id r' "db_refunds db"] by (auto simp: moved_def)

lemma refund_step_amounts:
  assumes "refund_step cash db db'" "amounts_ok db"
  shows "amounts_ok db'"
proof -
  have keys: "distinct (map pm_id (db_payments db))" using assms(2) by (simp add: amounts_ok_def)
  have pk: "map pm_id (db_payments d) = map fst (payment_keys d)" for d by (simp add: payment_keys_def)
  from assms(1) keys show ?thesis
  proof (cases rule: refund_step_cases)
    case (new r)
    then show ?thesis using assms(2) pk[of db'] pk[of db] by (auto simp: amounts_ok_def)
  next
    case (move r r' pub)
    have "distinct (map pm_id (db_payments db'))"
      using keys move(2) unfolding pk by (simp add: moved_def)
    moreover have "distinct (map rf_id (db_refunds db'))"
      using assms(2) move(2) by (simp add: moved_def amounts_ok_def)
    moreover have "fils (rf_refunded_amount x) \<and> 0 < rf_refunded_amount x" if "x \<in> set (db_refunds db')" for x
      using moved_set[OF move(2) that] move(1,6) assms(2) unfolding amounts_ok_def by metis
    moreover have "payment_keys db' = payment_keys db" using move(2) by (simp add: moved_def)
    ultimately show ?thesis using assms(2) unfolding amounts_ok_def by simp
  qed (use assms in simp)
qed

lemma refund_start_amounts: "refund_start db \<Longrightarrow> amounts_ok db"
  by (auto simp: refund_start_def amounts_ok_def payment_keys_def list_all_iff)

lemma refund_reachable_amounts: "refund_reachable cash db \<Longrightarrow> amounts_ok db"
  by (induction rule: refund_reachable.induct) (auto intro: refund_start_amounts refund_step_amounts)

text \<open>A refund that passed the check leaves the payment within its total.\<close>

lemma fits_bound:
  assumes "fits sts p excl amt db" "fils (refund_sum (pm_id p) sts excl db)" "fils amt" "fils (pm_total_amount p)"
  shows "refund_sum (pm_id p) sts excl db + amt \<le> pm_total_amount p"
  using assms fils_tolerance(1)[of "refund_sum (pm_id p) sts excl db + amt" "pm_total_amount p"]
  by (auto simp: fits_def TOLERANCE_def)

lemma refund_sum_fils [simp]: "fils (refund_sum pid sts excl db)"
  by (simp add: refund_sum_def)

definition money_capped :: "refund_db \<Rightarrow> bool" where
  "money_capped db \<longleftrightarrow> (\<forall>(i, t)\<in>set (payment_keys db). money_completed i db \<le> t)"

lemma money_le_counted:
  assumes "amounts_ok db" shows "money_completed i db \<le> total_counted [RS_COMPLETED] i db"
  unfolding money_completed_def total_counted_def
  using amounts_nonneg[OF assms] by (intro sum_list_map_mono) (auto simp: money_counted_def)

lemma refund_step_money:
  assumes step: "refund_step cash db db'" and ok: "amounts_ok db" and cap: "money_capped db"
  shows "money_capped db'"
proof -
  have keys: "distinct (map pm_id (db_payments db))" using ok by (simp add: amounts_ok_def)
  from step keys show ?thesis
  proof (cases rule: refund_step_cases)
    case (new r)
    then have "money_completed i db' = money_completed i db" for i
      by (simp add: money_completed_def money_counted_def counted_def)
    with cap new(2) show ?thesis by (simp add: money_capped_def)
  next
    case (move r r' pub)
    have sums: "money_completed i db' = money_completed i db - money_counted i r + money_counted i r'" for i
      unfolding money_completed_def by (rule moved_sum[OF ok move(1,2)])
    have "money_completed i db' \<le> t" if it: "(i, t) \<in> set (payment_keys db)" for i t
    proof (cases "money_counted i r' = 0")
      case True
      have "0 \<le> money_counted i r" using amounts_nonneg[OF ok move(1)] by (simp add: money_counted_def)
      with True sums cap it show ?thesis by (fastforce simp: money_capped_def)
    next
      case False
      then have r': "rf_status r' = RS_COMPLETED" "rf_payment_id r = Some i" "\<not> is_loyalty_method (rf_refund_method r')"
        using move(2) by (auto simp: money_counted_def counted_def moved_def split: if_splits)
      from it obtain p where p: "p \<in> set (db_payments db)" "pm_id p = i" "pm_total_amount p = t"
        by (auto simp: payment_keys_iff)
      then have pay: "payment_of r db = Some p" using payment_of_key[OF ok] r'(2) by simp
      have st: "rf_status r \<noteq> RS_COMPLETED" using move(3) r'(1) by (auto simp: refund_moves_def)
      have amt: "fils (rf_refunded_amount r)" using ok move(1) by (simp add: amounts_ok_def)
      have "fits [RS_COMPLETED] p (Some (rf_id r)) (rf_refunded_amount r) db"
        using move(7) r' pay amt by auto
      from fits_bound[OF this refund_sum_fils amt] have "total_counted [RS_COMPLETED] i db - counted [RS_COMPLETED] i r
          + rf_refunded_amount r \<le> t"
        using p amounts_ok_total[OF ok p(1)] refund_sum_excl[OF ok move(1)] by simp
      moreover have "counted [RS_COMPLETED] i r = 0" "money_counted i r = 0" "money_counted i r' = rf_refunded_amount r"
        using st r' move(2,7) by (auto simp: counted_def money_counted_def moved_def)
      ultimately show ?thesis using sums[of i] money_le_counted[OF ok, of i] by simp
    qed
    with move(2) show ?thesis by (auto simp: money_capped_def moved_def)
  qed (use cap in simp)
qed

text \<open>Invariant of the cash runs.\<close>

definition cash_inv :: "refund_db \<Rightarrow> bool" where
  "cash_inv db \<longleftrightarrow>
     (\<forall>r\<in>set (db_refunds db). \<not> is_loyalty_method (rf_refund_method r)) \<and>
     (\<forall>(i, t)\<in>set (payment_keys db). total_counted (RS_COMPLETED # OPEN_STATUSES) i db \<le> t) \<and>
     (\<forall>p\<in>set (db_payments db). pm_amount_refunded p = total_counted [RS_COMPLETED] (pm_id p) db)"

lemma total_counted_nonneg: "amounts_ok db \<Longrightarrow> 0 \<le> total_counted sts i db \<and> fils (total_counted sts i db)"
  unfolding total_counted_def using amounts_nonneg by (intro conjI sum_list_map_nonneg fils_sum_list) blast+

lemma completed_total_eq: "amounts_ok db \<Longrightarrow> completed_total p None db = total_counted [RS_COMPLETED] (pm_id p) db"
  by (simp add: completed_total_def refund_sum_eq)

lemma moved_total_counted:
  assumes "amounts_ok db" "r \<in> set (db_refunds db)" "moved r r' db db'"
  shows "total_counted sts i db' = total_counted sts i db - counted sts i r + counted sts i r'"
  unfolding total_counted_def by (rule moved_sum[OF assms])

lemma counted_other: "rf_payment_id r \<noteq> Some i \<Longrightarrow> counted sts i r = 0"
  by (simp add: counted_def)

lemma move_committed:
  assumes ok: "amounts_ok db" and r: "r \<in> set (db_refunds db)" and mv: "moved r r' db db'"
    and st: "(rf_status r, rf_status r') \<in> set refund_moves"
    and fit: "rf_refunded_amount r' \<noteq> rf_refunded_amount r \<longrightarrow>
         (\<forall>p. payment_of r db = Some p \<longrightarrow> fits (RS_COMPLETED # OPEN_STATUSES) p (Some (rf_id r)) (rf_refunded_amount r') db)"
    and amt: "fils (rf_refunded_amount r')"
    and it: "(i, t) \<in> set (payment_keys db)" and le: "total_counted (RS_COMPLETED # OPEN_STATUSES) i db \<le> t"
  shows "total_counted (RS_COMPLETED # OPEN_STATUSES) i db' \<le> t"
proof (cases "rf_payment_id r = Some i \<and> rf_refunded_amount r' \<noteq> rf_refunded_amount r")
  case True
  from it obtain p where p: "p \<in> set (db_payments db)" "pm_id p = i" "pm_total_amount p = t"
    by (auto simp: payment_keys_iff)
  with True fit payment_of_key[OF ok p(1)] have "fits (RS_COMPLETED # OPEN_STATUSES) p (Some (rf_id r)) (rf_refunded_amount r') db"
    by simp
  from fits_bound[OF this refund_sum_fils amt] have
    "total_counted (RS_COMPLETED # OPEN_STATUSES) i db - counted (RS_COMPLETED # OPEN_STATUSES) i r + rf_refunded_amount r' \<le> t"
    using p amounts_ok_total[OF ok p(1)] refund_sum_excl[OF ok r] by simp
  moreover have "0 \<le> counted (RS_COMPLETED # OPEN_STATUSES) i r" using amounts_nonneg[OF ok r] by simp
  moreover have "total_counted (RS_COMPLETED # OPEN_STATUSES) i db' = total_counted (RS_COMPLETED # OPEN_STATUSES) i db
      - counted (RS_COMPLETED # OPEN_STATUSES) i r + counted (RS_COMPLETED # OPEN_STATUSES) i r'"
    by (rule moved_total_counted[OF ok r mv])
  moreover have "counted (RS_COMPLETED # OPEN_STATUSES) i r' = rf_refunded_amount r'
      \<or> counted (RS_COMPLETED # OPEN_STATUSES) i r' = 0"
    by (simp add: counted_def)
  ultimately show ?thesis using le by (elim disjE) linarith+
next
  case False
  have "counted (RS_COMPLETED # OPEN_STATUSES) i r' \<le> counted (RS_COMPLETED # OPEN_STATUSES) i r"
  proof (cases "rf_payment_id r = Some i")
    case True
    with False have "rf_refunded_amount r' = rf_refunded_amount r" by simp
    moreover have "0 < rf_refunded_amount r" using ok r by (simp add: amounts_ok_def)
    ultimately show ?thesis using st mv by (auto simp: counted_def moved_def refund_moves_def OPEN_STATUSES_def)
  next
    case False
    with mv show ?thesis by (simp add: counted_def moved_def)
  qed
  with moved_total_counted[OF ok r mv, of "RS_COMPLETED # OPEN_STATUSES" i] le show ?thesis by linarith
qed

lemma move_summary:
  assumes ok: "amounts_ok db" "amounts_ok db'" and r: "r \<in> set (db_refunds db)" and mv: "moved r r' db db'"
    and st: "(rf_status r, rf_status r') \<in> set refund_moves"
    and same: "rf_status r' = RS_COMPLETED \<longrightarrow> rf_refunded_amount r' = rf_refunded_amount r"
    and follow: "payments_follow r r' db db'" and money: "\<not> is_loyalty_method (rf_refund_method r)"
    and inv: "\<forall>p\<in>set (db_payments db). pm_amount_refunded p = total_counted [RS_COMPLETED] (pm_id p) db"
    and p: "p' \<in> set (db_payments db')"
  shows "pm_amount_refunded p' = total_counted [RS_COMPLETED] (pm_id p') db'"
proof (cases "payment_of r db")
  case None
  with follow have "db_payments db' = db_payments db" by (simp add: payments_follow_def)
  with p have p': "p' \<in> set (db_payments db)" by simp
  with None payment_of_key[OF ok(1) p'] have "rf_payment_id r \<noteq> Some (pm_id p')" by auto
  moreover with mv have "rf_payment_id r' \<noteq> Some (pm_id p')" by (simp add: moved_def)
  ultimately show ?thesis using inv p' moved_total_counted[OF ok(1) r mv] by (simp add: counted_other)
next
  case (Some q)
  then have q: "q \<in> set (db_payments db)" "rf_payment_id r = Some (pm_id q)" using payment_of_row by blast+
  have rp: "rf_payment_id r' = Some (pm_id q)" using mv q by (simp add: moved_def)
  from follow Some money consider
    "db_payments db' = db_payments db" "RS_COMPLETED \<notin> {rf_status r, rf_status r'}"
    | q' where "db_payments db' = replace_row pm_id q' (db_payments db)" "pm_id q' = pm_id q"
        "rf_status r' = RS_COMPLETED \<and> pm_amount_refunded q'
            = max (completed_total q None db') (dec (pm_amount_refunded q) + dec (rf_refunded_amount r))
         \<or> rf_status r' = RS_FAILED \<and> pm_amount_refunded q' = completed_total q None db'"
    by (auto simp: payments_follow_def)
  then show ?thesis
  proof cases
    case 1
    then have "counted [RS_COMPLETED] i r = 0" "counted [RS_COMPLETED] i r' = 0" for i by (auto simp: counted_def)
    with 1 show ?thesis using inv p moved_total_counted[OF ok(1) r mv] by simp
  next
    case 2
    show ?thesis
    proof (cases "pm_id p' = pm_id q")
      case True
      then have "p' = q'" using p 2(1,2) by (auto simp: replace_row_def split: if_splits)
      have "dec (pm_amount_refunded q) + dec (rf_refunded_amount r) = total_counted [RS_COMPLETED] (pm_id q) db'"
        if "rf_status r' = RS_COMPLETED"
      proof -
        have "rf_status r \<noteq> RS_COMPLETED" using st that by (auto simp: refund_moves_def)
        then have "counted [RS_COMPLETED] (pm_id q) r = 0" "counted [RS_COMPLETED] (pm_id q) r' = rf_refunded_amount r"
          using that same rp by (simp_all add: counted_def)
        moreover have "fils (rf_refunded_amount r)" using ok(1) r by (simp add: amounts_ok_def)
        ultimately show ?thesis
          using inv q(1) total_counted_nonneg[OF ok(1)] moved_total_counted[OF ok(1) r mv] by simp
      qed
      with 2(3) True \<open>p' = q'\<close> completed_total_eq[OF ok(2), of q] show ?thesis by auto
    next
      case False
      then have "p' \<in> set (db_payments db)" using p 2(1,2) by (auto simp: replace_row_def split: if_splits)
      moreover have "counted [RS_COMPLETED] (pm_id p') r = 0" "counted [RS_COMPLETED] (pm_id p') r' = 0"
        using False q(2) rp by (simp_all add: counted_other)
      ultimately show ?thesis using inv moved_total_counted[OF ok(1) r mv] by simp
    qed
  qed
qed

lemma refund_step_cash:
  assumes step: "refund_step True db db'" and ok: "amounts_ok db" and inv: "cash_inv db"
  shows "cash_inv db'"
proof -
  have ok': "amounts_ok db'" by (rule refund_step_amounts[OF step ok])
  have keys: "distinct (map pm_id (db_payments db))" using ok by (simp add: amounts_ok_def)
  from step keys show ?thesis
  proof (cases rule: refund_step_cases)
    case (new r)
    have add: "total_counted sts i db' = total_counted sts i db + counted sts i r" for sts i
      using new(1) by (simp add: total_counted_def)
    have "total_counted (RS_COMPLETED # OPEN_STATUSES) i db' \<le> t" if it: "(i, t) \<in> set (payment_keys db)" for i t
    proof (cases "rf_payment_id r = Some i")
      case True
      with new(9) obtain p where p: "p \<in> set (db_payments db)" "pm_id p = i"
        "fits (RS_COMPLETED # OPEN_STATUSES) p None (rf_refunded_amount r) db" by blast
      moreover from it p have "pm_total_amount p = t"
        using replace_row_same_key[OF keys p(1)] unfolding payment_keys_iff by metis
      ultimately show ?thesis
        using fits_bound[OF p(3) refund_sum_fils new(6)] amounts_ok_total[OF ok p(1)] refund_sum_eq[OF ok] add new(5) True
        by (simp add: counted_def OPEN_STATUSES_def)
    next
      case False
      with add it inv show ?thesis by (auto simp: cash_inv_def counted_other)
    qed
    moreover have "pm_amount_refunded p = total_counted [RS_COMPLETED] (pm_id p) db'" if "p \<in> set (db_payments db')" for p
      using that new(5,10) add inv by (auto simp: cash_inv_def counted_def)
    moreover have "\<not> is_loyalty_method (rf_refund_method x)" if "x \<in> set (db_refunds db')" for x
      using that inv new(1,8) by (auto simp: cash_inv_def)
    ultimately show ?thesis using new(2) by (simp add: cash_inv_def split_beta)
  next
    case (move r r' pub)
    have "fils (rf_refunded_amount r')"
      using move(1,6) ok by (auto simp: amounts_ok_def)
    then have "total_counted (RS_COMPLETED # OPEN_STATUSES) i db' \<le> t" if "(i, t) \<in> set (payment_keys db)" for i t
      using move_committed[OF ok move(1,2,3) _ _ that] move(8) inv that by (auto simp: cash_inv_def)
    moreover have "pm_amount_refunded p = total_counted [RS_COMPLETED] (pm_id p) db'" if "p \<in> set (db_payments db')" for p
      using move_summary[OF ok ok' move(1,2,3) _ move(10) _ _ that] move(1,7) inv by (simp add: cash_inv_def)
    moreover have "\<not> is_loyalty_method (rf_refund_method x)" if "x \<in> set (db_refunds db')" for x
      using moved_set[OF move(2) that] move(1,9) inv by (auto simp: cash_inv_def)
    moreover have "payment_keys db' = payment_keys db" using move(2) by (simp add: moved_def)
    ultimately show ?thesis by (simp add: cash_inv_def split_beta)
  qed (use inv in simp)
qed

lemma refund_start_cash: "refund_start db \<Longrightarrow> cash_inv db"
  by (auto simp: refund_start_def cash_inv_def total_counted_def payment_keys_def list_all_iff)

lemma cash_reachable_inv: "refund_reachable True db \<Longrightarrow> cash_inv db"
  by (induction rule: refund_reachable.induct)
    (auto intro: refund_start_cash refund_step_cash[OF _ refund_reachable_amounts])

text \<open>Published completions.\<close>

definition events_ok :: "refund_db \<Rightarrow> bool" where
  "events_ok db \<longleftrightarrow> distinct (map ev_refund_id (db_events db)) \<and>
     (\<forall>i\<in>set (map ev_refund_id (db_events db)).
        \<exists>r\<in>set (db_refunds db). rf_id r = i \<and> rf_status r \<in> {RS_COMPLETED, RS_FAILED})"

definition idempotency_ok :: "refund_db \<Rightarrow> bool" where
  "idempotency_ok db \<longleftrightarrow> distinct (filter truthy (map rf_idempotency_key (db_refunds db)))"

lemma moved_row:
  assumes "amounts_ok db" "r \<in> set (db_refunds db)" "moved r r' db db'" "x \<in> set (db_refunds db)"
  shows "if rf_id x = rf_id r then x = r \<and> r' \<in> set (db_refunds db') else x \<in> set (db_refunds db')"
  using assms replace_row_same_key[of rf_id "db_refunds db" r x]
  by (auto simp: moved_def amounts_ok_def replace_row_def image_iff intro!: bexI[of _ x] bexI[of _ r])

lemma refund_step_events:
  assumes step: "refund_step cash db db'" and ok: "amounts_ok db" and ev: "events_ok db"
  shows "events_ok db'"
proof -
  have keys: "distinct (map pm_id (db_payments db))" using ok by (simp add: amounts_ok_def)
  from step keys show ?thesis
  proof (cases rule: refund_step_cases)
    case (move r r' pub)
    have closed: "rf_status r \<in> {RS_COMPLETED, RS_FAILED} \<Longrightarrow> rf_status r' = RS_FAILED"
      using move(3) by (auto simp: refund_moves_def)
    have keep: "\<exists>y\<in>set (db_refunds db'). rf_id y = rf_id x \<and> rf_status y \<in> {RS_COMPLETED, RS_FAILED}"
      if "x \<in> set (db_refunds db)" "rf_status x \<in> {RS_COMPLETED, RS_FAILED}" for x
      using moved_row[OF ok move(1,2) that(1)] closed that move(2)
      by (cases "rf_id x = rf_id r") (auto simp: moved_def)
    show ?thesis
    proof (cases pub)
      case True
      with move(3,5) have "rf_status r \<notin> {RS_COMPLETED, RS_FAILED}" by (auto simp: refund_moves_def)
      then have "rf_id r \<notin> set (map ev_refund_id (db_events db))"
        using ev move(1) ok replace_row_same_key[of rf_id "db_refunds db" r] unfolding events_ok_def amounts_ok_def by metis
      moreover have "\<exists>y\<in>set (db_refunds db'). rf_id y = rf_id r \<and> rf_status y \<in> {RS_COMPLETED, RS_FAILED}"
        using moved_row[OF ok move(1,2,1)] move(2,5) True unfolding moved_def by auto
      moreover have "\<exists>y\<in>set (db_refunds db'). rf_id y = i \<and> rf_status y \<in> {RS_COMPLETED, RS_FAILED}"
        if "i \<in> set (map ev_refund_id (db_events db))" for i
        using ev keep that unfolding events_ok_def by metis
      ultimately show ?thesis using ev True unfolding events_ok_def move(4) by simp
    next
      case False
      moreover have "\<exists>y\<in>set (db_refunds db'). rf_id y = i \<and> rf_status y \<in> {RS_COMPLETED, RS_FAILED}"
        if "i \<in> set (map ev_refund_id (db_events db))" for i
        using ev keep that unfolding events_ok_def by metis
      ultimately show ?thesis using ev unfolding events_ok_def move(4) by simp
    qed
  qed (use ev in \<open>auto simp: events_ok_def\<close>)
qed

lemma refund_step_idempotency:
  assumes step: "refund_step cash db db'" and ok: "amounts_ok db" and inv: "idempotency_ok db"
  shows "idempotency_ok db'"
proof -
  have keys: "distinct (map pm_id (db_payments db))" using ok by (simp add: amounts_ok_def)
  from step keys show ?thesis
  proof (cases rule: refund_step_cases)
    case (move r r' pub)
    have "map rf_idempotency_key (db_refunds db') = map rf_idempotency_key (db_refunds db)"
    proof -
      have "rf_idempotency_key (if rf_id x = rf_id r' then r' else x) = rf_idempotency_key x" if "x \<in> set (db_refunds db)" for x
        using moved_row[OF ok move(1,2) that] move(2) by (auto simp: moved_def split: if_splits)
      with move(2) show ?thesis by (simp add: moved_def replace_row_def)
    qed
    with inv show ?thesis by (simp add: idempotency_ok_def)
  qed (use inv in \<open>auto simp: idempotency_ok_def\<close>)
qed

lemma money_capped_reachable: "refund_reachable cash db \<Longrightarrow> money_capped db"
proof (induction rule: refund_reachable.induct)
  case (start db)
  then show ?case by (auto simp: refund_start_def money_capped_def money_completed_def payment_keys_def list_all_iff)
qed (blast intro: refund_step_money refund_reachable_amounts)

section \<open>Concrete runs\<close>

text \<open>
  One paid booking of 10 KWD with requests, approvals, completions and failures on it, used by
  the witnesses and the example runs.
\<close>

definition ex_payment :: Payment where
  "ex_payment = \<lparr>pm_id = 1, pm_booking_id = Some 7, pm_status = ''success'', pm_total_amount = 10,
     pm_amount_refunded = 0, pm_currency = ''KWD'', pm_payment_gateway = Some ''KNET'',
     pm_payment_provider = Some ''myfatoorah'', pm_transaction_id = None, pm_invoice_id = Some ''77'',
     pm_payment_id = None, pm_invoice_number = None, pm_needs_attention = False, pm_created_at = 0,
     pm_voucher_id = None, pm_payment_link_id = None\<rparr>"

definition ex_booking :: Booking where
  "ex_booking = \<lparr>bk_id = 7, bk_booking_number = None, bk_status = ''cancelled'', bk_payment_status = ''success'',
     bk_payment_ref = None, bk_customer_id = Some 5, bk_branch_id = None, bk_currency = Some ''KWD'', bk_invoice_number = None,
     bk_total_amount = 10, bk_payment_gateway = None, bk_payment_provider = None, bk_internal_notes = None\<rparr>"

definition ex_db :: refund_db where
  "ex_db = \<lparr>db_payments = [ex_payment], db_refunds = [], db_bookings = [ex_booking], db_history = [], db_events = []\<rparr>"

definition ex_env :: "uuid \<Rightarrow> refund_env" where
  "ex_env i = \<lparr>env_now = int i, env_month = ''2026/10'', env_uuid = i\<rparr>"

definition ex_request :: "uuid \<Rightarrow> rat \<Rightarrow> refund_db \<Rightarrow> refund_db" where
  "ex_request i amt db =
     (case refund_request (ex_env i) ex_booking (Some ex_payment) amt 0 RT_MANUAL ''cash'' None None None None db of
        Inl _ \<Rightarrow> db | Inr (_, _, db') \<Rightarrow> db')"

definition ex_complete :: "uuid \<Rightarrow> refund_db \<Rightarrow> refund_db" where
  "ex_complete i db =
     (case refund_by_id i db of None \<Rightarrow> db
      | Some r \<Rightarrow> (case refund_complete (ex_env 9) r ''test'' None None True db of
          Inl _ \<Rightarrow> db | Inr (_, _, db') \<Rightarrow> db'))"

definition ex_approve :: "uuid \<Rightarrow> string \<Rightarrow> rat \<Rightarrow> refund_db \<Rightarrow> refund_db" where
  "ex_approve i m amt db =
     (case refund_by_id i db of None \<Rightarrow> db
      | Some r \<Rightarrow> (case refund_approve (ex_env 8) r m amt None None db of Inl _ \<Rightarrow> db | Inr (_, db') \<Rightarrow> db'))"

definition ex_fail :: "uuid \<Rightarrow> refund_db \<Rightarrow> refund_db" where
  "ex_fail i db =
     (case refund_by_id i db of None \<Rightarrow> db | Some r \<Rightarrow> snd (refund_fail r ''declined'' ''test'' None None db))"

lemma ex_start: "refund_reachable cash ex_db"
  by (rule refund_reachable.start) (simp add: refund_start_def ex_db_def ex_payment_def fils_def)

lemma ex_request_reachable:
  assumes "refund_reachable cash db" "ex_payment \<in> set (db_payments db)" "i \<notin> rf_id ` set (db_refunds db)"
  shows "refund_reachable cash (ex_request i amt db)"
proof (cases "refund_request (ex_env i) ex_booking (Some ex_payment) amt 0 RT_MANUAL ''cash'' None None None None db")
  case (Inr x)
  have "\<not> is_loyalty_method ''cash''" by code_simp
  with Inr assms show ?thesis
    by (cases x) (auto simp: ex_request_def ex_env_def intro!: refund_reachable.step[OF assms(1)] refund_step.request)
qed (use assms(1) in \<open>simp add: ex_request_def\<close>)

lemma refund_by_id_row: "refund_by_id i db = Some r \<Longrightarrow> r \<in> set (db_refunds db)"
  by (auto simp: refund_by_id_def find_Some_iff)

lemma ex_complete_reachable:
  assumes "refund_reachable cash db" shows "refund_reachable cash (ex_complete i db)"
  using assms
  by (auto simp: ex_complete_def split: option.splits sum.splits
      intro!: refund_reachable.step[OF assms] refund_step.complete dest: refund_by_id_row)

definition ex_requested :: refund_db where "ex_requested = ex_request 2 5 (ex_request 1 4 ex_db)"

definition ex_settled :: refund_db where "ex_settled = ex_complete 1 ex_requested"

lemma ex_requested_reachable: "refund_reachable cash ex_requested"
proof -
  have "ex_payment \<in> set (db_payments (ex_request 1 4 ex_db))" "2 \<notin> rf_id ` set (db_refunds (ex_request 1 4 ex_db))"
    by code_simp+
  moreover have "refund_reachable cash (ex_request 1 4 ex_db)"
    by (rule ex_request_reachable[OF ex_start]) (simp_all add: ex_db_def)
  ultimately show ?thesis unfolding ex_requested_def by (rule ex_request_reachable[rotated])
qed

lemma ex_settled_reachable: "refund_reachable cash ex_settled"
  unfolding ex_settled_def by (rule ex_complete_reachable[OF ex_requested_reachable])

lemma ex_settled_payment: "hd (db_payments ex_settled) \<in> set (db_payments ex_settled)"
  by code_simp

section \<open>Properties\<close>

text \<open>
  C2. In every state the lifecycle can reach, the completed refunds of a payment that return
  money (not loyalty points) add up to at most the amount paid, whatever partial refunds,
  changes of amount or method, rejections, provider failures and retries came before.
\<close>

theorem refund_money_capped:
  assumes "refund_reachable cash db" "p \<in> set (db_payments db)"
  shows "money_completed (pm_id p) db \<le> pm_total_amount p"
  using money_capped_reachable[OF assms(1)] assms(2) by (auto simp: money_capped_def payment_keys_def)

theorem refund_money_capped_witness:
  "money_completed (pm_id (hd (db_payments ex_settled))) ex_settled \<le> pm_total_amount (hd (db_payments ex_settled))
   \<and> money_completed 1 ex_settled = 4"
proof -
  have "money_completed 1 ex_settled = 4" by code_simp
  with refund_money_capped[OF ex_settled_reachable ex_settled_payment] show ?thesis by blast
qed



text \<open>
  A refund's completion is announced at most once, however often the confirmation is
  delivered again, and only refunds that did complete are announced.
\<close>

theorem refund_completion_announced_once:
  assumes "refund_reachable cash db"
  shows "distinct (map ev_refund_id (db_events db)) \<and>
    (\<forall>e\<in>set (db_events db). \<exists>r\<in>set (db_refunds db).
       rf_id r = ev_refund_id e \<and> rf_status r \<in> {RS_COMPLETED, RS_FAILED})"
proof -
  have "events_ok db" using assms
  proof induction
    case (start db)
    then show ?case by (auto simp: refund_start_def events_ok_def)
  qed (blast intro: refund_step_events refund_reachable_amounts)
  then show ?thesis by (auto simp: events_ok_def)
qed

theorem refund_completion_announced_once_witness:
  "distinct (map ev_refund_id (db_events ex_settled)) \<and> map ev_refund_id (db_events ex_settled) = [1]"
proof -
  have "map ev_refund_id (db_events ex_settled) = [1]" by code_simp
  with refund_completion_announced_once[OF ex_settled_reachable] show ?thesis by blast
qed

text \<open>
  A step never loses a refund: its row keeps its key, number, booking, payment and
  idempotency key, and its status stays or makes one of the listed moves, so a rejected, failed
  or cancelled refund is never completed.
\<close>

theorem refund_status_moves:
  assumes "refund_reachable cash db" "refund_step cash db db'" "r \<in> set (db_refunds db)"
  shows "\<exists>r'\<in>set (db_refunds db'). rf_id r' = rf_id r \<and> rf_payment_id r' = rf_payment_id r
      \<and> rf_booking_id r' = rf_booking_id r \<and> rf_refund_number r' = rf_refund_number r
      \<and> rf_idempotency_key r' = rf_idempotency_key r
      \<and> (r' = r \<or> (rf_status r, rf_status r') \<in> set refund_moves)"
proof -
  have ok: "amounts_ok db" using assms(1) by (rule refund_reachable_amounts)
  then have keys: "distinct (map pm_id (db_payments db))" by (simp add: amounts_ok_def)
  from assms(2) keys show ?thesis
  proof (cases rule: refund_step_cases)
    case (move x x' pub)
    with moved_row[OF ok move(1,2) assms(3)] show ?thesis
      by (cases "rf_id r = rf_id x") (auto simp: moved_def)
  qed (use assms(3) in auto)
qed

theorem refund_status_moves_witness:
  "\<exists>r'\<in>set (db_refunds ex_settled). rf_id r' = 1 \<and> rf_status r' = RS_COMPLETED"
proof -
  obtain r where r: "refund_by_id 1 ex_requested = Some r" "r \<in> set (db_refunds ex_requested)" "rf_id r = 1"
    "rf_status r = RS_REQUESTED"
  proof -
    have "map_option (\<lambda>r. (rf_id r, rf_status r)) (refund_by_id 1 ex_requested) = Some (1, RS_REQUESTED)" by code_simp
    then show ?thesis using that refund_by_id_row by fastforce
  qed
  obtain x d where done': "refund_complete (ex_env 9) r ''test'' None None True ex_requested = Inr (x, True, d)"
    and d: "ex_settled = d"
  proof -
    have "map_option (\<lambda>r. case refund_complete (ex_env 9) r ''test'' None None True ex_requested of
        Inr (_, c, _) \<Rightarrow> c | Inl _ \<Rightarrow> False) (refund_by_id 1 ex_requested) = Some True" by code_simp
    with r(1) that show ?thesis
      by (auto simp: ex_settled_def ex_complete_def split: sum.splits prod.splits)
  qed
  have step: "refund_step False ex_requested ex_settled"
    unfolding d by (rule refund_step.complete[OF done' r(2)])
  obtain r' where r': "r' \<in> set (db_refunds ex_settled)" "rf_id r' = 1"
    using refund_status_moves[OF ex_requested_reachable step r(2)] r(3) by auto
  have "list_all (\<lambda>y. rf_id y = 1 \<longrightarrow> rf_status y = RS_COMPLETED) (db_refunds ex_settled)" by code_simp
  with r' show ?thesis by (auto simp: list_all_iff)
qed

text \<open>
  Requests are idempotent: in a reachable state non-empty idempotency keys are unique, and
  repeating a request that succeeded, with any amounts and in any later state, returns the
  refund made for the key and changes nothing.
\<close>

theorem refund_request_idempotent:
  assumes "refund_reachable cash db" "r \<in> set (db_refunds db)" "rf_idempotency_key r = key" "truthy key"
  shows "refund_request env b po amt fee ty m reason notes key actor db = Inr (r, False, db)"
proof -
  have inv: "idempotency_ok db" using assms(1)
  proof induction
    case (start db)
    then show ?case by (auto simp: refund_start_def idempotency_ok_def)
  qed (blast intro: refund_step_idempotency refund_reachable_amounts)
  have "find (\<lambda>x. rf_idempotency_key x = key) xs = Some r"
    if "distinct (filter truthy (map rf_idempotency_key xs))" "r \<in> set xs" for xs
    using that assms(3,4) by (induction xs) (auto split: if_splits)
  with inv assms(2,4) show ?thesis by (simp add: refund_request_def idempotency_ok_def)
qed

theorem refund_request_idempotent_witness:
  "\<exists>db r. refund_reachable True db
     \<and> refund_request (ex_env 3) ex_booking (Some ex_payment) 2 0 RT_MANUAL ''cash'' None None (Some ''k'') None db
         = Inr (r, False, db)"
proof -
  let ?key = "Some ''k'' :: string option"
  obtain r db where rq: "refund_request (ex_env 1) ex_booking (Some ex_payment) 4 0 RT_MANUAL ''cash'' None None ?key None ex_db
      = Inr (r, True, db)"
  proof -
    have "(case refund_request (ex_env 1) ex_booking (Some ex_payment) 4 0 RT_MANUAL ''cash'' None None ?key None ex_db of
        Inr (_, c, _) \<Rightarrow> c | Inl _ \<Rightarrow> False)" by code_simp
    then show ?thesis using that by (auto split: sum.splits prod.splits)
  qed
  have "\<not> is_loyalty_method ''cash''" by code_simp
  then have "refund_step True ex_db db"
    by (intro refund_step.request[OF rq]) (auto simp: ex_db_def)
  then have reach: "refund_reachable True db" by (rule refund_reachable.step[OF ex_start])
  from request_effect[OF rq] have "r \<in> set (db_refunds db)" "rf_idempotency_key r = ?key"
    by (auto simp: new_refund_def)
  from refund_request_idempotent[OF reach this] reach show ?thesis by (auto simp: truthy_def)
qed

text \<open>
  Two departures from the promise that a payment's status is never overwritten and that a
  reversal restores the summaries. Completing a refund of 4 out of 10 sets the payment's status
  to \<open>partially_refunded\<close>. When a completed full refund is reversed by the provider the refunded
  amount returns to 0 but the payment's status stays \<open>refunded\<close>.
\<close>

theorem payment_status_overwritten:
  "map pm_status (db_payments ex_settled) = [''partially_refunded'']
   \<and> (let db = ex_complete 1 (ex_request 1 10 ex_db) in
        map pm_status (db_payments db) = [''refunded''] \<and> map pm_amount_refunded (db_payments db) = [10])
   \<and> (let db = ex_fail 1 (ex_complete 1 (ex_request 1 10 ex_db)) in
        map pm_status (db_payments db) = [''refunded''] \<and> map pm_amount_refunded (db_payments db) = [0]
        \<and> map bk_payment_status (db_bookings db) = [''success''])"
  by (intro conjI; code_simp)


end
