(* ===== verification/Loyalty.thy ===== *)
theory Loyalty
  imports Py_Strings
begin

text \<open>
  The loyalty programme: the rules of \<open>app/loyalty/domain/rules.py\<close>, the repository
  \<open>app/loyalty/infrastructure/repository.py\<close> and the use cases of
  \<open>app/loyalty/application/services.py\<close>.

  The state is the two tables: one account per customer (a map, \<open>customer_id\<close> is unique) and
  the append-only ledger (a list, oldest first). The clock is an argument. A use case that
  raises leaves its transaction to be rolled back by the caller.
\<close>

section \<open>Tables\<close>

datatype TransactionType = EARN | REDEEM | EXPIRE | ADJUST | CANCEL

record LoyaltyAccount =
  la_customer_id :: uuid
  la_balance_points :: int
  la_total_earned :: int
  la_total_redeemed :: int
  la_points_expire_at :: "instant option"
  la_updated_at :: instant

record LoyaltyTransaction =
  lt_customer_id :: uuid
  lt_transaction_type :: TransactionType
  lt_points :: int
  lt_booking_id :: "uuid option"
  lt_booking_number :: "string option"
  lt_created_by :: "string option"

record loyalty_db =
  accounts :: "uuid \<rightharpoonup> LoyaltyAccount"
  ledger :: "LoyaltyTransaction list"

text \<open>The columns of a booking that the redemption check reads.\<close>

record loyalty_booking =
  lb_booking_type :: string
  lb_payment_type :: string
  lb_payment_status :: string
  lb_reward_id :: "uuid option"
  lb_points_cost :: int
  lb_loyalty_reward_id :: "string option"

datatype loyalty_error =
    NonPositiveCredit int
  | NoLoyaltyAccount uuid
  | NonPositiveCost
  | InsufficientPoints int int

section \<open>Rules\<close>

definition resolve_earn_points :: "int \<Rightarrow> int option \<Rightarrow> int" where
  "resolve_earn_points loyalty_points arrangement_loyalty_points =
     (case arrangement_loyalty_points of
        Some p \<Rightarrow> (if 0 < p then p else max 0 loyalty_points)
      | None \<Rightarrow> max 0 loyalty_points)"

definition compute_expiry :: "instant \<Rightarrow> int \<Rightarrow> instant" where
  "compute_expiry now expiry_days = now + expiry_days * 86400000000"

definition is_account_expired :: "instant \<Rightarrow> instant option \<Rightarrow> bool" where
  "is_account_expired now points_expire_at =
     (case points_expire_at of None \<Rightarrow> False | Some t \<Rightarrow> t \<le> now)"

definition assert_sufficient_balance :: "int \<Rightarrow> int \<Rightarrow> loyalty_error + unit" where
  "assert_sufficient_balance balance_points cost_in_points =
     (if cost_in_points \<le> 0 then Inl NonPositiveCost
      else if balance_points < cost_in_points then Inl (InsufficientPoints balance_points cost_in_points)
      else Inr ())"

section \<open>Repository\<close>

definition put_account :: "LoyaltyAccount \<Rightarrow> loyalty_db \<Rightarrow> loyalty_db" where
  "put_account a db = db\<lparr>accounts := (accounts db)(la_customer_id a \<mapsto> a)\<rparr>"

definition add_txn :: "LoyaltyTransaction \<Rightarrow> loyalty_db \<Rightarrow> loyalty_db" where
  "add_txn t db = db\<lparr>ledger := ledger db @ [t]\<rparr>"

definition new_account :: "instant \<Rightarrow> uuid \<Rightarrow> LoyaltyAccount" where
  "new_account now customer_id =
     \<lparr>la_customer_id = customer_id, la_balance_points = 0, la_total_earned = 0,
      la_total_redeemed = 0, la_points_expire_at = None, la_updated_at = now\<rparr>"

definition get_or_create_account :: "instant \<Rightarrow> uuid \<Rightarrow> loyalty_db \<Rightarrow> LoyaltyAccount \<times> bool \<times> loyalty_db" where
  "get_or_create_account now customer_id db =
     (case accounts db customer_id of
        Some a \<Rightarrow> (a, False, db)
      | None \<Rightarrow> (let a = new_account now customer_id in (a, True, put_account a db)))"

definition repo_credit_points ::
  "instant \<Rightarrow> uuid \<Rightarrow> int \<Rightarrow> instant \<Rightarrow> uuid option \<Rightarrow> string option \<Rightarrow> string option \<Rightarrow> loyalty_db
   \<Rightarrow> loyalty_error + (LoyaltyAccount \<times> loyalty_db)" where
  "repo_credit_points now customer_id points expiry booking_id booking_number created_by db =
     (if points \<le> 0 then Inl (NonPositiveCredit points)
      else
        (case get_or_create_account now customer_id db of (account, _, db1) \<Rightarrow>
          let a = account\<lparr>la_balance_points := la_balance_points account + points,
                          la_total_earned := la_total_earned account + points,
                          la_points_expire_at := Some expiry, la_updated_at := now\<rparr>
          in Inr (a, add_txn \<lparr>lt_customer_id = customer_id, lt_transaction_type = EARN, lt_points = points,
               lt_booking_id = booking_id, lt_booking_number = booking_number, lt_created_by = created_by\<rparr>
               (put_account a db1))))"

definition repo_debit_points ::
  "instant \<Rightarrow> uuid \<Rightarrow> int \<Rightarrow> uuid option \<Rightarrow> string option \<Rightarrow> string option \<Rightarrow> loyalty_db
   \<Rightarrow> loyalty_error + (LoyaltyAccount \<times> loyalty_db)" where
  "repo_debit_points now customer_id points booking_id booking_number created_by db =
     (case accounts db customer_id of
        None \<Rightarrow> Inl (NoLoyaltyAccount customer_id)
      | Some account \<Rightarrow>
          ebind (assert_sufficient_balance (la_balance_points account) points) (\<lambda>_.
            let a = account\<lparr>la_balance_points := la_balance_points account - points,
                            la_total_redeemed := la_total_redeemed account + points,
                            la_updated_at := now\<rparr>
            in Inr (a, add_txn \<lparr>lt_customer_id = customer_id, lt_transaction_type = REDEEM, lt_points = points,
                 lt_booking_id = booking_id, lt_booking_number = booking_number, lt_created_by = created_by\<rparr>
                 (put_account a db))))"

definition repo_cancel_points ::
  "instant \<Rightarrow> uuid \<Rightarrow> int \<Rightarrow> uuid option \<Rightarrow> string option \<Rightarrow> string option \<Rightarrow> loyalty_db
   \<Rightarrow> LoyaltyAccount option \<times> loyalty_db" where
  "repo_cancel_points now customer_id points booking_id booking_number created_by db =
     (case accounts db customer_id of
        None \<Rightarrow> (None, db)
      | Some account \<Rightarrow>
          let deduct = min points (la_balance_points account);
              a = (if 0 < deduct
                   then account\<lparr>la_balance_points := la_balance_points account - deduct, la_updated_at := now\<rparr>
                   else account)
          in (Some a, add_txn \<lparr>lt_customer_id = customer_id, lt_transaction_type = CANCEL, lt_points = points,
                lt_booking_id = booking_id, lt_booking_number = booking_number, lt_created_by = created_by\<rparr>
                (put_account a db)))"

definition expire_account_if_needed :: "instant \<Rightarrow> LoyaltyAccount \<Rightarrow> loyalty_db \<Rightarrow> bool \<times> loyalty_db" where
  "expire_account_if_needed now account db =
     (if \<not> is_account_expired now (la_points_expire_at account) then (False, db)
      else if 0 < la_balance_points account
      then (True, add_txn \<lparr>lt_customer_id = la_customer_id account, lt_transaction_type = EXPIRE,
                    lt_points = la_balance_points account, lt_booking_id = None, lt_booking_number = None,
                    lt_created_by = Some ''system''\<rparr>
                  (put_account (account\<lparr>la_balance_points := 0, la_updated_at := now\<rparr>) db))
      else (True, db))"

definition repo_adjust_points ::
  "instant \<Rightarrow> uuid \<Rightarrow> int \<Rightarrow> string option \<Rightarrow> loyalty_db \<Rightarrow> LoyaltyAccount \<times> loyalty_db" where
  "repo_adjust_points now customer_id delta created_by db =
     (case get_or_create_account now customer_id db of (account, _, db1) \<Rightarrow>
        let deduct = min \<bar>delta\<bar> (la_balance_points account);
            a = (if 0 < delta
                 then account\<lparr>la_balance_points := la_balance_points account + delta,
                              la_total_earned := la_total_earned account + delta, la_updated_at := now\<rparr>
                 else account\<lparr>la_balance_points := la_balance_points account - deduct, la_updated_at := now\<rparr>);
            recorded = (if 0 < delta then delta else - deduct)
        in (a, add_txn \<lparr>lt_customer_id = customer_id, lt_transaction_type = ADJUST, lt_points = \<bar>recorded\<bar>,
              lt_booking_id = None, lt_booking_number = None, lt_created_by = created_by\<rparr>
              (put_account a db1)))"

definition list_transactions :: "uuid \<Rightarrow> nat \<Rightarrow> nat \<Rightarrow> loyalty_db \<Rightarrow> LoyaltyTransaction list" where
  "list_transactions customer_id limit offset db =
     take limit (drop offset (rev (filter (\<lambda>t. lt_customer_id t = customer_id) (ledger db))))"

definition count_transactions :: "uuid \<Rightarrow> loyalty_db \<Rightarrow> nat" where
  "count_transactions customer_id db = length (filter (\<lambda>t. lt_customer_id t = customer_id) (ledger db))"

section \<open>Use cases\<close>

definition get_account :: "instant \<Rightarrow> uuid \<Rightarrow> loyalty_db \<Rightarrow> LoyaltyAccount option \<times> loyalty_db" where
  "get_account now customer_id db =
     (case accounts db customer_id of
        None \<Rightarrow> (None, db)
      | Some account \<Rightarrow>
          (case expire_account_if_needed now account db of (_, db1) \<Rightarrow> (accounts db1 customer_id, db1)))"

definition is_loyalty_bk :: "loyalty_booking \<Rightarrow> bool" where
  "is_loyalty_bk bk \<longleftrightarrow>
     lb_booking_type bk = ''loyalty'' \<or> lb_payment_type bk = ''rewarded''
     \<or> lower (lb_payment_status bk) = ''rewarded'' \<or> lb_reward_id bk \<noteq> None
     \<or> lb_points_cost bk \<noteq> 0 \<or> truthy (lb_loyalty_reward_id bk)"

definition unchanged_account :: "instant \<Rightarrow> uuid \<Rightarrow> loyalty_db \<Rightarrow> LoyaltyAccount \<times> loyalty_db" where
  "unchanged_account now customer_id db =
     (case get_or_create_account now customer_id db of (a, _, db1) \<Rightarrow> (a, db1))"

definition already_credited :: "uuid \<Rightarrow> uuid \<Rightarrow> loyalty_db \<Rightarrow> bool" where
  "already_credited customer_id booking_id db \<longleftrightarrow>
     (\<exists>t \<in> set (ledger db). lt_customer_id t = customer_id \<and> lt_booking_id t = Some booking_id
        \<and> lt_transaction_type t = EARN)"

text \<open>
  \<open>credit_points\<close>: \<open>find_booking\<close> is the query for the booking row, \<open>Inl ()\<close> when it raises (the
  error is logged and the credit goes on), \<open>Inr None\<close> when there is no such booking.
\<close>

definition credit_points ::
  "(uuid \<Rightarrow> unit + loyalty_booking option) \<Rightarrow> int \<Rightarrow> instant \<Rightarrow> uuid \<Rightarrow> int \<Rightarrow> int option \<Rightarrow> uuid option
   \<Rightarrow> string option \<Rightarrow> string \<Rightarrow> loyalty_db \<Rightarrow> loyalty_error + (LoyaltyAccount \<times> loyalty_db)" where
  "credit_points find_booking expiry_days now customer_id loyalty_points arrangement_loyalty_points
     booking_id booking_number created_by db =
     (if (case booking_id of None \<Rightarrow> False
          | Some b \<Rightarrow> (case find_booking b of Inr (Some bk) \<Rightarrow> is_loyalty_bk bk | _ \<Rightarrow> False))
      then Inr (unchanged_account now customer_id db)
      else
        (let points = resolve_earn_points loyalty_points arrangement_loyalty_points
         in if points \<le> 0 then Inr (unchanged_account now customer_id db)
            else if (case booking_id of None \<Rightarrow> False | Some b \<Rightarrow> already_credited customer_id b db)
            then Inr (unchanged_account now customer_id db)
            else repo_credit_points now customer_id points (compute_expiry now expiry_days) booking_id
                   booking_number (Some created_by) db))"

definition redeem_points ::
  "instant \<Rightarrow> uuid \<Rightarrow> int \<Rightarrow> uuid option \<Rightarrow> string option \<Rightarrow> string \<Rightarrow> loyalty_db
   \<Rightarrow> loyalty_error + (LoyaltyAccount \<times> loyalty_db)" where
  "redeem_points now customer_id cost_in_points booking_id booking_number created_by db =
     (case get_account now customer_id db of
        (None, _) \<Rightarrow> Inl (NoLoyaltyAccount customer_id)
      | (Some _, db1) \<Rightarrow>
          repo_debit_points now customer_id cost_in_points booking_id booking_number (Some created_by) db1)"

definition cancel_booking_points ::
  "instant \<Rightarrow> uuid \<Rightarrow> int \<Rightarrow> uuid option \<Rightarrow> string option \<Rightarrow> string \<Rightarrow> loyalty_db
   \<Rightarrow> LoyaltyAccount option \<times> loyalty_db" where
  "cancel_booking_points now customer_id points booking_id booking_number created_by db =
     (if points \<le> 0 then (None, db)
      else repo_cancel_points now customer_id points booking_id booking_number (Some created_by) db)"

definition adjust_points :: "instant \<Rightarrow> uuid \<Rightarrow> int \<Rightarrow> string \<Rightarrow> loyalty_db \<Rightarrow> LoyaltyAccount \<times> loyalty_db" where
  "adjust_points now customer_id delta created_by db =
     repo_adjust_points now customer_id delta (Some created_by) db"

section \<open>The invariant of the two tables\<close>

definition txn_sum :: "TransactionType \<Rightarrow> uuid \<Rightarrow> loyalty_db \<Rightarrow> int" where
  "txn_sum ty c db =
     sum_list (map lt_points (filter (\<lambda>t. lt_transaction_type t = ty \<and> lt_customer_id t = c) (ledger db)))"

definition earn_count :: "uuid \<Rightarrow> uuid \<Rightarrow> loyalty_db \<Rightarrow> nat" where
  "earn_count c b db =
     length (filter (\<lambda>t. lt_transaction_type t = EARN \<and> lt_customer_id t = c \<and> lt_booking_id t = Some b)
       (ledger db))"

text \<open>
  A customer's account agrees with the ledger: the redeemed tally is the sum of the redemptions,
  the earned tally lies between the earnings and the earnings plus the adjustments; the balance
  is never negative, and points spent and still held never exceed the points earned.
\<close>

definition account_ok :: "loyalty_db \<Rightarrow> LoyaltyAccount \<Rightarrow> bool" where
  "account_ok db a \<longleftrightarrow>
     0 \<le> la_balance_points a \<and> la_balance_points a + la_total_redeemed a \<le> la_total_earned a \<and>
     la_total_redeemed a = txn_sum REDEEM (la_customer_id a) db \<and>
     txn_sum EARN (la_customer_id a) db \<le> la_total_earned a \<and>
     la_total_earned a \<le> txn_sum EARN (la_customer_id a) db + txn_sum ADJUST (la_customer_id a) db"

definition loyalty_inv :: "loyalty_db \<Rightarrow> bool" where
  "loyalty_inv db \<longleftrightarrow>
     (\<forall>c a. accounts db c = Some a \<longrightarrow> la_customer_id a = c \<and> account_ok db a) \<and>
     (\<forall>t \<in> set (ledger db). 0 \<le> lt_points t \<and> accounts db (lt_customer_id t) \<noteq> None) \<and>
     (\<forall>c b. earn_count c b db \<le> 1)"

definition empty_loyalty_db :: loyalty_db where
  "empty_loyalty_db = \<lparr>accounts = Map.empty, ledger = []\<rparr>"

lemma table_simps [simp, effect_simps]:
  "accounts (put_account a db) = (accounts db)(la_customer_id a \<mapsto> a)"
  "ledger (put_account a db) = ledger db"
  "accounts (add_txn t db) = accounts db"
  "ledger (add_txn t db) = ledger db @ [t]"
  by (simp_all add: put_account_def add_txn_def)

lemma txn_sum_simps [simp]:
  "txn_sum ty c (put_account a db) = txn_sum ty c db"
  "txn_sum ty c (add_txn t db) =
     txn_sum ty c db + (if lt_transaction_type t = ty \<and> lt_customer_id t = c then lt_points t else 0)"
  by (simp_all add: txn_sum_def)

lemma earn_count_simps [simp]:
  "earn_count c b (put_account a db) = earn_count c b db"
  "earn_count c b (add_txn t db) = earn_count c b db +
     (if lt_transaction_type t = EARN \<and> lt_customer_id t = c \<and> lt_booking_id t = Some b then 1 else 0)"
  by (simp_all add: earn_count_def)

lemma already_credited_iff: "already_credited c b db \<longleftrightarrow> earn_count c b db \<noteq> 0"
  by (auto simp: already_credited_def earn_count_def filter_empty_conv)

lemma loyalty_inv_account:
  "loyalty_inv db \<Longrightarrow> accounts db c = Some a \<Longrightarrow> la_customer_id a = c \<and> account_ok db a"
  by (simp add: loyalty_inv_def)

lemma empty_inv: "loyalty_inv empty_loyalty_db"
  by (simp add: loyalty_inv_def empty_loyalty_db_def earn_count_def)

lemma account_ok_frame:
  assumes "account_ok db a" "la_customer_id a \<noteq> lt_customer_id t"
  shows "account_ok (add_txn t db) a"
  using assms by (simp add: account_ok_def)

text \<open>One movement: an account of the customer is stored and one entry is appended.\<close>

lemma movement_inv:
  assumes inv: "loyalty_inv db" and c: "la_customer_id a = lt_customer_id t" and "0 \<le> lt_points t"
    and ok: "account_ok (add_txn t (put_account a db)) a"
    and once: "\<And>b. lt_transaction_type t = EARN \<Longrightarrow> lt_booking_id t = Some b \<Longrightarrow>
      earn_count (lt_customer_id t) b db = 0"
  shows "loyalty_inv (add_txn t (put_account a db))"
proof -
  have "account_ok (add_txn t (put_account a db)) a'"
    if "accounts db c' = Some a'" "c' \<noteq> la_customer_id a" for c' a'
    using loyalty_inv_account[OF inv that(1)] that(2) c by (auto simp: account_ok_def)
  moreover have "earn_count c b (add_txn t (put_account a db)) \<le> 1" for c b
    using inv once[of b] by (auto simp: loyalty_inv_def)
  ultimately show ?thesis
    using inv assms(3) ok c unfolding loyalty_inv_def by auto
qed

lemma txn_sum_no_account:
  assumes "loyalty_inv db" "accounts db c = None" shows "txn_sum ty c db = 0"
proof -
  have "filter (\<lambda>t. lt_transaction_type t = ty \<and> lt_customer_id t = c) (ledger db) = []"
    using assms by (auto simp: loyalty_inv_def filter_empty_conv)
  then show ?thesis by (simp add: txn_sum_def)
qed

lemma get_or_create_account_inv:
  assumes "loyalty_inv db" "get_or_create_account now c db = (a, created, db1)"
  shows "loyalty_inv db1 \<and> accounts db1 c = Some a \<and> la_customer_id a = c \<and> ledger db1 = ledger db"
proof (cases "accounts db c")
  case (Some a')
  with assms show ?thesis by (auto simp: get_or_create_account_def dest: loyalty_inv_account)
next
  case None
  with assms have eqs: "a = new_account now c" "db1 = put_account a db"
    by (auto simp: get_or_create_account_def Let_def)
  have "account_ok db1 (new_account now c)"
    using txn_sum_no_account[OF assms(1) None] by (simp add: account_ok_def new_account_def eqs)
  moreover have "account_ok db1 a'" if "account_ok db a'" for a'
    using that by (simp add: account_ok_def eqs)
  moreover have "earn_count c b db1 = earn_count c b db" for c b by (simp add: eqs)
  moreover have "la_customer_id (new_account now c) = c" by (simp add: new_account_def)
  ultimately show ?thesis using assms(1) unfolding loyalty_inv_def by (auto simp: eqs)
qed

lemma account_ok_ledger: "ledger db = ledger db' \<Longrightarrow> account_ok db a = account_ok db' a"
  by (simp add: account_ok_def txn_sum_def)

section \<open>Every use case keeps the invariant\<close>

lemma repo_credit_points_inv:
  assumes inv: "loyalty_inv db"
    and res: "repo_credit_points now c points expiry bid bn cb db = Inr (a, db')"
    and once: "\<And>b. bid = Some b \<Longrightarrow> earn_count c b db = 0"
  shows "loyalty_inv db'"
proof -
  obtain a0 created db1 where goc: "get_or_create_account now c db = (a0, created, db1)"
    by (cases "get_or_create_account now c db") auto
  note g = get_or_create_account_inv[OF inv goc]
  have ok: "account_ok db1 a0" using g loyalty_inv_account by blast
  from res goc have p: "0 < points" by (auto simp: repo_credit_points_def split: if_splits)
  have "earn_count c b db1 = earn_count c b db" for b using g by (simp add: earn_count_def)
  then show ?thesis
    using res goc p ok g once unfolding repo_credit_points_def
    by (auto simp: Let_def intro!: movement_inv split: if_splits) (auto simp: account_ok_def)
qed

lemma repo_debit_points_inv:
  assumes inv: "loyalty_inv db" and res: "repo_debit_points now c points bid bn cb db = Inr (a, db')"
  shows "loyalty_inv db'"
proof -
  from res obtain a0 where a0: "accounts db c = Some a0" "0 < points" "points \<le> la_balance_points a0"
    by (auto simp: repo_debit_points_def assert_sufficient_balance_def ebind_Inr_iff
        split: option.splits if_splits)
  with loyalty_inv_account[OF inv a0(1)] inv res show ?thesis
    by (auto simp: repo_debit_points_def assert_sufficient_balance_def Let_def account_ok_def
        intro!: movement_inv)
qed

lemma repo_cancel_points_inv:
  assumes inv: "loyalty_inv db" and "0 \<le> points"
    and res: "repo_cancel_points now c points bid bn cb db = (r, db')"
  shows "loyalty_inv db'"
proof (cases "accounts db c")
  case None
  with res inv show ?thesis by (auto simp: repo_cancel_points_def)
next
  case (Some a0)
  from res Some have "db' = snd (repo_cancel_points now c points bid bn cb db)" by simp
  with loyalty_inv_account[OF inv Some] inv assms(2) Some show ?thesis
    by (auto simp: repo_cancel_points_def Let_def account_ok_def intro!: movement_inv)
qed

lemma expire_account_inv:
  assumes inv: "loyalty_inv db" and a: "accounts db c = Some a"
  shows "loyalty_inv (snd (expire_account_if_needed now a db))"
  using inv a loyalty_inv_account[OF inv a]
  by (auto simp: expire_account_if_needed_def account_ok_def intro!: movement_inv)

lemma repo_adjust_points_inv:
  assumes inv: "loyalty_inv db" and res: "repo_adjust_points now c delta cb db = (a, db')"
  shows "loyalty_inv db'"
proof -
  obtain a0 created db1 where goc: "get_or_create_account now c db = (a0, created, db1)"
    by (cases "get_or_create_account now c db") auto
  note g = get_or_create_account_inv[OF inv goc]
  have ok: "account_ok db1 a0" using g loyalty_inv_account by blast
  have "db' = snd (repo_adjust_points now c delta cb db)" by (simp add: res)
  then show ?thesis using goc ok g
    by (auto simp: repo_adjust_points_def Let_def intro!: movement_inv) (auto simp: account_ok_def)
qed

lemma unchanged_account_inv: "loyalty_inv db \<Longrightarrow> unchanged_account now c db = (a, db') \<Longrightarrow> loyalty_inv db'"
  by (auto simp: unchanged_account_def split: prod.splits dest: get_or_create_account_inv)

lemma get_account_inv: "loyalty_inv db \<Longrightarrow> get_account now c db = (a, db') \<Longrightarrow> loyalty_inv db'"
  using expire_account_inv[of db c _ now]
  by (auto simp: get_account_def split: option.splits prod.splits)

lemma credit_points_inv:
  assumes "loyalty_inv db" "credit_points fb days now c lp alp bid bn cb db = Inr (a, db')"
  shows "loyalty_inv db'"
  using assms
  by (auto simp: credit_points_def Let_def already_credited_iff split: if_splits option.splits sum.splits
      intro: unchanged_account_inv repo_credit_points_inv)

lemma redeem_points_inv:
  assumes "loyalty_inv db" "redeem_points now c cost bid bn cb db = Inr (a, db')"
  shows "loyalty_inv db'"
  using assms
  by (auto simp: redeem_points_def split: prod.splits option.splits
      intro: repo_debit_points_inv get_account_inv)

section \<open>Reachable states\<close>

text \<open>The steps of the programme: any use case, with any arguments, at any time.\<close>

inductive loyalty_step ::
  "(uuid \<Rightarrow> unit + loyalty_booking option) \<Rightarrow> int \<Rightarrow> loyalty_db \<Rightarrow> loyalty_db \<Rightarrow> bool"
  for fb :: "uuid \<Rightarrow> unit + loyalty_booking option" and days :: int where
  credit: "credit_points fb days now c lp alp bid bn cb db = Inr (a, db') \<Longrightarrow> loyalty_step fb days db db'"
| redeem: "redeem_points now c cost bid bn cb db = Inr (a, db') \<Longrightarrow> loyalty_step fb days db db'"
| cancel: "cancel_booking_points now c points bid bn cb db = (r, db') \<Longrightarrow> loyalty_step fb days db db'"
| adjust: "adjust_points now c delta cb db = (a, db') \<Longrightarrow> loyalty_step fb days db db'"
| view: "get_account now c db = (r, db') \<Longrightarrow> loyalty_step fb days db db'"

inductive loyalty_reachable ::
  "(uuid \<Rightarrow> unit + loyalty_booking option) \<Rightarrow> int \<Rightarrow> loyalty_db \<Rightarrow> bool"
  for fb :: "uuid \<Rightarrow> unit + loyalty_booking option" and days :: int where
  start: "loyalty_reachable fb days empty_loyalty_db"
| step: "loyalty_reachable fb days db \<Longrightarrow> loyalty_step fb days db db' \<Longrightarrow> loyalty_reachable fb days db'"

lemma loyalty_step_inv: "loyalty_step fb days db db' \<Longrightarrow> loyalty_inv db \<Longrightarrow> loyalty_inv db'"
proof (induction rule: loyalty_step.induct)
  case (cancel now c points bid bn cb db r db')
  then show ?case
    by (auto simp: cancel_booking_points_def split: if_splits intro: repo_cancel_points_inv[of db points])
qed (auto simp: adjust_points_def intro: credit_points_inv redeem_points_inv repo_adjust_points_inv get_account_inv)

lemma loyalty_reachable_inv: "loyalty_reachable fb days db \<Longrightarrow> loyalty_inv db"
  by (induction rule: loyalty_reachable.induct) (auto simp: empty_inv intro: loyalty_step_inv)

section \<open>The contract other components rely on\<close>

text \<open>
  The refund component pays refunds out as points: it relies on a positive adjustment adding
  exactly that many points to the customer's balance, for an account that may not exist yet, and
  touching no other customer.
\<close>

definition balance_of :: "uuid \<Rightarrow> loyalty_db \<Rightarrow> int" where
  "balance_of c db = (case accounts db c of None \<Rightarrow> 0 | Some a \<Rightarrow> la_balance_points a)"

definition own_accounts :: "loyalty_db \<Rightarrow> bool" where
  "own_accounts db \<longleftrightarrow> (\<forall>c a. accounts db c = Some a \<longrightarrow> la_customer_id a = c)"

locale points_ledger =
  fixes credit :: "uuid \<Rightarrow> int \<Rightarrow> 'db \<Rightarrow> 'db"
    and balance :: "uuid \<Rightarrow> 'db \<Rightarrow> int"
    and ok :: "'db \<Rightarrow> bool"
  assumes credit_balance: "ok db \<Longrightarrow> 0 < p \<Longrightarrow>
      balance c (credit d p db) = balance c db + (if c = d then p else 0)"
    and credit_ok: "ok db \<Longrightarrow> ok (credit d p db)"
begin

lemma credits_balance:
  "ok db \<Longrightarrow> (\<And>d p. (d, p) \<in> set ds \<Longrightarrow> 0 < p) \<Longrightarrow>
   balance c (fold (\<lambda>(d, p). credit d p) ds db) =
   balance c db + sum_list (map snd (filter (\<lambda>(d, p). d = c) ds))"
proof (induction ds arbitrary: db)
  case (Cons x ds)
  obtain d p where x: "x = (d, p)" by (cases x)
  then have "0 < p" using Cons.prems(2) by auto
  moreover have "balance c (fold (\<lambda>(d, p). credit d p) ds (credit d p db)) =
      balance c (credit d p db) + sum_list (map snd (filter (\<lambda>(d, p). d = c) ds))"
    using Cons.prems by (intro Cons.IH credit_ok) auto
  ultimately show ?case using Cons.prems(1) by (simp add: x credit_balance)
qed simp

end

lemma adjust_points_accounts:
  assumes "own_accounts db"
  shows "own_accounts (snd (adjust_points now d p cb db))"
    "0 < p \<Longrightarrow> balance_of c (snd (adjust_points now d p cb db)) = balance_of c db + (if c = d then p else 0)"
  using assms
  by (auto simp: adjust_points_def repo_adjust_points_def get_or_create_account_def new_account_def
      own_accounts_def balance_of_def Let_def split: option.splits if_splits)

interpretation loyalty_points: points_ledger
  "\<lambda>c p db. snd (adjust_points now c p cb db)" balance_of own_accounts for now cb
  by unfold_locales (auto simp: adjust_points_accounts)

section \<open>Properties\<close>

text \<open>C5. In every state reachable from empty tables by any sequence of use cases (credit, redeem,
  cancel, adjust, lazy expiry) every account has a non-negative balance, points spent plus points
  held never exceed the points earned, the redeemed tally is the sum of the redemptions in the
  ledger and the earned tally lies between the ledger's earnings and its earnings plus
  adjustments.\<close>

theorem loyalty_accounts_sound:
  assumes "loyalty_reachable fb days db" "accounts db c = Some a"
  shows "0 \<le> la_balance_points a \<and> la_balance_points a + la_total_redeemed a \<le> la_total_earned a \<and>
    la_total_redeemed a = txn_sum REDEEM c db \<and> txn_sum EARN c db \<le> la_total_earned a \<and>
    la_total_earned a \<le> txn_sum EARN c db + txn_sum ADJUST c db"
  using loyalty_inv_account[OF loyalty_reachable_inv[OF assms(1)] assms(2)]
  by (auto simp: account_ok_def)

definition sample_ledger_db :: loyalty_db where
  "sample_ledger_db = snd (adjust_points 0 7 50 ''admin'' empty_loyalty_db)"

lemma sample_ledger_reachable: "loyalty_reachable (\<lambda>_. Inr None) 180 sample_ledger_db"
  unfolding sample_ledger_db_def
  by (rule loyalty_reachable.step[OF loyalty_reachable.start loyalty_step.adjust]) (rule surjective_pairing)

theorem loyalty_accounts_sound_witness:
  "\<exists>a. accounts sample_ledger_db 7 = Some a \<and> la_balance_points a = 50 \<and> la_total_earned a \<le> 50"
proof -
  obtain a where a: "accounts sample_ledger_db 7 = Some a" "la_balance_points a = 50"
    by (simp add: sample_ledger_db_def adjust_points_def repo_adjust_points_def empty_loyalty_db_def
        get_or_create_account_def new_account_def Let_def)
  have "txn_sum EARN 7 sample_ledger_db + txn_sum ADJUST 7 sample_ledger_db = 50"
    by (simp add: sample_ledger_db_def adjust_points_def repo_adjust_points_def empty_loyalty_db_def
        get_or_create_account_def new_account_def Let_def) (simp add: txn_sum_def)
  with loyalty_accounts_sound[OF sample_ledger_reachable a(1)] a show ?thesis by auto
qed

text \<open>A booking earns points at most once: in every reachable state the ledger holds at most
  one earn entry per customer and booking.\<close>

theorem loyalty_earned_once:
  "loyalty_reachable fb days db \<Longrightarrow>
   length (filter (\<lambda>t. lt_transaction_type t = EARN \<and> lt_customer_id t = c \<and> lt_booking_id t = Some b)
     (ledger db)) \<le> 1"
  using loyalty_reachable_inv[of fb days db] by (simp add: loyalty_inv_def earn_count_def)

theorem loyalty_earned_once_witness:
  "length (filter (\<lambda>t. lt_transaction_type t = EARN \<and> lt_customer_id t = 7 \<and> lt_booking_id t = Some 1)
     (ledger sample_ledger_db)) \<le> 1"
  by (rule loyalty_earned_once[OF sample_ledger_reachable])

text \<open>C25. A redemption succeeds exactly when the customer has an account whose points have not
  expired, the cost is positive and the balance covers it; it then takes exactly the cost from
  the balance and adds it to the redeemed tally.\<close>

theorem redeem_points_iff:
  assumes own: "own_accounts db"
  shows "redeem_points now c cost bid bn cb db = Inr (a', db') \<longleftrightarrow>
   (\<exists>a. accounts db c = Some a \<and> \<not> is_account_expired now (la_points_expire_at a) \<and>
     0 < cost \<and> cost \<le> la_balance_points a \<and>
     a' = a\<lparr>la_balance_points := la_balance_points a - cost,
            la_total_redeemed := la_total_redeemed a + cost, la_updated_at := now\<rparr> \<and>
     accounts db' = (accounts db)(c \<mapsto> a') \<and>
     db' = add_txn \<lparr>lt_customer_id = c, lt_transaction_type = REDEEM, lt_points = cost, lt_booking_id = bid,
             lt_booking_number = bn, lt_created_by = Some cb\<rparr> (put_account a' db))"
proof (cases "accounts db c")
  case None
  then show ?thesis by (auto simp: redeem_points_def get_account_def)
next
  case (Some a)
  with own have c: "la_customer_id a = c" by (simp add: own_accounts_def)
  show ?thesis
  proof (cases "is_account_expired now (la_points_expire_at a)")
    case True
    then show ?thesis using Some c
      by (auto simp: redeem_points_def get_account_def expire_account_if_needed_def repo_debit_points_def
          assert_sufficient_balance_def ebind_Inr_iff Let_def split: if_splits)
  next
    case False
    then show ?thesis using Some c
      by (auto simp: redeem_points_def get_account_def expire_account_if_needed_def repo_debit_points_def
          assert_sufficient_balance_def ebind_Inr_iff Let_def split: if_splits)
  qed
qed

theorem redeem_points_iff_witness:
  "\<exists>a' db'. redeem_points 0 7 30 None None ''api'' sample_ledger_db = Inr (a', db') \<and> la_balance_points a' = 20"
proof -
  have own: "own_accounts sample_ledger_db"
    using loyalty_reachable_inv[OF sample_ledger_reachable] by (auto simp: own_accounts_def loyalty_inv_def)
  obtain a where a: "accounts sample_ledger_db 7 = Some a" "la_balance_points a = 50"
    "la_points_expire_at a = None" "la_customer_id a = 7"
    by (simp add: sample_ledger_db_def adjust_points_def repo_adjust_points_def empty_loyalty_db_def
        get_or_create_account_def new_account_def Let_def)
  show ?thesis
    unfolding redeem_points_iff[OF own] using a by (auto simp: is_account_expired_def)
qed

text \<open>Crediting is idempotent per booking: once a credit for a booking went through, crediting
  the same booking again, with whatever points and at whatever time, changes no table.\<close>

theorem credit_points_idempotent:
  assumes "credit_points fb days now c lp alp (Some b) bn cb db = Inr (a, db1)" "own_accounts db"
    and "already_credited c b db1"
  shows "\<exists>a'. credit_points fb days' now' c lp' alp' (Some b) bn' cb' db1 = Inr (a', db1)"
proof -
  have "accounts db1 c \<noteq> None"
    using assms(1,2)
    by (auto simp: credit_points_def unchanged_account_def repo_credit_points_def get_or_create_account_def
        new_account_def own_accounts_def Let_def split: if_splits option.splits sum.splits prod.splits)
  then have "unchanged_account t c db1 = (the (accounts db1 c), db1)" for t
    by (auto simp: unchanged_account_def get_or_create_account_def)
  then show ?thesis using assms(3)
    by (auto simp: credit_points_def Let_def split: option.splits sum.splits)
qed

theorem credit_points_idempotent_witness:
  "\<exists>a db1 a'. credit_points (\<lambda>_. Inr None) 180 0 7 10 None (Some 1) None ''n'' empty_loyalty_db = Inr (a, db1) \<and>
     la_balance_points a = 10 \<and>
     credit_points (\<lambda>_. Inr None) 180 5 7 99 None (Some 1) None ''n'' db1 = Inr (a', db1)"
proof -
  obtain a db1 where credit: "credit_points (\<lambda>_. Inr None) 180 0 7 10 None (Some 1) None ''n'' empty_loyalty_db
      = Inr (a, db1)" "la_balance_points a = 10" "already_credited 7 1 db1"
    by (simp add: credit_points_def resolve_earn_points_def empty_loyalty_db_def already_credited_def
        repo_credit_points_def get_or_create_account_def new_account_def Let_def)
  have "own_accounts empty_loyalty_db" by (simp add: own_accounts_def empty_loyalty_db_def)
  from credit_points_idempotent[OF credit(1) this credit(3), of 180 5 99 None None "''n''"] credit(1,2)
  show ?thesis by blast
qed

text \<open>The ledger does not determine the balance: an adjustment that takes points away is
  recorded with type \<open>ADJUST\<close> and a positive value, exactly like one that adds them, so two
  histories with the same ledger end with different balances.\<close>

theorem adjustment_direction_lost:
  "\<exists>db db1 db2. loyalty_reachable (\<lambda>_. Inr None) 180 db \<and>
     db1 = snd (adjust_points 0 7 20 ''admin'' db) \<and> db2 = snd (adjust_points 0 7 (- 20) ''admin'' db) \<and>
     ledger db1 = ledger db2 \<and> balance_of 7 db1 = 70 \<and> balance_of 7 db2 = 30"
  by (rule exI[of _ sample_ledger_db], rule exI, rule exI, intro conjI, rule sample_ledger_reachable,
      rule refl, rule refl)
    (simp_all add: sample_ledger_db_def adjust_points_def repo_adjust_points_def empty_loyalty_db_def
        get_or_create_account_def new_account_def Let_def balance_of_def)

end
