(* ===== verification/Refund_Service.thy ===== *)
theory Refund_Service
  imports Refund_Lifecycle Loyalty
begin

text \<open>
  The refund use cases of \<open>app/payment/application/refund_service.py\<close>, over the refund tables
  and the loyalty tables.

  The payment gateway is the argument \<open>gateway\<close>: the provider chosen, the provider's payment
  reference, the amount and the reason give an outcome. A use case that raises has its
  transaction rolled back by the session dependency, so an error carries no state. Looking a row
  up by a column that is not unique raises when several rows match (\<open>MultipleRows\<close>). The credit
  note call and the approved event, whose failures are ignored, are left out.
\<close>

section \<open>The gateway\<close>

datatype gateway_provider = MyFatoorahGateway | DeemaGateway | TapGateway

datatype gateway_outcome = GatewayRaised | GatewayDeclined | GatewayAccepted "string option"

type_synonym gateway = "gateway_provider \<Rightarrow> string \<Rightarrow> rat \<Rightarrow> string \<Rightarrow> gateway_outcome"

datatype refund_service_error =
    BookingNotFound uuid
  | RefundNotFound uuid
  | MultipleRows
  | LifecycleError refund_error
  | AmountMustBePositive
  | InvalidFee
  | NetMustBePositive
  | NoPaymentRecord
  | NoGatewayReference
  | AlreadyProcessing string
  | GatewayFailed
  | NotApproved string RefundStatus
  | NoSelector

definition lift_lifecycle :: "refund_error + 'a \<Rightarrow> refund_service_error + 'a" where
  "lift_lifecycle m = (case m of Inl e \<Rightarrow> Inl (LifecycleError e) | Inr x \<Rightarrow> Inr x)"

text \<open>\<open>scalar_one_or_none\<close> of the rows a query matches.\<close>

definition one_or_none :: "'a list \<Rightarrow> refund_service_error + 'a option" where
  "one_or_none rows = (case rows of [] \<Rightarrow> Inr None | [x] \<Rightarrow> Inr (Some x) | _ \<Rightarrow> Inl MultipleRows)"

section \<open>Lookups\<close>

definition get_booking :: "uuid \<Rightarrow> refund_db \<Rightarrow> refund_service_error + Booking" where
  "get_booking i db = (case booking_by_id i db of None \<Rightarrow> Inl (BookingNotFound i) | Some b \<Rightarrow> Inr b)"

definition get_refund_by_id :: "uuid \<Rightarrow> refund_db \<Rightarrow> refund_service_error + Refund" where
  "get_refund_by_id i db = (case refund_by_id i db of None \<Rightarrow> Inl (RefundNotFound i) | Some r \<Rightarrow> Inr r)"

definition payment_by_ref :: "payment_ref \<Rightarrow> refund_db \<Rightarrow> refund_service_error + Payment option" where
  "payment_by_ref ref db =
     (case ref of
        RefUuid i \<Rightarrow> Inr (payment_by_id i db)
      | RefText raw \<Rightarrow> one_or_none (filter (\<lambda>p. pm_payment_id p = Some raw) (db_payments db)))"

definition get_payment_for_booking :: "Booking \<Rightarrow> refund_db \<Rightarrow> refund_service_error + Payment option" where
  "get_payment_for_booking booking db =
     (let rows = filter (\<lambda>p. pm_booking_id p = Some (bk_id booking)) (db_payments db);
          ranked = sort_key (\<lambda>p. (pm_status p \<notin> {''success'', ''partially_refunded'', ''refunded''},
                                  - pm_created_at p)) rows
      in case ranked of
           p # _ \<Rightarrow> Inr (Some p)
         | [] \<Rightarrow> (case bk_payment_ref booking of None \<Rightarrow> Inr None | Some ref \<Rightarrow> payment_by_ref ref db))"

definition provider_text :: "Payment \<Rightarrow> string" where
  "provider_text p = lower (strip (str_or (or_text (pm_payment_provider p) (pm_payment_gateway p)) []))"

definition resolve_gateway_provider :: "Payment \<Rightarrow> gateway_provider" where
  "resolve_gateway_provider payment =
     (let prov = provider_text payment in
      if contains_str prov ''fatoorah'' then MyFatoorahGateway
      else if contains_str prov ''deema'' then DeemaGateway
      else TapGateway)"

text \<open>The provider's reference for the payment; the payment-link gateways know the invoice.\<close>

definition gateway_payment_id :: "string \<Rightarrow> Payment \<Rightarrow> string option" where
  "gateway_payment_id prov p =
     (if contains_str prov ''fatoorah'' \<or> contains_str prov ''deema''
      then or_text (or_text (pm_invoice_id p) (pm_payment_id p)) (pm_transaction_id p)
      else or_text (or_text (pm_payment_id p) (pm_transaction_id p)) (pm_invoice_id p))"

section \<open>Executing a refund\<close>

definition reused_row :: "RefundType \<Rightarrow> string \<Rightarrow> string option \<Rightarrow> string option \<Rightarrow> Refund \<Rightarrow> Refund" where
  "reused_row refund_type refund_method reason notes r0 =
     (let r1 = r0\<lparr>rf_refund_type := refund_type, rf_refund_method := refund_method\<rparr>;
          r2 = (case reason of Some t \<Rightarrow> (if t = [] then r1 else r1\<lparr>rf_reason := t\<rparr>) | None \<Rightarrow> r1)
      in if truthy notes then r2\<lparr>rf_notes := notes\<rparr> else r2)"

definition resolve_refund_to_execute ::
  "refund_env \<Rightarrow> Booking \<Rightarrow> Payment option \<Rightarrow> rat option \<Rightarrow> rat \<Rightarrow> RefundType \<Rightarrow> string \<Rightarrow> string option
   \<Rightarrow> string option \<Rightarrow> string \<Rightarrow> refund_db \<Rightarrow> refund_service_error + (Refund \<times> refund_db)" where
  "resolve_refund_to_execute env booking payment net_amount cancellation_fee refund_type refund_method reason
     notes actor_id db =
     (case find_open_refund (bk_id booking) db of
        Some open_refund \<Rightarrow>
          if rf_status open_refund = RS_PROCESSING then Inl (AlreadyProcessing (rf_refund_number open_refund))
          else ebind
            (case net_amount of
               Some net \<Rightarrow>
                 if 1/2000 < \<bar>dec (rf_refunded_amount open_refund) - net\<bar>
                    \<or> 1/2000 < \<bar>dec (rf_cancellation_fee open_refund) - cancellation_fee\<bar>
                 then lift_lifecycle (update_requested_amounts open_refund payment net cancellation_fee db)
                 else Inr (open_refund, db)
             | None \<Rightarrow> Inr (open_refund, db))
            (\<lambda>(r0, db1). let r = reused_row refund_type refund_method reason notes r0
                          in Inr (r, put_refund r db1))
      | None \<Rightarrow>
          ebind
            (case net_amount of
               Some net \<Rightarrow> Inr net
             | None \<Rightarrow> (case payment of
                 None \<Rightarrow> Inl NoPaymentRecord
               | Some p \<Rightarrow> Inr (max 0 (pm_total_amount p - committed_total p None db - cancellation_fee))))
            (\<lambda>net. ebind
               (lift_lifecycle (refund_request env booking payment net cancellation_fee refund_type refund_method
                  reason notes None (Some actor_id) db))
               (\<lambda>(r, _, db1). Inr (r, db1))))"

definition publish_refund_event :: "Booking \<Rightarrow> Refund \<Rightarrow> Payment option \<Rightarrow> refund_db \<Rightarrow> refund_db" where
  "publish_refund_event booking refund payment db =
     db\<lparr>db_events := db_events db @
       [\<lparr>ev_refund_id = rf_id refund, ev_refund_number = rf_refund_number refund,
         ev_booking_id = Some (bk_id booking), ev_payment_id = map_option pm_id payment,
         ev_refund_method = rf_refund_method refund, ev_status = rf_status refund,
         ev_refund_amount = rf_refunded_amount refund, ev_payment_amount_refunded = 0,
         ev_booking_payment_status = [], ev_is_fully_refunded = False\<rparr>]\<rparr>"

record CreateManualRefundRequest =
  mr_refund_amount :: rat
  mr_cancellation_fee :: rat
  mr_refund_method :: string
  mr_reason :: "string option"
  mr_notes :: "string option"
  mr_customer_confirmation :: "string option"
  mr_reference_number :: "string option"
  mr_change_by_user :: "string option"

definition with_note :: "string option \<Rightarrow> string \<Rightarrow> string option" where
  "with_note old note = Some (strip (str_or old [] @ note))"

definition newline :: char where "newline = char_of (10 :: nat)"

definition append_booking_note :: "Refund \<Rightarrow> string option \<Rightarrow> Booking \<Rightarrow> Booking" where
  "append_booking_note refund notes b =
     (case notes of
        None \<Rightarrow> b
      | Some t \<Rightarrow> if t = [] then b
          else b\<lparr>bk_internal_notes := with_note (bk_internal_notes b)
                 ([newline] @ ''[Refund '' @ rf_refund_number refund @ '']: '' @ t)\<rparr>)"

definition record_manual_refund ::
  "refund_env \<Rightarrow> uuid \<Rightarrow> CreateManualRefundRequest \<Rightarrow> string \<Rightarrow> refund_db
   \<Rightarrow> refund_service_error + (Refund \<times> refund_db)" where
  "record_manual_refund env booking_id req current_user_id db =
     ebind (get_booking booking_id db) (\<lambda>booking.
     ebind (get_payment_for_booking booking db) (\<lambda>payment.
     ebind (guard (0 < mr_refund_amount req) AmountMustBePositive) (\<lambda>_.
     ebind (guard (0 \<le> mr_cancellation_fee req) InvalidFee) (\<lambda>_.
     ebind (guard (mr_cancellation_fee req \<le> mr_refund_amount req) InvalidFee) (\<lambda>_.
       let user = str_or (mr_change_by_user req) current_user_id in
       ebind (resolve_refund_to_execute env booking payment
                (Some (mr_refund_amount req - mr_cancellation_fee req)) (mr_cancellation_fee req) RT_MANUAL
                (refund_method_value (RefundMethod_normalise (Some (mr_refund_method req))))
                (Some (str_or (mr_reason req) ''Manual staff refund'')) (mr_notes req) user db) (\<lambda>(r0, db1).
         let r1 = r0\<lparr>rf_customer_confirmation := or_text (mr_customer_confirmation req) (rf_customer_confirmation r0),
                     rf_reference_number := or_text (mr_reference_number req) (rf_reference_number r0),
                     rf_processed_by := Some user, rf_processed_at := env_now env\<rparr> in
         ebind (lift_lifecycle (refund_complete env r1 ''ushdesk_manual_refund'' (mr_reference_number req)
                  (Some user) False (put_refund r1 db1))) (\<lambda>(r, _, db2).
           let b = append_booking_note r (mr_notes req)
                     (case booking_by_id booking_id db2 of Some b \<Rightarrow> b | None \<Rightarrow> booking)
           in Inr (r, publish_refund_event b r payment (put_booking b db2)))))))))"

record ProcessGatewayRefundRequest =
  gr_refund_amount :: "rat option"
  gr_cancellation_fee :: rat
  gr_reason :: "string option"
  gr_notes :: "string option"
  gr_change_by_user :: "string option"

definition gateway_net :: "ProcessGatewayRefundRequest \<Rightarrow> refund_service_error + rat option" where
  "gateway_net req =
     (if gr_cancellation_fee req < 0 then Inl InvalidFee
      else (case gr_refund_amount req of
              None \<Rightarrow> Inr None
            | Some requested \<Rightarrow>
                if requested \<le> 0 then Inl AmountMustBePositive
                else if requested < gr_cancellation_fee req then Inl InvalidFee
                else if requested - gr_cancellation_fee req \<le> 0 then Inl NetMustBePositive
                else Inr (Some (requested - gr_cancellation_fee req))))"

definition process_gateway_refund ::
  "gateway \<Rightarrow> refund_env \<Rightarrow> uuid \<Rightarrow> ProcessGatewayRefundRequest \<Rightarrow> string \<Rightarrow> refund_db
   \<Rightarrow> refund_service_error + (Refund \<times> refund_db)" where
  "process_gateway_refund gateway env booking_id req current_user_id db =
     ebind (get_booking booking_id db) (\<lambda>booking.
     ebind (get_payment_for_booking booking db) (\<lambda>payment0.
     case payment0 of
       None \<Rightarrow> Inl NoPaymentRecord
     | Some payment \<Rightarrow>
         ebind (gateway_net req) (\<lambda>net.
           let prov = lower (str_or (or_text (pm_payment_provider payment) (pm_payment_gateway payment)) []);
               ref = gateway_payment_id prov payment
           in if \<not> truthy ref then Inl NoGatewayReference
              else
                let user = str_or (gr_change_by_user req) current_user_id in
                ebind (resolve_refund_to_execute env booking (Some payment) net (gr_cancellation_fee req) RT_AUTOMATED
                         ''payment_gateway'' (Some (str_or (gr_reason req) ''Booking cancellation refund''))
                         (gr_notes req) user db) (\<lambda>(r0, db1).
                  let r1 = r0\<lparr>rf_payment_gateway := or_text (pm_payment_gateway payment) (pm_payment_provider payment),
                              rf_gateway_transaction_id := pm_transaction_id payment\<rparr>;
                      reason = (if rf_reason r1 = [] then ''Booking cancellation refund'' else rf_reason r1)
                  in case gateway (resolve_gateway_provider payment) (str_or ref []) (rf_refunded_amount r1) reason of
                       GatewayRaised \<Rightarrow> Inl GatewayFailed
                     | GatewayDeclined \<Rightarrow> Inl GatewayFailed
                     | GatewayAccepted provider_refund_id \<Rightarrow>
                         lift_lifecycle (mark_processing env r1 provider_refund_id (Some user) (put_refund r1 db1))))))"

definition confirm_refund ::
  "refund_env \<Rightarrow> uuid \<Rightarrow> string option \<Rightarrow> string option \<Rightarrow> string \<Rightarrow> refund_db
   \<Rightarrow> refund_service_error + (Refund \<times> refund_db)" where
  "confirm_refund env refund_id provider_reference notes actor_id db =
     ebind (get_refund_by_id refund_id db) (\<lambda>r0.
       let r1 = (case notes of
                   None \<Rightarrow> r0
                 | Some t \<Rightarrow> if t = [] then r0 else r0\<lparr>rf_notes := with_note (rf_notes r0) ([newline] @ t)\<rparr>)
       in ebind (lift_lifecycle (refund_complete env r1 ''ushdesk_refund_confirmation'' provider_reference
                   (Some actor_id) True (put_refund r1 db))) (\<lambda>(r, _, db1). Inr (r, db1)))"

definition select_refund ::
  "uuid option \<Rightarrow> uuid option \<Rightarrow> string option \<Rightarrow> refund_db \<Rightarrow> refund_service_error + Refund option" where
  "select_refund refund_id booking_id refund_number db =
     (case refund_id of
        Some i \<Rightarrow> Inr (refund_by_id i db)
      | None \<Rightarrow>
          if truthy refund_number
          then Inr (find (\<lambda>r. Some (rf_refund_number r) = refund_number) (db_refunds db))
          else (case booking_id of
                  Some b \<Rightarrow> Inr (first_row (sort_key (\<lambda>r. - rf_created_at r)
                                (filter (\<lambda>r. rf_booking_id r = Some b) (db_refunds db))))
                | None \<Rightarrow> Inl NoSelector))"

definition link_credit_note ::
  "uuid option \<Rightarrow> uuid option \<Rightarrow> string option \<Rightarrow> string option \<Rightarrow> string option \<Rightarrow> refund_db
   \<Rightarrow> refund_service_error + (Refund option \<times> refund_db)" where
  "link_credit_note refund_id booking_id refund_number credit_note_number credit_note_id db =
     ebind (select_refund refund_id booking_id refund_number db) (\<lambda>found.
       case found of
         None \<Rightarrow> Inr (None, db)
       | Some refund \<Rightarrow>
           if truthy credit_note_number
              \<and> rf_credit_note_number refund \<notin> {None, Some [], credit_note_number}
           then Inr (Some refund, db)
           else
             let r1 = (if truthy credit_note_number then refund\<lparr>rf_credit_note_number := credit_note_number\<rparr> else refund);
                 r = (if truthy credit_note_id then r1\<lparr>rf_credit_note_id := credit_note_id\<rparr> else r1)
             in Inr (Some r, put_refund r db))"

section \<open>Requests, approval, rejection, processing\<close>

definition create_refund_request ::
  "refund_env \<Rightarrow> uuid \<Rightarrow> payment_ref option \<Rightarrow> string option \<Rightarrow> string option \<Rightarrow> rat option \<Rightarrow> rat
   \<Rightarrow> string option \<Rightarrow> string option \<Rightarrow> string option \<Rightarrow> refund_db
   \<Rightarrow> refund_service_error + (Refund \<times> bool \<times> refund_db)" where
  "create_refund_request env booking_id payment_id invoice_id invoice_number refund_amount cancellation_fee reason
     notes actor_id db =
     ebind (get_booking booking_id db) (\<lambda>booking.
     ebind (case payment_id of None \<Rightarrow> Inr None | Some ref \<Rightarrow> payment_by_ref ref db) (\<lambda>named.
     ebind (case named of Some p \<Rightarrow> Inr (Some p) | None \<Rightarrow> get_payment_for_booking booking db) (\<lambda>payment.
       let tot_amt = (case payment of
                        Some p \<Rightarrow> (if pm_total_amount p = 0 then bk_total_amount booking else pm_total_amount p)
                      | None \<Rightarrow> bk_total_amount booking);
           net_amt = (case refund_amount of Some a \<Rightarrow> a | None \<Rightarrow> max 0 (tot_amt - cancellation_fee));
           label = str_or (bk_booking_number booking) (show_nat (bk_id booking))
       in ebind (lift_lifecycle (refund_request env booking payment net_amt cancellation_fee RT_MANUAL ''other''
                  (Some (str_or reason ''Booking cancellation refund requested''))
                  (Some (str_or notes (''Refund requested on cancellation of booking '' @ label)))
                  (Some (cancellation_idempotency_key (bk_id booking))) actor_id db)) (\<lambda>(r0, created, db1).
            let r1 = (if truthy invoice_number \<and> \<not> truthy (rf_invoice_number r0)
                      then r0\<lparr>rf_invoice_number := invoice_number\<rparr> else r0);
                r2 = (if truthy invoice_id \<and> \<not> truthy (rf_credit_note_id r1)
                      then r1\<lparr>rf_credit_note_id := invoice_id\<rparr> else r1);
                r = (case payment of
                       Some p \<Rightarrow> (if rf_payment_id r2 = None then r2\<lparr>rf_payment_id := Some (pm_id p)\<rparr> else r2)
                     | None \<Rightarrow> r2)
            in Inr (r, created, put_refund r db1)))))"

definition approve_refund ::
  "refund_env \<Rightarrow> uuid \<Rightarrow> string \<Rightarrow> rat \<Rightarrow> string option \<Rightarrow> string option \<Rightarrow> refund_db
   \<Rightarrow> refund_service_error + (Refund \<times> refund_db)" where
  "approve_refund env refund_id refund_method approved_amount notes actor_id db =
     ebind (get_refund_by_id refund_id db) (\<lambda>r.
       lift_lifecycle (refund_approve env r refund_method approved_amount notes actor_id db))"

definition reject_refund ::
  "refund_env \<Rightarrow> uuid \<Rightarrow> string option \<Rightarrow> string option \<Rightarrow> refund_db
   \<Rightarrow> refund_service_error + (Refund \<times> refund_db)" where
  "reject_refund env refund_id reason actor_id db =
     ebind (get_refund_by_id refund_id db) (\<lambda>r. lift_lifecycle (refund_reject env r reason actor_id db))"

text \<open>\<open>int(Decimal(...))\<close>: towards zero.\<close>

definition int_of_dec :: "rat \<Rightarrow> int" where
  "int_of_dec x = (if 0 \<le> x then \<lfloor>x\<rfloor> else \<lceil>x\<rceil>)"

definition set_points_booking :: "Booking option \<Rightarrow> refund_db \<Rightarrow> refund_db" where
  "set_points_booking booking db =
     (case booking of
        None \<Rightarrow> db
      | Some b \<Rightarrow> (case booking_by_id (bk_id b) db of
          None \<Rightarrow> db
        | Some b' \<Rightarrow> put_booking (b'\<lparr>bk_status := ''cancelled'', bk_payment_status := ''refunded_with_points''\<rparr>) db))"

definition process_gateway_name :: "Payment option \<Rightarrow> Booking option \<Rightarrow> string" where
  "process_gateway_name payment booking =
     (let pg = (case payment of Some p \<Rightarrow> or_text (pm_payment_gateway p) (pm_payment_provider p) | None \<Rightarrow> None);
          bg = (case booking of Some b \<Rightarrow> or_text (bk_payment_gateway b) (bk_payment_provider b) | None \<Rightarrow> None)
      in if truthy pg then lower (str_or pg []) else if truthy bg then lower (str_or bg []) else ''manual'')"

text \<open>The provider call of \<open>process_refund\<close>: skipped when no gateway is involved.\<close>

definition process_provider_call ::
  "gateway \<Rightarrow> Payment option \<Rightarrow> string \<Rightarrow> Refund \<Rightarrow> refund_service_error + string option" where
  "process_provider_call gateway payment gateway_name refund =
     (case payment of
        None \<Rightarrow> Inr None
      | Some p \<Rightarrow>
          if \<not> (contains_str gateway_name ''fatoorah'' \<or> contains_str gateway_name ''deema''
                 \<or> contains_str gateway_name ''tap''
                 \<or> contains_str (lower (rf_refund_method refund)) ''gateway''
                 \<or> contains_str (lower (rf_refund_method refund)) ''payment_link'')
          then Inr None
          else
            let ref = gateway_payment_id gateway_name p in
            if \<not> truthy ref then Inr None
            else (case gateway (resolve_gateway_provider p) (str_or ref []) (rf_refunded_amount refund)
                      (if rf_reason refund = [] then ''Booking cancellation refund'' else rf_reason refund) of
                    GatewayAccepted provider_ref \<Rightarrow> Inr provider_ref
                  | _ \<Rightarrow> Inl GatewayFailed))"

definition process_refund ::
  "gateway \<Rightarrow> refund_env \<Rightarrow> uuid \<Rightarrow> string option \<Rightarrow> refund_db \<Rightarrow> loyalty_db
   \<Rightarrow> refund_service_error + (Refund \<times> refund_db \<times> loyalty_db)" where
  "process_refund gateway env refund_id actor_id db ldb =
     ebind (get_refund_by_id refund_id db) (\<lambda>refund.
     if rf_status refund \<noteq> RS_APPROVED then Inl (NotApproved (rf_refund_number refund) (rf_status refund))
     else
     ebind (case rf_booking_id refund of None \<Rightarrow> Inr None | Some i \<Rightarrow> ebind (get_booking i db) (\<lambda>b. Inr (Some b))) (\<lambda>booking.
     ebind (case booking of None \<Rightarrow> Inr None | Some b \<Rightarrow> get_payment_for_booking b db) (\<lambda>payment.
       let user = str_or actor_id (str_or (rf_processed_by refund) ''staff'') in
       if is_loyalty_method (rf_refund_method refund) then
         let pts = int_of_dec (rf_refunded_amount refund);
             ldb1 = (case rf_customer_id refund of
                       Some c \<Rightarrow> (if 0 < pts then snd (adjust_points (env_now env) c pts user ldb) else ldb)
                     | None \<Rightarrow> ldb)
         in ebind (lift_lifecycle (refund_complete env refund ''loyalty_point_refund'' None (Some user) True db))
              (\<lambda>(r, _, db1). Inr (r, set_points_booking booking db1, ldb1))
       else
         ebind (process_provider_call gateway payment (process_gateway_name payment booking) refund) (\<lambda>provider_ref.
         ebind (lift_lifecycle (refund_complete env refund ''money_refund_process'' provider_ref (Some user) True db))
           (\<lambda>(r, _, db1). Inr (r, db1, ldb))))))"

definition get_booking_refunds :: "uuid \<Rightarrow> refund_db \<Rightarrow> Refund list" where
  "get_booking_refunds booking_id db =
     sort_key (\<lambda>r. - rf_created_at r) (filter (\<lambda>r. rf_booking_id r = Some booking_id) (db_refunds db))"

section \<open>Listing\<close>

definition ilike_part :: "string \<Rightarrow> string option \<Rightarrow> bool" where
  "ilike_part needle column =
     (case column of None \<Rightarrow> False
      | Some v \<Rightarrow> like (''%'' @ lower (strip needle) @ ''%'') (lower v))"

text \<open>
  The filters of \<open>list_refunds\<close>. Keys and dates are given parsed: a value that does not parse is
  ignored, which is None here.
\<close>

record refund_filter =
  fl_booking_id :: "uuid option"
  fl_payment_id :: "uuid option"
  fl_customer_id :: "uuid option"
  fl_branch_id :: "uuid option"
  fl_refund_type :: "string option"
  fl_refund_method :: "string option"
  fl_status :: "string option"
  fl_refund_number :: "string option"
  fl_invoice_number :: "string option"
  fl_credit_note_number :: "string option"
  fl_payment_gateway :: "string option"
  fl_gateway_refund_id :: "string option"
  fl_gateway_transaction_id :: "string option"
  fl_reference_number :: "string option"
  fl_processed_by :: "string option"
  fl_from_date :: "instant option"
  fl_to_date :: "instant option"
  fl_search :: "string option"
  fl_currency :: "string option"

fun refund_type_value :: "RefundType \<Rightarrow> string" where
  "refund_type_value RT_AUTOMATED = ''automated''"
| "refund_type_value RT_MANUAL = ''manual''"

fun refund_status_value :: "RefundStatus \<Rightarrow> string" where
  "refund_status_value RS_REQUESTED = ''requested''"
| "refund_status_value RS_APPROVED = ''approved''"
| "refund_status_value RS_REJECTED = ''rejected''"
| "refund_status_value RS_PROCESSING = ''processing''"
| "refund_status_value RS_COMPLETED = ''completed''"
| "refund_status_value RS_FAILED = ''failed''"
| "refund_status_value RS_CANCELLED = ''cancelled''"

text \<open>A filter that is given as text: \<open>test\<close> is applied when the text is not empty.\<close>

definition on_text :: "string option \<Rightarrow> (string \<Rightarrow> bool) \<Rightarrow> bool" where
  "on_text v test = (case v of None \<Rightarrow> True | Some t \<Rightarrow> t = [] \<or> test t)"

definition on_value :: "'a option \<Rightarrow> ('a \<Rightarrow> bool) \<Rightarrow> bool" where
  "on_value v test = (case v of None \<Rightarrow> True | Some x \<Rightarrow> test x)"

definition status_matches :: "string \<Rightarrow> RefundStatus \<Rightarrow> bool" where
  "status_matches t status =
     (let st = strip (lower t); v = refund_status_value status in
      if st = ''pending'' then v = ''pending'' \<or> like ''%pending%'' (lower v) else v = st)"

definition refund_matches :: "refund_filter \<Rightarrow> Refund \<Rightarrow> bool" where
  "refund_matches f r \<longleftrightarrow>
     on_value (fl_booking_id f) (\<lambda>i. rf_booking_id r = Some i)
   \<and> on_value (fl_payment_id f) (\<lambda>i. rf_payment_id r = Some i)
   \<and> on_value (fl_customer_id f) (\<lambda>i. rf_customer_id r = Some i)
   \<and> on_value (fl_branch_id f) (\<lambda>i. rf_branch_id r = Some i)
   \<and> on_text (fl_refund_type f) (\<lambda>t. refund_type_value (rf_refund_type r) = strip (lower t))
   \<and> on_text (fl_refund_method f) (\<lambda>t. rf_refund_method r = strip (lower t))
   \<and> on_text (fl_status f) (\<lambda>t. status_matches t (rf_status r))
   \<and> on_text (fl_refund_number f) (\<lambda>t. ilike_part t (Some (rf_refund_number r)))
   \<and> on_text (fl_invoice_number f) (\<lambda>t. ilike_part t (rf_invoice_number r))
   \<and> on_text (fl_credit_note_number f) (\<lambda>t. ilike_part t (rf_credit_note_number r))
   \<and> on_text (fl_payment_gateway f) (\<lambda>t. ilike_part t (rf_payment_gateway r))
   \<and> on_text (fl_gateway_refund_id f) (\<lambda>t. rf_gateway_refund_id r = Some (strip t))
   \<and> on_text (fl_gateway_transaction_id f) (\<lambda>t. rf_gateway_transaction_id r = Some (strip t))
   \<and> on_text (fl_reference_number f) (\<lambda>t. ilike_part t (rf_reference_number r))
   \<and> on_text (fl_processed_by f) (\<lambda>t. rf_processed_by r = Some (strip t))
   \<and> on_text (fl_currency f) (\<lambda>t. rf_currency r = strip (upper t))
   \<and> on_value (fl_from_date f) (\<lambda>d. d \<le> rf_created_at r)
   \<and> on_value (fl_to_date f) (\<lambda>d. rf_created_at r \<le> d)
   \<and> on_text (fl_search f) (\<lambda>t. list_ex (ilike_part t)
        [Some (rf_refund_number r), rf_invoice_number r, rf_credit_note_number r, rf_reference_number r,
         rf_gateway_refund_id r, rf_gateway_transaction_id r, Some (rf_reason r), rf_notes r, rf_processed_by r])"

record refund_analytics =
  an_total_refunded_amount :: rat
  an_total_cancellation_fee :: rat
  an_total_requested_amount :: rat
  an_total_count :: nat

definition list_refunds ::
  "int \<Rightarrow> int \<Rightarrow> refund_filter \<Rightarrow> refund_db \<Rightarrow> Refund list \<times> nat \<times> refund_analytics" where
  "list_refunds page page_size f db =
     (let rows = filter (refund_matches f) (db_refunds db);
          safe_page = max 1 page; safe_page_size = max 1 (min page_size 100);
          offset = (safe_page - 1) * safe_page_size
      in (take (nat safe_page_size) (drop (nat offset) (sort_key (\<lambda>r. - rf_created_at r) rows)),
          length rows,
          \<lparr>an_total_refunded_amount = sum_list (map rf_refunded_amount rows),
           an_total_cancellation_fee = sum_list (map rf_cancellation_fee rows),
           an_total_requested_amount = sum_list (map rf_requested_amount rows),
           an_total_count = length rows\<rparr>))"

section \<open>Lemmas\<close>

lemma lift_lifecycle_Inr [simp]: "lift_lifecycle m = Inr x \<longleftrightarrow> m = Inr x"
  by (cases m) (auto simp: lift_lifecycle_def)

lemma get_refund_Inr [simp]: "get_refund_by_id i db = Inr r \<longleftrightarrow> refund_by_id i db = Some r"
  by (auto simp: get_refund_by_id_def split: option.splits)

lemma refund_by_id_put:
  "refund_by_id i (put_refund r db) = (if rf_id r = i \<and> refund_by_id i db \<noteq> None then Some r else refund_by_id i db)"
  using find_replace_row[of rf_id i r "db_refunds db"] by (auto simp: refund_by_id_def split: option.splits)

lemma refund_by_id_moved:
  assumes "moved r r' db db'" "refund_by_id i db = Some r"
  shows "refund_by_id i db' = Some r'"
proof -
  have "rf_id r = i" using assms(2) by (auto simp: refund_by_id_def find_Some_iff)
  with assms show ?thesis
    using find_replace_row[of rf_id i r' "db_refunds db"] by (simp add: refund_by_id_def moved_def)
qed

lemma refund_by_id_cong: "db_refunds a = db_refunds b \<Longrightarrow> refund_by_id i a = refund_by_id i b"
  by (simp add: refund_by_id_def)

lemma set_points_booking_refunds [simp]: "db_refunds (set_points_booking b db) = db_refunds db"
  by (simp add: set_points_booking_def split: option.splits)

text \<open>A processed refund is completed in the table.\<close>

lemma refund_complete_row:
  assumes "refund_complete env r src pr actor pub db = Inr (r', c, db')" "rf_status r \<noteq> RS_COMPLETED"
    and "distinct (map pm_id (db_payments db))" "refund_by_id i db = Some r"
  shows "c \<and> rf_status r' = RS_COMPLETED \<and> refund_by_id i db' = Some r' \<and> rf_refunded_amount r' = rf_refunded_amount r"
  using complete_effect[OF assms(1,3)] assms(2,4) refund_by_id_moved[of r r' db db' i] by auto

lemma process_refund_cases:
  assumes "process_refund gateway env i actor db ldb = Inr (r, db', ldb')" "refund_by_id i db = Some r0"
  shows "rf_status r0 = RS_APPROVED \<and>
    (if is_loyalty_method (rf_refund_method r0)
     then \<exists>user b d c. refund_complete env r0 ''loyalty_point_refund'' None (Some user) True db = Inr (r, c, d)
            \<and> db' = set_points_booking b d
            \<and> ldb' = (case rf_customer_id r0 of
                 Some cu \<Rightarrow> (if 0 < int_of_dec (rf_refunded_amount r0)
                   then snd (adjust_points (env_now env) cu (int_of_dec (rf_refunded_amount r0)) user ldb) else ldb)
               | None \<Rightarrow> ldb)
     else \<exists>user pr c. refund_complete env r0 ''money_refund_process'' pr (Some user) True db = Inr (r, c, db') \<and> ldb' = ldb)"
proof (cases "is_loyalty_method (rf_refund_method r0)")
  case True
  with assms show ?thesis
    by (auto simp: process_refund_def ebind_Inr_iff Let_def split: if_splits option.splits; blast)
next
  case False
  with assms show ?thesis
    by (auto simp: process_refund_def ebind_Inr_iff Let_def split: if_splits option.splits) blast
qed

text \<open>The refund picked for execution is still open, and not at the provider.\<close>

lemma new_refund_status [simp]: "rf_status (new_refund env b po n f ty m rs nt k a db) = RS_REQUESTED"
  by (simp add: new_refund_def)

lemma find_open_refund_status: "find_open_refund b db = Some r \<Longrightarrow> rf_status r \<in> set OPEN_STATUSES \<and> r \<in> set (db_refunds db)"
proof -
  assume "find_open_refund b db = Some r"
  then have "r \<in> set (sort_key rf_created_at
      (filter (\<lambda>r. rf_booking_id r = Some b \<and> rf_status r \<in> set OPEN_STATUSES) (db_refunds db)))"
    by (cases "sort_key rf_created_at (filter (\<lambda>r. rf_booking_id r = Some b \<and> rf_status r \<in> set OPEN_STATUSES) (db_refunds db))")
      (simp_all add: find_open_refund_def first_row_def del: set_sort)
  then show ?thesis by simp
qed

lemma update_status: "update_requested_amounts r po a f db = Inr (r', db') \<Longrightarrow> rf_status r' = RS_REQUESTED"
  using update_effect by blast

lemma reused_row_fields [simp]:
  "rf_id (reused_row ty m rs nt r) = rf_id r" "rf_status (reused_row ty m rs nt r) = rf_status r"
  "rf_refunded_amount (reused_row ty m rs nt r) = rf_refunded_amount r"
  "rf_payment_id (reused_row ty m rs nt r) = rf_payment_id r"
  by (simp_all add: reused_row_def Let_def split: option.splits)

lemma resolve_refund_status:
  assumes "resolve_refund_to_execute env b po net fee ty m rs nt u db = Inr (r, db')"
  shows "rf_status r \<in> {RS_REQUESTED, RS_APPROVED}"
proof (cases "find_open_refund (bk_id b) db")
  case None
  with assms show ?thesis
    by (auto simp: resolve_refund_to_execute_def ebind_Inr_iff truthy_def dest!: request_effect)
next
  case (Some x)
  with find_open_refund_status[OF Some] assms show ?thesis
    by (auto simp: resolve_refund_to_execute_def ebind_Inr_iff Let_def OPEN_STATUSES_def
        split: if_splits option.splits dest!: update_status)
qed

lemma process_gateway_refund_steps:
  assumes "process_gateway_refund gateway env bid req user db = Inr (r, db')"
  obtains b p r0 db1 ref reason pid u where
    "booking_by_id bid db = Some b" "get_payment_for_booking b db = Inr (Some p)"
    "gateway (resolve_gateway_provider p) ref (rf_refunded_amount r0) reason = GatewayAccepted pid"
    "mark_processing env r0 pid u db1 = Inr (r, db')"
    "rf_status r0 \<notin> {RS_COMPLETED, RS_PROCESSING}"
proof -
  from assms obtain b p net r0 db1 where
    b: "booking_by_id bid db = Some b" "get_payment_for_booking b db = Inr (Some p)"
    and rs: "resolve_refund_to_execute env b (Some p) net (gr_cancellation_fee req) RT_AUTOMATED ''payment_gateway''
       (Some (str_or (gr_reason req) ''Booking cancellation refund'')) (gr_notes req)
       (str_or (gr_change_by_user req) user) db = Inr (r0, db1)"
    and rest: "(let r1 = r0\<lparr>rf_payment_gateway := or_text (pm_payment_gateway p) (pm_payment_provider p),
                            rf_gateway_transaction_id := pm_transaction_id p\<rparr>;
                    reason = (if rf_reason r1 = [] then ''Booking cancellation refund'' else rf_reason r1)
                in case gateway (resolve_gateway_provider p)
                     (str_or (gateway_payment_id (lower (str_or (or_text (pm_payment_provider p) (pm_payment_gateway p)) [])) p) [])
                     (rf_refunded_amount r1) reason of
                     GatewayRaised \<Rightarrow> Inl GatewayFailed
                   | GatewayDeclined \<Rightarrow> Inl GatewayFailed
                   | GatewayAccepted provider_refund_id \<Rightarrow>
                       lift_lifecycle (mark_processing env r1 provider_refund_id
                         (Some (str_or (gr_change_by_user req) user)) (put_refund r1 db1))) = Inr (r, db')"
    by (auto simp: process_gateway_refund_def get_booking_def ebind_Inr_iff Let_def
        split: option.splits if_splits)
  let ?r1 = "r0\<lparr>rf_payment_gateway := or_text (pm_payment_gateway p) (pm_payment_provider p),
                 rf_gateway_transaction_id := pm_transaction_id p\<rparr>"
  from rest obtain ref reason pid u where
    "gateway (resolve_gateway_provider p) ref (rf_refunded_amount ?r1) reason = GatewayAccepted pid"
    "mark_processing env ?r1 pid u (put_refund ?r1 db1) = Inr (r, db')"
    unfolding Let_def by (auto split: gateway_outcome.splits)
  moreover have "rf_status ?r1 \<notin> {RS_COMPLETED, RS_PROCESSING}" using resolve_refund_status[OF rs] by auto
  ultimately show ?thesis by (rule that[OF b])
qed

lemma record_manual_refund_steps:
  assumes "record_manual_refund env bid req user db = Inr (r, db')"
  obtains b po m rs nt u r0 db1 r1 ref c db2 bk where
    "resolve_refund_to_execute env b po (Some (mr_refund_amount req - mr_cancellation_fee req)) (mr_cancellation_fee req)
       RT_MANUAL m rs nt u db = Inr (r0, db1)"
    "rf_id r1 = rf_id r0" "rf_status r1 = rf_status r0" "rf_refunded_amount r1 = rf_refunded_amount r0"
    "refund_complete env r1 ''ushdesk_manual_refund'' ref (Some u) False (put_refund r1 db1) = Inr (r, c, db2)"
    "db' = publish_refund_event bk r po (put_booking bk db2)"
proof -
  let ?r1 = "\<lambda>r0. r0\<lparr>rf_customer_confirmation := or_text (mr_customer_confirmation req) (rf_customer_confirmation r0),
                     rf_reference_number := or_text (mr_reference_number req) (rf_reference_number r0),
                     rf_processed_by := Some (str_or (mr_change_by_user req) user), rf_processed_at := env_now env\<rparr>"
  from assms obtain b po r0 db1 c db2 where
    s1: "resolve_refund_to_execute env b po (Some (mr_refund_amount req - mr_cancellation_fee req)) (mr_cancellation_fee req)
       RT_MANUAL (refund_method_value (RefundMethod_normalise (Some (mr_refund_method req))))
       (Some (str_or (mr_reason req) ''Manual staff refund'')) (mr_notes req) (str_or (mr_change_by_user req) user) db
       = Inr (r0, db1)"
    and s2: "refund_complete env (?r1 r0) ''ushdesk_manual_refund'' (mr_reference_number req)
       (Some (str_or (mr_change_by_user req) user)) False (put_refund (?r1 r0) db1) = Inr (r, c, db2)"
    and s3: "db' = (let bk = append_booking_note r (mr_notes req)
             (case booking_by_id bid db2 of Some b \<Rightarrow> b | None \<Rightarrow> b) in publish_refund_event bk r po (put_booking bk db2))"
    by (auto simp: record_manual_refund_def ebind_Inr_iff Let_def)
  show ?thesis by (rule that[OF s1 _ _ _ s2 s3[unfolded Let_def]]) simp_all
qed

lemma fils_close: "fils a \<Longrightarrow> fils b \<Longrightarrow> \<not> 1/2000 < \<bar>a - b\<bar> \<Longrightarrow> a = b"
  using fils_tolerance(1)[of a b] fils_tolerance(1)[of b a] by (auto simp: abs_if split: if_splits)

lemma update_tables:
  "update_requested_amounts r po a f db = Inr (r', db') \<Longrightarrow>
     db_payments db' = db_payments db \<and> db_events db' = db_events db \<and> rf_refunded_amount r' = dec a \<and> 0 < dec a"
  using update_effect by blast

lemma resolve_refund_amount:
  assumes "resolve_refund_to_execute env b po (Some net) fee ty m rs nt u db = Inr (r, db1)"
    and ok: "amounts_ok db" and net: "fils net"
  shows "rf_refunded_amount r = net \<and> 0 < net \<and> db_payments db1 = db_payments db \<and> db_events db1 = db_events db"
proof (cases "find_open_refund (bk_id b) db")
  case None
  with assms(1) net show ?thesis
    by (auto simp: resolve_refund_to_execute_def ebind_Inr_iff truthy_def new_refund_def dest!: request_effect)
next
  case (Some x)
  have x: "fils (rf_refunded_amount x)" "0 < rf_refunded_amount x"
    using find_open_refund_status[OF Some] ok by (auto simp: amounts_ok_def)
  show ?thesis
  proof (cases "1/2000 < \<bar>dec (rf_refunded_amount x) - net\<bar> \<or> 1/2000 < \<bar>dec (rf_cancellation_fee x) - fee\<bar>")
    case True
    with Some assms(1) obtain r0 db0 where up: "update_requested_amounts x po net fee db = Inr (r0, db0)"
      "r = reused_row ty m rs nt r0" "db1 = put_refund r db0"
      by (auto simp: resolve_refund_to_execute_def ebind_Inr_iff Let_def split: if_splits)
    with update_tables[OF up(1)] net show ?thesis by simp
  next
    case False
    then have "rf_refunded_amount x = net" using fils_close[of "rf_refunded_amount x" net] x net by auto
    moreover from False Some assms(1) have "r = reused_row ty m rs nt x" "db1 = put_refund r db"
      by (auto simp: resolve_refund_to_execute_def ebind_Inr_iff Let_def split: if_splits)
    ultimately show ?thesis using x by simp
  qed
qed

section \<open>Properties\<close>

text \<open>
  Processing an approved refund in loyalty points adds exactly the whole points of the
  refunded amount to the refund's customer, changes no other customer's balance, completes the
  refund, and cannot be repeated: a second call is refused because the refund is not approved
  any more.
\<close>

theorem points_refund_paid_once:
  assumes "process_refund gateway env i actor db ldb = Inr (r, db', ldb')" "refund_by_id i db = Some r0"
    and "is_loyalty_method (rf_refund_method r0)" "rf_customer_id r0 = Some cust" "1 \<le> rf_refunded_amount r0"
    and "own_accounts ldb" "distinct (map pm_id (db_payments db))"
  shows "balance_of d ldb' = balance_of d ldb + (if d = cust then \<lfloor>rf_refunded_amount r0\<rfloor> else 0)
    \<and> rf_status r = RS_COMPLETED \<and> refund_by_id i db' = Some r
    \<and> process_refund gateway env' i actor' db' ldb' = Inl (NotApproved (rf_refund_number r) RS_COMPLETED)"
proof -
  from process_refund_cases[OF assms(1,2)] assms(3,4) obtain user b e c where
    ap: "rf_status r0 = RS_APPROVED"
    and done': "refund_complete env r0 ''loyalty_point_refund'' None (Some user) True db = Inr (r, c, e)"
    and db': "db' = set_points_booking b e"
    and ldb': "ldb' = (if 0 < int_of_dec (rf_refunded_amount r0)
       then snd (adjust_points (env_now env) cust (int_of_dec (rf_refunded_amount r0)) user ldb) else ldb)"
    by auto
  have pts: "int_of_dec (rf_refunded_amount r0) = \<lfloor>rf_refunded_amount r0\<rfloor>" "0 < \<lfloor>rf_refunded_amount r0\<rfloor>"
    using assms(5) by (simp_all add: int_of_dec_def)
  have row: "rf_status r = RS_COMPLETED" "refund_by_id i db' = Some r"
    using refund_complete_row[OF done' _ assms(7,2)] ap refund_by_id_cong[of db' e i] by (simp_all add: db')
  moreover have "balance_of d ldb' = balance_of d ldb + (if d = cust then \<lfloor>rf_refunded_amount r0\<rfloor> else 0)"
    using loyalty_points.credit_balance[OF assms(6) pts(2)] pts ldb' by simp
  ultimately show ?thesis by (simp add: process_refund_def get_refund_by_id_def)
qed

theorem points_refund_paid_once_witness:
  "\<exists>r db' ldb'. process_refund (\<lambda>_ _ _ _. GatewayRaised) (ex_env 3) 1 None
       (ex_approve 1 ''points'' 25 ex_requested) empty_loyalty_db = Inr (r, db', ldb') \<and> balance_of 5 ldb' = 25"
proof -
  let ?db = "ex_approve 1 ''points'' 25 ex_requested"
  let ?call = "process_refund (\<lambda>_ _ _ _. GatewayRaised) (ex_env 3) 1 None ?db empty_loyalty_db"
  have "\<not> isl ?call" by code_simp
  then obtain r db' ldb' where *: "?call = Inr (r, db', ldb')" by (cases ?call) auto
  have "(case refund_by_id 1 ?db of Some r0 \<Rightarrow> is_loyalty_method (rf_refund_method r0) \<and> rf_customer_id r0 = Some 5
      \<and> rf_refunded_amount r0 = 25 | None \<Rightarrow> False)" by code_simp
  then obtain r0 where r0: "refund_by_id 1 ?db = Some r0" "is_loyalty_method (rf_refund_method r0)"
    "rf_customer_id r0 = Some 5" "rf_refunded_amount r0 = 25" by (auto split: option.splits)
  have own: "own_accounts empty_loyalty_db" by (simp add: own_accounts_def empty_loyalty_db_def)
  have keys: "distinct (map pm_id (db_payments ?db))" by code_simp
  have "balance_of 5 empty_loyalty_db = 0" by (simp add: balance_of_def empty_loyalty_db_def)
  with points_refund_paid_once[OF * r0(1-3) _ own keys, of 5] r0(4) have "balance_of 5 ldb' = 25" by simp
  with * show ?thesis by blast
qed

text \<open>
  C24. A gateway refund is only recorded as sent when the gateway accepted it: on success the
  gateway was asked, for the booking's payment, for exactly the amount of the refund, and its
  reference is on the refund, which is now processing. If the gateway refuses every call, no
  gateway refund succeeds.
\<close>

theorem gateway_refund_needs_acceptance:
  assumes "process_gateway_refund gateway env bid req user db = Inr (r, db')"
  shows "\<exists>b p ref reason pid. booking_by_id bid db = Some b \<and> get_payment_for_booking b db = Inr (Some p)
      \<and> gateway (resolve_gateway_provider p) ref (rf_refunded_amount r) reason = GatewayAccepted pid
      \<and> rf_status r = RS_PROCESSING \<and> rf_refund_method r = ''payment_gateway''
      \<and> (truthy pid \<longrightarrow> rf_gateway_refund_id r = pid)"
proof -
  from assms obtain b p r0 db1 ref reason pid u where
    b: "booking_by_id bid db = Some b" "get_payment_for_booking b db = Inr (Some p)"
    and gw: "gateway (resolve_gateway_provider p) ref (rf_refunded_amount r0) reason = GatewayAccepted pid"
    and mp: "mark_processing env r0 pid u db1 = Inr (r, db')"
    and open': "rf_status r0 \<notin> {RS_COMPLETED, RS_PROCESSING}"
    by (rule process_gateway_refund_steps)
  have "rf_status r = RS_PROCESSING \<and> rf_refund_method r = ''payment_gateway'' \<and> rf_refunded_amount r = rf_refunded_amount r0
      \<and> (truthy pid \<longrightarrow> rf_gateway_refund_id r = pid)"
    using mp open' by (auto simp: mark_processing_def Let_def processing_row_def set_actor_def split: if_splits)
  with b gw show ?thesis by metis
qed

theorem gateway_refund_needs_acceptance_witness:
  "\<exists>r db'. process_gateway_refund (\<lambda>_ _ _ _. GatewayAccepted (Some ''R1'')) (ex_env 3) 7
       \<lparr>gr_refund_amount = Some 6, gr_cancellation_fee = 1, gr_reason = None, gr_notes = None, gr_change_by_user = None\<rparr>
       ''staff'' ex_db = Inr (r, db') \<and> rf_status r = RS_PROCESSING \<and> rf_refunded_amount r = 5"
proof -
  let ?call = "process_gateway_refund (\<lambda>_ _ _ _. GatewayAccepted (Some ''R1'')) (ex_env 3) 7
       \<lparr>gr_refund_amount = Some 6, gr_cancellation_fee = 1, gr_reason = None, gr_notes = None, gr_change_by_user = None\<rparr>
       ''staff'' ex_db"
  have "(case ?call of Inr (r, _) \<Rightarrow> rf_refunded_amount r = 5 | Inl _ \<Rightarrow> False)" by code_simp
  then obtain r db' where *: "?call = Inr (r, db')" "rf_refunded_amount r = 5"
    by (auto split: sum.splits)
  from gateway_refund_needs_acceptance[OF *(1)] have "rf_status r = RS_PROCESSING" by blast
  with * show ?thesis by blast
qed

text \<open>
  A manual refund that succeeds is completed at once for exactly the requested amount less
  the cancellation fee, whether it reuses the booking's open refund or makes a new one, and it
  adds exactly one completion to the queue.
\<close>

theorem manual_refund_settles:
  assumes "record_manual_refund env bid req user db = Inr (r, db')" "amounts_ok db"
    and "fils (mr_refund_amount req)" "fils (mr_cancellation_fee req)"
  shows "rf_status r = RS_COMPLETED
    \<and> rf_refunded_amount r = mr_refund_amount req - mr_cancellation_fee req \<and> 0 < rf_refunded_amount r
    \<and> map ev_refund_id (db_events db') = map ev_refund_id (db_events db) @ [rf_id r]"
proof -
  let ?net = "mr_refund_amount req - mr_cancellation_fee req"
  from assms(1) obtain b po m rs nt u r0 db1 r1 ref c db2 bk where
    rs: "resolve_refund_to_execute env b po (Some ?net) (mr_cancellation_fee req) RT_MANUAL m rs nt u db = Inr (r0, db1)"
    and r1: "rf_id r1 = rf_id r0" "rf_status r1 = rf_status r0" "rf_refunded_amount r1 = rf_refunded_amount r0"
    and done': "refund_complete env r1 ''ushdesk_manual_refund'' ref (Some u) False (put_refund r1 db1) = Inr (r, c, db2)"
    and db': "db' = publish_refund_event bk r po (put_booking bk db2)"
    by (rule record_manual_refund_steps)
  have net: "fils ?net" using assms(3,4) by (rule fils_closed)
  note res = resolve_refund_amount[OF rs assms(2) net]
  have keys: "distinct (map pm_id (db_payments (put_refund r1 db1)))"
    using res assms(2) by (simp add: amounts_ok_def)
  have "rf_status r1 \<noteq> RS_COMPLETED" using resolve_refund_status[OF rs] r1(2) by auto
  with complete_effect[OF done' keys] res r1 show ?thesis
    by (auto simp: db' publish_refund_event_def moved_def)
qed

theorem manual_refund_settles_witness:
  "\<exists>r db'. record_manual_refund (ex_env 3) 7
       \<lparr>mr_refund_amount = 5, mr_cancellation_fee = 1, mr_refund_method = ''Cash'', mr_reason = None, mr_notes = None,
        mr_customer_confirmation = None, mr_reference_number = None, mr_change_by_user = None\<rparr> ''staff'' ex_requested
       = Inr (r, db') \<and> rf_status r = RS_COMPLETED \<and> rf_refunded_amount r = 4"
proof -
  let ?req = "\<lparr>mr_refund_amount = 5, mr_cancellation_fee = 1, mr_refund_method = ''Cash'', mr_reason = None, mr_notes = None,
        mr_customer_confirmation = None, mr_reference_number = None, mr_change_by_user = None\<rparr>"
  let ?call = "record_manual_refund (ex_env 3) 7 ?req ''staff'' ex_requested"
  have "\<not> isl ?call" by code_simp
  then obtain r db' where *: "?call = Inr (r, db')" by (cases ?call) auto
  have "amounts_ok ex_requested" using ex_requested_reachable[of True] by (rule refund_reachable_amounts)
  from manual_refund_settles[OF * this] have "rf_status r = RS_COMPLETED \<and> rf_refunded_amount r = 4"
    by (simp add: fils_def)
  with * show ?thesis by blast
qed

text \<open>
  Following the pages of a refund list visits every refund that passes the filter exactly
  once, newest first, and the reported count is their number: for a page size between 1 and
  100 the pages put together are the sorted filtered table.
\<close>

theorem list_refunds_pages:
  assumes "1 \<le> s" "s \<le> 100" "length (filter (refund_matches f) (db_refunds db)) \<le> n * s"
  shows "concat (map (\<lambda>k. fst (list_refunds (int k + 1) (int s) f db)) [0..<n])
           = sort_key (\<lambda>r. - rf_created_at r) (filter (refund_matches f) (db_refunds db))
       \<and> fst (snd (list_refunds pg (int s) f db)) = length (filter (refund_matches f) (db_refunds db))"
proof -
  let ?xs = "sort_key (\<lambda>r. - rf_created_at r) (filter (refund_matches f) (db_refunds db))"
  have "fst (list_refunds (int k + 1) (int s) f db) = take s (drop (k * s) ?xs)" for k
    using assms(1,2) by (simp add: list_refunds_def Let_def nat_mult_distrib)
  with assms(3) show ?thesis by (simp add: concat_pages list_refunds_def Let_def)
qed

theorem list_refunds_pages_witness:
  "(let f = \<lparr>fl_booking_id = Some 7, fl_payment_id = None, fl_customer_id = None, fl_branch_id = None,
             fl_refund_type = None, fl_refund_method = Some ''CASH'', fl_status = None, fl_refund_number = Some ''2026'',
             fl_invoice_number = None, fl_credit_note_number = None, fl_payment_gateway = None,
             fl_gateway_refund_id = None, fl_gateway_transaction_id = None, fl_reference_number = None,
             fl_processed_by = None, fl_from_date = None, fl_to_date = None, fl_search = None, fl_currency = None\<rparr>
    in concat (map (\<lambda>k. fst (list_refunds (int k + 1) (int 1) f ex_requested)) [0..<2])
         = sort_key (\<lambda>r. - rf_created_at r) (filter (refund_matches f) (db_refunds ex_requested))
       \<and> map rf_id (filter (refund_matches f) (db_refunds ex_requested)) = [1, 2])"
proof -
  let ?f = "\<lparr>fl_booking_id = Some 7, fl_payment_id = None, fl_customer_id = None, fl_branch_id = None,
             fl_refund_type = None, fl_refund_method = Some ''CASH'', fl_status = None, fl_refund_number = Some ''2026'',
             fl_invoice_number = None, fl_credit_note_number = None, fl_payment_gateway = None,
             fl_gateway_refund_id = None, fl_gateway_transaction_id = None, fl_reference_number = None,
             fl_processed_by = None, fl_from_date = None, fl_to_date = None, fl_search = None, fl_currency = None\<rparr>"
  have ids: "map rf_id (filter (refund_matches ?f) (db_refunds ex_requested)) = [1, 2]" by code_simp
  then have "length (filter (refund_matches ?f) (db_refunds ex_requested)) \<le> 2 * 1"
    by (metis One_nat_def Suc_eq_plus1 length_map list.size(3) list.size(4) mult_2 one_add_one order_refl plus_1_eq_Suc)
  from list_refunds_pages[of 1, OF _ _ this] ids show ?thesis by simp
qed

text \<open>
  Repeating a cancellation's refund request can attach a payment to a refund that is already
  completed, without any check against the payment: a refund of 10 completed before the payment
  was known is attached to a payment of 4, whose completed refunds then exceed it.
\<close>

theorem attached_payment_unchecked:
  "(let db0 = \<lparr>db_payments = [], db_refunds = [], db_bookings = [ex_booking], db_history = [], db_events = []\<rparr>;
        ask = (\<lambda>i db. case create_refund_request (ex_env i) 7 None None None None 0 None None None db of
                 Inl _ \<Rightarrow> db | Inr (_, _, db') \<Rightarrow> db');
        db1 = ex_complete 1 (ask 1 db0);
        db2 = ask 2 (db1\<lparr>db_payments := [ex_payment\<lparr>pm_total_amount := 4\<rparr>]\<rparr>)
    in map rf_payment_id (db_refunds db1) = [None] \<and> map rf_payment_id (db_refunds db2) = [Some 1]
       \<and> money_completed 1 db2 = 10 \<and> map pm_total_amount (db_payments db2) = [4])"
  by code_simp

end
