(* ===== verification/Cache_Outbox.thy ===== *)
theory Cache_Outbox
  imports Payment_Attribution
begin

text \<open>
  The durable retry queue for appointment-cache calls: \<open>app/booking/infrastructure/cache_outbox.py\<close>,
  \<open>app/booking/application/cache_outbox_relay.py\<close> and \<open>_post_reliable\<close> of
  \<open>app/integrations/ushauth_client.py\<close>.

  The table is a list of rows in insertion order. The service behind \<open>client._post\<close> is the
  argument \<open>post\<close>, which gives the outcome of the call for a row; \<open>clock\<close> gives the time read
  when a row is finished. Failures of the outbox's own database statements are not modelled.
\<close>

datatype outbox_status = OB_PENDING | OB_DELIVERED | OB_DEAD

record AppointmentCacheOutbox =
  ob_id :: uuid
  ob_booking_id :: string
  ob_path :: string
  ob_payload :: json
  ob_status :: outbox_status
  ob_attempts :: int
  ob_max_attempts :: int
  ob_last_error :: "string option"
  ob_created_at :: instant
  ob_next_attempt_at :: instant
  ob_delivered_at :: "instant option"

text \<open>The exceptions a call may raise, as far as the retry rule tells them apart.\<close>

datatype upstream_error =
    GatewayTimeoutError
  | TransportError
  | NotFoundError
  | AuthorizationError
  | GatewayError "int option"
  | OtherHTTPError
  | OSError
  | OtherError

datatype post_outcome = PostOk | PostRaised upstream_error string

fun is_retryable_upstream_error :: "upstream_error \<Rightarrow> bool" where
  "is_retryable_upstream_error GatewayTimeoutError = True"
| "is_retryable_upstream_error TransportError = True"
| "is_retryable_upstream_error (GatewayError status) =
     (case status of None \<Rightarrow> True | Some s \<Rightarrow> 500 \<le> s \<or> s = 429)"
| "is_retryable_upstream_error _ = False"

text \<open>\<open>isinstance(exc, (httpx.HTTPError, OSError))\<close>; timeouts of the client are gateway errors here.\<close>

definition is_http_or_os_error :: "upstream_error \<Rightarrow> bool" where
  "is_http_or_os_error e \<longleftrightarrow> e \<in> {TransportError, OtherHTTPError, OSError}"

definition seconds :: "int \<Rightarrow> int" where "seconds n = n * 1000000"

definition LEASE_SECONDS :: int where "LEASE_SECONDS = 90"

definition MAX_BACKOFF_SECONDS :: int where "MAX_BACKOFF_SECONDS = 15 * 60"

definition backoff_seconds :: "int \<Rightarrow> int" where
  "backoff_seconds attempts = min (10 * 2 ^ nat (max (attempts - 1) 0)) MAX_BACKOFF_SECONDS"

section \<open>Enqueueing\<close>

definition enqueue_cache_request ::
  "instant \<Rightarrow> uuid \<Rightarrow> int \<Rightarrow> string \<Rightarrow> json \<Rightarrow> string \<Rightarrow> string \<Rightarrow> AppointmentCacheOutbox list
   \<Rightarrow> AppointmentCacheOutbox list" where
  "enqueue_cache_request now new_id max_attempts path payload booking_id err rows =
     rows @ [\<lparr>ob_id = new_id, ob_booking_id = booking_id, ob_path = path, ob_payload = payload,
              ob_status = OB_PENDING, ob_attempts = 1, ob_max_attempts = max_attempts,
              ob_last_error = Some (take 1000 err), ob_created_at = now,
              ob_next_attempt_at = now + seconds (backoff_seconds 1), ob_delivered_at = None\<rparr>]"

definition has_pending_for_booking :: "string \<Rightarrow> AppointmentCacheOutbox list \<Rightarrow> bool" where
  "has_pending_for_booking booking_id rows \<longleftrightarrow>
     (\<exists>r\<in>set rows. ob_booking_id r = booking_id \<and> ob_status r = OB_PENDING)"

datatype reliable_result = Posted | QueuedBehind | Raised upstream_error

definition post_reliable ::
  "bool \<Rightarrow> instant \<Rightarrow> uuid \<Rightarrow> int \<Rightarrow> post_outcome \<Rightarrow> string \<Rightarrow> json \<Rightarrow> string \<Rightarrow> AppointmentCacheOutbox list
   \<Rightarrow> reliable_result \<times> AppointmentCacheOutbox list" where
  "post_reliable enabled now new_id max_attempts outcome path payload booking_id rows =
     (if enabled \<and> has_pending_for_booking booking_id rows
      then (QueuedBehind, enqueue_cache_request now new_id max_attempts path payload booking_id
              ''queued behind pending request'' rows)
      else (case outcome of
              PostOk \<Rightarrow> (Posted, rows)
            | PostRaised e msg \<Rightarrow>
                (Raised e, if enabled \<and> is_retryable_upstream_error e
                           then enqueue_cache_request now new_id max_attempts path payload booking_id msg rows
                           else rows)))"

section \<open>The relay\<close>

definition claimable :: "instant \<Rightarrow> AppointmentCacheOutbox list \<Rightarrow> AppointmentCacheOutbox \<Rightarrow> bool" where
  "claimable now rows r \<longleftrightarrow>
     ob_status r = OB_PENDING \<and> ob_next_attempt_at r \<le> now \<and>
     \<not> (\<exists>older\<in>set rows. ob_booking_id older = ob_booking_id r \<and> ob_status older = OB_PENDING
          \<and> ob_created_at older < ob_created_at r)"

definition update_outbox ::
  "(AppointmentCacheOutbox \<Rightarrow> bool) \<Rightarrow> (AppointmentCacheOutbox \<Rightarrow> AppointmentCacheOutbox)
   \<Rightarrow> AppointmentCacheOutbox list \<Rightarrow> AppointmentCacheOutbox list" where
  "update_outbox P f rows = map (\<lambda>r. if P r then f r else r) rows"

definition claim_due_batch ::
  "instant \<Rightarrow> nat \<Rightarrow> AppointmentCacheOutbox list \<Rightarrow> AppointmentCacheOutbox list \<times> AppointmentCacheOutbox list" where
  "claim_due_batch now limit rows =
     (let batch = take limit (sort_key ob_created_at (filter (claimable now rows) rows)) in
      (batch, update_outbox (\<lambda>r. ob_id r \<in> ob_id ` set batch)
                (\<lambda>r. r\<lparr>ob_next_attempt_at := now + seconds LEASE_SECONDS\<rparr>) rows))"

definition finish ::
  "uuid \<Rightarrow> (AppointmentCacheOutbox \<Rightarrow> AppointmentCacheOutbox) \<Rightarrow> AppointmentCacheOutbox list
   \<Rightarrow> AppointmentCacheOutbox list" where
  "finish row_id f rows = update_outbox (\<lambda>r. ob_id r = row_id) f rows"

record outbox_stats =
  st_delivered :: nat
  st_retried :: nat
  st_dead :: nat

record relay_state =
  rl_rows :: "AppointmentCacheOutbox list"
  rl_blocked :: "string list"
  rl_stats :: outbox_stats
  rl_acked :: "(string \<times> uuid) list"

text \<open>The values written when a row is finished.\<close>

definition postponed_row :: "instant \<Rightarrow> AppointmentCacheOutbox \<Rightarrow> AppointmentCacheOutbox" where
  "postponed_row now r = r\<lparr>ob_next_attempt_at := now + seconds (backoff_seconds 1)\<rparr>"

definition dead_row :: "int \<Rightarrow> string \<Rightarrow> AppointmentCacheOutbox \<Rightarrow> AppointmentCacheOutbox" where
  "dead_row attempts msg r =
     r\<lparr>ob_status := OB_DEAD, ob_attempts := attempts, ob_last_error := Some (take 1000 msg)\<rparr>"

definition retried_row :: "instant \<Rightarrow> int \<Rightarrow> string \<Rightarrow> AppointmentCacheOutbox \<Rightarrow> AppointmentCacheOutbox" where
  "retried_row now attempts msg r =
     r\<lparr>ob_attempts := attempts, ob_last_error := Some (take 1000 msg),
       ob_next_attempt_at := now + seconds (backoff_seconds attempts)\<rparr>"

definition delivered_row :: "instant \<Rightarrow> AppointmentCacheOutbox \<Rightarrow> AppointmentCacheOutbox" where
  "delivered_row now r = r\<lparr>ob_status := OB_DELIVERED, ob_delivered_at := Some now, ob_last_error := None\<rparr>"

text \<open>
  One row of the batch. \<open>rl_acked\<close> lists the bookings and keys of the rows whose call
  succeeded, in order; the code keeps no such list.
\<close>

definition relay_row ::
  "(AppointmentCacheOutbox \<Rightarrow> post_outcome) \<Rightarrow> (uuid \<Rightarrow> instant) \<Rightarrow> int \<Rightarrow> AppointmentCacheOutbox
   \<Rightarrow> relay_state \<Rightarrow> relay_state" where
  "relay_row post clock default_max row st =
     (let now = clock (ob_id row) in
      if ob_booking_id row \<in> set (rl_blocked st)
      then st\<lparr>rl_rows := finish (ob_id row) (postponed_row now) (rl_rows st)\<rparr>
      else (case post row of
        PostRaised e msg \<Rightarrow>
          (let attempts = ob_attempts row + 1;
               retryable = (is_retryable_upstream_error e \<or> is_http_or_os_error e);
               cap = (if ob_max_attempts row = 0 then default_max else ob_max_attempts row)
           in if \<not> retryable \<or> cap \<le> attempts
              then st\<lparr>rl_rows := finish (ob_id row) (dead_row attempts msg) (rl_rows st),
                      rl_stats := (rl_stats st)\<lparr>st_dead := st_dead (rl_stats st) + 1\<rparr>\<rparr>
              else st\<lparr>rl_rows := finish (ob_id row) (retried_row now attempts msg) (rl_rows st),
                      rl_blocked := ob_booking_id row # rl_blocked st,
                      rl_stats := (rl_stats st)\<lparr>st_retried := st_retried (rl_stats st) + 1\<rparr>\<rparr>)
      | PostOk \<Rightarrow>
          st\<lparr>rl_rows := finish (ob_id row) (delivered_row now) (rl_rows st),
             rl_stats := (rl_stats st)\<lparr>st_delivered := st_delivered (rl_stats st) + 1\<rparr>,
             rl_acked := rl_acked st @ [(ob_booking_id row, ob_id row)]\<rparr>))"

definition process_outbox_once ::
  "(AppointmentCacheOutbox \<Rightarrow> post_outcome) \<Rightarrow> (uuid \<Rightarrow> instant) \<Rightarrow> int \<Rightarrow> instant \<Rightarrow> nat
   \<Rightarrow> AppointmentCacheOutbox list \<Rightarrow> relay_state" where
  "process_outbox_once post clock default_max now batch_size rows =
     (case claim_due_batch now batch_size rows of
        (batch, rows') \<Rightarrow>
          fold (relay_row post clock default_max) batch
            \<lparr>rl_rows = rows', rl_blocked = [], rl_stats = \<lparr>st_delivered = 0, st_retried = 0, st_dead = 0\<rparr>,
             rl_acked = []\<rparr>)"

section \<open>Runs\<close>

text \<open>
  The outbox with the requests acknowledged so far. Requests are numbered in the order they are
  made; a queued request's row has its number as key. The clock moves on between insertions.
\<close>

record outbox_world =
  ow_rows :: "AppointmentCacheOutbox list"
  ow_next :: nat
  ow_acked :: "(string \<times> uuid) list"

inductive outbox_step :: "outbox_world \<Rightarrow> outbox_world \<Rightarrow> bool" where
  send: "outbox_step w \<lparr>ow_rows = rows', ow_next = Suc (ow_next w),
      ow_acked = ow_acked w @ (if res = Posted then [(b, ow_next w)] else [])\<rparr>"
    if "post_reliable True now (ow_next w) cap outcome path payload b (ow_rows w) = (res, rows')"
      "\<forall>r\<in>set (ow_rows w). ob_created_at r < now"
| tick: "outbox_step w (w\<lparr>ow_rows := rl_rows st, ow_acked := ow_acked w @ rl_acked st\<rparr>)"
    if "process_outbox_once post clock cap now n (ow_rows w) = st"

inductive outbox_reachable :: "outbox_world \<Rightarrow> bool" where
  empty: "outbox_reachable \<lparr>ow_rows = [], ow_next = 0, ow_acked = []\<rparr>"
| step: "outbox_reachable w \<Longrightarrow> outbox_step w w' \<Longrightarrow> outbox_reachable w'"

definition pending :: "AppointmentCacheOutbox \<Rightarrow> bool" where
  "pending r \<longleftrightarrow> ob_status r = OB_PENDING"

text \<open>The numbers acknowledged for a booking, in the order of acknowledgement.\<close>

definition acked_ids :: "string \<Rightarrow> (string \<times> uuid) list \<Rightarrow> uuid list" where
  "acked_ids b acked = map snd (filter (\<lambda>x. fst x = b) acked)"

lemma acked_ids_append [simp]: "acked_ids b (xs @ ys) = acked_ids b xs @ acked_ids b ys"
  by (simp add: acked_ids_def)

lemma acked_ids_simps [simp]: "acked_ids b [] = []" "acked_ids b ((c, i) # xs) = (if c = b then [i] else []) @ acked_ids b xs"
  by (simp_all add: acked_ids_def)

definition in_order :: "AppointmentCacheOutbox list \<Rightarrow> (string \<times> uuid) list \<Rightarrow> bool" where
  "in_order rows acked \<longleftrightarrow>
     sorted_wrt (<) (map ob_id rows) \<and> sorted_wrt (<) (map ob_created_at rows) \<and>
     (\<forall>b. sorted_wrt (<) (acked_ids b acked)) \<and>
     (\<forall>r\<in>set rows. pending r \<longrightarrow> (\<forall>i\<in>set (acked_ids (ob_booking_id r) acked). i < ob_id r))"

text \<open>The row is pending and no pending row of its booking has a smaller number.\<close>

definition first_pending :: "AppointmentCacheOutbox list \<Rightarrow> AppointmentCacheOutbox \<Rightarrow> bool" where
  "first_pending rows r \<longleftrightarrow>
     (\<exists>x\<in>set rows. ob_id x = ob_id r \<and> ob_booking_id x = ob_booking_id r \<and> pending x) \<and>
     (\<forall>y\<in>set rows. pending y \<and> ob_booking_id y = ob_booking_id r \<longrightarrow> ob_id r \<le> ob_id y)"

text \<open>What processing a row does to the table: one row changes, and it may stop being pending.\<close>

definition touches :: "AppointmentCacheOutbox \<Rightarrow> (AppointmentCacheOutbox \<Rightarrow> AppointmentCacheOutbox) \<Rightarrow> bool" where
  "touches row g \<longleftrightarrow> (\<forall>r. ob_id (g r) = ob_id r \<and> ob_booking_id (g r) = ob_booking_id r
     \<and> ob_created_at (g r) = ob_created_at r \<and> ob_max_attempts (g r) = ob_max_attempts r
     \<and> (pending (g r) \<longrightarrow> pending r) \<and> (ob_id r \<noteq> ob_id row \<longrightarrow> g r = r))"

text \<open>The four row updates keep the columns the order depends on.\<close>

definition keeps_order_columns :: "(AppointmentCacheOutbox \<Rightarrow> AppointmentCacheOutbox) \<Rightarrow> bool" where
  "keeps_order_columns f \<longleftrightarrow> (\<forall>r. ob_id (f r) = ob_id r \<and> ob_booking_id (f r) = ob_booking_id r
     \<and> ob_created_at (f r) = ob_created_at r \<and> ob_max_attempts (f r) = ob_max_attempts r
     \<and> (pending (f r) \<longrightarrow> pending r))"

lemma row_updates_keep:
  "keeps_order_columns (postponed_row now)" "keeps_order_columns (dead_row n msg)"
  "keeps_order_columns (retried_row now n msg)" "keeps_order_columns (delivered_row now)"
  by (simp_all add: keeps_order_columns_def postponed_row_def dead_row_def retried_row_def delivered_row_def pending_def)

lemma delivered_not_pending [simp]: "\<not> pending (delivered_row now r)"
  by (simp add: delivered_row_def pending_def)

text \<open>What a row's turn does: postpone, kill, retry or deliver it.\<close>

lemma relay_row_turn:
  obtains
    (postpone) "ob_booking_id row \<in> set (rl_blocked st)"
      "rl_rows (relay_row post clock dm row st) = finish (ob_id row) (postponed_row (clock (ob_id row))) (rl_rows st)"
      "rl_acked (relay_row post clock dm row st) = rl_acked st" "rl_blocked (relay_row post clock dm row st) = rl_blocked st"
  | (kill) msg where "rl_rows (relay_row post clock dm row st) = finish (ob_id row) (dead_row (ob_attempts row + 1) msg) (rl_rows st)"
      "rl_acked (relay_row post clock dm row st) = rl_acked st" "rl_blocked (relay_row post clock dm row st) = rl_blocked st"
  | (retry) msg where "ob_attempts row + 1 < (if ob_max_attempts row = 0 then dm else ob_max_attempts row)"
      "rl_rows (relay_row post clock dm row st)
         = finish (ob_id row) (retried_row (clock (ob_id row)) (ob_attempts row + 1) msg) (rl_rows st)"
      "rl_acked (relay_row post clock dm row st) = rl_acked st"
      "rl_blocked (relay_row post clock dm row st) = ob_booking_id row # rl_blocked st"
  | (deliver) "rl_rows (relay_row post clock dm row st) = finish (ob_id row) (delivered_row (clock (ob_id row))) (rl_rows st)"
      "rl_acked (relay_row post clock dm row st) = rl_acked st @ [(ob_booking_id row, ob_id row)]"
      "rl_blocked (relay_row post clock dm row st) = rl_blocked st"
proof (cases "ob_booking_id row \<in> set (rl_blocked st)")
  case True
  then show ?thesis by (intro postpone) (simp_all add: relay_row_def)
next
  case False
  show ?thesis
  proof (cases "post row")
    case PostOk
    with False show ?thesis by (intro deliver) (simp_all add: relay_row_def)
  next
    case (PostRaised e msg)
    show ?thesis
    proof (cases "\<not> (is_retryable_upstream_error e \<or> is_http_or_os_error e)
        \<or> (if ob_max_attempts row = 0 then dm else ob_max_attempts row) \<le> ob_attempts row + 1")
      case True
      then have "relay_row post clock dm row st = st\<lparr>rl_rows := finish (ob_id row) (dead_row (ob_attempts row + 1) msg) (rl_rows st),
          rl_stats := (rl_stats st)\<lparr>st_dead := st_dead (rl_stats st) + 1\<rparr>\<rparr>"
        using False PostRaised by (simp only: relay_row_def Let_def if_False if_True post_outcome.case)
      then show ?thesis by (intro kill[of msg]) simp_all
    next
      case no: False
      with False PostRaised show ?thesis by (intro retry[of msg]) (simp_all add: relay_row_def Let_def not_le)
    qed
  qed
qed

lemma finish_touches:
  assumes "keeps_order_columns f"
  shows "\<exists>g. touches row g \<and> finish (ob_id row) f rows = map g rows \<and> (\<forall>r. ob_id r = ob_id row \<longrightarrow> g r = f r)"
  using assms
  by (intro exI[of _ "\<lambda>r. if ob_id r = ob_id row then f r else r"])
    (auto simp: touches_def finish_def update_outbox_def keeps_order_columns_def)

lemma relay_row_shape:
  obtains g where "touches row g" "rl_rows (relay_row post clock dm row st) = map g (rl_rows st)"
    "rl_acked (relay_row post clock dm row st) = rl_acked st
      \<or> rl_acked (relay_row post clock dm row st) = rl_acked st @ [(ob_booking_id row, ob_id row)]
        \<and> (\<forall>r. ob_id r = ob_id row \<longrightarrow> \<not> pending (g r))"
proof (cases rule: relay_row_turn[where row = row and st = st and post = post and clock = clock and dm = dm])
  case postpone
  with finish_touches[OF row_updates_keep(1)] show ?thesis by (metis that)
next
  case (kill msg)
  with finish_touches[OF row_updates_keep(2)] show ?thesis by (metis that)
next
  case (retry msg)
  with finish_touches[OF row_updates_keep(3)] show ?thesis by (metis that)
next
  case deliver
  with finish_touches[OF row_updates_keep(4)] delivered_not_pending show ?thesis by (metis that)
qed

text \<open>One row's turn keeps the order when the row is the first pending one of its booking.\<close>

lemma touched_in_order:
  assumes ord: "in_order rows acked" and g: "touches row g" and fp: "first_pending rows row"
    and ack: "acked' = acked \<or> acked' = acked @ [(ob_booking_id row, ob_id row)] \<and> (\<forall>r. ob_id r = ob_id row \<longrightarrow> \<not> pending (g r))"
  shows "in_order (map g rows) acked'"
proof -
  have cols: "ob_id (g r) = ob_id r" "ob_created_at (g r) = ob_created_at r" "ob_booking_id (g r) = ob_booking_id r"
    "pending (g r) \<Longrightarrow> pending r" for r
    using g unfolding touches_def by blast+
  have ids: "map ob_id (map g rows) = map ob_id rows" "map ob_created_at (map g rows) = map ob_created_at rows"
    by (simp_all add: cols comp_def)
  from fp obtain x where x: "x \<in> set rows" "ob_id x = ob_id row" "ob_booking_id x = ob_booking_id row" "pending x"
    by (auto simp: first_pending_def)
  have below: "\<forall>i\<in>set (acked_ids (ob_booking_id row) acked). i < ob_id row"
    using ord x by (auto simp: in_order_def)
  have "sorted_wrt (<) (acked_ids b acked')" for b
    using ack ord below by (auto simp: in_order_def sorted_wrt_append)
  moreover have "\<forall>i\<in>set (acked_ids (ob_booking_id (g r)) acked'). i < ob_id (g r)"
    if r: "r \<in> set rows" "pending (g r)" for r
  proof -
    have p: "pending r" "ob_id (g r) = ob_id r" "ob_booking_id (g r) = ob_booking_id r"
      using cols r(2) by blast+
    have old: "\<forall>i\<in>set (acked_ids (ob_booking_id r) acked). i < ob_id r" using ord r(1) p(1) by (simp add: in_order_def)
    have new: "ob_id row < ob_id r" if "\<forall>r. ob_id r = ob_id row \<longrightarrow> \<not> pending (g r)" "ob_booking_id r = ob_booking_id row"
    proof -
      have "ob_id r \<noteq> ob_id row" using that r(2) by auto
      moreover have "ob_id row \<le> ob_id r" using fp r(1) p(1) that(2) by (auto simp: first_pending_def)
      ultimately show ?thesis by simp
    qed
    have "i < ob_id r" if i: "i \<in> set (acked_ids (ob_booking_id r) acked')" for i
    proof (cases "i \<in> set (acked_ids (ob_booking_id r) acked)")
      case True
      with old show ?thesis by blast
    next
      case False
      with i ack have "i = ob_id row" "ob_booking_id r = ob_booking_id row" "\<forall>r. ob_id r = ob_id row \<longrightarrow> \<not> pending (g r)"
        by (auto split: if_splits)
      with new show ?thesis by blast
    qed
    then show ?thesis unfolding p(2,3) by blast
  qed
  ultimately show ?thesis using ord unfolding in_order_def ids by simp
qed

lemma touched_first_pending:
  assumes "first_pending rows r" "touches row g" "ob_id r \<noteq> ob_id row"
  shows "first_pending (map g rows) r"
proof -
  from assms(1) obtain x where x: "x \<in> set rows" "ob_id x = ob_id r" "ob_booking_id x = ob_booking_id r" "pending x"
    by (auto simp: first_pending_def)
  have "g x = x" using x(2) assms(2,3) unfolding touches_def by metis
  with x have "\<exists>y\<in>set (map g rows). ob_id y = ob_id r \<and> ob_booking_id y = ob_booking_id r \<and> pending y"
    by (metis image_eqI list.set_map)
  moreover have "\<forall>y\<in>set (map g rows). pending y \<and> ob_booking_id y = ob_booking_id r \<longrightarrow> ob_id r \<le> ob_id y"
  proof (intro ballI impI)
    fix y assume "y \<in> set (map g rows)" and y: "pending y \<and> ob_booking_id y = ob_booking_id r"
    then obtain z where z: "z \<in> set rows" "y = g z" by auto
    with y assms(2) have "pending z" "ob_booking_id z = ob_booking_id r" "ob_id y = ob_id z"
      unfolding touches_def by metis+
    with z(1) assms(1) show "ob_id r \<le> ob_id y" by (simp add: first_pending_def)
  qed
  ultimately show ?thesis by (simp add: first_pending_def)
qed

lemma relay_batch_in_order:
  assumes "in_order (rl_rows st) (acked @ rl_acked st)" "\<forall>r\<in>set batch. first_pending (rl_rows st) r"
    and "distinct (map ob_id batch)"
  shows "in_order (rl_rows (fold (relay_row post clock dm) batch st))
      (acked @ rl_acked (fold (relay_row post clock dm) batch st))
    \<and> map ob_id (rl_rows (fold (relay_row post clock dm) batch st)) = map ob_id (rl_rows st)
    \<and> set (rl_acked (fold (relay_row post clock dm) batch st)) \<subseteq> set (rl_acked st) \<union> UNIV \<times> ob_id ` set batch"
  using assms
proof (induction batch arbitrary: st)
  case (Cons row batch)
  let ?st = "relay_row post clock dm row st"
  obtain g where g: "touches row g" "rl_rows ?st = map g (rl_rows st)"
    and ack: "rl_acked ?st = rl_acked st \<or> rl_acked ?st = rl_acked st @ [(ob_booking_id row, ob_id row)]
      \<and> (\<forall>r. ob_id r = ob_id row \<longrightarrow> \<not> pending (g r))"
    by (rule relay_row_shape)
  have "in_order (rl_rows ?st) (acked @ rl_acked ?st)"
    unfolding g(2) by (rule touched_in_order[OF Cons.prems(1) g(1)]) (use Cons.prems(2) ack in auto)
  moreover have "\<forall>r\<in>set batch. first_pending (rl_rows ?st) r"
    unfolding g(2) using Cons.prems(2,3) by (auto intro!: touched_first_pending[OF _ g(1)] simp: image_iff)
  moreover have "ob_id (g r) = ob_id r" for r using g(1) unfolding touches_def by blast
  then have "map ob_id (rl_rows ?st) = map ob_id (rl_rows st)" unfolding g(2) by simp
  ultimately show ?case using Cons.IH[of ?st] Cons.prems(3) ack by fastforce
qed simp

lemma in_order_ids: "in_order rows acked \<Longrightarrow> x \<in> set rows \<Longrightarrow> y \<in> set rows \<Longrightarrow>
  (ob_id x < ob_id y \<longleftrightarrow> ob_created_at x < ob_created_at y)"
proof -
  assume ord: "in_order rows acked" and x: "x \<in> set rows" and y: "y \<in> set rows"
  from x y obtain i j where ij: "i < length rows" "x = rows ! i" "j < length rows" "y = rows ! j"
    by (auto simp: in_set_conv_nth)
  have "i < j \<Longrightarrow> ob_id x < ob_id y \<and> ob_created_at x < ob_created_at y"
    "j < i \<Longrightarrow> ob_id y < ob_id x \<and> ob_created_at y < ob_created_at x"
    using ord ij by (auto simp: in_order_def sorted_wrt_iff_nth_less)
  then show ?thesis using ij by (cases i j rule: linorder_cases) auto
qed

lemma claimable_first_pending:
  assumes "in_order rows acked" "r \<in> set rows" "claimable now rows r"
  shows "first_pending rows r"
proof -
  have "ob_id r \<le> ob_id y" if "y \<in> set rows" "pending y" "ob_booking_id y = ob_booking_id r" for y
  proof (rule ccontr)
    assume "\<not> ob_id r \<le> ob_id y"
    then have "ob_created_at y < ob_created_at r" using in_order_ids[OF assms(1) that(1) assms(2)] by simp
    with assms(3) that show False by (auto simp: claimable_def pending_def)
  qed
  then show ?thesis using assms(2,3) by (auto simp: first_pending_def claimable_def pending_def)
qed

lemma in_order_lease:
  "in_order (update_outbox P (\<lambda>r. r\<lparr>ob_next_attempt_at := t\<rparr>) rows) acked \<longleftrightarrow> in_order rows acked"
proof -
  have "map ob_id (update_outbox P (\<lambda>r. r\<lparr>ob_next_attempt_at := t\<rparr>) rows) = map ob_id rows"
    "map ob_created_at (update_outbox P (\<lambda>r. r\<lparr>ob_next_attempt_at := t\<rparr>) rows) = map ob_created_at rows"
    by (auto simp: update_outbox_def)
  moreover have "(\<forall>r\<in>set (update_outbox P (\<lambda>r. r\<lparr>ob_next_attempt_at := t\<rparr>) rows). pending r \<longrightarrow>
        (\<forall>i\<in>set (acked_ids (ob_booking_id r) acked). i < ob_id r))
      \<longleftrightarrow> (\<forall>r\<in>set rows. pending r \<longrightarrow> (\<forall>i\<in>set (acked_ids (ob_booking_id r) acked). i < ob_id r))"
    unfolding update_outbox_def set_map ball_simps by (rule ball_cong) (auto simp: pending_def)
  ultimately show ?thesis unfolding in_order_def by simp
qed

lemma first_pending_lease:
  "first_pending rows r \<Longrightarrow> first_pending (update_outbox P (\<lambda>r. r\<lparr>ob_next_attempt_at := t\<rparr>) rows) r"
  unfolding first_pending_def update_outbox_def set_map ball_simps bex_simps
  by (elim conjE bexE, intro conjI bexI) (auto simp: pending_def)

lemma set_claim_batch:
  "claim_due_batch now n rows = (batch, rows') \<Longrightarrow> r \<in> set batch \<Longrightarrow> r \<in> set rows \<and> claimable now rows r"
proof -
  assume "claim_due_batch now n rows = (batch, rows')" "r \<in> set batch"
  then have "r \<in> set (take n (sort_key ob_created_at (filter (claimable now rows) rows)))"
    by (auto simp: claim_due_batch_def Let_def)
  then have "r \<in> set (sort_key ob_created_at (filter (claimable now rows) rows))" by (rule in_set_takeD)
  then show ?thesis by simp
qed

lemma distinct_claim_batch:
  assumes "claim_due_batch now n rows = (batch, rows')" "distinct (map ob_id rows)"
  shows "distinct (map ob_id batch)"
proof -
  have "distinct (map ob_id (sort_key ob_created_at (filter (claimable now rows) rows)))"
    using assms(2) by (simp add: distinct_map) (auto intro: inj_on_subset)
  then have "distinct (take n (map ob_id (sort_key ob_created_at (filter (claimable now rows) rows))))"
    by (rule distinct_take)
  then show ?thesis using assms(1) by (auto simp: claim_due_batch_def Let_def take_map)
qed

text \<open>The invariant of the reachable worlds.\<close>

definition world_ok :: "outbox_world \<Rightarrow> bool" where
  "world_ok w \<longleftrightarrow> in_order (ow_rows w) (ow_acked w) \<and> (\<forall>r\<in>set (ow_rows w). ob_id r < ow_next w)
     \<and> (\<forall>x\<in>set (ow_acked w). snd x < ow_next w)"

lemma process_outbox_in_order:
  assumes "in_order rows acked" "process_outbox_once post clock dm now n rows = st"
  shows "in_order (rl_rows st) (acked @ rl_acked st) \<and> map ob_id (rl_rows st) = map ob_id rows
    \<and> snd ` set (rl_acked st) \<subseteq> ob_id ` set rows"
proof -
  obtain batch rows' where cl: "claim_due_batch now n rows = (batch, rows')" by fastforce
  let ?st = "\<lparr>rl_rows = rows', rl_blocked = [], rl_stats = \<lparr>st_delivered = 0, st_retried = 0, st_dead = 0\<rparr>, rl_acked = []\<rparr>"
  have rows': "rows' = update_outbox (\<lambda>r. ob_id r \<in> ob_id ` set batch)
      (\<lambda>r. r\<lparr>ob_next_attempt_at := now + seconds LEASE_SECONDS\<rparr>) rows"
    using cl by (auto simp: claim_due_batch_def Let_def)
  have st: "st = fold (relay_row post clock dm) batch ?st"
    using assms(2) cl by (simp add: process_outbox_once_def)
  have "distinct (map ob_id rows)" using assms(1) by (auto simp: in_order_def strict_sorted_iff)
  then have d: "distinct (map ob_id batch)" by (rule distinct_claim_batch[OF cl])
  have fp: "\<forall>r\<in>set batch. first_pending (rl_rows ?st) r"
    using set_claim_batch[OF cl] claimable_first_pending[OF assms(1)] first_pending_lease[of rows]
    unfolding rows' relay_state.simps by blast
  have ord: "in_order (rl_rows ?st) (acked @ rl_acked ?st)" using assms(1) by (simp add: rows' in_order_lease)
  have ids: "map ob_id rows' = map ob_id rows" by (auto simp: rows' update_outbox_def)
  from relay_batch_in_order[OF ord fp d, of post clock dm] ids st
  have "in_order (rl_rows st) (acked @ rl_acked st) \<and> map ob_id (rl_rows st) = map ob_id rows
    \<and> set (rl_acked st) \<subseteq> UNIV \<times> ob_id ` set batch" by simp
  moreover have "ob_id ` set batch \<subseteq> ob_id ` set rows" using set_claim_batch[OF cl] by auto
  ultimately show ?thesis by fastforce
qed

lemma in_order_new_row:
  assumes "in_order rows acked" "\<forall>r\<in>set rows. ob_id r < i" "\<forall>x\<in>set acked. snd x < i" "\<forall>r\<in>set rows. ob_created_at r < t"
    and "ob_id r = i" "ob_created_at r = t"
  shows "in_order (rows @ [r]) acked"
proof -
  have "k < i" if "k \<in> set (acked_ids b acked)" for k b
    using that assms(3) by (auto simp: acked_ids_def)
  with assms show ?thesis by (auto simp: in_order_def sorted_wrt_append)
qed

lemma outbox_step_ok:
  assumes "outbox_step w w'" "world_ok w" shows "world_ok w'"
  using assms
proof (induction rule: outbox_step.induct)
  case (send now w cap outcome path payload b res rows')
  from send(1) consider
    (queued) err where "res \<noteq> Posted" "rows' = enqueue_cache_request now (ow_next w) cap path payload b err (ow_rows w)"
    | (failed) "res \<noteq> Posted" "rows' = ow_rows w"
    | (direct) "res = Posted" "rows' = ow_rows w" "\<not> has_pending_for_booking b (ow_rows w)"
    by (auto simp: post_reliable_def split: if_splits post_outcome.splits)
  then show ?case
  proof cases
    case queued
    have "in_order rows' (ow_acked w)"
      unfolding queued(2) enqueue_cache_request_def
      by (rule in_order_new_row[where i = "ow_next w" and t = now]) (use send(2,3) in \<open>auto simp: world_ok_def\<close>)
    with queued send(3) show ?thesis
      by (auto simp: world_ok_def enqueue_cache_request_def less_Suc_eq)
  next
    case failed
    with send(3) show ?thesis by (auto simp: world_ok_def less_Suc_eq)
  next
    case direct
    have lt: "k < ow_next w" if "k \<in> set (acked_ids c (ow_acked w))" for k c
      using that send(3) by (auto simp: acked_ids_def world_ok_def)
    have "ob_booking_id r \<noteq> b" if "r \<in> set (ow_rows w)" "pending r" for r
      using direct(3) that by (auto simp: has_pending_for_booking_def pending_def)
    then have "in_order (ow_rows w) (ow_acked w @ [(b, ow_next w)])"
      using send(3) lt by (auto simp: world_ok_def in_order_def sorted_wrt_append)
    with direct send(3) show ?thesis by (auto simp: world_ok_def less_Suc_eq)
  qed
next
  case (tick post clock cap now n w st)
  have ord: "in_order (ow_rows w) (ow_acked w)" using tick(2) by (simp add: world_ok_def)
  note res = process_outbox_in_order[OF ord tick(1)]
  have "ob_id ` set (rl_rows st) = ob_id ` set (ow_rows w)" using res by (metis list.set_map)
  moreover have "k < ow_next w" if "k \<in> ob_id ` set (ow_rows w)" for k
    using that tick(2) by (auto simp: world_ok_def)
  ultimately have "ob_id r < ow_next w" if "r \<in> set (rl_rows st)" for r using that by blast
  moreover have "snd x < ow_next w" if "x \<in> set (ow_acked w @ rl_acked st)" for x
    using that res tick(2) \<open>\<And>k. k \<in> ob_id ` set (ow_rows w) \<Longrightarrow> k < ow_next w\<close> by (auto simp: world_ok_def)
  ultimately show ?case using res by (simp add: world_ok_def)
qed

lemma outbox_reachable_ok: "outbox_reachable w \<Longrightarrow> world_ok w"
proof (induction rule: outbox_reachable.induct)
  case empty
  show ?case by (simp add: world_ok_def in_order_def)
qed (blast intro: outbox_step_ok)

section \<open>Progress\<close>

text \<open>How many more attempts the pending rows may take: every turn of a row uses one up.\<close>

definition row_weight :: "int \<Rightarrow> AppointmentCacheOutbox \<Rightarrow> nat" where
  "row_weight dm r = (if pending r
     then Suc (nat ((if ob_max_attempts r = 0 then dm else ob_max_attempts r) - ob_attempts r)) else 0)"

definition outbox_weight :: "int \<Rightarrow> AppointmentCacheOutbox list \<Rightarrow> nat" where
  "outbox_weight dm rows = sum_list (map (row_weight dm) rows)"

lemma finish_weight_le:
  assumes "\<And>r. r \<in> set rows \<Longrightarrow> ob_id r = i \<Longrightarrow> row_weight dm (f r) \<le> row_weight dm r"
  shows "outbox_weight dm (finish i f rows) \<le> outbox_weight dm rows"
  unfolding outbox_weight_def finish_def update_outbox_def map_map comp_def
  by (rule sum_list_map_mono) (use assms in auto)

lemma finish_weight_less:
  assumes "\<And>r. r \<in> set rows \<Longrightarrow> ob_id r = i \<Longrightarrow> row_weight dm (f r) < row_weight dm r" "x \<in> set rows" "ob_id x = i"
  shows "outbox_weight dm (finish i f rows) < outbox_weight dm rows"
  using assms
proof (induction rows)
  case (Cons a rows)
  have le: "outbox_weight dm (finish i f rows) \<le> outbox_weight dm rows"
    by (rule finish_weight_le) (use Cons.prems(1) in \<open>auto intro: less_imp_le\<close>)
  have cons: "outbox_weight dm (finish i f (a # rows))
      = (if ob_id a = i then row_weight dm (f a) else row_weight dm a) + outbox_weight dm (finish i f rows)"
    "outbox_weight dm (a # rows) = row_weight dm a + outbox_weight dm rows"
    by (simp_all add: outbox_weight_def finish_def update_outbox_def)
  show ?case
  proof (cases "ob_id a = i")
    case True
    then have "row_weight dm (f a) < row_weight dm a" using Cons.prems(1) by simp
    with True le show ?thesis unfolding cons by simp
  next
    case False
    then have "x \<in> set rows" using Cons.prems(2,3) by auto
    with Cons False show ?thesis unfolding cons by simp
  qed
qed simp

lemma row_weight_updates:
  "row_weight dm (postponed_row t r) = row_weight dm r"
  "row_weight dm (dead_row n m r) = 0"
  "row_weight dm (delivered_row t r) = 0"
  by (simp_all add: row_weight_def postponed_row_def dead_row_def delivered_row_def pending_def)

lemma row_weight_retry:
  assumes "ob_attempts row + 1 < (if ob_max_attempts row = 0 then dm else ob_max_attempts row)"
    and "ob_max_attempts r = ob_max_attempts row" "ob_attempts r = ob_attempts row"
  shows "row_weight dm (retried_row t (ob_attempts row + 1) m r) \<le> row_weight dm r"
    and "pending r \<Longrightarrow> row_weight dm (retried_row t (ob_attempts row + 1) m r) < row_weight dm r"
  using assms by (auto simp: row_weight_def retried_row_def pending_def split: if_splits)

text \<open>The batch row agrees with the stored row on the columns the retry rule reads.\<close>

definition agrees :: "AppointmentCacheOutbox list \<Rightarrow> AppointmentCacheOutbox \<Rightarrow> bool" where
  "agrees rows row \<longleftrightarrow> (\<forall>r\<in>set rows. ob_id r = ob_id row \<longrightarrow>
     ob_max_attempts r = ob_max_attempts row \<and> ob_attempts r = ob_attempts row \<and> pending r)
   \<and> ob_id row \<in> ob_id ` set rows"

lemma relay_row_weight:
  assumes "agrees (rl_rows st) row"
  shows "outbox_weight dm (rl_rows (relay_row post clock dm row st)) \<le> outbox_weight dm (rl_rows st)"
    and "ob_booking_id row \<notin> set (rl_blocked st) \<Longrightarrow>
      outbox_weight dm (rl_rows (relay_row post clock dm row st)) < outbox_weight dm (rl_rows st)"
proof -
  have pos: "0 < row_weight dm r" if "r \<in> set (rl_rows st)" "ob_id r = ob_id row" for r
    using that assms by (simp add: agrees_def row_weight_def)
  obtain x where x: "x \<in> set (rl_rows st)" "ob_id x = ob_id row" using assms by (auto simp: agrees_def)
  let ?W = "outbox_weight dm (rl_rows (relay_row post clock dm row st))"
  have "?W \<le> outbox_weight dm (rl_rows st) \<and> (ob_booking_id row \<notin> set (rl_blocked st) \<longrightarrow> ?W < outbox_weight dm (rl_rows st))"
  proof (cases rule: relay_row_turn[where row = row and st = st and post = post and clock = clock and dm = dm])
    case postpone
    then show ?thesis by (simp add: finish_weight_le row_weight_updates)
  next
    case (kill msg)
    have "?W < outbox_weight dm (rl_rows st)"
      unfolding kill(1) by (rule finish_weight_less[OF _ x]) (simp add: row_weight_updates pos)
    then show ?thesis by simp
  next
    case (retry msg)
    have "?W < outbox_weight dm (rl_rows st)"
      unfolding retry(2)
      by (rule finish_weight_less[OF _ x]) (use assms in \<open>auto simp: agrees_def intro!: row_weight_retry(2)[OF retry(1)]\<close>)
    then show ?thesis by simp
  next
    case deliver
    have "?W < outbox_weight dm (rl_rows st)"
      unfolding deliver(1) by (rule finish_weight_less[OF _ x]) (simp add: row_weight_updates pos)
    then show ?thesis by simp
  qed
  then show "?W \<le> outbox_weight dm (rl_rows st)"
    "ob_booking_id row \<notin> set (rl_blocked st) \<Longrightarrow> ?W < outbox_weight dm (rl_rows st)" by blast+
qed

lemma touched_agrees:
  assumes "agrees rows r" "touches row g" "ob_id r \<noteq> ob_id row"
  shows "agrees (map g rows) r"
proof -
  have "ob_id (g y) = ob_id y" "ob_id y = ob_id r \<Longrightarrow> g y = y" for y
    using assms(2,3) unfolding touches_def by metis+
  with assms(1) show ?thesis by (auto simp: agrees_def image_iff)
qed

lemma agrees_lease:
  assumes "agrees rows x"
  shows "agrees (update_outbox P (\<lambda>r. r\<lparr>ob_next_attempt_at := t\<rparr>) rows) x"
proof -
  let ?h = "\<lambda>r. if P r then r\<lparr>ob_next_attempt_at := t\<rparr> else r"
  have h: "ob_id (?h r) = ob_id r" "ob_max_attempts (?h r) = ob_max_attempts r" "ob_attempts (?h r) = ob_attempts r"
    "pending (?h r) = pending r" for r
    by (simp_all add: pending_def)
  have "ob_id ` set (map ?h rows) = ob_id ` set rows" by (simp only: set_map image_image h)
  with assms show ?thesis
    unfolding update_outbox_def agrees_def set_map ball_simps h by (simp only: image_image h) simp
qed

lemma relay_batch_weight:
  assumes "\<forall>r\<in>set batch. agrees (rl_rows st) r" "distinct (map ob_id batch)"
  shows "outbox_weight dm (rl_rows (fold (relay_row post clock dm) batch st)) \<le> outbox_weight dm (rl_rows st)"
  using assms
proof (induction batch arbitrary: st)
  case (Cons row batch)
  let ?st = "relay_row post clock dm row st"
  obtain g where g: "touches row g" "rl_rows ?st = map g (rl_rows st)" by (rule relay_row_shape)
  have "\<forall>r\<in>set batch. agrees (rl_rows ?st) r"
    unfolding g(2) using Cons.prems by (auto intro!: touched_agrees[OF _ g(1)] simp: image_iff)
  with Cons have "outbox_weight dm (rl_rows (fold (relay_row post clock dm) batch ?st)) \<le> outbox_weight dm (rl_rows ?st)"
    by simp
  also have "\<dots> \<le> outbox_weight dm (rl_rows st)" using Cons.prems(1) by (simp add: relay_row_weight(1))
  finally show ?case by simp
qed simp

lemma claim_nonempty:
  assumes "r \<in> set rows" "pending r" "\<forall>r\<in>set rows. pending r \<longrightarrow> ob_next_attempt_at r \<le> now" "0 < n"
  shows "fst (claim_due_batch now n rows) \<noteq> []"
proof -
  let ?P = "filter pending rows"
  obtain m where m: "m \<in> set ?P" "\<forall>y\<in>set ?P. ob_created_at m \<le> ob_created_at y"
  proof -
    have "set ?P \<noteq> {}" using assms(1,2) by auto
    from arg_min_if_finite[OF _ this, of ob_created_at] show ?thesis using that
      by (meson List.finite_set not_le)
  qed
  then have "claimable now rows m" using assms(3) by (force simp: claimable_def pending_def)
  with m(1) have "m \<in> set (sort_key ob_created_at (filter (claimable now rows) rows))" by simp
  then show ?thesis using assms(4)
    by (cases "sort_key ob_created_at (filter (claimable now rows) rows)")
      (auto simp: claim_due_batch_def Let_def simp del: set_sort)
qed

lemma backoff_pow: "backoff_seconds (int n + 1) = min (10 * 2 ^ n) 900"
  by (simp add: backoff_seconds_def MAX_BACKOFF_SECONDS_def)

section \<open>Properties\<close>

text \<open>
  C28. The requests of a booking are acknowledged in the order they were made and none twice,
  whichever of them are sent directly, queued, retried, postponed or given up, and however the
  relay's rounds and the requests interleave; and what is still pending was made after
  everything acknowledged.
\<close>

theorem outbox_in_order:
  assumes "outbox_reachable w"
  shows "sorted_wrt (<) (acked_ids b (ow_acked w))
    \<and> (\<forall>r\<in>set (ow_rows w). ob_status r = OB_PENDING \<longrightarrow> (\<forall>i\<in>set (acked_ids (ob_booking_id r) (ow_acked w)). i < ob_id r))"
  using outbox_reachable_ok[OF assms] by (auto simp: world_ok_def in_order_def pending_def)

theorem outbox_in_order_witness:
  "\<exists>w. outbox_reachable w \<and> sorted_wrt (<) (acked_ids ''7'' (ow_acked w)) \<and> acked_ids ''7'' (ow_acked w) = [0]
     \<and> map ob_status (ow_rows w) = [OB_DELIVERED]"
proof -
  let ?w0 = "\<lparr>ow_rows = [], ow_next = 0, ow_acked = []\<rparr>"
  obtain rows1 where q: "post_reliable True 5 0 12 (PostRaised TransportError ''x'') ''/create'' JNull ''7'' [] = (Raised TransportError, rows1)"
    and r1: "rows1 = enqueue_cache_request 5 0 12 ''/create'' JNull ''7'' ''x'' []"
    by (simp add: post_reliable_def has_pending_for_booking_def)
  let ?w1 = "\<lparr>ow_rows = rows1, ow_next = 1, ow_acked = []\<rparr>"
  have "outbox_reachable ?w1"
    using outbox_reachable.step[OF outbox_reachable.empty outbox_step.send[where w = ?w0, simplified, OF q]] by simp
  let ?st = "process_outbox_once (\<lambda>_. PostOk) (\<lambda>_. 20000001) 12 20000000 50 rows1"
  let ?w2 = "?w1\<lparr>ow_rows := rl_rows ?st, ow_acked := ow_acked ?w1 @ rl_acked ?st\<rparr>"
  have "outbox_step ?w1 ?w2" by (rule outbox_step.tick) simp
  with \<open>outbox_reachable ?w1\<close> have reach: "outbox_reachable ?w2" by (rule outbox_reachable.step)
  have "acked_ids ''7'' (ow_acked ?w2) = [0] \<and> map ob_status (ow_rows ?w2) = [OB_DELIVERED]"
    unfolding r1 by code_simp
  with outbox_in_order[OF reach, of "''7''"] reach show ?thesis by (intro exI[of _ ?w2] conjI) blast+
qed

text \<open>
  C29. Retrying ends: when rows are pending and their time has come, every round of the relay uses up
  at least one of the attempts left, whatever the service answers. So after finitely many rounds
  no row is pending.
\<close>

theorem outbox_round_progress:
  assumes "distinct (map ob_id rows)" "r \<in> set rows" "ob_status r = OB_PENDING" "0 < n"
    and "\<forall>r\<in>set rows. ob_status r = OB_PENDING \<longrightarrow> ob_next_attempt_at r \<le> now"
  shows "outbox_weight dm (rl_rows (process_outbox_once post clock dm now n rows)) < outbox_weight dm rows"
proof -
  obtain batch rows' where cl: "claim_due_batch now n rows = (batch, rows')" by fastforce
  have "batch \<noteq> []" using claim_nonempty[of r rows now n] assms cl by (simp add: pending_def)
  then obtain b bs where b: "batch = b # bs" by (cases batch) auto
  have rows': "rows' = update_outbox (\<lambda>r. ob_id r \<in> ob_id ` set batch)
      (\<lambda>r. r\<lparr>ob_next_attempt_at := now + seconds LEASE_SECONDS\<rparr>) rows"
    using cl by (auto simp: claim_due_batch_def Let_def)
  have w: "outbox_weight dm rows' = outbox_weight dm rows"
    unfolding rows' outbox_weight_def update_outbox_def map_map comp_def
    by (intro arg_cong[where f = sum_list] map_cong) (simp_all add: row_weight_def pending_def)
  let ?st = "\<lparr>rl_rows = rows', rl_blocked = [], rl_stats = \<lparr>st_delivered = 0, st_retried = 0, st_dead = 0\<rparr>, rl_acked = []\<rparr>"
  have ag: "agrees rows' x" if "x \<in> set batch" for x
  proof -
    have x: "x \<in> set rows" "pending x" using set_claim_batch[OF cl that] by (auto simp: claimable_def pending_def)
    have "y = x" if "y \<in> set rows" "ob_id y = ob_id x" for y
      using replace_row_same_key[OF assms(1) x(1) that(1)] that(2) by simp
    with x have "agrees rows x" unfolding agrees_def by blast
    then show ?thesis unfolding rows' by (rule agrees_lease)
  qed
  have d: "distinct (map ob_id batch)" by (rule distinct_claim_batch[OF cl assms(1)])
  obtain g where g: "touches b g" "rl_rows (relay_row post clock dm b ?st) = map g rows'"
    by (rule relay_row_shape[of b post clock dm ?st]) simp
  have "\<forall>x\<in>set bs. agrees (map g rows') x"
    using ag d b by (auto intro!: touched_agrees[OF _ g(1)] simp: image_iff)
  then have "outbox_weight dm (rl_rows (fold (relay_row post clock dm) bs (relay_row post clock dm b ?st)))
      \<le> outbox_weight dm (rl_rows (relay_row post clock dm b ?st))"
    using relay_batch_weight[of bs "relay_row post clock dm b ?st"] d b g(2) by simp
  also have "\<dots> < outbox_weight dm rows'" using relay_row_weight(2)[of ?st b] ag b by simp
  finally show ?thesis using w by (simp add: process_outbox_once_def cl b)
qed

theorem outbox_round_progress_witness:
  "outbox_weight 12 (rl_rows (process_outbox_once (\<lambda>_. PostRaised (GatewayError (Some 503)) ''down'') (\<lambda>_. 21) 12 20000000 50
       (enqueue_cache_request 5 0 12 ''/create'' JNull ''7'' ''x'' [])))
     < outbox_weight 12 (enqueue_cache_request 5 0 12 ''/create'' JNull ''7'' ''x'' [])
   \<and> outbox_weight 12 (enqueue_cache_request 5 0 12 ''/create'' JNull ''7'' ''x'' []) = 12"
proof -
  let ?r = "hd (enqueue_cache_request 5 0 12 ''/create'' JNull ''7'' ''x'' [])"
  have "outbox_weight 12 (enqueue_cache_request 5 0 12 ''/create'' JNull ''7'' ''x'' []) = 12" by code_simp
  then show ?thesis
    using outbox_round_progress[of "enqueue_cache_request 5 0 12 ''/create'' JNull ''7'' ''x'' []" ?r 50 20000000 12]
    by (simp add: enqueue_cache_request_def backoff_seconds_def MAX_BACKOFF_SECONDS_def seconds_def)
qed

text \<open>
  The delay before a retry is between 10 seconds and 15 minutes, never shrinks from one attempt
  to the next, and doubles until the cap is reached.
\<close>

theorem backoff_bounds:
  "10 \<le> backoff_seconds n \<and> backoff_seconds n \<le> 900 \<and> backoff_seconds n \<le> backoff_seconds (n + 1)
   \<and> (1 \<le> n \<longrightarrow> backoff_seconds (n + 1) = min (2 * backoff_seconds n) 900)"
proof (cases "1 \<le> n")
  case True
  then obtain k where n: "n = int k + 1" by (metis add.commute le_add_diff_inverse zle_iff_zadd)
  have "(10 :: int) \<le> 10 * 2 ^ k" by simp
  with backoff_pow[of k] backoff_pow[of "Suc k"] show ?thesis by (simp add: n algebra_simps min_def)
next
  case False
  then show ?thesis by (simp add: backoff_seconds_def MAX_BACKOFF_SECONDS_def max_def)
qed

end
