(* ===== verification/Vouchers.thy ===== *)
theory Vouchers
  imports Py_Values Payment_Attribution "HOL-Library.AList"
begin

text \<open>
  Gift vouchers: the service entries of \<open>app/voucher/domain/services_snapshot.py\<close> and the use cases
  of \<open>app/voucher/application/voucher_service.py\<close>.

  A voucher gifts several services; bookings redeem them one after another, each redemption being
  recorded in the voucher. The record \<open>gift_voucher\<close> holds the columns these use cases read and
  write; \<open>voucher_db\<close> is the table with the published events. The scheduler of AWS is a parameter.
  In \<open>uuid_text\<close> the prefixes \<open>urn:\<close> and \<open>uuid:\<close>, and digits with underscores, are not read.
\<close>

section \<open>Service entries\<close>

text \<open>A dictionary, whose emptiness is tested: its items in order.\<close>

type_synonym fields = "(string \<times> scalar) list"

definition field :: "fields \<Rightarrow> string \<Rightarrow> scalar" where "field d key = dget (map_of d) key"

record voucher_entry =
  vs_service_id :: "string option"
  vs_service_data :: fields
  vs_addons :: "fields list"
  vs_extra_time :: int
  vs_price_for_extra_time :: "string option"
  vs_position :: nat

text \<open>A raw entry of a request; \<open>rw_bare\<close> holds its other keys, for bare service snapshots.\<close>

record raw_entry =
  rw_service_id :: scalar
  rw_service_data :: "fields option"
  rw_bare :: fields
  rw_addons :: "fields list"
  rw_extra_time :: scalar
  rw_price :: scalar

definition MAX_VOUCHER_SERVICES :: nat where "MAX_VOUCHER_SERVICES = 10"

text \<open>\<open>int(float(value))\<close>, 0 for anything that is not a number.\<close>

definition float_int :: "scalar \<Rightarrow> int" where
  "float_int v =
     (case v of SText t \<Rightarrow> (case parse_decimal t of Some r \<Rightarrow> trunc_zero r | None \<Rightarrow> 0) | _ \<Rightarrow> to_int v)"

definition addon_duration :: "fields \<Rightarrow> int" where
  "addon_duration a =
     (let d = float_int (field a ''duration_minutes'') in if d \<noteq> 0 then d else float_int (field a ''duration''))"

definition normalise_addon :: "fields \<Rightarrow> fields" where
  "normalise_addon a =
     (let aid = scalar_or (field a ''addon_id'') (field a ''id'');
          named = (if aid \<noteq> SNone then AList.update ''addon_id'' (SText (py_str aid)) a else a)
      in AList.update ''duration_minutes'' (SInt (addon_duration named)) named)"

definition is_hex :: "char \<Rightarrow> bool" where
  "is_hex c \<longleftrightarrow> is_digit c \<or> char_lower c \<in> set ''abcdef''"

definition strip_braces :: "string \<Rightarrow> string" where
  "strip_braces s = rev (dropWhile (\<lambda>c. c \<in> set ''{}'') (rev (dropWhile (\<lambda>c. c \<in> set ''{}'') s)))"

definition uuid_text :: "string \<Rightarrow> string option" where
  "uuid_text s =
     (let h = lower (remove_chars ''-'' (strip_braces s)) in
      if length h = 32 \<and> list_all is_hex h
      then Some (take 8 h @ ''-'' @ take 4 (drop 8 h) @ ''-'' @ take 4 (drop 12 h) @ ''-'' @ take 4 (drop 16 h) @ ''-'' @ drop 20 h)
      else None)"

definition is_uuid :: "string option \<Rightarrow> bool" where
  "is_uuid v = (case v of None \<Rightarrow> False | Some s \<Rightarrow> uuid_text s \<noteq> None)"

definition service_id_str :: "scalar \<Rightarrow> fields \<Rightarrow> string option" where
  "service_id_str sid data =
     (let v = scalar_or sid (field data ''id'') in
      if v = SNone \<or> v = SText [] then None
      else Some (case uuid_text (py_str v) of Some u \<Rightarrow> u | None \<Rightarrow> py_str v))"

definition normalise_service_entry :: "raw_entry \<Rightarrow> nat \<Rightarrow> voucher_entry option" where
  "normalise_service_entry raw position =
     (let data = (case rw_service_data raw of
            Some d \<Rightarrow> d
          | None \<Rightarrow> if scalar_true (rw_service_id raw) \<and> \<not> scalar_true (field (rw_bare raw) ''id'')
                    then AList.update ''id'' (rw_service_id raw) (rw_bare raw) else rw_bare raw);
          sid = service_id_str (rw_service_id raw) data
      in if sid = None \<and> data = [] then None
         else Some \<lparr>vs_service_id = sid, vs_service_data = data, vs_addons = map normalise_addon (rw_addons raw),
                    vs_extra_time = max (float_int (rw_extra_time raw)) 0,
                    vs_price_for_extra_time =
                      (if rw_price raw = SNone \<or> rw_price raw = SText [] then None else Some (py_str (rw_price raw))),
                    vs_position = position\<rparr>)"

fun normalise_entries :: "raw_entry list \<Rightarrow> nat \<Rightarrow> voucher_entry list" where
  "normalise_entries [] n = []"
| "normalise_entries (raw # raws) n =
     (case normalise_service_entry raw n of
        None \<Rightarrow> normalise_entries raws n
      | Some e \<Rightarrow> e # normalise_entries raws (Suc n))"

definition normalise_services ::
  "raw_entry list \<Rightarrow> string option \<Rightarrow> fields \<Rightarrow> fields list \<Rightarrow> int \<Rightarrow> scalar \<Rightarrow> voucher_entry list" where
  "normalise_services services service_id service_data addons extra_time price =
     (let entries = normalise_entries services 0;
          legacy = \<lparr>rw_service_id = (if truthy service_id then SText (the service_id) else SNone),
                    rw_service_data = Some service_data, rw_bare = [], rw_addons = addons,
                    rw_extra_time = SInt extra_time, rw_price = price\<rparr>;
          all_entries = (if entries = [] \<and> (truthy service_id \<or> service_data \<noteq> [])
                         then normalise_entries [legacy] 0 else entries)
      in take MAX_VOUCHER_SERVICES all_entries)"

definition entry_duration :: "voucher_entry \<Rightarrow> int" where
  "entry_duration e =
     (let d = float_int (field (vs_service_data e) ''duration_minutes'') in
      (if d \<noteq> 0 then d else float_int (field (vs_service_data e) ''duration''))
      + sum_list (map addon_duration (vs_addons e)) + vs_extra_time e)"

definition services_duration :: "voucher_entry list \<Rightarrow> int" where
  "services_duration services = sum_list (map entry_duration services)"

section \<open>Vouchers\<close>

record redeemed_service =
  rs_service_id :: string
  rs_service_name :: "string option"
  rs_addon_ids :: "string list"
  rs_extra_time :: int

record redemption =
  rd_booking_id :: "string option"
  rd_booking_number :: "string option"
  rd_redeemed_at :: instant
  rd_redeemed_by :: "string option"
  rd_services :: "redeemed_service list"

record voucher_history =
  vh_action :: string
  vh_old_status :: "string option"
  vh_new_status :: "string option"

record gift_voucher =
  gv_id :: string
  gv_voucher_number :: string
  gv_status :: string
  gv_gift_category :: string
  gv_delivery_mode :: string
  gv_scheduled_delivery_at :: "instant option"
  gv_delivery_schedule_name :: "string option"
  gv_delivered_at :: "instant option"
  gv_expire_date :: "instant option"
  gv_services :: "voucher_entry list"
  gv_service_id :: "string option"
  gv_service_data :: fields
  gv_addons :: "fields list"
  gv_extra_time :: int
  gv_price_for_extra_time :: scalar
  gv_total_duration :: int
  gv_total_amount :: rat
  gv_redemptions :: "redemption list"
  gv_redeemed_at :: "instant option"
  gv_redeemed_by :: "string option"
  gv_redeemed_booking_id :: "string option"
  gv_booking_id :: "string option"
  gv_delivery_status :: "string option"
  gv_payment_id :: "string option"
  gv_payment_provider :: "string option"
  gv_payment_through :: "string option"
  gv_update_history :: "voucher_history list"
  gv_reschedule_count :: int
  gv_is_digital_gift_opened :: bool
  gv_secret_code :: string
  gv_public_token :: string

definition voucher_services_of :: "gift_voucher \<Rightarrow> voucher_entry list" where
  "voucher_services_of v =
     (if gv_services v \<noteq> [] then gv_services v
      else if \<not> truthy (gv_service_id v) \<and> gv_service_data v = [] then []
      else normalise_services [] (gv_service_id v) (gv_service_data v) (gv_addons v) (gv_extra_time v) (gv_price_for_extra_time v))"

definition gifted_ids :: "gift_voucher \<Rightarrow> string list" where
  "gifted_ids v = List.map_filter (\<lambda>e. Option.bind (vs_service_id e) nonempty) (voucher_services_of v)"

definition redeemed_ids :: "gift_voucher \<Rightarrow> string list" where
  "redeemed_ids v = concat (map (\<lambda>r. map rs_service_id (rd_services r)) (gv_redemptions v))"

text \<open>A set; the empty id counts as none.\<close>

definition used_service_ids :: "gift_voucher \<Rightarrow> string set" where
  "used_service_ids v = set (redeemed_ids v) - {[]}"

definition remaining_service_ids :: "gift_voucher \<Rightarrow> string list" where
  "remaining_service_ids v = filter (\<lambda>i. i \<notin> used_service_ids v) (gifted_ids v)"

text \<open>The columns that mirror the list of services for old clients.\<close>

definition mirror_legacy_fields :: "voucher_entry list \<Rightarrow> gift_voucher \<Rightarrow> gift_voucher" where
  "mirror_legacy_fields services v =
     (case services of
        [] \<Rightarrow> v
      | e # _ \<Rightarrow> v\<lparr>gv_service_id := (if is_uuid (vs_service_id e) then Option.bind (vs_service_id e) uuid_text else None),
                    gv_service_data := vs_service_data e,
                    gv_addons := concat (map vs_addons services),
                    gv_extra_time := sum_list (map vs_extra_time services),
                    gv_price_for_extra_time := (case vs_price_for_extra_time e of None \<Rightarrow> SNone | Some p \<Rightarrow> SNum p)\<rparr>)"

section \<open>Use cases\<close>

record voucher_db =
  vd_vouchers :: "gift_voucher list"
  vd_events :: "(string \<times> GiftVoucherStatus) list"

datatype voucher_error =
    VoucherNotFound
  | InvalidVoucherStatus string
  | IllegalMove voucher_state_error
  | NotRedeemable
  | NotInVoucher string
  | AlreadyRedeemed string
  | EmptyRedemption
  | InvalidDelivery string
  | IllegalDelivery delivery_error
  | NotDeletable string
  | NotScheduled string
  | NotInFuture
  | TooFarAhead
  | SchedulerFailed
  | InvalidSenderPhone
  | VoucherNumberTaken
  | DatabaseFailed
  | InvalidSecretCode

text \<open>The scheduler: the name of a created schedule, and whether a change succeeds; None is a failure.\<close>

record scheduler =
  sc_create :: "string \<Rightarrow> instant \<Rightarrow> string option"
  sc_update :: "string \<Rightarrow> string \<Rightarrow> instant \<Rightarrow> bool"

definition voucher_statuses :: "GiftVoucherStatus list" where
  "voucher_statuses = [GV_CREATED, GV_PAYMENT_PENDING, GV_SCHEDULED, GV_ACTIVE, GV_PARTIALLY_REDEEMED,
     GV_REDEEMED, GV_FULFILLED, GV_EXPIRED, GV_CANCELLED]"

definition voucher_status_of :: "string \<Rightarrow> GiftVoucherStatus option" where
  "voucher_status_of s = find (\<lambda>x. gift_voucher_status_value x = s) voucher_statuses"

fun delivery_status_value :: "DeliveryStatus \<Rightarrow> string" where
  "delivery_status_value DV_ORDERED = ''ordered''"
| "delivery_status_value DV_READY_TO_GO = ''ready_to_go''"
| "delivery_status_value DV_ON_THE_WAY = ''on_the_way''"
| "delivery_status_value DV_DELIVERED = ''delivered''"
| "delivery_status_value DV_RECEIVED = ''received''"

definition delivery_status_of :: "string \<Rightarrow> DeliveryStatus option" where
  "delivery_status_of s =
     find (\<lambda>x. delivery_status_value x = s) [DV_ORDERED, DV_READY_TO_GO, DV_ON_THE_WAY, DV_DELIVERED, DV_RECEIVED]"

definition find_voucher :: "string \<Rightarrow> voucher_db \<Rightarrow> voucher_error + gift_voucher" where
  "find_voucher i db = (case find (\<lambda>v. gv_id v = i) (vd_vouchers db) of None \<Rightarrow> Inl VoucherNotFound | Some v \<Rightarrow> Inr v)"

definition put_voucher :: "gift_voucher \<Rightarrow> voucher_db \<Rightarrow> voucher_db" where
  "put_voucher v db = db\<lparr>vd_vouchers := replace_row gv_id v (vd_vouchers db)\<rparr>"

definition with_history :: "string \<Rightarrow> string option \<Rightarrow> string option \<Rightarrow> gift_voucher \<Rightarrow> gift_voucher" where
  "with_history action old_status new_status v =
     v\<lparr>gv_update_history := gv_update_history v @ [\<lparr>vh_action = action, vh_old_status = old_status, vh_new_status = new_status\<rparr>]\<rparr>"

text \<open>Only these statuses have an event.\<close>

definition emit_status_event :: "string \<Rightarrow> GiftVoucherStatus \<Rightarrow> voucher_db \<Rightarrow> voucher_db" where
  "emit_status_event i s db =
     (if s \<in> {GV_ACTIVE, GV_SCHEDULED, GV_PAYMENT_PENDING, GV_REDEEMED}
      then db\<lparr>vd_events := vd_events db @ [(i, s)]\<rparr> else db)"

definition checked_move :: "string \<Rightarrow> string \<Rightarrow> voucher_error + GiftVoucherStatus \<times> GiftVoucherStatus" where
  "checked_move current new =
     (case (voucher_status_of current, voucher_status_of new) of
        (Some c, Some n) \<Rightarrow>
          (case voucher_validate_transition c n of Inl e \<Rightarrow> Inl (IllegalMove e) | Inr _ \<Rightarrow> Inr (c, n))
      | (None, _) \<Rightarrow> Inl (InvalidVoucherStatus current)
      | (_, None) \<Rightarrow> Inl (InvalidVoucherStatus new))"

definition checked_delivery :: "string option \<Rightarrow> string \<Rightarrow> voucher_error + DeliveryStatus" where
  "checked_delivery current new =
     (case delivery_status_of new of
        None \<Rightarrow> Inl (InvalidDelivery new)
      | Some d \<Rightarrow>
          (if \<not> truthy current then Inr d
           else (case delivery_status_of (the current) of
                   None \<Rightarrow> Inl (InvalidDelivery (the current))
                 | Some c \<Rightarrow> (case assert_can_transition c d of Inl e \<Rightarrow> Inl (IllegalDelivery e) | Inr _ \<Rightarrow> Inr d))))"

subsection \<open>Redeeming services\<close>

text \<open>One item of a redemption: the fields that the code reads, \<open>addon_ids\<close> as texts.\<close>

fun take_services :: "string list \<Rightarrow> string set \<Rightarrow> redeemed_service list \<Rightarrow> string list \<Rightarrow> voucher_error + redeemed_service list" where
  "take_services all_ids used [] taken = Inr []"
| "take_services all_ids used (item # items) taken =
     (if rs_service_id item \<notin> set all_ids then Inl (NotInVoucher (rs_service_id item))
      else if rs_service_id item \<in> used \<or> rs_service_id item \<in> set taken then Inl (AlreadyRedeemed (rs_service_id item))
      else ebind (take_services all_ids used items (taken @ [rs_service_id item])) (\<lambda>rest.
             Inr (item\<lparr>rs_extra_time := max (rs_extra_time item) 0\<rparr> # rest)))"

record redemption_request =
  rq_services :: "redeemed_service list"
  rq_booking_id :: "string option"
  rq_booking_number :: "string option"

text \<open>
  A key of the update: None when it is absent, Some None when it is sent as null. The keys of the
  request that \<open>gift_voucher\<close> has no column for are left out.
\<close>

record voucher_update =
  vu_redemption :: "redemption_request option"
  vu_status :: "string option"
  vu_delivery_status :: "string option"
  vu_services :: "raw_entry list"
  vu_booking_id :: "string option option"
  vu_redeemed_by :: "string option option"
  vu_payment_id :: "string option option"
  vu_expire_date :: "instant option option"
  vu_total_duration :: "int option"
  vu_total_amount :: "rat option"
  vu_gift_category :: "string option"
  vu_payment_provider :: "string option option"
  vu_payment_through :: "string option option"
  vu_service_id :: "string option option"
  vu_service_data :: "fields option"
  vu_addons :: "fields list option"
  vu_extra_time :: "int option"
  vu_price_for_extra_time :: "scalar option"
  vu_is_digital_gift_opened :: "bool option"

definition given :: "'a option option \<Rightarrow> 'a option \<Rightarrow> 'a option" where
  "given upd current = (case upd of Some (Some x) \<Rightarrow> Some x | _ \<Rightarrow> current)"

definition set_key :: "'a option \<Rightarrow> 'a \<Rightarrow> 'a" where
  "set_key upd current = (case upd of Some x \<Rightarrow> x | None \<Rightarrow> current)"

definition record_redemption ::
  "instant \<Rightarrow> voucher_update \<Rightarrow> redemption_request \<Rightarrow> gift_voucher \<Rightarrow> voucher_error + gift_voucher \<times> string" where
  "record_redemption now u rq v =
     (if gv_status v \<notin> {''active'', ''partially_redeemed''} then Inl NotRedeemable
      else ebind (take_services (gifted_ids v) (used_service_ids v) (rq_services rq) []) (\<lambda>taken.
        if taken = [] then Inl EmptyRedemption
        else
          (let v' = v\<lparr>gv_redemptions := gv_redemptions v @
                        [\<lparr>rd_booking_id = nonempty (str_or (Option.bind (vu_booking_id u) id) (str_or (rq_booking_id rq) [])),
                          rd_booking_number = rq_booking_number rq, rd_redeemed_at = now,
                          rd_redeemed_by = nonempty (str_or (Option.bind (vu_redeemed_by u) id) []),
                          rd_services = taken\<rparr>],
                      gv_redeemed_at := Some now,
                      gv_redeemed_booking_id := given (vu_booking_id u) (gv_redeemed_booking_id v),
                      gv_booking_id := given (vu_booking_id u) (gv_booking_id v),
                      gv_redeemed_by := given (vu_redeemed_by u) (gv_redeemed_by v)\<rparr>
           in Inr (v', if list_all (\<lambda>i. i \<in> used_service_ids v \<or> i \<in> set (map rs_service_id taken)) (gifted_ids v)
                       then ''redeemed'' else ''partially_redeemed''))))"

subsection \<open>Updating a voucher\<close>

definition update_redemption :: "instant \<Rightarrow> voucher_update \<Rightarrow> gift_voucher \<Rightarrow> voucher_error + gift_voucher \<times> string option" where
  "update_redemption now u v =
     (case vu_redemption u of
        None \<Rightarrow> Inr (v, vu_status u)
      | Some rq \<Rightarrow> ebind (record_redemption now u rq v) (\<lambda>(v', s). Inr (v', Some s)))"

text \<open>The columns that entering a status writes.\<close>

definition entered_columns :: "instant \<Rightarrow> voucher_update \<Rightarrow> GiftVoucherStatus \<Rightarrow> gift_voucher \<Rightarrow> gift_voucher" where
  "entered_columns now u target v =
     (let v1 = v\<lparr>gv_status := gift_voucher_status_value target\<rparr> in
      if target = GV_ACTIVE then v1\<lparr>gv_payment_id := given (vu_payment_id u) (gv_payment_id v)\<rparr>
      else if target = GV_REDEEMED then
        v1\<lparr>gv_redeemed_at := Some now,
           gv_redeemed_booking_id := given (vu_booking_id u) (gv_redeemed_booking_id v),
           gv_booking_id := given (vu_booking_id u) (gv_booking_id v),
           gv_redeemed_by := given (vu_redeemed_by u) (gv_redeemed_by v)\<rparr>
      else v1)"

definition update_voucher_status ::
  "instant \<Rightarrow> voucher_update \<Rightarrow> string option \<Rightarrow> gift_voucher \<Rightarrow> voucher_error + gift_voucher \<times> GiftVoucherStatus option" where
  "update_voucher_status now u new_status v =
     (case new_status of
        None \<Rightarrow> Inr (v, None)
      | Some s \<Rightarrow>
          (if s = gv_status v then Inr (v, None)
           else ebind (checked_move (gv_status v) s) (\<lambda>(_, target).
             Inr (entered_columns now u target v, Some target))))"

definition update_voucher_delivery :: "voucher_update \<Rightarrow> gift_voucher \<Rightarrow> voucher_error + gift_voucher" where
  "update_voucher_delivery u v =
     (case vu_delivery_status u of
        None \<Rightarrow> Inr v
      | Some d \<Rightarrow> if Some d = gv_delivery_status v then Inr v
                  else ebind (checked_delivery (gv_delivery_status v) d) (\<lambda>t.
                         Inr (v\<lparr>gv_delivery_status := Some (delivery_status_value t)\<rparr>)))"

definition update_voucher_services :: "voucher_update \<Rightarrow> gift_voucher \<Rightarrow> gift_voucher" where
  "update_voucher_services u v =
     (if vu_services u = [] then v
      else (let entries = normalise_services (vu_services u) None [] [] 0 SNone in
            if entries = [] then v
            else (let v1 = mirror_legacy_fields entries (v\<lparr>gv_services := entries\<rparr>) in
                  if vu_total_duration u = None then v1\<lparr>gv_total_duration := services_duration entries\<rparr> else v1)))"

definition update_voucher_fields :: "voucher_update \<Rightarrow> gift_voucher \<Rightarrow> gift_voucher" where
  "update_voucher_fields u v =
     v\<lparr>gv_booking_id := set_key (vu_booking_id u) (gv_booking_id v),
       gv_redeemed_by := set_key (vu_redeemed_by u) (gv_redeemed_by v),
       gv_payment_id := set_key (vu_payment_id u) (gv_payment_id v),
       gv_expire_date := set_key (vu_expire_date u) (gv_expire_date v),
       gv_total_duration := set_key (vu_total_duration u) (gv_total_duration v),
       gv_total_amount := set_key (vu_total_amount u) (gv_total_amount v),
       gv_service_id := set_key (vu_service_id u) (gv_service_id v),
       gv_service_data := set_key (vu_service_data u) (gv_service_data v),
       gv_addons := set_key (vu_addons u) (gv_addons v),
       gv_extra_time := set_key (vu_extra_time u) (gv_extra_time v),
       gv_price_for_extra_time := set_key (vu_price_for_extra_time u) (gv_price_for_extra_time v),
       gv_is_digital_gift_opened := set_key (vu_is_digital_gift_opened u) (gv_is_digital_gift_opened v)\<rparr>"

definition update_voucher_payment :: "voucher_update \<Rightarrow> gift_voucher \<Rightarrow> gift_voucher" where
  "update_voucher_payment u v =
     v\<lparr>gv_gift_category := (case vu_gift_category u of Some c \<Rightarrow> GiftCategory_normalise (Some c) | None \<Rightarrow> gv_gift_category v),
       gv_payment_provider := (case vu_payment_provider u of None \<Rightarrow> gv_payment_provider v
         | Some p \<Rightarrow> if truthy p then VoucherPaymentProvider_normalise p else None),
       gv_payment_through := (case vu_payment_through u of None \<Rightarrow> gv_payment_through v
         | Some p \<Rightarrow> if truthy p then VoucherPaymentThrough_normalise p else None)\<rparr>"

definition update_voucher :: "instant \<Rightarrow> string \<Rightarrow> voucher_update \<Rightarrow> voucher_db \<Rightarrow> voucher_error + gift_voucher \<times> voucher_db" where
  "update_voucher now voucher_id u db =
     ebind (find_voucher voucher_id db) (\<lambda>v0.
     ebind (update_redemption now u v0) (\<lambda>(v1, status).
     ebind (update_voucher_status now u status v1) (\<lambda>(v2, target).
     ebind (update_voucher_delivery u v2) (\<lambda>v3.
       let v4 = update_voucher_fields u (update_voucher_services u (update_voucher_payment u v3));
           v5 = (case target of
                   Some t \<Rightarrow> with_history ''status_updated'' (Some (gv_status v0)) (Some (gift_voucher_status_value t)) v4
                 | None \<Rightarrow> with_history ''details_updated'' None None v4);
           db' = put_voucher v5 db
       in Inr (v5, case target of Some t \<Rightarrow> emit_status_event voucher_id t db' | None \<Rightarrow> db')))))"


subsection \<open>Creating a voucher\<close>

definition day :: int where "day = 86400000000"

definition generate_voucher_number :: "string \<Rightarrow> string list \<Rightarrow> string" where
  "generate_voucher_number year_month voucher_numbers =
     next_number (''VOU/'' @ year_month @ ''/'') voucher_numbers"

text \<open>
  The attempts to store a new number: what the query saw and the numbers taken when the row is
  written; None is a failing query. The last attempt has no retry.
\<close>

fun assign_voucher_number :: "nat \<Rightarrow> string \<Rightarrow> (string list \<times> string list) option list \<Rightarrow> voucher_error + string" where
  "assign_voucher_number n ym [] = Inl DatabaseFailed"
| "assign_voucher_number n ym (None # attempts) = Inl DatabaseFailed"
| "assign_voucher_number n ym (Some (seen, taken) # attempts) =
     (let number = generate_voucher_number ym seen in
      if number \<notin> set taken then Inr number
      else (case n of Suc m \<Rightarrow> assign_voucher_number m ym attempts | 0 \<Rightarrow> Inl VoucherNumberTaken))"

record voucher_request =
  vq_services :: "raw_entry list"
  vq_service_id :: "string option"
  vq_service_data :: fields
  vq_addons :: "fields list"
  vq_extra_time :: int
  vq_price_for_extra_time :: scalar
  vq_total_duration :: scalar
  vq_total_amount :: rat
  vq_sender_phone :: scalar
  vq_booking_id :: "string option"
  vq_created_by :: "string option"
  vq_payment_id :: "string option"
  vq_payment_provider :: "string option"
  vq_payment_through :: "string option"
  vq_status :: "string option"
  vq_expire_date :: "instant option"
  vq_validity_days :: "int option"
  vq_validity :: "int option"
  vq_gift_category :: "string option"
  vq_delivery_status :: "string option"
  vq_is_digital_gift_opened :: bool
  vq_delivery_mode :: "string option"
  vq_scheduled_delivery_at :: "instant option"

definition sender_phone_ok :: "scalar \<Rightarrow> bool" where
  "sender_phone_ok p =
     (let phone = strip (first_text [p]); digits = filter is_digit phone in
      phone = [] \<or> (8 \<le> length digits \<and> length digits \<le> 15 \<and> set phone \<subseteq> set ''+0123456789 -()''))"

definition resolve_expire_date :: "instant \<Rightarrow> int \<Rightarrow> voucher_request \<Rightarrow> instant" where
  "resolve_expire_date now default_days q =
     (case vq_expire_date q of
        Some e \<Rightarrow> e
      | None \<Rightarrow> (case (if vq_validity_days q \<noteq> None then vq_validity_days q else vq_validity q) of
          Some d \<Rightarrow> if 0 < d then now + d * day else now + default_days * day
        | None \<Rightarrow> now + default_days * day))"

definition voucher_initial_status :: "voucher_request \<Rightarrow> string" where
  "voucher_initial_status q =
     (let s = str_or (vq_status q) ''created'' in
      if VoucherDeliveryMode_normalise (vq_delivery_mode q) = ''scheduled'' \<and> s = ''active'' then ''scheduled'' else s)"

definition request_entries :: "voucher_request \<Rightarrow> voucher_entry list" where
  "request_entries q = normalise_services (vq_services q) (vq_service_id q) (vq_service_data q) (vq_addons q)
     (vq_extra_time q) (vq_price_for_extra_time q)"

text \<open>The columns before the number is assigned; \<open>fresh\<close> is the generated id, secret code and token.\<close>

definition voucher_row :: "instant \<Rightarrow> int \<Rightarrow> string \<times> string \<times> string \<Rightarrow> voucher_request \<Rightarrow> gift_voucher" where
  "voucher_row now default_days fresh q =
     (let status = voucher_initial_status q; entries = request_entries q;
          row = \<lparr>gv_id = fst fresh, gv_voucher_number = [], gv_status = status,
                 gv_gift_category = GiftCategory_normalise (vq_gift_category q),
                 gv_delivery_mode = VoucherDeliveryMode_normalise (vq_delivery_mode q),
                 gv_scheduled_delivery_at = vq_scheduled_delivery_at q, gv_delivery_schedule_name = None,
                 gv_delivered_at = None, gv_expire_date = Some (resolve_expire_date now default_days q),
                 gv_services = entries, gv_service_id = vq_service_id q, gv_service_data = vq_service_data q,
                 gv_addons = vq_addons q, gv_extra_time = vq_extra_time q,
                 gv_price_for_extra_time = vq_price_for_extra_time q,
                 gv_total_duration = max (float_int (vq_total_duration q)) (services_duration entries),
                 gv_total_amount = vq_total_amount q,
                 gv_redemptions = [],
                 gv_redeemed_at = (if status = ''redeemed'' then Some now else None),
                 gv_redeemed_by = (if status = ''redeemed'' then vq_created_by q else None),
                 gv_redeemed_booking_id = None, gv_booking_id = vq_booking_id q,
                 gv_delivery_status = vq_delivery_status q, gv_payment_id = vq_payment_id q,
                 gv_payment_provider = VoucherPaymentProvider_normalise (vq_payment_provider q),
                 gv_payment_through = VoucherPaymentThrough_normalise (vq_payment_through q),
                 gv_update_history = [], gv_reschedule_count = 0,
                 gv_is_digital_gift_opened = vq_is_digital_gift_opened q,
                 gv_secret_code = fst (snd fresh), gv_public_token = snd (snd fresh)\<rparr>
      in if vq_services q \<noteq> [] then mirror_legacy_fields entries row else row)"

text \<open>A failure of the scheduler is logged and the voucher stays without a schedule.\<close>

definition schedule_delivery :: "scheduler \<Rightarrow> gift_voucher \<Rightarrow> gift_voucher" where
  "schedule_delivery sched v =
     (case gv_scheduled_delivery_at v of
        None \<Rightarrow> v
      | Some t \<Rightarrow> (case sc_create sched (gv_id v) t of
          None \<Rightarrow> v
        | Some name \<Rightarrow> v\<lparr>gv_delivery_schedule_name := Some name\<rparr>))"

definition create_voucher ::
  "instant \<Rightarrow> int \<Rightarrow> string \<Rightarrow> (string list \<times> string list) option list \<Rightarrow> scheduler \<Rightarrow>
   string \<times> string \<times> string \<Rightarrow> voucher_request \<Rightarrow> voucher_db \<Rightarrow> voucher_error + gift_voucher \<times> voucher_db" where
  "create_voucher now default_days ym attempts sched fresh q db =
     (if \<not> sender_phone_ok (vq_sender_phone q) then Inl InvalidSenderPhone
      else
        (let row = voucher_row now default_days fresh q;
             scheduled = (if gv_status row = ''scheduled'' then schedule_delivery sched row else row);
             logged = with_history ''created'' None None scheduled
         in ebind (assign_voucher_number 4 ym attempts) (\<lambda>number.
              let v = logged\<lparr>gv_voucher_number := number\<rparr>;
                  db' = db\<lparr>vd_vouchers := vd_vouchers db @ [v]\<rparr>
              in Inr (v, if gv_status v = ''active'' then emit_status_event (gv_id v) GV_ACTIVE db'
                         else if gv_status v = ''scheduled'' then emit_status_event (gv_id v) GV_SCHEDULED db'
                         else db'))))"

subsection \<open>Changing the status\<close>

record status_change =
  sg_payment_id :: "string option"
  sg_booking_id :: "string option"
  sg_payment_provider :: "string option"
  sg_payment_through :: "string option"
  sg_redeemed_by :: "string option"
  sg_delivery_status :: "string option"
  sg_is_digital_gift_opened :: "bool option"

text \<open>An activation of a voucher with a scheduled delivery that is still open becomes its scheduling.\<close>

definition redirect_target :: "gift_voucher \<Rightarrow> GiftVoucherStatus \<Rightarrow> GiftVoucherStatus" where
  "redirect_target v t =
     (if t = GV_ACTIVE \<and> gv_delivery_mode v = ''scheduled'' \<and> gv_delivered_at v = None then GV_SCHEDULED else t)"

definition keep_or :: "'a option \<Rightarrow> 'a option \<Rightarrow> 'a option" where
  "keep_or new current = (if new = None then current else new)"

text \<open>What the new status writes; deleting a schedule leaves the row as it is.\<close>

definition status_columns :: "instant \<Rightarrow> scheduler \<Rightarrow> status_change \<Rightarrow> GiftVoucherStatus \<Rightarrow> gift_voucher \<Rightarrow> gift_voucher" where
  "status_columns now sched c t v =
     (let v1 = v\<lparr>gv_status := gift_voucher_status_value t,
                 gv_payment_provider := (case sg_payment_provider c of None \<Rightarrow> gv_payment_provider v
                   | Some p \<Rightarrow> VoucherPaymentProvider_normalise (Some p)),
                 gv_payment_through := (case sg_payment_through c of None \<Rightarrow> gv_payment_through v
                   | Some p \<Rightarrow> VoucherPaymentThrough_normalise (Some p)),
                 gv_delivery_status := keep_or (sg_delivery_status c) (gv_delivery_status v),
                 gv_is_digital_gift_opened := set_key (sg_is_digital_gift_opened c) (gv_is_digital_gift_opened v)\<rparr>
      in if t = GV_ACTIVE then v1\<lparr>gv_payment_id := keep_or (sg_payment_id c) (gv_payment_id v)\<rparr>
         else if t = GV_SCHEDULED then
           (let v2 = v1\<lparr>gv_payment_id := keep_or (sg_payment_id c) (gv_payment_id v)\<rparr> in
            if \<not> truthy (gv_delivery_schedule_name v2) then schedule_delivery sched v2 else v2)
         else if t = GV_REDEEMED then
           v1\<lparr>gv_redeemed_at := Some now, gv_redeemed_booking_id := keep_or (sg_booking_id c) (gv_redeemed_booking_id v),
              gv_booking_id := keep_or (sg_booking_id c) (gv_booking_id v),
              gv_redeemed_by := keep_or (sg_redeemed_by c) (gv_redeemed_by v)\<rparr>
         else v1)"

definition gv_update_status ::
  "instant \<Rightarrow> scheduler \<Rightarrow> string \<Rightarrow> string \<Rightarrow> status_change \<Rightarrow> voucher_db \<Rightarrow> voucher_error + gift_voucher \<times> voucher_db" where
  "gv_update_status now sched voucher_id new_status c db =
     ebind (find_voucher voucher_id db) (\<lambda>v.
       (case (voucher_status_of (gv_status v), voucher_status_of new_status) of
          (None, _) \<Rightarrow> Inl (InvalidVoucherStatus (gv_status v))
        | (_, None) \<Rightarrow> Inl (InvalidVoucherStatus new_status)
        | (Some current, Some requested) \<Rightarrow>
            (let t = redirect_target v requested in
             case voucher_validate_transition current t of
               Inl e \<Rightarrow> Inl (IllegalMove e)
             | Inr _ \<Rightarrow>
                 (let v' = with_history ''status_updated'' (Some (gv_status v)) (Some (gift_voucher_status_value t))
                             (status_columns now sched c t v);
                      db' = put_voucher v' db
                  in Inr (v', if gv_status v \<noteq> gift_voucher_status_value t then emit_status_event voucher_id t db' else db')))))"

definition update_delivery_status :: "string \<Rightarrow> string \<Rightarrow> voucher_db \<Rightarrow> voucher_error + gift_voucher \<times> voucher_db" where
  "update_delivery_status voucher_id target db =
     ebind (find_voucher voucher_id db) (\<lambda>v.
     ebind (checked_delivery (gv_delivery_status v) target) (\<lambda>t.
       let v' = v\<lparr>gv_delivery_status := Some (delivery_status_value t)\<rparr> in Inr (v', put_voucher v' db)))"

definition delete_voucher :: "string \<Rightarrow> voucher_db \<Rightarrow> voucher_error + voucher_db" where
  "delete_voucher voucher_id db =
     ebind (find_voucher voucher_id db) (\<lambda>v.
       if lower (strip (gv_status v)) \<in> {''created'', ''payment_pending'', ''pending''}
       then Inr (db\<lparr>vd_vouchers := filter (\<lambda>x. gv_id x \<noteq> gv_id v) (vd_vouchers db)\<rparr>)
       else Inl (NotDeletable (gv_status v)))"


subsection \<open>Reading a voucher\<close>

definition get_by_public_token :: "string \<Rightarrow> voucher_db \<Rightarrow> voucher_error + gift_voucher" where
  "get_by_public_token token db =
     (case find (\<lambda>v. gv_public_token v = token) (vd_vouchers db) of
        Some v \<Rightarrow> Inr v
      | None \<Rightarrow>
          (case Option.bind (uuid_text token) (\<lambda>i. find (\<lambda>v. gv_id v = i) (vd_vouchers db)) of
             Some v \<Rightarrow> Inr v
           | None \<Rightarrow>
               (case find (\<lambda>v. gv_voucher_number v = token) (vd_vouchers db) of
                  Some v \<Rightarrow> Inr v
                | None \<Rightarrow> Inl VoucherNotFound)))"

definition verify_secret_code :: "string \<Rightarrow> string \<Rightarrow> voucher_db \<Rightarrow> voucher_error + gift_voucher" where
  "verify_secret_code token code db =
     ebind (get_by_public_token token db) (\<lambda>v.
       if code = [] \<or> strip (gv_secret_code v) \<noteq> strip code then Inl InvalidSecretCode else Inr v)"

text \<open>The identifier is an id or a public token.\<close>

definition mark_digital_gift_opened :: "string + string \<Rightarrow> voucher_db \<Rightarrow> voucher_error + gift_voucher \<times> voucher_db" where
  "mark_digital_gift_opened identifier db =
     (case find (\<lambda>v. (case identifier of Inl i \<Rightarrow> gv_id v = i | Inr t \<Rightarrow> gv_public_token v = t)) (vd_vouchers db) of
        None \<Rightarrow> Inl VoucherNotFound
      | Some v \<Rightarrow>
          (if \<not> gv_is_digital_gift_opened v
           then (let v' = v\<lparr>gv_is_digital_gift_opened := True\<rparr> in Inr (v', put_voucher v' db))
           else Inr (v, db)))"

subsection \<open>Scheduled delivery\<close>

definition activated :: "instant \<Rightarrow> gift_voucher \<Rightarrow> gift_voucher" where
  "activated now v =
     with_history ''scheduled_delivery_activated'' (Some ''scheduled'') (Some ''active'')
       (v\<lparr>gv_status := ''active'', gv_delivered_at := Some now, gv_expire_date := Some (now + 60 * day)\<rparr>)"

definition activate_scheduled_voucher :: "instant \<Rightarrow> string \<Rightarrow> voucher_db \<Rightarrow> voucher_error + gift_voucher \<times> voucher_db" where
  "activate_scheduled_voucher now voucher_id db =
     ebind (find_voucher voucher_id db) (\<lambda>v.
       if gv_status v \<in> {''active'', ''redeemed''} then Inr (v, db)
       else if gv_status v \<noteq> ''scheduled'' then Inr (v, db)
       else Inr (activated now v, emit_status_event voucher_id GV_ACTIVE (put_voucher (activated now v) db)))"

text \<open>
  A datetime without timezone (its wall clock), with the timezone UTC (its instant) or with another
  one (its instant). Kuwait is three hours ahead of UTC all year.
\<close>

datatype delivery_time = NaiveTime instant | UtcTime instant | ZonedTime instant

fun dt_kuwait :: "delivery_time \<Rightarrow> instant" where
  "dt_kuwait (NaiveTime w) = w - 10800000000"
| "dt_kuwait (UtcTime t) = t - 10800000000"
| "dt_kuwait (ZonedTime t) = t"

text \<open>Here a failure of the scheduler is raised.\<close>

definition move_schedule :: "scheduler \<Rightarrow> instant \<Rightarrow> gift_voucher \<Rightarrow> voucher_error + gift_voucher" where
  "move_schedule sched t v =
     (if truthy (gv_delivery_schedule_name v)
      then (if sc_update sched (the (gv_delivery_schedule_name v)) (gv_id v) t then Inr v else Inl SchedulerFailed)
      else (case sc_create sched (gv_id v) t of
              None \<Rightarrow> Inl SchedulerFailed
            | Some name \<Rightarrow> Inr (v\<lparr>gv_delivery_schedule_name := Some name\<rparr>)))"

definition reschedule_voucher ::
  "instant \<Rightarrow> scheduler \<Rightarrow> string \<Rightarrow> delivery_time \<Rightarrow> voucher_db \<Rightarrow> voucher_error + gift_voucher \<times> voucher_db" where
  "reschedule_voucher now sched voucher_id new_at db =
     ebind (find_voucher voucher_id db) (\<lambda>v.
       if gv_status v \<noteq> ''scheduled'' then Inl (NotScheduled (gv_status v))
       else if dt_kuwait new_at \<le> now then Inl NotInFuture
       else if now + 62 * day < dt_kuwait new_at then Inl TooFarAhead
       else ebind (move_schedule sched (dt_kuwait new_at) v) (\<lambda>v1.
         let v2 = with_history ''rescheduled'' None None
                    (v1\<lparr>gv_scheduled_delivery_at := Some (dt_kuwait new_at),
                        gv_reschedule_count := gv_reschedule_count v1 + 1\<rparr>)
         in Inr (v2, put_voucher v2 db)))"

definition overdue :: "instant \<Rightarrow> gift_voucher \<Rightarrow> bool" where
  "overdue now v \<longleftrightarrow> gv_status v = ''scheduled'' \<and>
     (case gv_scheduled_delivery_at v of None \<Rightarrow> False | Some t \<Rightarrow> t \<le> now)"

text \<open>Rows of the same time are in the order of the table here.\<close>

definition list_overdue_scheduled :: "instant \<Rightarrow> nat \<Rightarrow> voucher_db \<Rightarrow> gift_voucher list" where
  "list_overdue_scheduled now limit db =
     take limit (sort_key (\<lambda>v. the (gv_scheduled_delivery_at v)) (filter (overdue now) (vd_vouchers db)))"

fun activate_all :: "instant \<Rightarrow> string list \<Rightarrow> voucher_db \<Rightarrow> string list \<times> voucher_db" where
  "activate_all now [] db = ([], db)"
| "activate_all now (i # ids) db =
     (case activate_scheduled_voucher now i db of
        Inl _ \<Rightarrow> activate_all now ids db
      | Inr (_, db') \<Rightarrow> (case activate_all now ids db' of (done_ids, db'') \<Rightarrow> (i # done_ids, db'')))"

definition reconcile_overdue_scheduled_vouchers :: "instant \<Rightarrow> nat \<Rightarrow> voucher_db \<Rightarrow> string list \<times> voucher_db" where
  "reconcile_overdue_scheduled_vouchers now limit db =
     activate_all now (map gv_id (list_overdue_scheduled now limit db)) db"

end
