(* ===== verification/Voucher_Redemption.thy ===== *)
theory Voucher_Redemption
  imports Vouchers
begin

text \<open>
  What the use cases of gift vouchers guarantee: a redemption takes services that are gifted and
  still unused and closes the voucher with the last one, every reachable voucher has redeemed each
  service at most once, scheduled vouchers are activated when their delivery is due, and the
  behaviours that the code lacks (a check of the expiry date, of the delivery mode in an edit, of
  services gifted twice).
\<close>

section \<open>Redemptions\<close>

lemma take_services_Inr_iff:
  "take_services all used items taken = Inr xs \<longleftrightarrow>
     set (map rs_service_id items) \<subseteq> set all \<and> set (map rs_service_id items) \<inter> (used \<union> set taken) = {}
     \<and> distinct (map rs_service_id items) \<and> xs = map (\<lambda>i. i\<lparr>rs_extra_time := max (rs_extra_time i) 0\<rparr>) items"
  by (induction items arbitrary: taken xs) (auto simp: ebind_Inr_iff)

lemma normalise_legacy_id:
  "List.map_filter (\<lambda>e. Option.bind (vs_service_id e) nonempty) (normalise_services [] sid data a x p)
     = List.map_filter (\<lambda>e. Option.bind (vs_service_id e) nonempty) (normalise_services [] sid data a' x' p')"
  by (auto simp: normalise_services_def normalise_service_entry_def Let_def map_filter_simps MAX_VOUCHER_SERVICES_def
      split: option.split)

lemma gifted_ids_cong:
  "gv_services v' = gv_services v \<Longrightarrow> gv_service_id v' = gv_service_id v \<Longrightarrow>
   gv_service_data v' = gv_service_data v \<Longrightarrow> gifted_ids v' = gifted_ids v"
  by (auto simp: gifted_ids_def voucher_services_of_def intro: normalise_legacy_id)

lemma redeemed_ids_cong: "gv_redemptions v' = gv_redemptions v \<Longrightarrow> redeemed_ids v' = redeemed_ids v"
  by (simp add: redeemed_ids_def)

lemma gifted_ids_nonempty [simp]: "[] \<notin> set (gifted_ids v)"
  by (auto simp: gifted_ids_def map_filter_def bind_eq_Some_conv nonempty_def)

lemma remaining_set: "set (remaining_service_ids v) = set (gifted_ids v) - set (redeemed_ids v)"
  using gifted_ids_nonempty[of v] by (auto simp: remaining_service_ids_def used_service_ids_def)

text \<open>What a redemption requires and what it leaves.\<close>

lemma record_redemption_Inr:
  assumes "record_redemption now u rq v = Inr (v', s)"
  defines "ids \<equiv> map rs_service_id (rq_services rq)"
  shows "gv_status v \<in> {''active'', ''partially_redeemed''}" and "ids \<noteq> []" and "distinct ids"
    and "set ids \<subseteq> set (remaining_service_ids v)"
    and "redeemed_ids v' = redeemed_ids v @ ids" and "gifted_ids v' = gifted_ids v"
    and "gv_status v' = gv_status v" and "gv_services v' = gv_services v" and "gv_service_id v' = gv_service_id v"
    and "gv_service_data v' = gv_service_data v" and "gv_delivery_status v' = gv_delivery_status v"
    and "s = (if remaining_service_ids v' = [] then ''redeemed'' else ''partially_redeemed'')"
proof -
  from assms(1) obtain taken where st: "gv_status v \<in> {''active'', ''partially_redeemed''}"
    and tk: "take_services (gifted_ids v) (used_service_ids v) (rq_services rq) [] = Inr taken" and ne: "taken \<noteq> []"
    and s: "s = (if list_all (\<lambda>i. i \<in> used_service_ids v \<or> i \<in> set (map rs_service_id taken)) (gifted_ids v)
                 then ''redeemed'' else ''partially_redeemed'')"
    and red: "gv_redemptions v' = gv_redemptions v @
                [\<lparr>rd_booking_id = nonempty (str_or (Option.bind (vu_booking_id u) id) (str_or (rq_booking_id rq) [])),
                  rd_booking_number = rq_booking_number rq, rd_redeemed_at = now,
                  rd_redeemed_by = nonempty (str_or (Option.bind (vu_redeemed_by u) id) []),
                  rd_services = taken\<rparr>]"
    and same: "gv_status v' = gv_status v" "gv_services v' = gv_services v" "gv_service_id v' = gv_service_id v"
      "gv_service_data v' = gv_service_data v" "gv_delivery_status v' = gv_delivery_status v"
    by (auto simp: record_redemption_def ebind_Inr_iff Let_def simp del: list.map split: if_splits)
  have ids: "map rs_service_id taken = ids" using tk by (simp add: take_services_Inr_iff ids_def comp_def)
  show "gv_status v \<in> {''active'', ''partially_redeemed''}" by (fact st)
  show "ids \<noteq> []" using ne ids by auto
  show "distinct ids" using tk by (simp add: take_services_Inr_iff ids_def)
  show "set ids \<subseteq> set (remaining_service_ids v)"
    using tk by (auto simp: take_services_Inr_iff ids_def remaining_service_ids_def)
  show red': "redeemed_ids v' = redeemed_ids v @ ids" by (simp add: redeemed_ids_def red ids)
  show gift: "gifted_ids v' = gifted_ids v" by (rule gifted_ids_cong) (fact same)+
  show "gv_status v' = gv_status v" "gv_services v' = gv_services v" "gv_service_id v' = gv_service_id v"
    "gv_service_data v' = gv_service_data v" "gv_delivery_status v' = gv_delivery_status v" by (fact same)+
  have "list_all (\<lambda>i. i \<in> used_service_ids v \<or> i \<in> set (map rs_service_id taken)) (gifted_ids v)
          \<longleftrightarrow> remaining_service_ids v' = []"
    unfolding ids remaining_service_ids_def gift filter_empty_conv list_all_iff used_service_ids_def red'
    using gifted_ids_nonempty[of v] by (auto simp: ids)
  with s show "s = (if remaining_service_ids v' = [] then ''redeemed'' else ''partially_redeemed'')" by simp
qed


section \<open>Updates\<close>

lemma put_voucher_rows: "v \<in> set (vd_vouchers (put_voucher r db)) \<Longrightarrow> v = r \<or> v \<in> set (vd_vouchers db)"
  by (auto simp: put_voucher_def replace_row_def split: if_splits)

lemma emit_rows [simp]: "vd_vouchers (emit_status_event i s db) = vd_vouchers db"
  by (simp add: emit_status_event_def)

lemma find_voucher_Inr:
  "find_voucher i db = Inr v \<Longrightarrow> v \<in> set (vd_vouchers db) \<and> gv_id v = i"
  by (auto simp: find_voucher_def find_Some_iff split: option.splits)

lemma with_history_fields [simp]:
  "gv_id (with_history a o' n v) = gv_id v" "gv_status (with_history a o' n v) = gv_status v"
  "gv_redemptions (with_history a o' n v) = gv_redemptions v" "gv_services (with_history a o' n v) = gv_services v"
  "gv_service_id (with_history a o' n v) = gv_service_id v" "gv_service_data (with_history a o' n v) = gv_service_data v"
  "gv_delivery_mode (with_history a o' n v) = gv_delivery_mode v" "gv_delivered_at (with_history a o' n v) = gv_delivered_at v"
  "gv_scheduled_delivery_at (with_history a o' n v) = gv_scheduled_delivery_at v"
  "gv_expire_date (with_history a o' n v) = gv_expire_date v" "gv_voucher_number (with_history a o' n v) = gv_voucher_number v"
  by (simp_all add: with_history_def)

lemma mirror_fields [simp]:
  "gv_id (mirror_legacy_fields es v) = gv_id v" "gv_status (mirror_legacy_fields es v) = gv_status v"
  "gv_redemptions (mirror_legacy_fields es v) = gv_redemptions v" "gv_services (mirror_legacy_fields es v) = gv_services v"
  "gv_delivery_mode (mirror_legacy_fields es v) = gv_delivery_mode v" "gv_delivered_at (mirror_legacy_fields es v) = gv_delivered_at v"
  "gv_scheduled_delivery_at (mirror_legacy_fields es v) = gv_scheduled_delivery_at v"
  "gv_delivery_schedule_name (mirror_legacy_fields es v) = gv_delivery_schedule_name v"
  by (simp_all add: mirror_legacy_fields_def split: list.split)

text \<open>The stages of an update, and the row they lead to.\<close>

definition edited :: "voucher_update \<Rightarrow> gift_voucher \<Rightarrow> gift_voucher" where
  "edited u v = update_voucher_fields u (update_voucher_services u (update_voucher_payment u v))"

lemma edited_fields [simp]:
  "gv_id (edited u v) = gv_id v" "gv_status (edited u v) = gv_status v" "gv_redemptions (edited u v) = gv_redemptions v"
  "gv_delivery_mode (edited u v) = gv_delivery_mode v" "gv_delivered_at (edited u v) = gv_delivered_at v"
  "gv_delivery_schedule_name (edited u v) = gv_delivery_schedule_name v"
  by (simp_all add: edited_def update_voucher_fields_def update_voucher_services_def update_voucher_payment_def Let_def)

lemma edited_services:
  "vu_services u = [] \<Longrightarrow> vu_service_id u = None \<Longrightarrow> vu_service_data u = None \<Longrightarrow> gifted_ids (edited u v) = gifted_ids v"
  by (rule gifted_ids_cong)
    (simp_all add: edited_def update_voucher_fields_def update_voucher_services_def update_voucher_payment_def set_key_def)

lemma update_voucher_Inr:
  assumes "update_voucher now i u db = Inr (v', db')"
  obtains v0 v1 s v2 target v3 where "find_voucher i db = Inr v0" "update_redemption now u v0 = Inr (v1, s)"
    "update_voucher_status now u s v1 = Inr (v2, target)" "update_voucher_delivery u v2 = Inr v3"
    "v' = (case target of
             Some t \<Rightarrow> with_history ''status_updated'' (Some (gv_status v0)) (Some (gift_voucher_status_value t)) (edited u v3)
           | None \<Rightarrow> with_history ''details_updated'' None None (edited u v3))"
    "vd_vouchers db' = vd_vouchers (put_voucher v' db)"
  using assms by (auto simp: update_voucher_def ebind_Inr_iff Let_def edited_def split: option.splits)

lemma voucher_status_of_Some: "voucher_status_of s = Some t \<Longrightarrow> gift_voucher_status_value t = s"
  by (auto simp: voucher_status_of_def find_Some_iff)

lemma checked_move_Inr:
  assumes "checked_move c n = Inr (a, b)"
  shows "gift_voucher_status_value a = c" and "gift_voucher_status_value b = n"
  using assms by (auto simp: checked_move_def voucher_status_of_Some split: option.splits sum.splits)

lemma entered_columns_fields [simp]:
  "gv_id (entered_columns now u t v) = gv_id v" "gv_redemptions (entered_columns now u t v) = gv_redemptions v"
  "gv_services (entered_columns now u t v) = gv_services v" "gv_service_id (entered_columns now u t v) = gv_service_id v"
  "gv_service_data (entered_columns now u t v) = gv_service_data v"
  "gv_delivery_mode (entered_columns now u t v) = gv_delivery_mode v"
  "gv_delivered_at (entered_columns now u t v) = gv_delivered_at v"
  "gv_delivery_status (entered_columns now u t v) = gv_delivery_status v"
  "gv_status (entered_columns now u t v) = gift_voucher_status_value t"
  by (simp_all add: entered_columns_def Let_def)

lemma update_voucher_status_Inr:
  assumes "update_voucher_status now u s v = Inr (v', t)"
  shows "gv_id v' = gv_id v" and "gv_redemptions v' = gv_redemptions v" and "gv_services v' = gv_services v"
    and "gv_service_id v' = gv_service_id v" and "gv_service_data v' = gv_service_data v"
    and "gv_delivery_mode v' = gv_delivery_mode v" and "gv_delivered_at v' = gv_delivered_at v"
    and "gv_status v' = (case s of None \<Rightarrow> gv_status v | Some x \<Rightarrow> x)"
  using assms
  by (auto simp: update_voucher_status_def ebind_Inr_iff checked_move_Inr split: option.splits if_splits)

lemma update_voucher_delivery_Inr:
  assumes "update_voucher_delivery u v = Inr v'"
  shows "gv_id v' = gv_id v" and "gv_redemptions v' = gv_redemptions v" and "gv_services v' = gv_services v"
    and "gv_service_id v' = gv_service_id v" and "gv_service_data v' = gv_service_data v"
    and "gv_delivery_mode v' = gv_delivery_mode v" and "gv_delivered_at v' = gv_delivered_at v" and "gv_status v' = gv_status v"
  using assms by (auto simp: update_voucher_delivery_def ebind_Inr_iff split: option.splits if_splits)

lemma update_redemption_other: "vu_redemption u = None \<Longrightarrow> update_redemption now u v = Inr (v, vu_status u)"
  by (simp add: update_redemption_def)

lemma update_redemption_some:
  "vu_redemption u = Some rq \<Longrightarrow> update_redemption now u v = Inr (v', s) \<Longrightarrow>
   \<exists>st. record_redemption now u rq v = Inr (v', st) \<and> s = Some st"
  by (auto simp: update_redemption_def ebind_Inr_iff)

text \<open>What an accepted update with a redemption did.\<close>

lemma update_redeems:
  assumes up: "update_voucher now i u db = Inr (v', db')" and v: "find_voucher i db = Inr v" and rq: "vu_redemption u = Some rq"
  defines "ids \<equiv> map rs_service_id (rq_services rq)"
  shows "gv_status v \<in> {''active'', ''partially_redeemed''}" and "ids \<noteq> []" and "distinct ids"
    and "set ids \<subseteq> set (remaining_service_ids v)" and "redeemed_ids v' = redeemed_ids v @ ids"
    and "vu_services u = [] \<Longrightarrow> vu_service_id u = None \<Longrightarrow> vu_service_data u = None \<Longrightarrow>
           gv_status v' = (if remaining_service_ids v' = [] then ''redeemed'' else ''partially_redeemed'')"
    and "vu_services u = [] \<Longrightarrow> vu_service_id u = None \<Longrightarrow> vu_service_data u = None \<Longrightarrow> gifted_ids v' = gifted_ids v"
proof -
  from up obtain v0 v1 s v2 target v3 where f: "find_voucher i db = Inr v0" and r: "update_redemption now u v0 = Inr (v1, s)"
    and st: "update_voucher_status now u s v1 = Inr (v2, target)" and dl: "update_voucher_delivery u v2 = Inr v3"
    and v': "v' = (case target of
             Some t \<Rightarrow> with_history ''status_updated'' (Some (gv_status v0)) (Some (gift_voucher_status_value t)) (edited u v3)
           | None \<Rightarrow> with_history ''details_updated'' None None (edited u v3))"
    by (rule update_voucher_Inr)
  from f v have [simp]: "v0 = v" by simp
  from update_redemption_some[OF rq r] obtain x where rec: "record_redemption now u rq v = Inr (v1, x)" and s: "s = Some x" by auto
  note facts = record_redemption_Inr[OF rec] and st' = update_voucher_status_Inr[OF st] and dl' = update_voucher_delivery_Inr[OF dl]
  from facts(1-4) show "gv_status v \<in> {''active'', ''partially_redeemed''}" "ids \<noteq> []" "distinct ids"
    "set ids \<subseteq> set (remaining_service_ids v)" by (simp_all add: ids_def)
  have red: "gv_redemptions v' = gv_redemptions v1" by (simp add: v' st' dl' split: option.split)
  then show "redeemed_ids v' = redeemed_ids v @ ids"
    using facts(5) by (simp add: redeemed_ids_cong[OF red] ids_def)
  have gift: "gifted_ids v' = gifted_ids v1"
    if keep: "vu_services u = []" "vu_service_id u = None" "vu_service_data u = None"
  proof -
    have "gifted_ids v' = gifted_ids (edited u v3)" by (rule gifted_ids_cong) (simp_all add: v' split: option.split)
    also have "\<dots> = gifted_ids v3" using keep by (rule edited_services)
    also have "\<dots> = gifted_ids v1" by (rule gifted_ids_cong) (simp_all add: st' dl')
    finally show ?thesis .
  qed
  then show "vu_services u = [] \<Longrightarrow> vu_service_id u = None \<Longrightarrow> vu_service_data u = None \<Longrightarrow> gifted_ids v' = gifted_ids v"
    using facts(6) by simp
  assume keep: "vu_services u = []" "vu_service_id u = None" "vu_service_data u = None"
  from gift[OF keep] have "remaining_service_ids v' = remaining_service_ids v1"
    by (simp add: remaining_service_ids_def used_service_ids_def redeemed_ids_cong[OF red])
  moreover have "gv_status v' = x" by (simp add: v' st' dl' s split: option.split)
  ultimately show "gv_status v' = (if remaining_service_ids v' = [] then ''redeemed'' else ''partially_redeemed'')"
    using facts(12) by simp
qed

lemma update_keeps_redeemed:
  assumes up: "update_voucher now i u db = Inr (v', db')" and v: "find_voucher i db = Inr v"
    and "distinct (redeemed_ids v)"
  shows "distinct (redeemed_ids v')"
proof (cases "vu_redemption u")
  case None
  from up show ?thesis
    by (rule update_voucher_Inr)
      (use v assms(3) None in \<open>auto simp: update_redemption_other redeemed_ids_def dest!: update_voucher_status_Inr(2)
        update_voucher_delivery_Inr(2) split: option.splits\<close>)
next
  case (Some rq)
  note u = update_redeems[OF up v Some]
  have "set (redeemed_ids v) \<inter> set (map rs_service_id (rq_services rq)) = {}"
    using u(4) by (auto simp: remaining_set)
  with u(3,5) assms(3) show ?thesis by simp
qed

section \<open>Reachable vouchers\<close>

inductive voucher_step :: "voucher_db \<Rightarrow> voucher_db \<Rightarrow> bool" where
  step_create: "create_voucher now days ym attempts sched fresh q db = Inr (v, db') \<Longrightarrow> voucher_step db db'"
| step_status: "gv_update_status now sched i s c db = Inr (v, db') \<Longrightarrow> voucher_step db db'"
| step_delivery: "update_delivery_status i s db = Inr (v, db') \<Longrightarrow> voucher_step db db'"
| step_update: "update_voucher now i u db = Inr (v, db') \<Longrightarrow> voucher_step db db'"
| step_delete: "delete_voucher i db = Inr db' \<Longrightarrow> voucher_step db db'"
| step_open: "mark_digital_gift_opened x db = Inr (v, db') \<Longrightarrow> voucher_step db db'"
| step_activate: "activate_scheduled_voucher now i db = Inr (v, db') \<Longrightarrow> voucher_step db db'"
| step_reschedule: "reschedule_voucher now sched i t db = Inr (v, db') \<Longrightarrow> voucher_step db db'"
| step_reconcile: "reconcile_overdue_scheduled_vouchers now limit db = (ids, db') \<Longrightarrow> voucher_step db db'"

inductive vouchers_reachable :: "voucher_db \<Rightarrow> bool" where
  no_vouchers: "vouchers_reachable \<lparr>vd_vouchers = [], vd_events = []\<rparr>"
| voucher_stepped: "vouchers_reachable db \<Longrightarrow> voucher_step db db' \<Longrightarrow> vouchers_reachable db'"

text \<open>A predicate of the redemptions of every row.\<close>

definition rows_ok :: "(redemption list \<Rightarrow> bool) \<Rightarrow> voucher_db \<Rightarrow> bool" where
  "rows_ok P db \<longleftrightarrow> (\<forall>v \<in> set (vd_vouchers db). P (gv_redemptions v))"

lemma rows_ok_put: "rows_ok P db \<Longrightarrow> P (gv_redemptions v) \<Longrightarrow> rows_ok P (put_voucher v db)"
  using put_voucher_rows by (auto simp: rows_ok_def)

lemma rows_ok_found: "rows_ok P db \<Longrightarrow> find_voucher i db = Inr v \<Longrightarrow> P (gv_redemptions v)"
  using find_voucher_Inr by (auto simp: rows_ok_def)

lemma rows_ok_emit [simp]: "rows_ok P (emit_status_event i s db) = rows_ok P db"
  by (simp add: rows_ok_def)

lemma schedule_delivery_fields [simp]:
  "gv_redemptions (schedule_delivery sched v) = gv_redemptions v" "gv_status (schedule_delivery sched v) = gv_status v"
  "gv_delivery_mode (schedule_delivery sched v) = gv_delivery_mode v" "gv_id (schedule_delivery sched v) = gv_id v"
  by (simp_all add: schedule_delivery_def split: option.split)

lemma status_columns_fields [simp]:
  "gv_redemptions (status_columns now sched c t v) = gv_redemptions v"
  "gv_status (status_columns now sched c t v) = gift_voucher_status_value t" "gv_id (status_columns now sched c t v) = gv_id v"
  by (simp_all add: status_columns_def Let_def)

lemma voucher_row_redemptions [simp]: "gv_redemptions (voucher_row now days fresh q) = []"
  by (simp add: voucher_row_def Let_def)

lemma activated_fields [simp]:
  "gv_id (activated now v) = gv_id v" "gv_redemptions (activated now v) = gv_redemptions v"
  "gv_status (activated now v) = ''active''"
  by (simp_all add: activated_def)

lemma rows_ok_activate:
  "rows_ok P db \<Longrightarrow> activate_scheduled_voucher now i db = Inr (v, db') \<Longrightarrow> rows_ok P db'"
  by (auto simp: activate_scheduled_voucher_def ebind_Inr_iff rows_ok_put rows_ok_found split: if_splits)

lemma rows_ok_activate_all: "rows_ok P db \<Longrightarrow> activate_all now ids db = (done_ids, db') \<Longrightarrow> rows_ok P db'"
  by (induction ids arbitrary: db done_ids) (auto dest: rows_ok_activate split: sum.splits prod.splits)

lemma reschedule_Inr:
  assumes "reschedule_voucher now sched i t db = Inr (v', db')"
  obtains v where "find_voucher i db = Inr v" "gv_status v = ''scheduled''" "now < dt_kuwait t" "dt_kuwait t \<le> now + 62 * day"
    "gv_scheduled_delivery_at v' = Some (dt_kuwait t)" "gv_redemptions v' = gv_redemptions v" "gv_status v' = ''scheduled''"
    "gv_id v' = gv_id v" "db' = put_voucher v' db"
  using assms
  by (auto simp: reschedule_voucher_def ebind_Inr_iff Let_def move_schedule_def split: if_splits option.splits)

lemma update_status_Inr:
  assumes "gv_update_status now sched i s c db = Inr (v', db')"
  obtains v current requested where "find_voucher i db = Inr v" "voucher_status_of (gv_status v) = Some current"
    "voucher_status_of s = Some requested" "voucher_validate_transition current (redirect_target v requested) = Inr ()"
    "v' = with_history ''status_updated'' (Some (gv_status v)) (Some (gift_voucher_status_value (redirect_target v requested)))
            (status_columns now sched c (redirect_target v requested) v)"
    "vd_vouchers db' = vd_vouchers (put_voucher v' db)"
proof -
  from assms obtain v where f: "find_voucher i db = Inr v" by (auto simp: gv_update_status_def ebind_Inr_iff)
  moreover from assms f obtain cur where c: "voucher_status_of (gv_status v) = Some cur"
    by (cases "voucher_status_of (gv_status v)") (auto simp: gv_update_status_def)
  moreover from assms f c obtain r where r: "voucher_status_of s = Some r"
    by (cases "voucher_status_of s") (auto simp: gv_update_status_def)
  moreover from assms f c r have ok: "voucher_validate_transition cur (redirect_target v r) = Inr ()"
    by (cases "voucher_validate_transition cur (redirect_target v r)") (auto simp: gv_update_status_def Let_def)
  ultimately show ?thesis using assms by (intro that) (auto simp: gv_update_status_def Let_def)
qed

definition once :: "redemption list \<Rightarrow> bool" where
  "once rs \<longleftrightarrow> distinct (concat (map (\<lambda>r. map rs_service_id (rd_services r)) rs))"

lemma once_redeemed: "once (gv_redemptions v) \<longleftrightarrow> distinct (redeemed_ids v)"
  by (simp add: once_def redeemed_ids_def)

lemma once_update:
  assumes ok: "rows_ok once db" and up: "update_voucher now i u db = Inr (v', db')"
  shows "rows_ok once db'"
  using up
proof (rule update_voucher_Inr)
  fix v0 v1 s v2 target v3
  assume f: "find_voucher i db = Inr v0" and db': "vd_vouchers db' = vd_vouchers (put_voucher v' db)"
  from rows_ok_found[OF ok f] have "once (gv_redemptions v')"
    using update_keeps_redeemed[OF up f] by (simp add: once_redeemed)
  with ok have "rows_ok once (put_voucher v' db)" by (simp add: rows_ok_put)
  with db' show ?thesis by (simp add: rows_ok_def)
qed

lemma once_step: "voucher_step db db' \<Longrightarrow> rows_ok once db \<Longrightarrow> rows_ok once db'"
proof (induction rule: voucher_step.induct)
  case (step_create now days ym attempts sched fresh q db v db')
  have "once (gv_redemptions v) \<and> vd_vouchers db' = vd_vouchers db @ [v]"
    using step_create(1) by (auto simp: create_voucher_def ebind_Inr_iff Let_def once_def split: if_splits)
  with step_create(2) show ?case by (auto simp: rows_ok_def)
next
  case (step_status now sched i s c db v db')
  from step_status(1) show ?case
  proof (rule update_status_Inr)
    fix v0 current requested
    assume f: "find_voucher i db = Inr v0" and v: "v = with_history ''status_updated'' (Some (gv_status v0))
        (Some (gift_voucher_status_value (redirect_target v0 requested))) (status_columns now sched c (redirect_target v0 requested) v0)"
      and db': "vd_vouchers db' = vd_vouchers (put_voucher v db)"
    have "rows_ok once (put_voucher v db)" using rows_ok_found[OF step_status(2) f] step_status(2) by (simp add: v rows_ok_put)
    with db' show ?thesis by (simp add: rows_ok_def)
  qed
next
  case (step_delivery i s db v db')
  then show ?case by (auto simp: update_delivery_status_def ebind_Inr_iff Let_def rows_ok_put rows_ok_found)
next
  case (step_update now i u db v db')
  then show ?case by (blast intro: once_update)
next
  case (step_delete i db db')
  then show ?case by (auto simp: delete_voucher_def ebind_Inr_iff rows_ok_def split: if_splits)
next
  case (step_open x db v db')
  then show ?case
    by (auto simp: mark_digital_gift_opened_def Let_def rows_ok_def find_Some_iff dest!: put_voucher_rows
        split: option.splits if_splits)
next
  case (step_activate now i db v db')
  then show ?case by (blast intro: rows_ok_activate)
next
  case (step_reschedule now sched i t db v db')
  then show ?case by (auto elim!: reschedule_Inr intro!: rows_ok_put dest: rows_ok_found)
next
  case (step_reconcile now limit db ids db')
  then show ?case by (auto simp: reconcile_overdue_scheduled_vouchers_def intro: rows_ok_activate_all)
qed

text \<open>
  C14. In every reachable database each voucher has redeemed each of its services at most once.
\<close>
theorem vouchers_redeemed_once:
  assumes "vouchers_reachable db" and "v \<in> set (vd_vouchers db)"
  shows "distinct (redeemed_ids v)"
proof -
  have "rows_ok once db" using assms(1)
    by (induction rule: vouchers_reachable.induct) (auto simp: rows_ok_def[of _ "\<lparr>vd_vouchers = [], vd_events = []\<rparr>"] once_step)
  with assms(2) show ?thesis by (simp add: rows_ok_def once_redeemed)
qed

section \<open>Example vouchers\<close>

definition facial :: voucher_entry where
  "facial = \<lparr>vs_service_id = Some ''facial'', vs_service_data = [], vs_addons = [], vs_extra_time = 0,
     vs_price_for_extra_time = None, vs_position = 0\<rparr>"

definition voucher_with :: "string \<Rightarrow> voucher_entry list \<Rightarrow> gift_voucher" where
  "voucher_with status entries =
     \<lparr>gv_id = ''g1'', gv_voucher_number = ''VOU/2026/10/000001'', gv_status = status, gv_gift_category = ''service'',
      gv_delivery_mode = ''on_activation'', gv_scheduled_delivery_at = None, gv_delivery_schedule_name = None,
      gv_delivered_at = None, gv_expire_date = Some (60 * day), gv_services = entries, gv_service_id = None,
      gv_service_data = [], gv_addons = [], gv_extra_time = 0, gv_price_for_extra_time = SNone,
      gv_total_duration = 0, gv_total_amount = 10, gv_redemptions = [], gv_redeemed_at = None, gv_redeemed_by = None,
      gv_redeemed_booking_id = None, gv_booking_id = None, gv_delivery_status = None, gv_payment_id = None,
      gv_payment_provider = None, gv_payment_through = None, gv_update_history = [], gv_reschedule_count = 0,
      gv_is_digital_gift_opened = False, gv_secret_code = ''123456'', gv_public_token = ''t1''\<rparr>"

definition no_update :: voucher_update where
  "no_update = \<lparr>vu_redemption = None, vu_status = None, vu_delivery_status = None, vu_services = [], vu_booking_id = None,
     vu_redeemed_by = None, vu_payment_id = None, vu_expire_date = None, vu_total_duration = None, vu_total_amount = None,
     vu_gift_category = None, vu_payment_provider = None, vu_payment_through = None, vu_service_id = None,
     vu_service_data = None, vu_addons = None, vu_extra_time = None, vu_price_for_extra_time = None,
     vu_is_digital_gift_opened = None\<rparr>"

definition redeem :: "string list \<Rightarrow> voucher_update" where
  "redeem ids = no_update\<lparr>vu_redemption := Some \<lparr>rq_services =
     map (\<lambda>i. \<lparr>rs_service_id = i, rs_service_name = None, rs_addon_ids = [], rs_extra_time = 0\<rparr>) ids,
     rq_booking_id = Some ''b1'', rq_booking_number = None\<rparr>\<rparr>"

definition vouchers :: "gift_voucher list \<Rightarrow> voucher_db" where "vouchers vs = \<lparr>vd_vouchers = vs, vd_events = []\<rparr>"

definition open_request :: voucher_request where
  "open_request = \<lparr>vq_services = [\<lparr>rw_service_id = SText ''facial'', rw_service_data = Some [], rw_bare = [],
      rw_addons = [], rw_extra_time = SNone, rw_price = SNone\<rparr>], vq_service_id = None, vq_service_data = [],
     vq_addons = [], vq_extra_time = 0, vq_price_for_extra_time = SNone, vq_total_duration = SNone, vq_total_amount = 10, vq_sender_phone = SNone,
     vq_booking_id = None, vq_created_by = None, vq_payment_id = None, vq_payment_provider = None,
     vq_payment_through = None, vq_status = Some ''active'', vq_expire_date = None, vq_validity_days = None,
     vq_validity = None, vq_gift_category = None, vq_delivery_status = None, vq_is_digital_gift_opened = False,
     vq_delivery_mode = None, vq_scheduled_delivery_at = None\<rparr>"

definition quiet :: scheduler where "quiet = \<lparr>sc_create = \<lambda>_ _. Some ''s'', sc_update = \<lambda>_ _ _. True\<rparr>"

definition first_db :: voucher_db where
  "first_db = (case create_voucher 0 60 ''2026/10'' [Some ([], [])] quiet (''g1'', ''123456'', ''t1'') open_request (vouchers [])
     of Inr (v, db) \<Rightarrow> db | Inl _ \<Rightarrow> vouchers [])"

definition second_db :: voucher_db where
  "second_db = (case update_voucher 1 ''g1'' (redeem [''facial'']) first_db of Inr (v, db) \<Rightarrow> db | Inl _ \<Rightarrow> first_db)"

lemma reachable_second: "vouchers_reachable second_db"
proof -
  have first: "create_voucher 0 60 ''2026/10'' [Some ([], [])] quiet (''g1'', ''123456'', ''t1'') open_request (vouchers [])
          = Inr (hd (vd_vouchers first_db), first_db)" by code_simp
  have second: "update_voucher 1 ''g1'' (redeem [''facial'']) first_db = Inr (hd (vd_vouchers second_db), second_db)" by code_simp
  have "vouchers_reachable (vouchers [])" using no_vouchers by (simp add: vouchers_def)
  then show ?thesis by (rule voucher_stepped[OF voucher_stepped[OF _ step_create[OF first]] step_update[OF second]])
qed

theorem vouchers_redeemed_once_witness:
  "distinct (redeemed_ids (hd (vd_vouchers second_db))) \<and> redeemed_ids (hd (vd_vouchers second_db)) = [''facial'']"
proof -
  have "hd (vd_vouchers second_db) \<in> set (vd_vouchers second_db)" by code_simp
  from vouchers_redeemed_once[OF reachable_second this] show ?thesis by (intro conjI) (assumption, code_simp)
qed

text \<open>
  C15. An update with a redemption that is accepted found the voucher active or partially redeemed; the
  redeemed services are distinct, gifted and were not used before; they are appended to the redeemed
  ones; and when the update leaves the services alone the voucher is redeemed exactly when no gifted
  service remains, otherwise partially redeemed.
\<close>
theorem redemption_takes_unused:
  assumes "update_voucher now i u db = Inr (v', db')" and "find_voucher i db = Inr v" and "vu_redemption u = Some rq"
  shows "gv_status v \<in> {''active'', ''partially_redeemed''}
    \<and> map rs_service_id (rq_services rq) \<noteq> [] \<and> distinct (map rs_service_id (rq_services rq))
    \<and> set (map rs_service_id (rq_services rq)) \<subseteq> set (remaining_service_ids v)
    \<and> redeemed_ids v' = redeemed_ids v @ map rs_service_id (rq_services rq)
    \<and> (vu_services u = [] \<and> vu_service_id u = None \<and> vu_service_data u = None \<longrightarrow>
         gv_status v' = (if remaining_service_ids v' = [] then ''redeemed'' else ''partially_redeemed''))"
  using update_redeems[OF assms] by blast

theorem redemption_takes_unused_witness:
  "gv_status (hd (vd_vouchers second_db)) = ''redeemed'' \<and> remaining_service_ids (hd (vd_vouchers second_db)) = []"
proof -
  have up: "update_voucher 1 ''g1'' (redeem [''facial'']) first_db = Inr (hd (vd_vouchers second_db), second_db)" by code_simp
  have fd: "find_voucher ''g1'' first_db = Inr (hd (vd_vouchers first_db))" by code_simp
  have rq: "vu_redemption (redeem [''facial'']) = Some (the (vu_redemption (redeem [''facial''])))" by code_simp
  have keep: "vu_services (redeem [''facial'']) = []" "vu_service_id (redeem [''facial'']) = None"
    "vu_service_data (redeem [''facial'']) = None" by (simp_all add: redeem_def no_update_def)
  have rem: "remaining_service_ids (hd (vd_vouchers second_db)) = []" by code_simp
  from redemption_takes_unused[OF up fd rq] keep rem show ?thesis by simp
qed

lemma redeem_fields [simp]:
  "vu_services (redeem ids) = []" "vu_service_id (redeem ids) = None" "vu_service_data (redeem ids) = None"
  "vu_delivery_status (redeem ids) = None" "vu_status (redeem ids) = None"
  "vu_redemption (redeem ids) = Some \<lparr>rq_services =
     map (\<lambda>i. \<lparr>rs_service_id = i, rs_service_name = None, rs_addon_ids = [], rs_extra_time = 0\<rparr>) ids,
     rq_booking_id = Some ''b1'', rq_booking_number = None\<rparr>"
  by (simp_all add: redeem_def no_update_def)

lemma update_without_delivery [simp]: "vu_delivery_status u = None \<Longrightarrow> update_voucher_delivery u v = Inr v"
  by (simp add: update_voucher_delivery_def)

lemma checked_move_redeem:
  "s \<in> {''active'', ''partially_redeemed''} \<Longrightarrow> t \<in> {''redeemed'', ''partially_redeemed''} \<Longrightarrow> t \<noteq> s \<Longrightarrow>
   \<exists>a b. checked_move s t = Inr (a, b)"
  by (elim insertE emptyE; simp add: checked_move_def voucher_status_of_def voucher_statuses_def machine_simps)

text \<open>Distinct unused services are accepted whenever the status is.\<close>

lemma redeem_accepted:
  assumes f: "find_voucher i db = Inr v" and st: "gv_status v \<in> {''active'', ''partially_redeemed''}"
    and ids: "ids \<noteq> []" "distinct ids" "set ids \<subseteq> set (remaining_service_ids v)"
  shows "\<exists>v' db'. update_voucher now i (redeem ids) db = Inr (v', db')"
proof -
  have tk: "\<exists>taken. take_services (gifted_ids v) (used_service_ids v)
       (map (\<lambda>i. \<lparr>rs_service_id = i, rs_service_name = None, rs_addon_ids = [], rs_extra_time = 0\<rparr>) ids) [] = Inr taken \<and> taken \<noteq> []"
    using ids by (subst take_services_Inr_iff) (auto simp: remaining_service_ids_def comp_def)
  then obtain v1 s where rec: "record_redemption now (redeem ids) (the (vu_redemption (redeem ids))) v = Inr (v1, s)"
    using st by (auto simp: record_redemption_def Let_def)
  note facts = record_redemption_Inr[OF rec]
  have "\<exists>v2 target. update_voucher_status now (redeem ids) (Some s) v1 = Inr (v2, target)"
    using checked_move_redeem[OF st, of s] facts(7,12)
    by (cases "s = gv_status v1") (auto simp: update_voucher_status_def split: if_splits)
  then show ?thesis using f rec by (auto simp: update_voucher_def update_redemption_def Let_def)
qed

text \<open>
  The expiry date is not looked at: a voucher whose validity has ended is redeemed like any other.
\<close>
theorem expired_voucher_redeemed:
  assumes "find_voucher i db = Inr v" and "gv_status v \<in> {''active'', ''partially_redeemed''}"
    and "gv_expire_date v = Some e" and "e < now"
    and "ids \<noteq> []" and "distinct ids" and "set ids \<subseteq> set (remaining_service_ids v)"
  shows "\<exists>v' db'. update_voucher now i (redeem ids) db = Inr (v', db') \<and> redeemed_ids v' = redeemed_ids v @ ids"
proof -
  from redeem_accepted[OF assms(1,2,5-7)] obtain v' db' where up: "update_voucher now i (redeem ids) db = Inr (v', db')" by blast
  from update_redeems(5)[OF up assms(1) redeem_fields(6)] up show ?thesis by (auto simp: comp_def)
qed

definition expired_db :: voucher_db where "expired_db = vouchers [voucher_with ''active'' [facial]]"

theorem expired_voucher_redeemed_witness:
  "\<exists>v' db'. update_voucher (61 * day) ''g1'' (redeem [''facial'']) expired_db = Inr (v', db') \<and> redeemed_ids v' = [''facial'']"
proof -
  have "find_voucher ''g1'' expired_db = Inr (voucher_with ''active'' [facial])"
    by (simp add: expired_db_def vouchers_def find_voucher_def voucher_with_def)
  moreover have "gv_status (voucher_with ''active'' [facial]) = ''active''"
    "gv_expire_date (voucher_with ''active'' [facial]) = Some (60 * day)" by (simp_all add: voucher_with_def)
  moreover have "60 * day < 61 * day" by (simp add: day_def)
  moreover have "remaining_service_ids (voucher_with ''active'' [facial]) = [''facial'']"
    "redeemed_ids (voucher_with ''active'' [facial]) = []" by code_simp+
  ultimately show ?thesis
    using expired_voucher_redeemed[of "''g1''" expired_db "voucher_with ''active'' [facial]" "60 * day" "61 * day" "[''facial'']"]
    by simp
qed

text \<open>
  A service that is gifted twice counts once: its first redemption uses up both gifts, and a
  redemption that names it twice is refused.
\<close>
theorem duplicate_gift_used_up:
  assumes "find_voucher i db = Inr v" and "gv_status v = ''active''" and "gifted_ids v = [s, s]" and "redeemed_ids v = []"
  shows "update_voucher now i (redeem [s, s]) db = Inl (AlreadyRedeemed s)
    \<and> (\<exists>v' db'. update_voucher now i (redeem [s]) db = Inr (v', db') \<and> gv_status v' = ''redeemed'')"
proof
  have "take_services (gifted_ids v) (used_service_ids v) (map (\<lambda>i. \<lparr>rs_service_id = i, rs_service_name = None,
      rs_addon_ids = [], rs_extra_time = 0\<rparr>) [s, s]) [] = Inl (AlreadyRedeemed s)"
    using assms(3,4) by (simp add: used_service_ids_def)
  with assms(1,2) show "update_voucher now i (redeem [s, s]) db = Inl (AlreadyRedeemed s)"
    by (simp add: update_voucher_def update_redemption_def record_redemption_def)
  have rem: "set [s] \<subseteq> set (remaining_service_ids v)" using assms(3,4) by (simp add: remaining_set)
  have "\<exists>v' db'. update_voucher now i (redeem [s]) db = Inr (v', db')"
    using redeem_accepted[OF assms(1) _ _ _ rem] assms(2) by simp
  then obtain v' db' where up: "update_voucher now i (redeem [s]) db = Inr (v', db')" by blast
  note u = update_redeems[OF up assms(1) redeem_fields(6)]
  have "s \<noteq> []" using gifted_ids_nonempty[of v] assms(3) by auto
  with u(5) u(7) assms(3,4) have "remaining_service_ids v' = []"
    by (simp add: remaining_service_ids_def used_service_ids_def)
  with u(6) have "gv_status v' = ''redeemed''" by simp
  with up show "\<exists>v' db'. update_voucher now i (redeem [s]) db = Inr (v', db') \<and> gv_status v' = ''redeemed''" by blast
qed

definition twice_db :: voucher_db where "twice_db = vouchers [voucher_with ''active'' [facial, facial]]"

theorem duplicate_gift_used_up_witness:
  "update_voucher 0 ''g1'' (redeem [''facial'', ''facial'']) twice_db = Inl (AlreadyRedeemed ''facial'')"
proof -
  have "find_voucher ''g1'' twice_db = Inr (voucher_with ''active'' [facial, facial])"
    by (simp add: twice_db_def vouchers_def find_voucher_def voucher_with_def)
  moreover have "gv_status (voucher_with ''active'' [facial, facial]) = ''active''" by (simp add: voucher_with_def)
  moreover have "gifted_ids (voucher_with ''active'' [facial, facial]) = [''facial'', ''facial'']"
    "redeemed_ids (voucher_with ''active'' [facial, facial]) = []" by code_simp+
  ultimately show ?thesis using duplicate_gift_used_up by blast
qed

section \<open>Scheduled delivery\<close>

lemma status_value_active [simp]: "gift_voucher_status_value t = ''active'' \<longleftrightarrow> t = GV_ACTIVE"
  by (cases t) simp_all

text \<open>
  A change of status never makes a voucher with a scheduled delivery that is still open active: the
  request is turned into scheduling it.
\<close>
theorem status_change_waits_for_delivery:
  assumes "gv_update_status now sched i s c db = Inr (v', db')" and "find_voucher i db = Inr v"
    and "gv_delivery_mode v = ''scheduled''" and "gv_delivered_at v = None"
  shows "gv_status v' \<noteq> ''active''"
  using assms(1) by (rule update_status_Inr) (use assms(2-4) in \<open>auto simp: redirect_target_def\<close>)

definition waiting_db :: voucher_db where
  "waiting_db = vouchers [(voucher_with ''payment_pending'' [facial])\<lparr>gv_delivery_mode := ''scheduled'',
     gv_scheduled_delivery_at := Some (10 * day)\<rparr>]"

definition no_change :: status_change where
  "no_change = \<lparr>sg_payment_id = None, sg_booking_id = None, sg_payment_provider = None, sg_payment_through = None,
     sg_redeemed_by = None, sg_delivery_status = None, sg_is_digital_gift_opened = None\<rparr>"

definition paid_row :: gift_voucher where
  "paid_row = (case gv_update_status 0 quiet ''g1'' ''active'' no_change waiting_db of Inr (v, _) \<Rightarrow> v | Inl _ \<Rightarrow> voucher_with [] [])"

theorem status_change_waits_for_delivery_witness:
  "gv_status paid_row \<noteq> ''active'' \<and> gv_status paid_row = ''scheduled''"
proof -
  have "gv_update_status 0 quiet ''g1'' ''active'' no_change waiting_db
      = Inr (paid_row, (case gv_update_status 0 quiet ''g1'' ''active'' no_change waiting_db of Inr (_, d) \<Rightarrow> d | Inl _ \<Rightarrow> waiting_db))"
    by code_simp
  moreover have "find_voucher ''g1'' waiting_db = Inr (hd (vd_vouchers waiting_db))" by code_simp
  moreover have "gv_delivery_mode (hd (vd_vouchers waiting_db)) = ''scheduled''"
    "gv_delivered_at (hd (vd_vouchers waiting_db)) = None" by code_simp+
  ultimately have "gv_status paid_row \<noteq> ''active''" by (rule status_change_waits_for_delivery)
  moreover have "gv_status paid_row = ''scheduled''" by code_simp
  ultimately show ?thesis ..
qed

text \<open>
  C38. An edit of the voucher does not look at the delivery mode: with the status active it activates the
  voucher at once, undelivered, and publishes the event that tells the recipient.
\<close>
theorem edit_skips_scheduled_delivery:
  assumes "find_voucher i db = Inr v" and "gv_status v \<in> {''created'', ''payment_pending'', ''scheduled''}"
  shows "\<exists>v' db'. update_voucher now i (no_update\<lparr>vu_status := Some ''active''\<rparr>) db = Inr (v', db')
    \<and> gv_status v' = ''active'' \<and> gv_delivery_mode v' = gv_delivery_mode v \<and> gv_delivered_at v' = gv_delivered_at v
    \<and> (i, GV_ACTIVE) \<in> set (vd_events db')"
proof -
  have "\<exists>c. checked_move (gv_status v) ''active'' = Inr (c, GV_ACTIVE)"
    using assms(2) by (elim insertE emptyE; simp add: checked_move_def voucher_status_of_def voucher_statuses_def machine_simps)
  moreover have "gv_status v \<noteq> ''active''" using assms(2) by auto
  ultimately have "update_voucher_status now (no_update\<lparr>vu_status := Some ''active''\<rparr>) (Some ''active'') v
      = Inr (entered_columns now (no_update\<lparr>vu_status := Some ''active''\<rparr>) GV_ACTIVE v, Some GV_ACTIVE)"
    by (auto simp: update_voucher_status_def)
  then show ?thesis using assms(1)
    by (simp add: update_voucher_def update_redemption_def no_update_def edited_def[symmetric] Let_def emit_status_event_def)
qed

theorem edit_skips_scheduled_delivery_witness:
  "\<exists>v' db'. update_voucher 0 ''g1'' (no_update\<lparr>vu_status := Some ''active''\<rparr>) waiting_db = Inr (v', db')
    \<and> gv_status v' = ''active'' \<and> gv_delivery_mode v' = ''scheduled'' \<and> gv_delivered_at v' = None"
proof -
  have "find_voucher ''g1'' waiting_db = Inr (hd (vd_vouchers waiting_db))" by code_simp
  moreover have "gv_status (hd (vd_vouchers waiting_db)) = ''payment_pending''"
    "gv_delivery_mode (hd (vd_vouchers waiting_db)) = ''scheduled''"
    "gv_delivered_at (hd (vd_vouchers waiting_db)) = None" by code_simp+
  ultimately show ?thesis
    using edit_skips_scheduled_delivery[of "''g1''" waiting_db "hd (vd_vouchers waiting_db)" 0] by auto
qed

text \<open>
  An accepted rescheduling stores a time after now and within sixty-two days; a time given in UTC is
  stored three hours before the instant it names.
\<close>
theorem rescheduled_in_window:
  assumes "reschedule_voucher now sched i t db = Inr (v', db')"
  shows "\<exists>d. gv_scheduled_delivery_at v' = Some d \<and> now < d \<and> d \<le> now + 62 * day
    \<and> (case t of NaiveTime w \<Rightarrow> d = w - 3 * 3600000000 | UtcTime u \<Rightarrow> d = u - 3 * 3600000000 | ZonedTime z \<Rightarrow> d = z)"
  using assms by (rule reschedule_Inr) (cases t; simp)

definition later_row :: gift_voucher where
  "later_row = (case reschedule_voucher 0 quiet ''g1'' (UtcTime (5 * day)) (vouchers [paid_row])
     of Inr (v, _) \<Rightarrow> v | Inl _ \<Rightarrow> voucher_with [] [])"

theorem rescheduled_in_window_witness:
  "gv_scheduled_delivery_at later_row = Some (5 * day - 3 * 3600000000)"
proof -
  have "reschedule_voucher 0 quiet ''g1'' (UtcTime (5 * day)) (vouchers [paid_row]) = Inr (later_row,
      (case reschedule_voucher 0 quiet ''g1'' (UtcTime (5 * day)) (vouchers [paid_row]) of Inr (_, d) \<Rightarrow> d | Inl _ \<Rightarrow> vouchers []))"
    by code_simp
  from rescheduled_in_window[OF this] show ?thesis by auto
qed

lemma put_activated:
  "distinct (map gv_id (vd_vouchers db)) \<Longrightarrow> find_voucher i db = Inr v \<Longrightarrow>
   vd_vouchers (put_voucher (activated now v) db)
     = map (\<lambda>x. if gv_id x = i then activated now x else x) (vd_vouchers db)"
  by (auto simp: put_voucher_def replace_row_def dest!: find_voucher_Inr intro!: map_cong
      dest: replace_row_same_key)

lemma find_scheduled:
  assumes "distinct (map gv_id (vd_vouchers db))" and "v \<in> set (vd_vouchers db)"
  shows "find_voucher (gv_id v) db = Inr v"
  using find_key_row[OF assms] by (simp add: find_voucher_def)

lemma activate_scheduled_row:
  assumes "distinct (map gv_id (vd_vouchers db))" and "v \<in> set (vd_vouchers db)" and "gv_status v = ''scheduled''"
  shows "\<exists>db'. activate_scheduled_voucher now (gv_id v) db = Inr (activated now v, db')
    \<and> vd_vouchers db' = map (\<lambda>x. if gv_id x = gv_id v then activated now x else x) (vd_vouchers db)"
  using find_scheduled[OF assms(1,2)] put_activated[OF assms(1) find_scheduled[OF assms(1,2)], of now] assms(3)
  by (simp add: activate_scheduled_voucher_def)

lemma activate_all_rows:
  assumes "distinct ids" and "distinct (map gv_id (vd_vouchers db))"
    and "\<And>i. i \<in> set ids \<Longrightarrow> \<exists>v \<in> set (vd_vouchers db). gv_id v = i \<and> gv_status v = ''scheduled''"
    and "activate_all now ids db = (done_ids, db')"
  shows "done_ids = ids
    \<and> vd_vouchers db' = map (\<lambda>v. if gv_id v \<in> set ids then activated now v else v) (vd_vouchers db)"
  using assms
proof (induction ids arbitrary: db done_ids db')
  case Nil
  then show ?case by simp
next
  case (Cons i ids)
  obtain v where v: "v \<in> set (vd_vouchers db)" "gv_id v = i" "gv_status v = ''scheduled''"
    using Cons.prems(3)[of i] by auto
  obtain db1 where a: "activate_scheduled_voucher now i db = Inr (activated now v, db1)"
    and rows: "vd_vouchers db1 = map (\<lambda>x. if gv_id x = i then activated now x else x) (vd_vouchers db)"
    using activate_scheduled_row[OF Cons.prems(2) v(1,3), of now] v(2) by auto
  obtain rest db2 where r: "activate_all now ids db1 = (rest, db2)" by fastforce
  have keys: "map gv_id (vd_vouchers db1) = map gv_id (vd_vouchers db)" by (simp add: rows)
  have sched: "\<exists>x \<in> set (vd_vouchers db1). gv_id x = j \<and> gv_status x = ''scheduled''" if "j \<in> set ids" for j
    using Cons.prems(1) Cons.prems(3)[of j] that by (auto simp: rows)
  from Cons.IH[OF _ _ sched r] Cons.prems(1,2) keys
  have "rest = ids" "vd_vouchers db2 = map (\<lambda>v. if gv_id v \<in> set ids then activated now v else v) (vd_vouchers db1)"
    by simp_all
  with Cons.prems(1,4) a r rows show ?case by (auto simp: comp_def)
qed


definition due_db :: voucher_db where
  "due_db = vouchers [(voucher_with ''scheduled'' [facial])\<lparr>gv_scheduled_delivery_at := Some 5\<rparr>,
     (voucher_with ''scheduled'' [facial])\<lparr>gv_id := ''g2'', gv_scheduled_delivery_at := Some 20\<rparr>]"


section \<open>Every use case follows the state machine\<close>

text \<open>Every row of the second database comes from a row of the first with related statuses.\<close>

definition rows_from :: "(string \<Rightarrow> string \<Rightarrow> bool) \<Rightarrow> voucher_db \<Rightarrow> voucher_db \<Rightarrow> bool" where
  "rows_from R db db' \<longleftrightarrow>
     (\<forall>v' \<in> set (vd_vouchers db'). \<exists>v \<in> set (vd_vouchers db). gv_id v = gv_id v' \<and> R (gv_status v) (gv_status v'))"

definition machine_move :: "string \<Rightarrow> string \<Rightarrow> bool" where
  "machine_move s s' \<longleftrightarrow> s' = s \<or>
     (\<exists>c c'. voucher_status_of s = Some c \<and> voucher_status_of s' = Some c' \<and> voucher_move c c' = Inr c')"

lemma machine_move_refl [simp]: "machine_move s s"
  by (simp add: machine_move_def)

lemma rows_from_put:
  assumes "find_voucher i db = Inr v" and "gv_id v' = gv_id v" and "machine_move (gv_status v) (gv_status v')"
  shows "rows_from machine_move db (put_voucher v' db)"
  unfolding rows_from_def
proof
  fix w
  assume "w \<in> set (vd_vouchers (put_voucher v' db))"
  then have "w = v' \<or> w \<in> set (vd_vouchers db)" by (rule put_voucher_rows)
  with assms find_voucher_Inr[OF assms(1)]
  show "\<exists>x \<in> set (vd_vouchers db). gv_id x = gv_id w \<and> machine_move (gv_status x) (gv_status w)"
    by (metis machine_move_refl)
qed

lemma rows_from_cong: "vd_vouchers db' = vd_vouchers db2 \<Longrightarrow> rows_from R db db2 \<Longrightarrow> rows_from R db db'"
  by (simp add: rows_from_def)

lemma rows_from_refl: "rows_from machine_move db db"
  by (auto simp: rows_from_def)

lemma status_of_values [simp]: "voucher_status_of (gift_voucher_status_value t) = Some t"
  by (cases t) (simp_all add: voucher_status_of_def voucher_statuses_def)

lemma checked_move_machine: "checked_move c n = Inr (a, b) \<Longrightarrow> machine_move c n"
  by (auto simp: checked_move_def machine_move_def voucher_move_def split: option.splits sum.splits)

text \<open>Activating: a row stays or turns from scheduled to active.\<close>

definition turn_active :: "string \<Rightarrow> string \<Rightarrow> bool" where
  "turn_active s s' \<longleftrightarrow> s' = s \<or> s = ''scheduled'' \<and> s' = ''active''"

lemma turn_active_trans: "turn_active s t \<Longrightarrow> turn_active t u \<Longrightarrow> turn_active s u"
  by (auto simp: turn_active_def)

lemma turn_active_move: "turn_active s t \<Longrightarrow> machine_move s t"
proof -
  have "voucher_move GV_SCHEDULED GV_ACTIVE = Inr GV_ACTIVE" by (simp add: machine_simps)
  moreover have "voucher_status_of ''scheduled'' = Some GV_SCHEDULED" "voucher_status_of ''active'' = Some GV_ACTIVE"
    by (simp_all add: voucher_status_of_def voucher_statuses_def)
  ultimately show "turn_active s t \<Longrightarrow> machine_move s t" by (auto simp: turn_active_def machine_move_def)
qed

lemma rows_from_trans:
  assumes "\<And>s t u. R s t \<Longrightarrow> R t u \<Longrightarrow> R s u" and "rows_from R a b" and "rows_from R b c"
  shows "rows_from R a c"
  using assms unfolding rows_from_def by metis

lemma rows_from_activate: "activate_scheduled_voucher now i db = Inr (v, db') \<Longrightarrow> rows_from turn_active db db'"
proof -
  assume a: "activate_scheduled_voucher now i db = Inr (v, db')"
  have refl: "rows_from turn_active db db" by (auto simp: rows_from_def turn_active_def)
  from a obtain w where w: "find_voucher i db = Inr w" and
    "db' = db \<or> gv_status w = ''scheduled'' \<and> vd_vouchers db' = vd_vouchers (put_voucher (activated now w) db)"
    by (auto simp: activate_scheduled_voucher_def ebind_Inr_iff split: if_splits)
  then show "rows_from turn_active db db'"
  proof (elim disjE conjE)
    assume "gv_status w = ''scheduled''" and rows: "vd_vouchers db' = vd_vouchers (put_voucher (activated now w) db)"
    with find_voucher_Inr[OF w] have "\<exists>x \<in> set (vd_vouchers db). gv_id x = gv_id u \<and> turn_active (gv_status x) (gv_status u)"
      if "u \<in> set (vd_vouchers db')" for u
      using that put_voucher_rows[of u "activated now w" db] by (auto simp: turn_active_def)
    then show ?thesis by (simp add: rows_from_def)
  qed (simp add: refl)
qed

lemma rows_from_activate_all: "activate_all now ids db = (done_ids, db') \<Longrightarrow> rows_from turn_active db db'"
proof (induction ids arbitrary: db done_ids)
  case Nil
  then show ?case by (auto simp: rows_from_def turn_active_def)
next
  case (Cons i ids)
  then show ?case
    by (auto split: sum.splits prod.splits intro: rows_from_trans[OF turn_active_trans _ ] dest: rows_from_activate)
qed

lemma rows_from_turn: "rows_from turn_active db db' \<Longrightarrow> rows_from machine_move db db'"
  by (auto simp: rows_from_def dest: turn_active_move)

lemma update_moves:
  assumes up: "update_voucher now i u db = Inr (v', db')" shows "rows_from machine_move db db'"
  using up
proof (rule update_voucher_Inr)
  fix v0 v1 s v2 target v3
  assume f: "find_voucher i db = Inr v0" and r: "update_redemption now u v0 = Inr (v1, s)"
    and st: "update_voucher_status now u s v1 = Inr (v2, target)" and dl: "update_voucher_delivery u v2 = Inr v3"
    and v': "v' = (case target of
             Some t \<Rightarrow> with_history ''status_updated'' (Some (gv_status v0)) (Some (gift_voucher_status_value t)) (edited u v3)
           | None \<Rightarrow> with_history ''details_updated'' None None (edited u v3))"
    and rows: "vd_vouchers db' = vd_vouchers (put_voucher v' db)"
  have v1: "gv_id v1 = gv_id v0" "gv_status v1 = gv_status v0"
    using r by (auto simp: update_redemption_def record_redemption_def ebind_Inr_iff Let_def split: option.splits if_splits)
  have v'_st: "gv_status v' = gv_status v2" "gv_id v' = gv_id v0"
    using v1 by (simp_all add: v' update_voucher_delivery_Inr[OF dl] update_voucher_status_Inr[OF st] split: option.split)
  have "machine_move (gv_status v1) (gv_status v2)"
    using st by (auto simp: update_voucher_status_def ebind_Inr_iff checked_move_Inr dest: checked_move_machine
        split: option.splits if_splits)
  with rows_from_put[OF f v'_st(2)] v1 v'_st(1) have "rows_from machine_move db (put_voucher v' db)" by simp
  with rows show ?thesis by (rule rows_from_cong)
qed

lemma status_moves:
  assumes up: "gv_update_status now sched i s c db = Inr (v', db')" shows "rows_from machine_move db db'"
  using up
proof (rule update_status_Inr)
  fix v current requested
  assume f: "find_voucher i db = Inr v" and cur: "voucher_status_of (gv_status v) = Some current"
    and ok: "voucher_validate_transition current (redirect_target v requested) = Inr ()"
    and v': "v' = with_history ''status_updated'' (Some (gv_status v)) (Some (gift_voucher_status_value (redirect_target v requested)))
            (status_columns now sched c (redirect_target v requested) v)"
    and rows: "vd_vouchers db' = vd_vouchers (put_voucher v' db)"
  have "machine_move (gv_status v) (gv_status v')"
    using cur ok by (auto simp: machine_move_def v' voucher_move_def)
  with rows_from_put[OF f] have "rows_from machine_move db (put_voucher v' db)" by (simp add: v')
  with rows show ?thesis by (rule rows_from_cong)
qed

lemma step_moves:
  assumes "voucher_step db db'" and "distinct (map gv_id (vd_vouchers db'))"
  shows "\<forall>v' \<in> set (vd_vouchers db'). gv_id v' \<in> gv_id ` set (vd_vouchers db) \<longrightarrow>
           (\<exists>v \<in> set (vd_vouchers db). gv_id v = gv_id v' \<and> machine_move (gv_status v) (gv_status v'))"
proof -
  have weak: ?thesis if "rows_from machine_move db db'" using that by (auto simp: rows_from_def)
  from assms show ?thesis
  proof (induction rule: voucher_step.induct)
    case (step_create now days ym attempts sched fresh q db v db')
    have "vd_vouchers db' = vd_vouchers db @ [v]"
      using step_create(1) by (auto simp: create_voucher_def ebind_Inr_iff Let_def split: if_splits)
    with step_create(2) show ?case by auto
  next
    case (step_status now sched i s c db v db')
    then show ?case using status_moves by (fastforce simp: rows_from_def)
  next
    case (step_delivery i s db v db')
    then have "rows_from machine_move db db'" by (auto simp: update_delivery_status_def ebind_Inr_iff Let_def intro: rows_from_put)
    then show ?case by (auto simp: rows_from_def)
  next
    case (step_update now i u db v db')
    then show ?case using update_moves by (fastforce simp: rows_from_def)
  next
    case (step_delete i db db')
    then show ?case by (auto simp: delete_voucher_def ebind_Inr_iff split: if_splits)
  next
    case (step_open x db v db')
    then have "\<forall>v' \<in> set (vd_vouchers db'). \<exists>v \<in> set (vd_vouchers db). gv_id v = gv_id v' \<and> gv_status v' = gv_status v"
      by (fastforce simp: mark_digital_gift_opened_def Let_def find_Some_iff dest!: put_voucher_rows
          split: option.splits if_splits)
    then show ?case by (metis machine_move_refl)
  next
    case (step_activate now i db v db')
    then have "rows_from machine_move db db'" by (blast intro: rows_from_turn rows_from_activate)
    then show ?case by (auto simp: rows_from_def)
  next
    case (step_reschedule now sched i t db v db')
    from step_reschedule(1) have "rows_from machine_move db db'"
      by (rule reschedule_Inr) (simp add: rows_from_put)
    then show ?case by (auto simp: rows_from_def)
  next
    case (step_reconcile now limit db ids db')
    then have "rows_from machine_move db db'"
      by (auto simp: reconcile_overdue_scheduled_vouchers_def intro: rows_from_turn rows_from_activate_all)
    then show ?case by (auto simp: rows_from_def)
  qed
qed


text \<open>
  C13. The use cases refine the state machine: in every step over a table with distinct ids, a voucher
  whose status is a status of the machine moves by one move of the machine or keeps its status,
  whatever the use case that touched it.
\<close>
theorem use_cases_refine_machine:
  assumes "voucher_step db db'" and "distinct (map gv_id (vd_vouchers db))" and "distinct (map gv_id (vd_vouchers db'))"
    and "v \<in> set (vd_vouchers db)" and "v' \<in> set (vd_vouchers db')" and "gv_id v' = gv_id v"
    and "voucher_status_of (gv_status v) = Some c"
  shows "\<exists>ts c'. voucher_status_of (gv_status v') = Some c' \<and> length ts \<le> 1 \<and> run_targets voucher_move c ts = Inr c'"
proof -
  obtain w where "w \<in> set (vd_vouchers db)" "gv_id w = gv_id v'" and mv: "machine_move (gv_status w) (gv_status v')"
    using step_moves[OF assms(1,3)] assms(4-6) by (metis image_eqI)
  with replace_row_same_key[OF assms(2), of v w] assms(4,6) have "w = v" by simp
  with mv assms(7) consider "gv_status v' = gv_status v"
    | c' where "voucher_status_of (gv_status v') = Some c'" "voucher_move c c' = Inr c'"
    by (auto simp: machine_move_def)
  then show ?thesis
  proof cases
    case 1
    with assms(7) show ?thesis by (intro exI[of _ "[]"] exI[of _ c]) simp
  next
    case (2 c')
    then show ?thesis by (intro exI[of _ "[c']"] exI[of _ c']) simp
  qed
qed

theorem use_cases_refine_machine_witness:
  "\<exists>ts c'. voucher_status_of (gv_status paid_row) = Some c' \<and> length ts \<le> 1
     \<and> run_targets voucher_move GV_PAYMENT_PENDING ts = Inr c'"
proof -
  let ?db' = "case gv_update_status 0 quiet ''g1'' ''active'' no_change waiting_db of Inr (_, d) \<Rightarrow> d | Inl _ \<Rightarrow> waiting_db"
  have "gv_update_status 0 quiet ''g1'' ''active'' no_change waiting_db = Inr (paid_row, ?db')" by code_simp
  then have step: "voucher_step waiting_db ?db'" by (rule step_status)
  have facts: "distinct (map gv_id (vd_vouchers waiting_db))" "distinct (map gv_id (vd_vouchers ?db'))"
    "hd (vd_vouchers waiting_db) \<in> set (vd_vouchers waiting_db)" "paid_row \<in> set (vd_vouchers ?db')"
    "gv_id paid_row = gv_id (hd (vd_vouchers waiting_db))"
    "voucher_status_of (gv_status (hd (vd_vouchers waiting_db))) = Some GV_PAYMENT_PENDING" by code_simp+
  show ?thesis by (rule use_cases_refine_machine[OF step facts])
qed

end
