(* ===== verification/Payment_Parser.thy ===== *)
theory Payment_Parser
  imports Py_Values
begin

text \<open>
  Reading the answer of a payment gateway: \<open>app/payment/domain/parser.py\<close>. A JSON value is a scalar,
  a list or a dictionary; the text of a list or dictionary, \<open>str(x)\<close>, is the parameter \<open>py_repr\<close>. The
  instant \<open>paid_at\<close> read from the date text, and the copy of the raw answer, are left out. Keys are
  unique; texts are ASCII and \<open>Decimal("NaN")\<close> is not a number (see \<open>Py_Values\<close>).
\<close>

datatype gvalue = GScalar scalar | GList "gvalue list" | GDict "(string \<times> gvalue) list"

type_synonym payload = "(string \<times> gvalue) list"

fun gvalue_true :: "gvalue \<Rightarrow> bool" where
  "gvalue_true (GScalar s) = scalar_true s"
| "gvalue_true (GList xs) = (xs \<noteq> [])"
| "gvalue_true (GDict kvs) = (kvs \<noteq> [])"

definition gget :: "payload \<Rightarrow> string \<Rightarrow> gvalue" where
  "gget d key = (case map_of d key of Some v \<Rightarrow> v | None \<Rightarrow> GScalar SNone)"

text \<open>\<open>a or b or ... or d\<close>.\<close>

definition gfirst :: "gvalue list \<Rightarrow> gvalue \<Rightarrow> gvalue" where
  "gfirst vs d = foldr (\<lambda>a b. if gvalue_true a then a else b) vs d"

fun gtext :: "(gvalue \<Rightarrow> string) \<Rightarrow> gvalue \<Rightarrow> string" where
  "gtext py_repr (GScalar s) = py_str s"
| "gtext py_repr v = py_repr v"

text \<open>\<open>str(a or b or "").strip() or None\<close>.\<close>

definition gstr :: "(gvalue \<Rightarrow> string) \<Rightarrow> gvalue list \<Rightarrow> string" where
  "gstr py_repr vs = gtext py_repr (gfirst vs (GScalar (SText [])))"

definition gid :: "(gvalue \<Rightarrow> string) \<Rightarrow> gvalue list \<Rightarrow> string option" where
  "gid py_repr vs = nonempty (strip (gstr py_repr vs))"

fun as_dict :: "gvalue \<Rightarrow> payload" where
  "as_dict (GDict kvs) = kvs"
| "as_dict _ = []"

fun first_dict :: "gvalue \<Rightarrow> payload" where
  "first_dict (GList (GDict kvs # xs)) = kvs"
| "first_dict _ = []"

fun remove_sub :: "string \<Rightarrow> string \<Rightarrow> string" where
  "remove_sub p [] = []"
| "remove_sub p (c # s) =
     (if p \<noteq> [] \<and> startswith (c # s) p then remove_sub p (drop (length p - 1) s) else c # remove_sub p s)"

definition safe_decimal :: "(gvalue \<Rightarrow> string) \<Rightarrow> gvalue \<Rightarrow> rat \<Rightarrow> rat" where
  "safe_decimal py_repr v d =
     (if v = GScalar SNone \<or> v = GScalar (SText []) then d
      else (case parse_decimal (strip (remove_chars '','' (remove_sub ''KWD'' (remove_sub ''KD'' (gtext py_repr v))))) of
              Some r \<Rightarrow> r | None \<Rightarrow> d))"

record gateway_payment =
  gp_status :: string
  gp_total_amount :: rat
  gp_currency :: string
  gp_invoice_value :: rat
  gp_invoice_id :: "string option"
  gp_transaction_id :: "string option"
  gp_payment_id :: "string option"
  gp_reference_id :: "string option"
  gp_track_id :: "string option"
  gp_transaction_status :: "string option"
  gp_transaction_date :: "string option"
  gp_payment_method :: string
  gp_payment_gateway :: "string option"
  gp_payment_url :: "string option"
  gp_country :: "string option"
  gp_customer_data :: "(string \<times> string) list option"
  gp_payment_data :: "(string \<times> string) list"
  gp_card_info :: "(string \<times> gvalue) list option"

definition answer_data :: "payload \<Rightarrow> payload" where
  "answer_data p = as_dict (gfirst [gget p ''data'', gget p ''Data''] (GDict []))"

definition first_transaction :: "payload \<Rightarrow> payload" where
  "first_transaction p =
     (let d = answer_data p in
      first_dict (gfirst [gget d ''InvoiceTransactions'', gget d ''invoice_transactions''] (GList [])))"

definition paid_flag :: "payload \<Rightarrow> bool" where
  "paid_flag p \<longleftrightarrow> gget p ''isPaid'' = GScalar (SBool True) \<or> gget p ''IsSuccess'' = GScalar (SBool True)
     \<or> gget p ''is_paid'' = GScalar (SBool True)"

definition parse_status :: "(gvalue \<Rightarrow> string) \<Rightarrow> payload \<Rightarrow> string" where
  "parse_status py_repr p =
     (let invoice_status = lower (gstr py_repr [gget (answer_data p) ''InvoiceStatus'', gget p ''status'']);
          txn_status = lower (gstr py_repr [gget (first_transaction p) ''TransactionStatus''])
      in if paid_flag p \<or> invoice_status = ''paid'' \<or> contains_str txn_status ''succ''
            \<or> invoice_status \<in> {''success'', ''captured''} then ''success''
         else if invoice_status \<in> {''failed'', ''error''} \<or> contains_str txn_status ''fail'' then ''failed''
         else if invoice_status \<in> {''cancelled'', ''canceled''} then ''cancelled''
         else ''pending'')"

definition raw_amount :: "payload \<Rightarrow> gvalue" where
  "raw_amount p =
     (let d = answer_data p; t = first_transaction p in
      gfirst [gget d ''InvoiceValue'', gget t ''TransationValue'', gget t ''DueValue'', gget p ''amount'']
        (gget d ''InvoiceDisplayValue''))"

definition parse_currency :: "(gvalue \<Rightarrow> string) \<Rightarrow> payload \<Rightarrow> string" where
  "parse_currency py_repr p =
     (let t = first_transaction p;
          c = upper (gtext py_repr (gfirst [gget t ''Currency'', gget t ''PaidCurrency'', gget (answer_data p) ''CurrencyIso'',
                gget p ''currency''] (GScalar (SText ''KWD''))))
      in if c \<in> {''KD'', ''KWD''} then ''KWD'' else c)"

definition parse_invoice_id :: "(gvalue \<Rightarrow> string) \<Rightarrow> payload \<Rightarrow> string option" where
  "parse_invoice_id py_repr p =
     gid py_repr [gget (answer_data p) ''InvoiceId'', gget p ''invoiceId'', gget p ''InvoiceId'',
       if startswith (gstr py_repr [gget p ''id'']) ''chg_'' then gget p ''id'' else GScalar (SText [])]"

definition parse_payment_id :: "(gvalue \<Rightarrow> string) \<Rightarrow> payload \<Rightarrow> string option" where
  "parse_payment_id py_repr p =
     gid py_repr [gget (first_transaction p) ''PaymentId'', gget (answer_data p) ''PaymentId'', gget p ''payment_id'',
       gget p ''PaymentId'', gget (as_dict (gget p ''reference'')) ''payment'', gget p ''id'']"

definition source_text :: "(gvalue \<Rightarrow> string) \<Rightarrow> payload \<Rightarrow> string" where
  "source_text py_repr p =
     (let source = as_dict (gget p ''source'') in
      lower (strip (gstr py_repr [gget source ''id'', gget source ''payment_method''])))"

definition parse_gateway_name :: "(gvalue \<Rightarrow> string) \<Rightarrow> payload \<Rightarrow> string option" where
  "parse_gateway_name py_repr p =
     (let named = strip (gstr py_repr [gget (first_transaction p) ''PaymentGateway'', gget p ''gateway'']) in
      if named \<noteq> [] then Some named
      else if contains_str (source_text py_repr p) ''deema'' then Some ''Deema'' else None)"

definition method_of_gateway :: "string option \<Rightarrow> string \<Rightarrow> string" where
  "method_of_gateway gateway source =
     (let name = (case gateway of None \<Rightarrow> [] | Some g \<Rightarrow> lower g) in
      if contains_str source ''deema'' \<or> contains_str name ''deema'' then ''deema''
      else if contains_str name ''apple'' then ''apple_pay''
      else if contains_str name ''google'' then ''google_pay''
      else if contains_str name ''knet'' then ''knet'' else ''card'')"

definition gateway_value :: "string \<Rightarrow> string" where
  "gateway_value gateway =
     (let up = upper gateway in
      if contains_str up ''KNET'' \<or> contains_str up ''K-NET'' then ''KNET''
      else if contains_str up ''DEEMA'' then ''Deema''
      else if contains_str up ''TAP'' then ''TAP'' else ''Other'')"

text \<open>The items of a dictionary that are kept: those with a value.\<close>

definition kept :: "(string \<times> string option) list \<Rightarrow> (string \<times> string) list" where
  "kept kvs = List.map_filter (\<lambda>(k, v). map_option (Pair k) v) kvs"

definition parse_customer :: "(gvalue \<Rightarrow> string) \<Rightarrow> payload \<Rightarrow> (string \<times> string) list" where
  "parse_customer py_repr p =
     (let d = answer_data p;
          mobile = gid py_repr [gget d ''CustomerMobile'', gget p ''customer_mobile'']
      in kept [(''name'', gid py_repr [gget d ''CustomerName'', gget p ''customer_name'']), (''mobile'', mobile),
               (''phone_number'', mobile), (''email'', gid py_repr [gget d ''CustomerEmail'', gget p ''customer_email''])])"

definition dict_get_or :: "payload \<Rightarrow> string \<Rightarrow> gvalue" where
  "dict_get_or d key = (case map_of d key of Some v \<Rightarrow> v | None \<Rightarrow> GScalar (SText []))"

definition parse_card :: "payload \<Rightarrow> (string \<times> gvalue) list option" where
  "parse_card p =
     (let card = as_dict (gfirst [gget (first_transaction p) ''Card''] (GDict [])) in
      if card = [] then None
      else Some (map (\<lambda>(k, source). (k, dict_get_or card source))
        [(''name_on_card'', ''NameOnCard''), (''brand'', ''Brand''), (''issuer'', ''Issuer''),
         (''issuer_country'', ''IssuerCountry''), (''funding_method'', ''FundingMethod''), (''pan_hash'', ''PanHash''),
         (''expiry_month'', ''ExpiryMonth''), (''expiry_year'', ''ExpiryYear'')]))"

definition parse_payment_data :: "(gvalue \<Rightarrow> string) \<Rightarrow> payload \<Rightarrow> (string \<times> string) list" where
  "parse_payment_data py_repr p =
     (let d = answer_data p; t = first_transaction p; invoice_id = parse_invoice_id py_repr p;
          reference = gid py_repr [gget d ''InvoiceReference'']
      in kept [(''provider_payment_id'', invoice_id),
           (''provider_reference'', if reference \<noteq> None then reference else invoice_id),
           (''provider_transaction_id'', gid py_repr [gget t ''TransactionId'', gget p ''transaction_id'',
              gget (as_dict (gget p ''reference'')) ''transaction'']),
           (''invoice_reference'', reference), (''customer_reference'', gid py_repr [gget d ''CustomerReference'']),
           (''authorization_id'', gid py_repr [gget t ''AuthorizationId'']),
           (''payment_id_gateway'', parse_payment_id py_repr p), (''gateway_name'', parse_gateway_name py_repr p),
           (''ip_address'', gid py_repr [gget t ''IpAddress'', gget p ''ip_address'']),
           (''country'', gid py_repr [gget t ''Country''])])"

definition parse_gateway_response :: "(gvalue \<Rightarrow> string) \<Rightarrow> payload \<Rightarrow> gateway_payment" where
  "parse_gateway_response py_repr p =
     (let d = answer_data p; t = first_transaction p; ref = as_dict (gget p ''reference'');
          amount = safe_decimal py_repr (raw_amount p) 0; gateway = parse_gateway_name py_repr p;
          customer = parse_customer py_repr p
      in \<lparr>gp_status = parse_status py_repr p, gp_total_amount = amount, gp_currency = parse_currency py_repr p,
          gp_invoice_value = safe_decimal py_repr (gfirst [gget d ''InvoiceValue'', gget t ''DueValue''] (raw_amount p)) amount,
          gp_invoice_id = parse_invoice_id py_repr p,
          gp_transaction_id = gid py_repr [gget t ''TransactionId'', gget p ''transaction_id'', gget ref ''transaction''],
          gp_payment_id = parse_payment_id py_repr p,
          gp_reference_id = gid py_repr [gget t ''ReferenceId'', gget ref ''gateway'', gget ref ''order''],
          gp_track_id = gid py_repr [gget t ''TrackId'', gget ref ''track'', gget ref ''acquirer''],
          gp_transaction_status = gid py_repr [gget t ''TransactionStatus'', gget p ''status''],
          gp_transaction_date = gid py_repr [gget t ''TransactionDate'', gget p ''transaction_date''],
          gp_payment_method = method_of_gateway gateway (source_text py_repr p),
          gp_payment_gateway = map_option gateway_value gateway,
          gp_payment_url = gid py_repr [gget p ''paymentUrl'', gget d ''PaymentURL''],
          gp_country = gid py_repr [gget t ''Country''],
          gp_customer_data = (if customer = [] then None else Some customer),
          gp_payment_data = parse_payment_data py_repr p, gp_card_info = parse_card p\<rparr>)"

section \<open>Properties\<close>

text \<open>
  C40. An answer whose \<open>IsSuccess\<close> is true, which says that the call of the gateway succeeded, is read as
  a successful payment whatever the status of the invoice and of its transactions.
\<close>
theorem api_success_read_as_paid:
  assumes "map_of p ''IsSuccess'' = Some (GScalar (SBool True))"
  shows "gp_status (parse_gateway_response py_repr p) = ''success''"
  using assms by (simp add: parse_gateway_response_def Let_def parse_status_def paid_flag_def gget_def)

definition failed_answer :: payload where
  "failed_answer = [(''IsSuccess'', GScalar (SBool True)),
     (''Data'', GDict [(''InvoiceStatus'', GScalar (SText ''Failed'')), (''InvoiceValue'', GScalar (SInt 10)),
       (''InvoiceTransactions'', GList [GDict [(''TransactionStatus'', GScalar (SText ''Failed'')),
          (''PaymentGateway'', GScalar (SText ''K-NET''))]])])]"

theorem api_success_read_as_paid_witness:
  "gp_status (parse_gateway_response (\<lambda>_. []) failed_answer) = ''success''
   \<and> gp_transaction_status (parse_gateway_response (\<lambda>_. []) failed_answer) = Some ''Failed''"
proof -
  have "map_of failed_answer ''IsSuccess'' = Some (GScalar (SBool True))" by (simp add: failed_answer_def)
  from api_success_read_as_paid[OF this] show ?thesis by (intro conjI) (assumption, code_simp)
qed

text \<open>The spelling \<open>K-NET\<close> is read as the gateway KNET and as the method card.\<close>

lemma dashed_knet_is_card:
  "gateway_value ''K-NET'' = ''KNET''" "method_of_gateway (Some ''K-NET'') [] = ''card''"
  by code_simp+

end
