(* ===== verification/Booking_Cancellation.thy ===== *)
theory Booking_Cancellation
  imports Booking_Service Refund_Lifecycle
begin

text \<open>
  Cancelling a booking and the payment side of it: \<open>cancel_booking\<close>, \<open>_ensure_cancellation_refund\<close>
  and \<open>_sync_booking_payment_status\<close> of \<open>app/booking/application/services.py\<close>, over the tables of
  \<open>Refund_Lifecycle\<close>. The booking is the row of that theory; whether it was made with loyalty points
  and the payment references in its JSON columns are arguments. The deletion of the appointment cache
  and of the payment links afterwards is best effort and leaves these tables alone, up to the URL of
  the booking. The number of a created payment is left out, as in \<open>Payment\<close>.
\<close>

section \<open>Tables\<close>

text \<open>A payment reference of the booking: its text and, when the text is a UUID, the key it denotes.\<close>

record payment_cand =
  cand_text :: string
  cand_uuid :: "uuid option"

record payment_move =
  pv_payment_id :: uuid
  pv_old_status :: "string option"
  pv_new_status :: string
  pv_source :: string
  pv_reason :: string

record cancelled_event =
  ce_booking_id :: uuid
  ce_reason :: string
  ce_cancelled_by :: string
  ce_change_by_user :: string
  ce_refund_issued :: bool
  ce_refund_required :: bool
  ce_refundable_amount :: rat
  ce_cancellation_fee :: rat
  ce_refund_number :: "string option"
  ce_refund_status :: "RefundStatus option"
  ce_old_status :: BookingStatus
  ce_old_payment_status :: string

record booking_move =
  bm_booking_id :: uuid
  bm_old_status :: BookingStatus
  bm_new_status :: BookingStatus
  bm_source :: string
  bm_changed_by :: string
  bm_reason :: string

record cancel_db =
  cd_tables :: refund_db
  cd_moves :: "payment_move list"
  cd_holds :: "uuid list"
  cd_history :: "booking_move list"
  cd_events :: "cancelled_event list"

section \<open>The payments of a booking follow its payment status\<close>

text \<open>The rows linked to the booking, otherwise the rows its references name, which are then linked.\<close>

definition linked_payments :: "Booking \<Rightarrow> refund_db \<Rightarrow> Payment list" where
  "linked_payments b db = filter (\<lambda>p. pm_booking_id p = Some (bk_id b)) (db_payments db)"

definition cand_matches :: "payment_cand \<Rightarrow> Payment \<Rightarrow> bool" where
  "cand_matches c p \<longleftrightarrow> cand_uuid c = Some (pm_id p) \<or> pm_payment_id p = Some (cand_text c)"

definition cand_payments :: "payment_cand list \<Rightarrow> refund_db \<Rightarrow> Payment list" where
  "cand_payments cands db = remdups (concat (map (\<lambda>c. filter (cand_matches c) (db_payments db)) cands))"

definition sync_targets :: "Booking \<Rightarrow> payment_cand list \<Rightarrow> refund_db \<Rightarrow> Payment list" where
  "sync_targets b cands db =
     (case linked_payments b db of
        p # ps \<Rightarrow> p # ps
      | [] \<Rightarrow> map (\<lambda>p. p\<lparr>pm_booking_id := Some (bk_id b)\<rparr>) (cand_payments cands db))"

definition payment_move_of :: "string \<Rightarrow> string \<Rightarrow> string \<Rightarrow> Payment \<Rightarrow> payment_move" where
  "payment_move_of target source reason p =
     \<lparr>pv_payment_id = pm_id p, pv_old_status = Some (pm_status p), pv_new_status = target, pv_source = source, pv_reason = reason\<rparr>"

definition synced_payment :: "refund_env \<Rightarrow> Booking \<Rightarrow> string \<Rightarrow> Payment" where
  "synced_payment env b target =
     \<lparr>pm_id = env_uuid env, pm_booking_id = Some (bk_id b), pm_status = target, pm_total_amount = bk_total_amount b,
      pm_amount_refunded = 0, pm_currency = str_or (bk_currency b) ''KWD'',
      pm_payment_gateway = Some (str_or (bk_payment_gateway b) ''Other''),
      pm_payment_provider = Some (str_or (bk_payment_provider b) ''Other''), pm_transaction_id = None, pm_invoice_id = None,
      pm_payment_id = None, pm_invoice_number = None, pm_needs_attention = False, pm_created_at = env_now env,
      pm_voucher_id = None, pm_payment_link_id = None\<rparr>"

text \<open>A payment is only created for a booking that is neither cancelled nor waiting for its payment.\<close>

definition creates_payment :: "Booking \<Rightarrow> string \<Rightarrow> bool" where
  "creates_payment b target \<longleftrightarrow>
     target \<notin> {''cancelled'', ''refunded''}
     \<and> lower (strip (bk_payment_status b)) \<notin> {''pending'', ''payment_pending'', ''unpaid'', ''not_initiated'', ''cancelled''}
     \<and> lower (strip (bk_status b)) \<noteq> ''cancelled'' \<and> target \<in> {''success'', ''paid''}
     \<and> bk_total_amount b \<noteq> 0 \<and> bk_customer_id b \<noteq> None"

definition sync_booking_payment_status ::
  "refund_env \<Rightarrow> Booking \<Rightarrow> payment_cand list \<Rightarrow> string \<Rightarrow> string option \<Rightarrow> string \<Rightarrow> cancel_db \<Rightarrow> cancel_db" where
  "sync_booking_payment_status env b cands target_status source reason db =
     (let target = strip (lower target_status); src = str_or source ''booking_cancellation'';
          tables = cd_tables db; targets = sync_targets b cands tables;
          changed = filter (\<lambda>p. pm_status p \<noteq> target) targets;
          tables' = fold (\<lambda>p. put_payment (p\<lparr>pm_status := target\<rparr>)) targets tables;
          moves = map (payment_move_of target src reason) changed
      in if targets = [] \<and> creates_payment b target then
           db\<lparr>cd_tables := tables\<lparr>db_payments := db_payments tables @ [synced_payment env b target]\<rparr>,
              cd_moves := cd_moves db @ [\<lparr>pv_payment_id = env_uuid env, pv_old_status = None, pv_new_status = target,
                 pv_source = src, pv_reason = reason\<rparr>]\<rparr>
         else db\<lparr>cd_tables := tables', cd_moves := cd_moves db @ moves\<rparr>)"

section \<open>The refund of a cancelled booking\<close>

definition ensure_cancellation_refund ::
  "refund_env \<Rightarrow> Booking \<Rightarrow> string \<Rightarrow> string \<Rightarrow> string option \<Rightarrow> rat option \<Rightarrow> rat \<Rightarrow> refund_db \<Rightarrow> refund_error + (Refund \<times> bool \<times> refund_db)" where
  "ensure_cancellation_refund env b cancelled_by reason change_by_user refund_amount fee db =
     (let payment = find_payment_for_booking b db;
          total = (case payment of Some p \<Rightarrow> if pm_total_amount p \<noteq> 0 then pm_total_amount p else bk_total_amount b
                                 | None \<Rightarrow> bk_total_amount b);
          net = (case refund_amount of Some r \<Rightarrow> max 0 r | None \<Rightarrow> max 0 (total - fee))
      in refund_request env b payment net fee RT_MANUAL ''cash''
           (Some (if reason = [] then ''Booking cancellation refund'' else reason))
           (Some (''Auto-generated on booking cancellation by '' @ cancelled_by))
           (Some (cancellation_idempotency_key (bk_id b))) (Some (str_or change_by_user cancelled_by)) db)"

section \<open>Cancelling\<close>

record cancel_args =
  ca_reason :: string
  ca_cancelled_by :: string
  ca_change_by_user :: "string option"
  ca_refund_amount :: "rat option"
  ca_cancellation_fee :: "rat option"

datatype cancel_error = NoSuchBooking | LoyaltyBooking | UnknownStatus string | NotCancellable booking_state_error

definition is_paid_status :: "string \<Rightarrow> bool" where
  "is_paid_status s \<longleftrightarrow> lower s \<in> {''success'', ''paid''}"

definition is_unpaid_status :: "string \<Rightarrow> bool" where
  "is_unpaid_status s \<longleftrightarrow> s = [] \<or> lower s \<in> {''unpaid'', ''pending'', ''not_initiated''}"

definition effective_user :: "cancel_args \<Rightarrow> string" where
  "effective_user a = str_or (ca_change_by_user a) (ca_cancelled_by a)"

definition cancelled_row :: "cancel_args \<Rightarrow> Booking \<Rightarrow> Booking" where
  "cancelled_row a b =
     b\<lparr>bk_status := ''cancelled'',
       bk_internal_notes := append_note (bk_internal_notes b) (''Cancelled by '' @ ca_cancelled_by a @ '': '' @ ca_reason a)\<rparr>"

definition fee_of :: "cancel_args \<Rightarrow> rat" where
  "fee_of a = (case ca_cancellation_fee a of None \<Rightarrow> 0 | Some f \<Rightarrow> f)"

definition calc_refundable :: "cancel_args \<Rightarrow> Booking \<Rightarrow> rat" where
  "calc_refundable a b = (case ca_refund_amount a of Some r \<Rightarrow> r | None \<Rightarrow> max 0 (bk_total_amount b - fee_of a))"

text \<open>A refused refund request is logged and the cancellation goes on without a refund.\<close>

definition request_cancellation_refund ::
  "refund_env \<Rightarrow> cancel_args \<Rightarrow> Booking \<Rightarrow> cancel_db \<Rightarrow> Refund option \<times> cancel_db" where
  "request_cancellation_refund env a b db =
     (case ensure_cancellation_refund env b (ca_cancelled_by a) (ca_reason a) (Some (effective_user a))
             (Some (calc_refundable a b)) (fee_of a) (cd_tables db) of
        Inl _ \<Rightarrow> (None, db)
      | Inr (r, _, tables) \<Rightarrow> (Some r, db\<lparr>cd_tables := tables\<rparr>))"

definition cancel_unpaid :: "refund_env \<Rightarrow> cancel_args \<Rightarrow> payment_cand list \<Rightarrow> Booking \<Rightarrow> cancel_db \<Rightarrow> Booking \<times> cancel_db" where
  "cancel_unpaid env a cands b db =
     (let b' = b\<lparr>bk_payment_status := ''cancelled''\<rparr>
      in (b', sync_booking_payment_status env b' cands ''cancelled'' (Some (ca_cancelled_by a))
                (if ca_reason a = [] then ''Booking cancelled'' else ca_reason a)
                (db\<lparr>cd_tables := put_booking b' (cd_tables db)\<rparr>)))"

definition cancelled_event_of ::
  "cancel_args \<Rightarrow> Booking \<Rightarrow> BookingStatus \<Rightarrow> string \<Rightarrow> bool \<Rightarrow> Refund option \<Rightarrow> cancelled_event" where
  "cancelled_event_of a b old_status old_payment_status required refund =
     \<lparr>ce_booking_id = bk_id b, ce_reason = ca_reason a, ce_cancelled_by = ca_cancelled_by a,
      ce_change_by_user = effective_user a, ce_refund_issued = (refund \<noteq> None), ce_refund_required = required,
      ce_refundable_amount = (if \<not> required then 0
        else case refund of Some r \<Rightarrow> rf_refunded_amount r | None \<Rightarrow> calc_refundable a b),
      ce_cancellation_fee = (case refund of Some r \<Rightarrow> rf_cancellation_fee r | None \<Rightarrow> fee_of a),
      ce_refund_number = map_option rf_refund_number refund, ce_refund_status = map_option rf_status refund,
      ce_old_status = old_status, ce_old_payment_status = old_payment_status\<rparr>"

definition cancel_booking ::
  "refund_env \<Rightarrow> uuid \<Rightarrow> bool \<Rightarrow> payment_cand list \<Rightarrow> cancel_args \<Rightarrow> cancel_db \<Rightarrow> cancel_error + Booking \<times> cancel_db" where
  "cancel_booking env booking_id loyalty cands a db =
     (case booking_by_id booking_id (cd_tables db) of
        None \<Rightarrow> Inl NoSuchBooking
      | Some b0 \<Rightarrow>
          if loyalty then Inl LoyaltyBooking
          else (case booking_status_of (bk_status b0) of
            None \<Rightarrow> Inl (UnknownStatus (bk_status b0))
          | Some old_status \<Rightarrow>
              (case booking_transition_to old_status BK_CANCELLED of
                 Inl e \<Rightarrow> Inl (NotCancellable e)
               | Inr _ \<Rightarrow>
                   (let b1 = cancelled_row a b0;
                        db1 = db\<lparr>cd_tables := put_booking b1 (cd_tables db),
                                 cd_holds := filter (\<lambda>i. i \<noteq> booking_id) (cd_holds db),
                                 cd_history := cd_history db @ [\<lparr>bm_booking_id = booking_id, bm_old_status = old_status,
                                   bm_new_status = BK_CANCELLED, bm_source = ca_cancelled_by a,
                                   bm_changed_by = effective_user a, bm_reason = ca_reason a\<rparr>]\<rparr>;
                        paid = is_paid_status (bk_payment_status b0);
                        required = (bk_payment_status b0 = ''refund_requested'' \<or> paid);
                        (refund, b2, db2) =
                          (if required then (case request_cancellation_refund env a b1 db1 of (r, d) \<Rightarrow> (r, b1, d))
                           else if is_unpaid_status (bk_payment_status b0)
                                then (case cancel_unpaid env a cands b1 db1 of (b, d) \<Rightarrow> (None, b, d))
                                else (None, b1, db1))
                    in Inr (b2, db2\<lparr>cd_events := cd_events db2 @
                         [cancelled_event_of a b2 old_status (bk_payment_status b0) required refund]\<rparr>)))))"

section \<open>What a cancellation does\<close>

lemma payment_of_booking_row: "find_payment_for_booking b db = Some p \<Longrightarrow> p \<in> set (db_payments db)"
proof -
  assume f: "find_payment_for_booking b db = Some p"
  let ?ranked = "sort_key (\<lambda>p. (pm_status p \<notin> set PAID_PAYMENT_STATUSES, - pm_created_at p))
                   (filter (\<lambda>p. pm_booking_id p = Some (bk_id b)) (db_payments db))"
  show ?thesis
  proof (cases ?ranked)
    case Nil
    with f show ?thesis
      by (auto simp: find_payment_for_booking_def payment_by_id_def Let_def find_Some_iff
          split: option.splits payment_ref.splits)
  next
    case (Cons q qs)
    from arg_cong[OF Cons, of set] have "q \<in> set (db_payments db)" by auto
    with Cons f show ?thesis by (simp add: find_payment_for_booking_def Let_def)
  qed
qed

lemma put_booking_tables [simp]:
  "db_payments (put_booking b db) = db_payments db" "db_refunds (put_booking b db) = db_refunds db"
  "db_events (put_booking b db) = db_events db" "db_history (put_booking b db) = db_history db"
  by (simp_all add: put_booking_def)

lemma cancelled_row_fields [simp]:
  "bk_id (cancelled_row a b) = bk_id b" "bk_status (cancelled_row a b) = ''cancelled''"
  "bk_payment_status (cancelled_row a b) = bk_payment_status b" "bk_total_amount (cancelled_row a b) = bk_total_amount b"
  by (simp_all add: cancelled_row_def)

lemma calc_cancelled [simp]: "calc_refundable a (cancelled_row a b) = calc_refundable a b"
  by (simp add: calc_refundable_def split: option.split)

lemma booking_by_id_row: "booking_by_id i db = Some b \<Longrightarrow> bk_id b = i \<and> b \<in> set (db_bookings db)"
  by (auto simp: booking_by_id_def find_Some_iff)

text \<open>The booking and its status allow the cancellation.\<close>

definition may_cancel :: "uuid \<Rightarrow> bool \<Rightarrow> cancel_db \<Rightarrow> bool" where
  "may_cancel i loyalty db \<longleftrightarrow> \<not> loyalty \<and>
     (\<exists>b st. booking_by_id i (cd_tables db) = Some b \<and> booking_status_of (bk_status b) = Some st
        \<and> BK_CANCELLED \<in> set (booking_transitions st))"

lemma cancel_booking_ok: "(\<exists>r. cancel_booking env i loyalty cands a db = Inr r) \<longleftrightarrow> may_cancel i loyalty db"
  by (auto simp: cancel_booking_def may_cancel_def booking_transition_to_def booking_can_transition_to_def Let_def
      split: option.splits sum.splits if_splits prod.splits)

text \<open>The state in which the refund or the payments are handled.\<close>

definition released :: "uuid \<Rightarrow> BookingStatus \<Rightarrow> cancel_args \<Rightarrow> Booking \<Rightarrow> cancel_db \<Rightarrow> cancel_db" where
  "released i old_status a b db =
     db\<lparr>cd_tables := put_booking (cancelled_row a b) (cd_tables db),
        cd_holds := filter (\<lambda>j. j \<noteq> i) (cd_holds db),
        cd_history := cd_history db @ [\<lparr>bm_booking_id = i, bm_old_status = old_status,
          bm_new_status = BK_CANCELLED, bm_source = ca_cancelled_by a, bm_changed_by = effective_user a, bm_reason = ca_reason a\<rparr>]\<rparr>"

lemma cancel_booking_steps:
  assumes b: "booking_by_id i (cd_tables db) = Some b" and st: "booking_status_of (bk_status b) = Some st"
    and tr: "BK_CANCELLED \<in> set (booking_transitions st)"
  shows "cancel_booking env i False cands a db =
    (let required = (bk_payment_status b = ''refund_requested'' \<or> is_paid_status (bk_payment_status b));
         (refund, b2, db2) =
           (if required then (case request_cancellation_refund env a (cancelled_row a b) (released i st a b db) of
                                (r, d) \<Rightarrow> (r, cancelled_row a b, d))
            else if is_unpaid_status (bk_payment_status b)
                 then (case cancel_unpaid env a cands (cancelled_row a b) (released i st a b db) of (b, d) \<Rightarrow> (None, b, d))
                 else (None, cancelled_row a b, released i st a b db))
     in Inr (b2, db2\<lparr>cd_events := cd_events db2 @
          [cancelled_event_of a b2 st (bk_payment_status b) required refund]\<rparr>))"
  using assms by (simp add: cancel_booking_def booking_transition_to_def booking_can_transition_to_def Let_def released_def)

lemma released_tables [simp]:
  "cd_tables (released i st a b db) = put_booking (cancelled_row a b) (cd_tables db)"
  "cd_events (released i st a b db) = cd_events db" "cd_moves (released i st a b db) = cd_moves db"
  by (simp_all add: released_def)

lemma refund_request_cong:
  assumes "db_refunds d = db_refunds e"
  shows "committed_total p x d = committed_total p x e"
  using assms by (simp add: committed_total_def refund_sum_def)

lemma find_payment_cong:
  "db_payments d = db_payments e \<Longrightarrow> bk_id c = bk_id b \<Longrightarrow> bk_payment_ref c = bk_payment_ref b \<Longrightarrow>
   find_payment_for_booking c d = find_payment_for_booking b e"
  by (simp add: find_payment_for_booking_def payment_by_id_def cong: list.case_cong option.case_cong payment_ref.case_cong)

lemma request_cancellation_refund_cases:
  assumes "request_cancellation_refund env a b db = (refund, db')"
  shows "refund = None \<and> db' = db
    \<or> (\<exists>r created tables. refund = Some r \<and> db' = db\<lparr>cd_tables := tables\<rparr> \<and>
         refund_request env b (find_payment_for_booking b (cd_tables db)) (max 0 (calc_refundable a b)) (fee_of a) RT_MANUAL ''cash''
           (Some (if ca_reason a = [] then ''Booking cancellation refund'' else ca_reason a))
           (Some (''Auto-generated on booking cancellation by '' @ ca_cancelled_by a))
           (Some (cancellation_idempotency_key (bk_id b))) (Some (str_or (Some (effective_user a)) (ca_cancelled_by a)))
           (cd_tables db) = Inr (r, created, tables))"
  using assms by (auto simp: request_cancellation_refund_def ensure_cancellation_refund_def Let_def split: sum.splits)

text \<open>
  C18. Cancelling a paid booking leaves its payment status and its payments alone and asks for one refund
  under the key of the cancellation: an existing one is kept, otherwise at most one row is added, with
  the status requested and the refundable amount.
\<close>
theorem paid_cancellation_requests_refund:
  assumes "booking_by_id i (cd_tables db) = Some b" and "is_paid_status (bk_payment_status b)"
    and "cancel_booking env i False cands a db = Inr (b', db')"
  shows "bk_status b' = ''cancelled'' \<and> bk_payment_status b' = bk_payment_status b
    \<and> db_payments (cd_tables db') = db_payments (cd_tables db) \<and> cd_moves db' = cd_moves db
    \<and> (db_refunds (cd_tables db') = db_refunds (cd_tables db)
       \<or> (\<exists>r. db_refunds (cd_tables db') = db_refunds (cd_tables db) @ [r] \<and> rf_status r = RS_REQUESTED
            \<and> rf_booking_id r = Some i \<and> rf_idempotency_key r = Some (cancellation_idempotency_key i)
            \<and> rf_refunded_amount r = dec (max 0 (calc_refundable a b))
            \<and> Some (cancellation_idempotency_key i) \<notin> rf_idempotency_key ` set (db_refunds (cd_tables db))))"
proof -
  have id: "bk_id b = i" using booking_by_id_row[OF assms(1)] by simp
  have "may_cancel i False db" using assms(3) cancel_booking_ok by blast
  with assms(1) obtain st where st: "booking_status_of (bk_status b) = Some st" "BK_CANCELLED \<in> set (booking_transitions st)"
    by (auto simp: may_cancel_def)
  obtain refund d where rq: "request_cancellation_refund env a (cancelled_row a b) (released i st a b db) = (refund, d)"
    by fastforce
  have b': "b' = cancelled_row a b" and tables: "cd_tables db' = cd_tables d" "cd_moves db' = cd_moves d"
    using assms(2,3) by (auto simp: cancel_booking_steps[OF assms(1) st] rq Let_def)
  from request_cancellation_refund_cases[OF rq] show ?thesis
  proof (elim disjE exE conjE)
    assume "refund = None" "d = released i st a b db"
    with b' tables show ?thesis by simp
  next
    fix r created tabs
    assume d: "d = released i st a b db\<lparr>cd_tables := tabs\<rparr>"
      and rr: "refund_request env (cancelled_row a b) (find_payment_for_booking (cancelled_row a b) (cd_tables (released i st a b db)))
           (max 0 (calc_refundable a (cancelled_row a b))) (fee_of a) RT_MANUAL ''cash''
           (Some (if ca_reason a = [] then ''Booking cancellation refund'' else ca_reason a))
           (Some (''Auto-generated on booking cancellation by '' @ ca_cancelled_by a))
           (Some (cancellation_idempotency_key (bk_id (cancelled_row a b))))
           (Some (str_or (Some (effective_user a)) (ca_cancelled_by a))) (cd_tables (released i st a b db)) = Inr (r, created, tabs)"
    have key: "truthy (Some (cancellation_idempotency_key i))" by (simp add: truthy_def cancellation_idempotency_key_def)
    from request_effect[OF rr] show ?thesis
      by (elim disjE conjE) (auto simp: b' tables d id key new_refund_def)
  qed
qed

definition paid_state :: cancel_db where
  "paid_state = \<lparr>cd_tables = ex_db\<lparr>db_bookings := [ex_booking\<lparr>bk_status := ''confirmed''\<rparr>]\<rparr>, cd_moves = [], cd_holds = [7],
     cd_history = [], cd_events = []\<rparr>"

definition cancel_now :: "rat option \<Rightarrow> rat option \<Rightarrow> cancel_args" where
  "cancel_now amount fee = \<lparr>ca_reason = ''ill'', ca_cancelled_by = ''customer'', ca_change_by_user = None,
     ca_refund_amount = amount, ca_cancellation_fee = fee\<rparr>"

definition after_cancel :: "cancel_args \<Rightarrow> cancel_db \<Rightarrow> Booking \<times> cancel_db" where
  "after_cancel a db = (case cancel_booking (ex_env 50) 7 False [] a db of Inr x \<Rightarrow> x | Inl _ \<Rightarrow> (ex_booking, db))"

theorem paid_cancellation_requests_refund_witness:
  "bk_payment_status (fst (after_cancel (cancel_now None (Some 2)) paid_state)) = ''success''
   \<and> map rf_refunded_amount (db_refunds (cd_tables (snd (after_cancel (cancel_now None (Some 2)) paid_state)))) = [8]"
proof -
  have b: "booking_by_id 7 (cd_tables paid_state) = Some (ex_booking\<lparr>bk_status := ''confirmed''\<rparr>)" by code_simp
  have p: "is_paid_status (bk_payment_status (ex_booking\<lparr>bk_status := ''confirmed''\<rparr>))" by code_simp
  have c: "cancel_booking (ex_env 50) 7 False [] (cancel_now None (Some 2)) paid_state
     = Inr (fst (after_cancel (cancel_now None (Some 2)) paid_state), snd (after_cancel (cancel_now None (Some 2)) paid_state))"
    by code_simp
  have s: "bk_payment_status (ex_booking\<lparr>bk_status := ''confirmed''\<rparr>) = ''success''" by code_simp
  have "map rf_refunded_amount (db_refunds (cd_tables (snd (after_cancel (cancel_now None (Some 2)) paid_state)))) = [8]"
    by code_simp
  with paid_cancellation_requests_refund[OF b p c] s show ?thesis by simp
qed

text \<open>
  C39. A refund that is still open blocks the refund of the cancellation: when the promised and the
  refundable amount together exceed the payment, the booking is cancelled and no refund is requested,
  while the published event still says that a refund of the full amount is required.
\<close>
theorem open_refund_blocks_cancellation_refund:
  assumes "booking_by_id i (cd_tables db) = Some b" and "is_paid_status (bk_payment_status b)" and "may_cancel i False db"
    and "find_payment_for_booking b (cd_tables db) = Some p"
    and "Some (cancellation_idempotency_key i) \<notin> rf_idempotency_key ` set (db_refunds (cd_tables db))"
    and "0 \<le> calc_refundable a b"
    and "dec (pm_total_amount p) + TOLERANCE < committed_total p None (cd_tables db) + dec (calc_refundable a b)"
  shows "\<exists>b' db'. cancel_booking env i False cands a db = Inr (b', db') \<and> bk_status b' = ''cancelled''
    \<and> db_refunds (cd_tables db') = db_refunds (cd_tables db)
    \<and> (\<exists>ev. cd_events db' = cd_events db @ [ev] \<and> ce_refund_required ev \<and> \<not> ce_refund_issued ev
         \<and> ce_refundable_amount ev = calc_refundable a b)"
proof -
  have id: "bk_id b = i" using booking_by_id_row[OF assms(1)] by simp
  from assms(1,3) obtain st where st: "booking_status_of (bk_status b) = Some st" "BK_CANCELLED \<in> set (booking_transitions st)"
    by (auto simp: may_cancel_def)
  let ?r = "released i st a b db"
  have pay: "find_payment_for_booking (cancelled_row a b) (cd_tables ?r) = Some p"
    using assms(4) find_payment_cong[of "cd_tables ?r" "cd_tables db" "cancelled_row a b" b] by (simp add: cancelled_row_def)
  have comm: "committed_total p None (cd_tables ?r) = committed_total p None (cd_tables db)"
    by (rule refund_request_cong) simp
  have nokey: "find (\<lambda>r. rf_idempotency_key r = Some (cancellation_idempotency_key i)) (db_refunds (cd_tables ?r)) = None"
    using assms(5) by (auto simp: find_None_iff image_iff)
  have key: "truthy (Some (cancellation_idempotency_key i))" by (simp add: truthy_def cancellation_idempotency_key_def)
  have "isl (ensure_cancellation_refund env (cancelled_row a b) (ca_cancelled_by a) (ca_reason a) (Some (effective_user a))
      (Some (calc_refundable a (cancelled_row a b))) (fee_of a) (cd_tables ?r))"
    using assms(6,7) nokey
    by (simp add: ensure_cancellation_refund_def refund_request_def Let_def key id pay comm guard_def isl_ebind max_def
        del: released_tables)
  then have "request_cancellation_refund env a (cancelled_row a b) ?r = (None, ?r)"
    by (auto simp: request_cancellation_refund_def split: sum.splits)
  with assms(2) show ?thesis
    by (simp add: cancel_booking_steps[OF assms(1) st] Let_def cancelled_event_of_def)
qed

definition promised_state :: cancel_db where
  "promised_state = paid_state\<lparr>cd_tables := ex_request 20 4 (cd_tables paid_state)\<rparr>"

theorem open_refund_blocks_cancellation_refund_witness:
  "\<exists>b' db'. cancel_booking (ex_env 50) 7 False [] (cancel_now None None) promised_state = Inr (b', db')
     \<and> bk_status b' = ''cancelled'' \<and> map rf_status (db_refunds (cd_tables db')) = [RS_REQUESTED]"
proof -
  let ?b = "ex_booking\<lparr>bk_status := ''confirmed''\<rparr>"
  have b: "booking_by_id 7 (cd_tables promised_state) = Some ?b" by code_simp
  have p: "is_paid_status (bk_payment_status ?b)" by code_simp
  have m: "may_cancel 7 False promised_state" using b by (simp add: may_cancel_def booking_status_of_def booking_statuses_def)
  have f: "find_payment_for_booking ?b (cd_tables promised_state) = Some ex_payment" by code_simp
  have k: "Some (cancellation_idempotency_key 7) \<notin> rf_idempotency_key ` set (db_refunds (cd_tables promised_state))" by code_simp
  have c: "0 \<le> calc_refundable (cancel_now None None) ?b" by code_simp
  have e: "dec (pm_total_amount ex_payment) + TOLERANCE
      < committed_total ex_payment None (cd_tables promised_state) + dec (calc_refundable (cancel_now None None) ?b)" by code_simp
  have s: "map rf_status (db_refunds (cd_tables promised_state)) = [RS_REQUESTED]" by code_simp
  from open_refund_blocks_cancellation_refund[OF b p m f k c e] s show ?thesis by fastforce
qed

section \<open>Cancellations and the cap on refunds\<close>

text \<open>
  The refund lifecycle with cancellations and payment updates between its steps. A new refund or
  payment has a fresh key.
\<close>

inductive cancel_step :: "cancel_db \<Rightarrow> cancel_db \<Rightarrow> bool" where
  lifecycle: "refund_step cash (cd_tables db) tables \<Longrightarrow> cancel_step db (db\<lparr>cd_tables := tables\<rparr>)"
| cancelling: "cancel_booking env i loyalty cands a db = Inr (b, db') \<Longrightarrow>
    env_uuid env \<notin> rf_id ` set (db_refunds (cd_tables db)) \<Longrightarrow> cancel_step db db'"

inductive cancel_reachable :: "cancel_db \<Rightarrow> bool" where
  cancel_start: "refund_start (cd_tables db) \<Longrightarrow> cancel_reachable db"
| cancel_stepped: "cancel_reachable db \<Longrightarrow> cancel_step db db' \<Longrightarrow> cancel_reachable db'"

text \<open>The facts the cap rests on depend on the keys and totals of the payments and on the refunds only.\<close>

lemma keys_ids: "map pm_id (db_payments db) = map fst (payment_keys db)"
  by (simp add: payment_keys_def)

lemma cap_cong:
  assumes "payment_keys d = payment_keys e" and "db_refunds d = db_refunds e"
  shows "amounts_ok d = amounts_ok e" and "money_capped d = money_capped e"
proof -
  from assms show "amounts_ok d = amounts_ok e" by (simp add: amounts_ok_def keys_ids)
  from assms show "money_capped d = money_capped e" by (simp add: money_capped_def money_completed_def)
qed

lemma payment_keys_same: "db_payments d = db_payments e \<Longrightarrow> payment_keys d = payment_keys e"
  by (simp add: payment_keys_def)

lemma put_payment_keys:
  assumes "p \<in> set (db_payments db)" and "distinct (map pm_id (db_payments db))" and "pm_id p' = pm_id p"
    and "pm_total_amount p' = pm_total_amount p"
  shows "payment_keys (put_payment p' db) = payment_keys db"
  using replace_row_same_key[OF assms(2,1)] assms(3,4)
  by (auto simp: payment_keys_def put_payment_def replace_row_def)

text \<open>Writing a list of status changes.\<close>

lemma put_payments_keys:
  assumes "distinct (map pm_id (db_payments db))"
    and "\<forall>q \<in> set qs. \<exists>p \<in> set (db_payments db). pm_id q = pm_id p \<and> pm_total_amount q = pm_total_amount p"
  shows "payment_keys (fold (\<lambda>p. put_payment (p\<lparr>pm_status := t\<rparr>)) qs db) = payment_keys db
    \<and> db_refunds (fold (\<lambda>p. put_payment (p\<lparr>pm_status := t\<rparr>)) qs db) = db_refunds db"
  using assms
proof (induction qs arbitrary: db)
  case (Cons q qs)
  let ?d = "put_payment (q\<lparr>pm_status := t\<rparr>) db"
  from Cons.prems(2) obtain p where p: "p \<in> set (db_payments db)" "pm_id q = pm_id p" "pm_total_amount q = pm_total_amount p" by auto
  have keys: "payment_keys ?d = payment_keys db" by (rule put_payment_keys[OF p(1) Cons.prems(1)]) (simp_all add: p)
  have dist: "distinct (map pm_id (db_payments ?d))"
    using Cons.prems(1) by (simp add: keys_ids keys del: map_map)
  have "\<exists>p \<in> set (db_payments ?d). pm_id x = pm_id p \<and> pm_total_amount x = pm_total_amount p" if x: "x \<in> set qs" for x
  proof -
    from Cons.prems(2) x obtain p where "p \<in> set (db_payments db)" "pm_id x = pm_id p" "pm_total_amount x = pm_total_amount p" by auto
    then have "(pm_id x, pm_total_amount x) \<in> set (payment_keys db)" by (force simp: payment_keys_def)
    then have "(pm_id x, pm_total_amount x) \<in> set (payment_keys ?d)" by (simp only: keys)
    then show ?thesis by (auto simp: payment_keys_def)
  qed
  with Cons.IH[of ?d] dist keys show ?case by (simp add: put_payment_def)
qed simp

lemma sync_targets_keys:
  "\<forall>q \<in> set (sync_targets b cands db). \<exists>p \<in> set (db_payments db). pm_id q = pm_id p \<and> pm_total_amount q = pm_total_amount p"
proof (cases "linked_payments b db")
  case Nil
  then show ?thesis by (auto simp: sync_targets_def cand_payments_def)
next
  case (Cons p ps)
  then have "set (sync_targets b cands db) = set (linked_payments b db)" by (simp add: sync_targets_def)
  then show ?thesis by (auto simp: linked_payments_def)
qed

lemma sync_cancelled_keys:
  assumes "distinct (map pm_id (db_payments (cd_tables db)))"
  shows "payment_keys (cd_tables (sync_booking_payment_status env b cands ''cancelled'' source reason db)) = payment_keys (cd_tables db)
    \<and> db_refunds (cd_tables (sync_booking_payment_status env b cands ''cancelled'' source reason db)) = db_refunds (cd_tables db)"
proof -
  have low: "strip (lower ''cancelled'') = ''cancelled''" by code_simp
  show ?thesis using put_payments_keys[OF assms sync_targets_keys[of b cands "cd_tables db"], of "''cancelled''"]
    by (simp add: sync_booking_payment_status_def Let_def low creates_payment_def)
qed

lemma released_keys:
  "payment_keys (cd_tables (released i st a b db)) = payment_keys (cd_tables db)"
  "db_refunds (cd_tables (released i st a b db)) = db_refunds (cd_tables db)"
  by (simp_all add: payment_keys_def)

text \<open>A cancellation is a refund request or leaves the refunds and the payment totals alone.\<close>

lemma cancel_booking_tables:
  assumes c: "cancel_booking env i loyalty cands a db = Inr (b', db')" and dist: "distinct (map pm_id (db_payments (cd_tables db)))"
    and fresh: "env_uuid env \<notin> rf_id ` set (db_refunds (cd_tables db))"
  shows "\<exists>d. payment_keys d = payment_keys (cd_tables db) \<and> db_refunds d = db_refunds (cd_tables db)
    \<and> (payment_keys (cd_tables db') = payment_keys d \<and> db_refunds (cd_tables db') = db_refunds d
       \<or> refund_step False d (cd_tables db'))"
proof -
  have may: "may_cancel i loyalty db" using c cancel_booking_ok by blast
  then obtain b st where b: "booking_by_id i (cd_tables db) = Some b" and st: "booking_status_of (bk_status b) = Some st"
    "BK_CANCELLED \<in> set (booking_transitions st)" and l: "\<not> loyalty" by (auto simp: may_cancel_def)
  let ?r = "released i st a b db"
  obtain refund d where rq: "request_cancellation_refund env a (cancelled_row a b) ?r = (refund, d)" by fastforce
  have steps: "cancel_booking env i False cands a db = Inr (b', db')" using c l by simp
  consider (req) "cd_tables db' = cd_tables d"
    | (unpaid) b2 d2 where "cancel_unpaid env a cands (cancelled_row a b) ?r = (b2, d2)" "cd_tables db' = cd_tables d2"
    | (same) "cd_tables db' = cd_tables ?r"
    using steps by (auto simp: cancel_booking_steps[OF b st] rq Let_def simp del: released_tables split: if_splits prod.splits)
  then show ?thesis
  proof cases
    case req
    from request_cancellation_refund_cases[OF rq] show ?thesis
    proof (elim disjE exE conjE)
      assume "d = ?r"
      with req show ?thesis by (intro exI[of _ "cd_tables db"]) (simp add: payment_keys_def)
    next
      fix r created tabs
      assume "d = ?r\<lparr>cd_tables := tabs\<rparr>" and rr: "refund_request env (cancelled_row a b)
          (find_payment_for_booking (cancelled_row a b) (cd_tables ?r)) (max 0 (calc_refundable a (cancelled_row a b))) (fee_of a)
          RT_MANUAL ''cash'' (Some (if ca_reason a = [] then ''Booking cancellation refund'' else ca_reason a))
          (Some (''Auto-generated on booking cancellation by '' @ ca_cancelled_by a))
          (Some (cancellation_idempotency_key (bk_id (cancelled_row a b))))
          (Some (str_or (Some (effective_user a)) (ca_cancelled_by a))) (cd_tables ?r) = Inr (r, created, tabs)"
      have po: "set_option (find_payment_for_booking (cancelled_row a b) (cd_tables ?r)) \<subseteq> set (db_payments (cd_tables ?r))"
        using payment_of_booking_row by blast
      have "refund_step False (cd_tables ?r) tabs"
        by (rule refund_step.request[OF rr _ po]) (use fresh in simp_all)
      with req \<open>d = _\<close> show ?thesis by (intro exI[of _ "cd_tables ?r"]) (simp add: payment_keys_def)
    qed
  next
    case (unpaid b2 d2)
    let ?b3 = "cancelled_row a b\<lparr>bk_payment_status := ''cancelled''\<rparr>" let ?d = "?r\<lparr>cd_tables := put_booking ?b3 (cd_tables ?r)\<rparr>"
    have "distinct (map pm_id (db_payments (cd_tables ?d)))" using dist by simp
    from sync_cancelled_keys[OF this] unpaid show ?thesis
      by (intro exI[of _ "cd_tables db"]) (auto simp: cancel_unpaid_def Let_def payment_keys_def)
  next
    case same
    then show ?thesis by (intro exI[of _ "cd_tables db"]) (simp add: payment_keys_def)
  qed
qed

lemma cancel_step_capped:
  assumes "cancel_step db db'" and "amounts_ok (cd_tables db)" and "money_capped (cd_tables db)"
  shows "amounts_ok (cd_tables db') \<and> money_capped (cd_tables db')"
  using assms
proof (cases rule: cancel_step.cases)
  case (lifecycle cash tables)
  with assms(2,3) show ?thesis by (auto intro: refund_step_amounts refund_step_money)
next
  case (cancelling env i loyalty cands a b)
  have "distinct (map pm_id (db_payments (cd_tables db)))" using assms(2) by (simp add: amounts_ok_def)
  from cancel_booking_tables[OF cancelling(1) this cancelling(2)] obtain d
    where d: "payment_keys d = payment_keys (cd_tables db)" "db_refunds d = db_refunds (cd_tables db)"
      and or: "payment_keys (cd_tables db') = payment_keys d \<and> db_refunds (cd_tables db') = db_refunds d
        \<or> refund_step False d (cd_tables db')" by blast
  have ok: "amounts_ok d" "money_capped d" using cap_cong[OF d] assms(2,3) by simp_all
  from or show ?thesis
    using ok cap_cong[of "cd_tables db'" d] by (auto intro: refund_step_amounts refund_step_money)
qed

text \<open>
  C17. With cancellations between the steps of the refund lifecycle the completed money refunds of a
  payment still never exceed its total.
\<close>
theorem cancellations_keep_refund_cap:
  assumes "cancel_reachable db" and "p \<in> set (db_payments (cd_tables db))"
  shows "money_completed (pm_id p) (cd_tables db) \<le> pm_total_amount p"
proof -
  have "amounts_ok (cd_tables db) \<and> money_capped (cd_tables db)" using assms(1)
    by (induction rule: cancel_reachable.induct)
      (auto simp: refund_start_amounts intro: money_capped_reachable refund_reachable.start dest: cancel_step_capped)
  with assms(2) show ?thesis by (auto simp: money_capped_def payment_keys_def)
qed

definition cancelled_state :: cancel_db where
  "cancelled_state = snd (after_cancel (cancel_now None (Some 2)) paid_state)"

definition repaid_state :: cancel_db where
  "repaid_state = cancelled_state\<lparr>cd_tables :=
     (case refund_complete (ex_env 51) (hd (db_refunds (cd_tables cancelled_state))) ''manual'' None None True (cd_tables cancelled_state) of
        Inr (_, _, t) \<Rightarrow> t | Inl _ \<Rightarrow> cd_tables cancelled_state)\<rparr>"

definition paid_back :: "Refund \<times> bool" where
  "paid_back =
     (case refund_complete (ex_env 51) (hd (db_refunds (cd_tables cancelled_state))) ''manual'' None None True (cd_tables cancelled_state) of
        Inr (r, changed, _) \<Rightarrow> (r, changed) | Inl _ \<Rightarrow> (hd (db_refunds (cd_tables cancelled_state)), False))"

theorem cancellations_keep_refund_cap_witness:
  "money_completed 1 (cd_tables repaid_state) = 8 \<and> money_completed 1 (cd_tables repaid_state) \<le> 10"
proof -
  have c: "cancel_booking (ex_env 50) 7 False [] (cancel_now None (Some 2)) paid_state
     = Inr (fst (after_cancel (cancel_now None (Some 2)) paid_state), cancelled_state)" by code_simp
  have fresh: "env_uuid (ex_env 50) \<notin> rf_id ` set (db_refunds (cd_tables paid_state))" by code_simp
  have start: "refund_start (cd_tables paid_state)" by code_simp
  have r1: "cancel_reachable cancelled_state"
    by (rule cancel_stepped[OF cancel_start[OF start] cancelling[OF c fresh]])
  have m: "hd (db_refunds (cd_tables cancelled_state)) \<in> set (db_refunds (cd_tables cancelled_state))" by code_simp
  have f: "refund_complete (ex_env 51) (hd (db_refunds (cd_tables cancelled_state))) ''manual'' None None True (cd_tables cancelled_state)
    = Inr (fst paid_back, snd paid_back, cd_tables repaid_state)" by code_simp
  have r2: "cancel_reachable repaid_state"
    using cancel_stepped[OF r1 lifecycle[OF refund_step.complete[OF f m, of False]]] by (simp add: repaid_state_def)
  have p: "hd (db_payments (cd_tables repaid_state)) \<in> set (db_payments (cd_tables repaid_state))" by code_simp
  have v: "pm_id (hd (db_payments (cd_tables repaid_state))) = 1" "pm_total_amount (hd (db_payments (cd_tables repaid_state))) = 10"
    "money_completed 1 (cd_tables repaid_state) = 8" by code_simp+
  from cancellations_keep_refund_cap[OF r2 p] v show ?thesis by simp
qed

end
