(* ===== verification/Payment_Links.thy ===== *)
theory Payment_Links
  imports Refund_Service Vouchers
begin

text \<open>
  Hosted payment links: \<open>app/payment_links/application\<close> (\<open>link_service.py\<close>, \<open>settlement.py\<close>,
  \<open>webhook_service.py\<close>, \<open>refund_service.py\<close>). A link is issued for a booking or a gift voucher; a
  verified payment settles it, which confirms the booking or activates the voucher and writes the
  payment. Bookings, payments and refunds are the tables of \<open>Refund_Lifecycle\<close>, vouchers those of
  \<open>Vouchers\<close>.

  Parameters are the gateway's adapter, the accounting service, the scheduler of the vouchers, and the
  reading of a text as a UUID. JSON snapshots, audit copies, contact data and URLs of the booking are
  left out; the status of a link is stored by our own code only, so it is an enumeration here.
\<close>

section \<open>Rows\<close>

datatype link_status =
    LK_CREATED | LK_PENDING | LK_PAID | LK_FAILED | LK_EXPIRED | LK_CANCELLED | LK_REFUNDED | LK_PARTIALLY_REFUNDED

datatype link_target = BookingTarget uuid | VoucherTarget string | ProductTarget uuid

record payment_link =
  lk_id :: uuid
  lk_link_number :: "string option"
  lk_target :: link_target
  lk_invoice_id :: "string option"
  lk_invoice_number :: "string option"
  lk_gateway :: string
  lk_provider_label :: string
  lk_gateway_invoice_id :: "string option"
  lk_payment_url :: "string option"
  lk_amount :: rat
  lk_amount_refunded :: rat
  lk_currency :: string
  lk_status :: link_status
  lk_meta :: "string list"
  lk_gateway_payment_id :: "string option"
  lk_transaction_id :: "string option"
  lk_track_id :: "string option"
  lk_reference_id :: "string option"
  lk_payment_method :: "string option"
  lk_payment_row_id :: "uuid option"
  lk_created_by :: "string option"
  lk_expires_at :: "instant option"
  lk_paid_at :: "instant option"
  lk_created_at :: instant

datatype gw_status = GW_PENDING | GW_PAID | GW_FAILED | GW_CANCELED | GW_EXPIRED

record gw_state =
  gs_status :: gw_status
  gs_invoice_id :: "string option"
  gs_payment_id :: "string option"
  gs_transaction_id :: "string option"
  gs_track_id :: "string option"
  gs_reference_id :: "string option"
  gs_payment_method :: "string option"
  gs_amount :: "rat option"

datatype link_event = LinkPaid uuid uuid | LinkFailed uuid uuid

record payment_change =
  pc_payment_id :: uuid
  pc_old_status :: "string option"
  pc_new_status :: string
  pc_reference :: "string option"

text \<open>The inbox of webhooks: gateway, reference and outcome.\<close>

record inbox_row =
  ib_gateway :: string
  ib_reference :: string
  ib_outcome :: string

record links_db =
  ld_links :: "payment_link list"
  ld_pay :: refund_db
  ld_vouchers :: voucher_db
  ld_changes :: "payment_change list"
  ld_confirmed :: "(uuid \<times> string) list"
  ld_events :: "link_event list"
  ld_inbox :: "inbox_row list"
  ld_paid_back :: "(string \<times> rat) list"

text \<open>
  The surroundings of a call: the clock, a fresh key for a payment row, the reading of UUIDs, whether
  the gateway pays an amount of an invoice back, and the scheduler. A payment that was paid back is
  recorded in \<open>ld_paid_back\<close>.
\<close>

record link_env =
  le_now :: instant
  le_month :: string
  le_number :: string
  le_uuid :: uuid
  le_uuid_of :: "string \<Rightarrow> uuid option"
  le_refunds :: "string \<Rightarrow> string \<Rightarrow> rat \<Rightarrow> bool"
  le_scheduler :: scheduler

definition SETTLED :: "link_status list" where "SETTLED = [LK_PAID, LK_REFUNDED, LK_PARTIALLY_REFUNDED]"

definition LINK_OPEN :: "link_status list" where "LINK_OPEN = [LK_CREATED, LK_PENDING, LK_FAILED]"

definition AMOUNT_TOLERANCE :: rat where "AMOUNT_TOLERANCE = 1/1000"

definition NOT_PAYABLE_BOOKING :: "string list" where "NOT_PAYABLE_BOOKING = [''cancelled'', ''no_show'']"

definition TAP_FAMILY_GATEWAYS :: "string list" where
  "TAP_FAMILY_GATEWAYS = [''deema'', ''tap_knet'', ''tap_card'', ''tap_applepay'']"

definition provider_group_for :: "string option \<Rightarrow> string option" where
  "provider_group_for gateway =
     (let name = lower (strip (str_or gateway [])) in
      if name = [] then None
      else if name \<in> set TAP_FAMILY_GATEWAYS then Some ''Tap''
      else if name = ''myfatoorah'' then Some ''MyFatoorah'' else Some name)"

definition put_link :: "payment_link \<Rightarrow> links_db \<Rightarrow> links_db" where
  "put_link k db = db\<lparr>ld_links := replace_row lk_id k (ld_links db)\<rparr>"

text \<open>\<open>lk_meta\<close> holds the keys of the notes of a link.\<close>

definition link_note :: "string \<Rightarrow> payment_link \<Rightarrow> payment_link" where
  "link_note key k = (if key \<in> set (lk_meta k) then k else k\<lparr>lk_meta := lk_meta k @ [key]\<rparr>)"

definition newest :: "('a \<Rightarrow> instant) \<Rightarrow> 'a list \<Rightarrow> 'a option" where
  "newest created rows = first_row (sort_key (\<lambda>x. - created x) rows)"

section \<open>Finding a link\<close>

definition get_locked_link :: "uuid \<Rightarrow> links_db \<Rightarrow> payment_link option" where
  "get_locked_link i db = find (\<lambda>k. lk_id k = i) (ld_links db)"

definition link_by_invoice :: "string \<Rightarrow> string \<Rightarrow> links_db \<Rightarrow> payment_link option" where
  "link_by_invoice gw invoice db =
     newest lk_created_at (filter (\<lambda>k. lk_gateway k = gw \<and> lk_gateway_invoice_id k = Some invoice) (ld_links db))"

definition link_by_payment :: "string \<Rightarrow> string \<Rightarrow> links_db \<Rightarrow> payment_link option" where
  "link_by_payment gw payment db =
     newest lk_created_at (filter (\<lambda>k. lk_gateway k = gw \<and> lk_gateway_payment_id k = Some payment) (ld_links db))"

text \<open>The first of the lookups that finds a row; empty keys are skipped.\<close>

fun first_found :: "'a option list \<Rightarrow> 'a option" where
  "first_found [] = None"
| "first_found (None # xs) = first_found xs"
| "first_found (Some x # xs) = Some x"

definition keys_of :: "string option list \<Rightarrow> string list" where
  "keys_of ks = List.map_filter (\<lambda>k. Option.bind k nonempty) ks"

definition get_locked_link_by_any_identifier ::
  "(string \<Rightarrow> uuid option) \<Rightarrow> string \<Rightarrow> string option \<Rightarrow> string option \<Rightarrow> string option \<Rightarrow> links_db \<Rightarrow> payment_link option" where
  "get_locked_link_by_any_identifier uuid_of gw identifier reference_id payment_id db =
     first_found
       (concat (map (\<lambda>key. [link_by_invoice gw key db, link_by_payment gw key db]) (keys_of [identifier, payment_id]))
        @ concat (map (\<lambda>c. [Option.bind (uuid_of (strip c)) (\<lambda>i. get_locked_link i db),
                           find (\<lambda>k. lk_link_number k = Some (strip c)) (ld_links db)])
                    (keys_of [reference_id, identifier, payment_id])))"

section \<open>Settling a link\<close>

datatype settlement_error = BookingGone | BookingNotPayable string | VoucherGone | VoucherRefused voucher_error

datatype settlement_outcome = Settled | AlreadySettled | FailureRecorded | Pending | AmountMismatch

text \<open>What a paid link writes into a payment row that exists.\<close>

definition paid_payment :: "payment_link \<Rightarrow> Payment \<Rightarrow> Payment" where
  "paid_payment k p =
     p\<lparr>pm_status := ''success'', pm_payment_id := or_text (lk_gateway_payment_id k) (pm_payment_id p),
       pm_transaction_id := or_text (lk_transaction_id k) (pm_transaction_id p),
       pm_payment_provider := Some (lk_provider_label k), pm_payment_link_id := Some (lk_id k)\<rparr>"

definition new_payment :: "link_env \<Rightarrow> payment_link \<Rightarrow> uuid option \<Rightarrow> string option \<Rightarrow> string option \<Rightarrow> Payment" where
  "new_payment env k booking_id voucher_id invoice_number =
     \<lparr>pm_id = le_uuid env, pm_booking_id = booking_id, pm_status = ''success'', pm_total_amount = lk_amount k,
      pm_amount_refunded = 0, pm_currency = lk_currency k,
      pm_payment_gateway = (if voucher_id = None then Some (lk_gateway k) else None),
      pm_payment_provider = Some (lk_provider_label k), pm_transaction_id = lk_transaction_id k,
      pm_invoice_id = lk_gateway_invoice_id k, pm_payment_id = lk_gateway_payment_id k, pm_invoice_number = invoice_number,
      pm_needs_attention = False, pm_created_at = le_now env, pm_voucher_id = voucher_id, pm_payment_link_id = Some (lk_id k)\<rparr>"

definition add_payment :: "Payment \<Rightarrow> payment_link \<Rightarrow> links_db \<Rightarrow> links_db" where
  "add_payment p k db =
     db\<lparr>ld_pay := (ld_pay db)\<lparr>db_payments := db_payments (ld_pay db) @ [p]\<rparr>,
        ld_changes := ld_changes db @ [\<lparr>pc_payment_id = pm_id p, pc_old_status = None, pc_new_status = pm_status p,
          pc_reference = or_text (lk_gateway_payment_id k) (lk_gateway_invoice_id k)\<rparr>]\<rparr>"

definition settled_booking :: "link_env \<Rightarrow> payment_link \<Rightarrow> Booking \<Rightarrow> Booking" where
  "settled_booking env k b =
     b\<lparr>bk_status := (if bk_status b \<in> {''requested'', ''payment_pending'', ''draft''} then ''confirmed'' else bk_status b),
       bk_payment_status := ''success'',
       bk_payment_ref := (if truthy (lk_gateway_payment_id k)
          then (let t = str_or (lk_gateway_payment_id k) [] in Some (case le_uuid_of env t of Some i \<Rightarrow> RefUuid i | None \<Rightarrow> RefText t))
          else bk_payment_ref b),
       bk_payment_provider := Some (lk_provider_label k),
       bk_invoice_number := (if truthy (lk_invoice_number k) \<and> \<not> truthy (bk_invoice_number b) then lk_invoice_number k
                             else bk_invoice_number b)\<rparr>"

definition booking_payment :: "uuid \<Rightarrow> refund_db \<Rightarrow> Payment option" where
  "booking_payment i db = newest pm_created_at (filter (\<lambda>p. pm_booking_id p = Some i) (db_payments db))"

definition voucher_payment :: "string \<Rightarrow> refund_db \<Rightarrow> Payment option" where
  "voucher_payment i db = newest pm_created_at (filter (\<lambda>p. pm_voucher_id p = Some i) (db_payments db))"

text \<open>The booking, the payment row with its key in the link, and the event.\<close>

definition settle_booking_target :: "link_env \<Rightarrow> payment_link \<Rightarrow> uuid \<Rightarrow> links_db \<Rightarrow> settlement_error option \<times> payment_link \<times> links_db" where
  "settle_booking_target env k i db =
     (case booking_by_id i (ld_pay db) of
        None \<Rightarrow> (Some BookingGone, k, db)
      | Some b \<Rightarrow>
          if bk_status b \<in> set NOT_PAYABLE_BOOKING then (Some (BookingNotPayable (bk_status b)), k, db)
          else
            (let b' = settled_booking env k b;
                 db1 = db\<lparr>ld_pay := put_booking b' (ld_pay db),
                          ld_confirmed := (if bk_status b' \<noteq> bk_status b then ld_confirmed db @ [(i, bk_status b)] else ld_confirmed db)\<rparr>;
                 (pid, db2) =
                   (case booking_payment i (ld_pay db1) of
                      None \<Rightarrow> (let p = new_payment env k (Some i) None (or_text (lk_invoice_number k) (bk_invoice_number b'))
                               in (pm_id p, add_payment p k db1))
                    | Some p \<Rightarrow> (pm_id p, db1\<lparr>ld_pay := put_payment ((paid_payment k p)
                                   \<lparr>pm_invoice_id := or_text (lk_gateway_invoice_id k) (pm_invoice_id p)\<rparr>) (ld_pay db1)\<rparr>))
             in (None, k\<lparr>lk_payment_row_id := Some pid\<rparr>, db2\<lparr>ld_events := ld_events db2 @ [LinkPaid (lk_id k) i]\<rparr>)))"

definition settlement_change :: "payment_link \<Rightarrow> uuid \<Rightarrow> status_change" where
  "settlement_change k pid =
     \<lparr>sg_payment_id = Some (str_or (or_text (lk_gateway_payment_id k) (lk_gateway_invoice_id k)) (show_nat pid)),
      sg_booking_id = None, sg_payment_provider = Some (lk_provider_label k), sg_payment_through = Some ''ushdesk'',
      sg_redeemed_by = None, sg_delivery_status = None, sg_is_digital_gift_opened = None\<rparr>"

text \<open>The payment row is written before the voucher is activated, and stays when that is refused.\<close>

definition settle_voucher :: "link_env \<Rightarrow> payment_link \<Rightarrow> string \<Rightarrow> links_db \<Rightarrow> settlement_error option \<times> payment_link \<times> links_db" where
  "settle_voucher env k i db =
     (case find_voucher i (ld_vouchers db) of
        Inl _ \<Rightarrow> (Some VoucherGone, k, db)
      | Inr v \<Rightarrow>
          (let (pid, db1) =
                 (case voucher_payment i (ld_pay db) of
                    None \<Rightarrow> (let p = new_payment env k None (Some i) (lk_invoice_number k) in (pm_id p, add_payment p k db))
                  | Some p \<Rightarrow> (pm_id p, db\<lparr>ld_pay := put_payment ((paid_payment k p)
                        \<lparr>pm_payment_provider := or_text (Some (lk_provider_label k)) (pm_payment_provider p),
                         pm_invoice_number := (if truthy (lk_invoice_number k) \<and> \<not> truthy (pm_invoice_number p)
                            then lk_invoice_number k else pm_invoice_number p)\<rparr>) (ld_pay db)\<rparr>));
               k' = k\<lparr>lk_payment_row_id := Some pid\<rparr>
           in case gv_update_status (le_now env) (le_scheduler env) i ''active'' (settlement_change k pid) (ld_vouchers db1) of
                Inl e \<Rightarrow> (Some (VoucherRefused e), k', db1)
              | Inr (_, vdb) \<Rightarrow> (None, k', db1\<lparr>ld_vouchers := vdb\<rparr>)))"

definition settle_target :: "link_env \<Rightarrow> payment_link \<Rightarrow> links_db \<Rightarrow> settlement_error option \<times> payment_link \<times> links_db" where
  "settle_target env k db =
     (case lk_target k of
        BookingTarget i \<Rightarrow> settle_booking_target env k i db
      | VoucherTarget i \<Rightarrow> settle_voucher env k i db
      | ProductTarget _ \<Rightarrow> (None, k, db))"

definition paid_link :: "instant \<Rightarrow> gw_state \<Rightarrow> payment_link \<Rightarrow> payment_link" where
  "paid_link now s k =
     k\<lparr>lk_status := LK_PAID, lk_paid_at := Some now,
       lk_gateway_payment_id := or_text (gs_payment_id s) (lk_gateway_payment_id k),
       lk_transaction_id := or_text (gs_transaction_id s) (lk_transaction_id k),
       lk_track_id := or_text (gs_track_id s) (lk_track_id k),
       lk_reference_id := or_text (gs_reference_id s) (lk_reference_id k),
       lk_payment_method := or_text (gs_payment_method s) (lk_payment_method k)\<rparr>"

text \<open>The automatic refund of a payment whose target cannot be activated; its failure is only noted.\<close>

definition auto_refund :: "link_env \<Rightarrow> gw_state \<Rightarrow> payment_link \<Rightarrow> links_db \<Rightarrow> links_db" where
  "auto_refund env s k db =
     (let inv = str_or (lk_gateway_invoice_id k) (str_or (lk_gateway_payment_id k) (str_or (or_text (gs_invoice_id s) (gs_payment_id s)) []));
          amount = (case gs_amount s of Some a \<Rightarrow> if a \<noteq> 0 then a else lk_amount k | None \<Rightarrow> lk_amount k)
      in if inv \<noteq> [] \<and> le_refunds env (lk_gateway k) inv amount
         then db\<lparr>ld_paid_back := ld_paid_back db @ [(inv, amount)]\<rparr> else db)"

definition apply_paid :: "link_env \<Rightarrow> payment_link \<Rightarrow> gw_state \<Rightarrow> links_db \<Rightarrow> settlement_outcome \<times> payment_link \<times> links_db" where
  "apply_paid env k s db =
     (if lk_status k \<in> set SETTLED then (AlreadySettled, k, db)
      else if (case gs_amount s of Some a \<Rightarrow> AMOUNT_TOLERANCE < \<bar>a - lk_amount k\<bar> | None \<Rightarrow> False)
      then (AmountMismatch, link_note ''amount_mismatch'' k, put_link (link_note ''amount_mismatch'' k) db)
      else
        (let k1 = paid_link (le_now env) s k in
         case settle_target env k1 (put_link k1 db) of
           (None, k2, db2) \<Rightarrow> (Settled, k2, put_link k2 db2)
         | (Some e, k2, db2) \<Rightarrow>
             (let k3 = link_note ''needs_attention'' (k2\<lparr>lk_status := LK_REFUNDED\<rparr>)
              in (FailureRecorded, k3, put_link k3 (auto_refund env s k2 db2)))))"

definition record_failure :: "payment_link \<Rightarrow> gw_state \<Rightarrow> links_db \<Rightarrow> settlement_outcome \<times> payment_link \<times> links_db" where
  "record_failure k s db =
     (if lk_status k \<in> set SETTLED then (AlreadySettled, k, db)
      else
        (let k' = k\<lparr>lk_status := LK_FAILED, lk_payment_method := or_text (gs_payment_method s) (lk_payment_method k)\<rparr>;
             db' = put_link k' db
         in (FailureRecorded, k', case lk_target k of
               BookingTarget i \<Rightarrow> db'\<lparr>ld_events := ld_events db' @ [LinkFailed (lk_id k) i]\<rparr> | _ \<Rightarrow> db')))"

definition apply_state :: "link_env \<Rightarrow> payment_link \<Rightarrow> gw_state \<Rightarrow> links_db \<Rightarrow> settlement_outcome \<times> payment_link \<times> links_db" where
  "apply_state env k s db =
     (case gs_status s of
        GW_PAID \<Rightarrow> apply_paid env k s db
      | GW_FAILED \<Rightarrow> record_failure k s db
      | GW_PENDING \<Rightarrow> (Pending, k, db)
      | _ \<Rightarrow>
          (if lk_status k \<in> set SETTLED then (Pending, k, db)
           else (let k' = k\<lparr>lk_status := (if gs_status s = GW_EXPIRED then LK_EXPIRED else LK_CANCELLED)\<rparr>
                 in (Pending, k', put_link k' db))))"

section \<open>Issuing links\<close>

datatype link_error =
    LinkNotFound
  | TargetNotFound
  | NotLinkable string
  | AlreadyPaid
  | UnpaidVoucherOnly string
  | UnsupportedTarget
  | ZeroAmount
  | ActiveLinkExists uuid
  | LinkIsPaid
  | LinkStillActive
  | NotCancellableLink link_status
  | GatewayError
  | VoucherError voucher_error
  | BadSignature
  | StaleWebhook
  | PaymentNotVerified
  | AmbiguousRefund
  | NotRefundableLink link_status
  | NoPaymentYet
  | NotRefundablePayment string
  | RefundFailed refund_service_error
  | RedeemedVoucher
  | RefundAmountOutOfRange rat
  | NoGatewayReferenceForRefund

text \<open>
  The adapter of a gateway: issuing a link (its invoice and URL, None is an error), reading the state
  of a payment (None is an error), refunding (the refund's reference, None is an error); cancelling
  has no effect here, and its failure is ignored. \<open>lg_invoice\<close> is the accounting service.
\<close>

record link_gateway =
  lg_name :: string
  lg_label :: string
  lg_create :: "payment_link \<Rightarrow> (string \<times> string) option"
  lg_state :: "string \<Rightarrow> gw_state option"
  lg_refund :: "string \<Rightarrow> rat \<Rightarrow> string option option"
  lg_invoice :: "uuid \<Rightarrow> (string option \<times> string) option"
  lg_expiry_minutes :: int

definition minute :: int where "minute = 60000000"

definition BOOKING_LINKABLE :: "string list" where
  "BOOKING_LINKABLE = [''confirmed'', ''payment_pending'', ''draft'', ''requested'', ''payment_failed'', ''cancelled'']"

definition PAID_BOOKING_STATUSES :: "string list" where
  "PAID_BOOKING_STATUSES = [''success'', ''refunded'', ''partially_refunded'', ''rewarded'']"

definition is_expired :: "instant \<Rightarrow> payment_link \<Rightarrow> bool" where
  "is_expired now k = (case lk_expires_at k of None \<Rightarrow> False | Some t \<Rightarrow> t \<le> now)"

definition find_open_link :: "link_target \<Rightarrow> links_db \<Rightarrow> payment_link option" where
  "find_open_link target db =
     newest lk_created_at (filter (\<lambda>k. lk_target k = target \<and> lk_status k \<in> set LINK_OPEN) (ld_links db))"

definition load_booking :: "uuid \<Rightarrow> links_db \<Rightarrow> link_error + Booking" where
  "load_booking i db =
     (case booking_by_id i (ld_pay db) of
        None \<Rightarrow> Inl TargetNotFound
      | Some b \<Rightarrow>
          if lower (bk_status b) \<notin> set BOOKING_LINKABLE then Inl (NotLinkable (bk_status b))
          else if lower (bk_status b) \<noteq> ''cancelled'' \<and> lower (bk_payment_status b) \<in> set PAID_BOOKING_STATUSES then Inl AlreadyPaid
          else Inr b)"

definition load_voucher :: "string \<Rightarrow> links_db \<Rightarrow> link_error + gift_voucher" where
  "load_voucher i db =
     (case find_voucher i (ld_vouchers db) of
        Inl _ \<Rightarrow> Inl TargetNotFound
      | Inr v \<Rightarrow> if gv_status v \<in> {''created'', ''payment_pending''} then Inr v else Inl (UnpaidVoucherOnly (gv_status v)))"

text \<open>The amount: given, noted as the refund of a cancelled booking, or the total of the target.\<close>

record link_request =
  lr_target :: link_target
  lr_amount :: "rat option"
  lr_refund_note :: "rat option"
  lr_invoice_id :: "string option"
  lr_invoice_number :: "string option"
  lr_force_new :: bool
  lr_expiry_minutes :: "int option"
  lr_actor :: "string option"

definition target_amount :: "link_request \<Rightarrow> links_db \<Rightarrow> link_error + rat" where
  "target_amount q db =
     ebind
       (case lr_target q of
          BookingTarget i \<Rightarrow> ebind (load_booking i db) (\<lambda>b.
            Inr (case lr_amount q of Some a \<Rightarrow> a
              | None \<Rightarrow> (if bk_status b = ''cancelled'' \<and> lr_refund_note q \<noteq> None then the (lr_refund_note q) else bk_total_amount b)))
        | VoucherTarget i \<Rightarrow> ebind (load_voucher i db) (\<lambda>v. Inr (case lr_amount q of Some a \<Rightarrow> a | None \<Rightarrow> gv_total_amount v))
        | ProductTarget _ \<Rightarrow> Inl UnsupportedTarget)
       (\<lambda>a. if a \<le> 0 then Inl ZeroAmount else Inr a)"

definition conflicting :: "instant \<Rightarrow> link_gateway \<Rightarrow> payment_link \<Rightarrow> bool" where
  "conflicting now gw k \<longleftrightarrow> lk_gateway k \<noteq> lg_name gw \<and> lk_status k \<in> {LK_CREATED, LK_PENDING}
     \<and> truthy (lk_payment_url k) \<and> \<not> is_expired now k"

definition reusable :: "instant \<Rightarrow> link_gateway \<Rightarrow> rat \<Rightarrow> payment_link \<Rightarrow> bool" where
  "reusable now gw amount k \<longleftrightarrow> truthy (lk_payment_url k) \<and> \<not> is_expired now k \<and> lk_gateway k = lg_name gw \<and> lk_amount k = amount"

definition blank :: "string option \<Rightarrow> bool" where
  "blank v = (case v of None \<Rightarrow> True | Some s \<Rightarrow> strip s = [])"

text \<open>The invoice of a booking: given, of the row, or found by the accounting service.\<close>

definition resolve_invoice :: "link_gateway \<Rightarrow> link_request \<Rightarrow> links_db \<Rightarrow> string option \<times> string option \<times> links_db" where
  "resolve_invoice gw q db =
     (let given_id = (if blank (lr_invoice_id q) then None else lr_invoice_id q);
          given = (if blank (lr_invoice_number q) then None else lr_invoice_number q) in
      case lr_target q of
        BookingTarget i \<Rightarrow>
          (case booking_by_id i (ld_pay db) of
             None \<Rightarrow> (given_id, given, db)
           | Some b \<Rightarrow>
               (let number = or_text given (bk_invoice_number b) in
                if truthy given_id \<and> truthy number then (given_id, number, db)
                else (case lg_invoice gw i of
                        None \<Rightarrow> (given_id, number, db)
                      | Some (found_id, name) \<Rightarrow>
                          (or_text given_id (if truthy found_id then found_id else None), or_text number (Some name),
                           if truthy (bk_invoice_number b) then db
                           else db\<lparr>ld_pay := put_booking (b\<lparr>bk_invoice_number := Some name\<rparr>) (ld_pay db)\<rparr>))))
      | _ \<Rightarrow> (given_id, given, db))"

definition target_currency :: "link_target \<Rightarrow> links_db \<Rightarrow> string" where
  "target_currency target db =
     (case target of
        BookingTarget i \<Rightarrow> (case booking_by_id i (ld_pay db) of Some b \<Rightarrow> str_or (bk_currency b) ''KWD'' | None \<Rightarrow> ''KWD'')
      | _ \<Rightarrow> ''KWD'')"

definition created_link :: "link_env \<Rightarrow> link_gateway \<Rightarrow> link_request \<Rightarrow> rat \<Rightarrow> string option \<Rightarrow> string option \<Rightarrow> links_db \<Rightarrow> payment_link" where
  "created_link env gw q amount invoice_id invoice_number db =
     \<lparr>lk_id = le_uuid env, lk_link_number = Some (le_number env), lk_target = lr_target q, lk_invoice_id = invoice_id,
      lk_invoice_number = invoice_number,
      lk_gateway = lg_name gw, lk_provider_label = lg_label gw, lk_gateway_invoice_id = None, lk_payment_url = None,
      lk_amount = amount, lk_amount_refunded = 0, lk_currency = target_currency (lr_target q) db, lk_status = LK_CREATED,
      lk_meta = [], lk_gateway_payment_id = None, lk_transaction_id = None, lk_track_id = None, lk_reference_id = None,
      lk_payment_method = None, lk_payment_row_id = None, lk_created_by = lr_actor q,
      lk_expires_at = Some (le_now env + minute * (case lr_expiry_minutes q of Some m \<Rightarrow> if m \<noteq> 0 then m else lg_expiry_minutes gw
                                                   | None \<Rightarrow> lg_expiry_minutes gw)),
      lk_paid_at = None, lk_created_at = le_now env\<rparr>"

definition no_status_data :: "string \<Rightarrow> status_change" where
  "no_status_data label =
     \<lparr>sg_payment_id = None, sg_booking_id = None, sg_payment_provider = Some label, sg_payment_through = None,
      sg_redeemed_by = None, sg_delivery_status = None, sg_is_digital_gift_opened = None\<rparr>"

text \<open>The status of a booking is not changed; a created voucher becomes payment pending.\<close>

definition attach_link_to_target :: "link_env \<Rightarrow> payment_link \<Rightarrow> links_db \<Rightarrow> link_error + links_db" where
  "attach_link_to_target env k db =
     (case lk_target k of
        BookingTarget i \<Rightarrow>
          (case booking_by_id i (ld_pay db) of
             None \<Rightarrow> Inr db
           | Some b \<Rightarrow> Inr (db\<lparr>ld_pay := put_booking (b\<lparr>bk_payment_provider := Some (lk_provider_label k)\<rparr>) (ld_pay db)\<rparr>))
      | VoucherTarget i \<Rightarrow>
          (case find_voucher i (ld_vouchers db) of
             Inl _ \<Rightarrow> Inr db
           | Inr v \<Rightarrow>
               (let vdb = put_voucher (v\<lparr>gv_payment_provider := Some (lk_provider_label k)\<rparr>) (ld_vouchers db) in
                if gv_status v = ''created''
                then (case gv_update_status (le_now env) (le_scheduler env) i ''payment_pending''
                             (no_status_data (lk_provider_label k)) vdb of
                        Inl e \<Rightarrow> Inl (VoucherError e)
                      | Inr (_, vdb') \<Rightarrow> Inr (db\<lparr>ld_vouchers := vdb'\<rparr>))
                else Inr (db\<lparr>ld_vouchers := vdb\<rparr>)))
      | ProductTarget _ \<Rightarrow> Inr db)"

definition delete_link_row :: "uuid \<Rightarrow> links_db \<Rightarrow> links_db" where
  "delete_link_row i db = db\<lparr>ld_links := filter (\<lambda>k. lk_id k \<noteq> i) (ld_links db)\<rparr>"

text \<open>An error of the gateway is raised after the failed link was committed.\<close>

definition issue_link ::
  "link_env \<Rightarrow> link_gateway \<Rightarrow> link_request \<Rightarrow> rat \<Rightarrow> links_db \<Rightarrow> (link_error + payment_link) \<times> links_db" where
  "issue_link env gw q amount db =
     (case resolve_invoice gw q db of
        (invoice_id, number, db1) \<Rightarrow>
          (let k = created_link env gw q amount invoice_id number db1 in
           case lg_create gw k of
             None \<Rightarrow> (Inl GatewayError, db1\<lparr>ld_links := ld_links db1 @ [k\<lparr>lk_status := LK_FAILED\<rparr>]\<rparr>)
           | Some (invoice, url) \<Rightarrow>
               (let k' = k\<lparr>lk_gateway_invoice_id := Some invoice, lk_payment_url := Some url, lk_status := LK_PENDING\<rparr> in
                case attach_link_to_target env k' (db1\<lparr>ld_links := ld_links db1 @ [k']\<rparr>) of
                  Inl e \<Rightarrow> (Inl e, db)
                | Inr db2 \<Rightarrow> (Inr k', db2))))"

definition create_link :: "link_env \<Rightarrow> link_gateway \<Rightarrow> link_request \<Rightarrow> links_db \<Rightarrow> (link_error + payment_link) \<times> links_db" where
  "create_link env gw q db =
     (case target_amount q db of
        Inl e \<Rightarrow> (Inl e, db)
      | Inr amount \<Rightarrow>
          (case find_open_link (lr_target q) db of
             None \<Rightarrow> issue_link env gw q amount db
           | Some old \<Rightarrow>
               if conflicting (le_now env) gw old then (Inl (ActiveLinkExists (lk_id old)), db)
               else if reusable (le_now env) gw amount old \<and> \<not> lr_force_new q then (Inr old, db)
               else issue_link env gw q amount (delete_link_row (lk_id old) db)))"

definition renew_link :: "link_env \<Rightarrow> link_gateway \<Rightarrow> uuid \<Rightarrow> string option \<Rightarrow> int option \<Rightarrow> links_db \<Rightarrow> (link_error + payment_link) \<times> links_db" where
  "renew_link env gw link_id actor expiry db =
     (case get_locked_link link_id db of
        None \<Rightarrow> (Inl LinkNotFound, db)
      | Some old \<Rightarrow>
          if lk_status old \<in> set SETTLED then (Inl LinkIsPaid, db)
          else if \<not> (lk_status old \<in> {LK_EXPIRED, LK_CANCELLED, LK_FAILED} \<or> is_expired (le_now env) old) then (Inl LinkStillActive, db)
          else create_link env gw \<lparr>lr_target = lk_target old, lr_amount = Some (lk_amount old), lr_refund_note = None,
                 lr_invoice_id = lk_invoice_id old, lr_invoice_number = lk_invoice_number old, lr_force_new = True,
                 lr_expiry_minutes = expiry, lr_actor = actor\<rparr> db)"

definition sync_status :: "link_env \<Rightarrow> link_gateway \<Rightarrow> uuid \<Rightarrow> links_db \<Rightarrow> link_error + payment_link \<times> links_db" where
  "sync_status env gw link_id db =
     (case get_locked_link link_id db of
        None \<Rightarrow> Inl LinkNotFound
      | Some k \<Rightarrow>
          if lk_status k \<notin> set LINK_OPEN \<or> \<not> truthy (lk_gateway_invoice_id k) then Inr (k, db)
          else (case lg_state gw (str_or (lk_gateway_invoice_id k) []) of
                  None \<Rightarrow> Inl GatewayError
                | Some s \<Rightarrow> (case apply_state env k s db of (_, k', db') \<Rightarrow> Inr (k', db'))))"

definition cancel_link :: "uuid \<Rightarrow> links_db \<Rightarrow> link_error + payment_link \<times> links_db" where
  "cancel_link link_id db =
     (case get_locked_link link_id db of
        None \<Rightarrow> Inl LinkNotFound
      | Some k \<Rightarrow>
          if lk_status k \<notin> set LINK_OPEN then Inl (NotCancellableLink (lk_status k))
          else (let k' = link_note ''cancel_reason'' (k\<lparr>lk_status := LK_CANCELLED\<rparr>) in Inr (k', put_link k' db)))"

definition delete_link :: "uuid \<Rightarrow> links_db \<Rightarrow> link_error + links_db" where
  "delete_link link_id db =
     (case get_locked_link link_id db of None \<Rightarrow> Inl LinkNotFound | Some k \<Rightarrow> Inr (delete_link_row link_id db))"

definition cancel_and_delete_links_for_target :: "link_target \<Rightarrow> links_db \<Rightarrow> nat \<times> links_db" where
  "cancel_and_delete_links_for_target target db =
     (length (filter (\<lambda>k. lk_target k = target) (ld_links db)),
      db\<lparr>ld_links := filter (\<lambda>k. lk_target k \<noteq> target) (ld_links db)\<rparr>)"


section \<open>Webhooks\<close>

datatype webhook_kind = WK_PAYMENT_STATUS | WK_REFUND_STATUS | WK_IGNORED

record webhook_event =
  we_kind :: webhook_kind
  we_reference :: "string option"
  we_invoice_id :: "string option"
  we_status :: "gw_status option"
  we_state :: "gw_state option"
  we_refund_id :: "string option"
  we_refund_status :: "string option"

text \<open>A received call: its signature, its age, the digest of its body and the parsed event.\<close>

record webhook_call =
  wc_signed :: bool
  wc_stale :: bool
  wc_digest :: string
  wc_event :: webhook_event

fun outcome_value :: "settlement_outcome \<Rightarrow> string" where
  "outcome_value Settled = ''settled''"
| "outcome_value AlreadySettled = ''already_settled''"
| "outcome_value FailureRecorded = ''failure_recorded''"
| "outcome_value Pending = ''pending''"
| "outcome_value AmountMismatch = ''amount_mismatch''"

text \<open>\<open>str(x)\<close> of a nullable text.\<close>

definition str_of :: "string option \<Rightarrow> string" where
  "str_of v = (case v of None \<Rightarrow> ''None'' | Some s \<Rightarrow> s)"

definition paid_unseen :: "string option \<Rightarrow> gw_state" where
  "paid_unseen invoice = \<lparr>gs_status = GW_PAID, gs_invoice_id = invoice, gs_payment_id = None, gs_transaction_id = None,
     gs_track_id = None, gs_reference_id = None, gs_payment_method = None, gs_amount = None\<rparr>"

definition event_lookup :: "webhook_event \<Rightarrow> string option" where
  "event_lookup ev =
     (let v = or_text (we_invoice_id ev) (case we_state ev of Some s \<Rightarrow> gs_payment_id s | None \<Rightarrow> None)
      in if truthy v then v else None)"

text \<open>The link of an event and the state that the gateway reports; a failing call counts as no report.\<close>

definition event_link ::
  "link_env \<Rightarrow> link_gateway \<Rightarrow> webhook_event \<Rightarrow> links_db \<Rightarrow> payment_link option \<times> gw_state option" where
  "event_link env gw ev db =
     (let link = get_locked_link_by_any_identifier (le_uuid_of env) (lg_name gw) (event_lookup ev)
            (or_text (we_reference ev) (case we_state ev of Some s \<Rightarrow> Some (str_of (gs_reference_id s)) | None \<Rightarrow> None)) None db;
          verified = Option.bind (event_lookup ev) (lg_state gw)
      in (case (link, verified) of
            (None, Some s) \<Rightarrow>
              (if truthy (gs_invoice_id s)
               then get_locked_link_by_any_identifier (le_uuid_of env) (lg_name gw) (gs_invoice_id s)
                      (Some (str_or (gs_reference_id s) [])) None db
               else None)
          | _ \<Rightarrow> link, verified))"

definition merged_state :: "webhook_event \<Rightarrow> gw_state option \<Rightarrow> gw_state" where
  "merged_state ev verified =
     (case verified of
        Some s \<Rightarrow> (if truthy (gs_payment_id s) then s else (case we_state ev of Some body \<Rightarrow> body | None \<Rightarrow> s))
      | None \<Rightarrow> (case we_state ev of Some body \<Rightarrow> body | None \<Rightarrow> paid_unseen (we_invoice_id ev)))"

definition handle_payment_event ::
  "link_env \<Rightarrow> link_gateway \<Rightarrow> webhook_event \<Rightarrow> links_db \<Rightarrow> link_error + string \<times> links_db" where
  "handle_payment_event env gw ev db =
     (case event_link env gw ev db of
        (None, _) \<Rightarrow> Inr (''ignored'', db)
      | (Some k, verified) \<Rightarrow>
          (let state = (case verified of Some s \<Rightarrow> Some s | None \<Rightarrow> we_state ev);
               status = (case verified of Some s \<Rightarrow> Some (gs_status s) | None \<Rightarrow> we_status ev)
           in if status = Some GW_PAID \<or> we_status ev = Some GW_PAID then
                (if (case verified of Some s \<Rightarrow> gs_status s \<noteq> GW_PAID | None \<Rightarrow> False) then Inl PaymentNotVerified
                 else (case apply_state env k (merged_state ev verified) db of (out, _, db') \<Rightarrow> Inr (outcome_value out, db')))
              else if status = Some GW_FAILED \<and> state \<noteq> None then
                (case apply_state env k (the state) db of (out, _, db') \<Rightarrow> Inr (outcome_value out, db'))
              else Inr (''pending'', db)))"

definition find_payment_for_update :: "link_gateway \<Rightarrow> string option \<Rightarrow> refund_db \<Rightarrow> Payment option" where
  "find_payment_for_update gw invoice db =
     (if \<not> truthy invoice then None
      else newest pm_created_at (filter (\<lambda>p. pm_invoice_id p = invoice \<and> pm_payment_provider p = Some (lg_label gw)) (db_payments db)))"

definition event_refund :: "webhook_event \<Rightarrow> Payment \<Rightarrow> refund_db \<Rightarrow> link_error + Refund option" where
  "event_refund ev p db =
     (if \<not> truthy (we_refund_id ev) then Inr None
      else (case filter (\<lambda>r. rf_payment_id r = Some (pm_id p) \<and> rf_gateway_refund_id r = we_refund_id ev) (db_refunds db) of
              [] \<Rightarrow> Inr None | [r] \<Rightarrow> Inr (Some r) | _ \<Rightarrow> Inl AmbiguousRefund))"

definition reverted_payment :: "Refund \<Rightarrow> Payment \<Rightarrow> Payment" where
  "reverted_payment r p =
     (let left = max 0 (pm_amount_refunded p - rf_refunded_amount r) in
      p\<lparr>pm_amount_refunded := left, pm_status := (if left = 0 then ''success'' else ''partially_refunded''),
        pm_needs_attention := True\<rparr>)"

definition handle_refund_event :: "link_gateway \<Rightarrow> webhook_event \<Rightarrow> links_db \<Rightarrow> link_error + string \<times> links_db" where
  "handle_refund_event gw ev db =
     (case find_payment_for_update gw (we_invoice_id ev) (ld_pay db) of
        None \<Rightarrow> Inr (''ignored'', db)
      | Some p \<Rightarrow> ebind (event_refund ev p (ld_pay db)) (\<lambda>ro.
          if we_refund_status ev = Some ''REFUNDED'' then
            Inr (''processed'', case ro of
                Some r \<Rightarrow> if rf_status r \<noteq> RS_COMPLETED then db\<lparr>ld_pay := put_refund (r\<lparr>rf_status := RS_COMPLETED\<rparr>) (ld_pay db)\<rparr> else db
              | None \<Rightarrow> db)
          else (case ro of
              Some r \<Rightarrow>
                (if we_refund_status ev \<in> {Some ''CANCELED'', Some ''CANCELLED''} then
                   Inr (''processed'',
                     if rf_status r \<noteq> RS_FAILED then
                       (let p' = reverted_payment r p in
                        db\<lparr>ld_pay := put_payment p' (put_refund (r\<lparr>rf_status := RS_FAILED\<rparr>) (ld_pay db)),
                           ld_changes := ld_changes db @ [\<lparr>pc_payment_id = pm_id p, pc_old_status = Some (pm_status p),
                             pc_new_status = pm_status p', pc_reference = we_refund_id ev\<rparr>]\<rparr>)
                     else db)
                 else Inr (''ignored'', db))
            | None \<Rightarrow> Inr (''ignored'', db))))"

definition claimed :: "string \<Rightarrow> string \<Rightarrow> links_db \<Rightarrow> bool" where
  "claimed gw ref db \<longleftrightarrow> list_ex (\<lambda>r. ib_gateway r = gw \<and> ib_reference r = ref) (ld_inbox db)"

definition set_outcome :: "string \<Rightarrow> string \<Rightarrow> string \<Rightarrow> links_db \<Rightarrow> links_db" where
  "set_outcome gw ref out db =
     db\<lparr>ld_inbox := map (\<lambda>r. if ib_gateway r = gw \<and> ib_reference r = ref then r\<lparr>ib_outcome := out\<rparr> else r) (ld_inbox db)\<rparr>"

text \<open>An exception rolls everything back, the claimed event included. \<open>is_dev\<close> is set outside of production.\<close>

definition process_webhook ::
  "link_env \<Rightarrow> link_gateway \<Rightarrow> bool \<Rightarrow> webhook_call \<Rightarrow> links_db \<Rightarrow> link_error + string \<times> links_db" where
  "process_webhook env gw is_dev call db =
     (let ev = wc_event call; ref = take 150 (str_or (we_reference ev) (wc_digest call)) in
      if \<not> wc_signed call \<and> \<not> is_dev then Inl BadSignature
      else if we_kind ev = WK_IGNORED then Inr (''ignored'', db)
      else if wc_stale call then Inl StaleWebhook
      else if claimed (lg_name gw) ref db then Inr (''duplicate'', db)
      else
        (let db1 = db\<lparr>ld_inbox := ld_inbox db @ [\<lparr>ib_gateway = lg_name gw, ib_reference = ref, ib_outcome = ''received''\<rparr>]\<rparr>
         in ebind (if we_kind ev = WK_PAYMENT_STATUS then handle_payment_event env gw ev db1 else handle_refund_event gw ev db1)
              (\<lambda>(out, db2). Inr (out, set_outcome (lg_name gw) ref out db2))))"

section \<open>Refunds of paid links\<close>

definition REFUNDABLE_PAYMENT :: "string list" where "REFUNDABLE_PAYMENT = [''success'', ''partially_refunded'']"

definition find_link_payment :: "payment_link \<Rightarrow> refund_db \<Rightarrow> Payment option" where
  "find_link_payment k db =
     (let rows = (case lk_payment_row_id k of
            Some i \<Rightarrow> filter (\<lambda>p. pm_id p = i) (db_payments db)
          | None \<Rightarrow> (case lk_target k of
                BookingTarget i \<Rightarrow> filter (\<lambda>p. pm_booking_id p = Some i) (db_payments db)
              | VoucherTarget i \<Rightarrow> filter (\<lambda>p. pm_voucher_id p = Some i) (db_payments db)
              | ProductTarget _ \<Rightarrow> []))
      in first_row (sort_key (\<lambda>p. (pm_status p \<notin> set REFUNDABLE_PAYMENT, - pm_created_at p)) rows))"

definition sync_link_refund :: "Refund \<Rightarrow> payment_link \<Rightarrow> payment_link" where
  "sync_link_refund r k =
     (let refunded = lk_amount_refunded k + rf_refunded_amount r in
      k\<lparr>lk_amount_refunded := refunded, lk_status := (if lk_amount k \<le> refunded then LK_REFUNDED else LK_PARTIALLY_REFUNDED)\<rparr>)"

definition link_refund :: "link_env \<Rightarrow> Payment \<Rightarrow> rat \<Rightarrow> string option \<Rightarrow> string \<Rightarrow> refund_db \<Rightarrow> Refund" where
  "link_refund env p amount reason actor db =
     \<lparr>rf_id = le_uuid env, rf_refund_number = generate_refund_number (le_month env) (map rf_refund_number (db_refunds db)),
      rf_idempotency_key = None, rf_booking_id = None, rf_payment_id = Some (pm_id p), rf_invoice_number = pm_invoice_number p,
      rf_customer_id = None, rf_branch_id = None, rf_refund_type = RT_AUTOMATED, rf_refund_method = ''payment_link'',
      rf_status = RS_COMPLETED, rf_requested_amount = amount, rf_cancellation_fee = 0, rf_refunded_amount = amount,
      rf_currency = pm_currency p, rf_reason = str_or reason ''Gift voucher refund'', rf_notes = None,
      rf_payment_gateway = pm_payment_provider p, rf_gateway_transaction_id = pm_transaction_id p, rf_gateway_refund_id = None,
      rf_reference_number = None, rf_customer_confirmation = None, rf_credit_note_number = None, rf_credit_note_id = None,
      rf_processed_by = Some actor, rf_processed_at = le_now env, rf_completed_at = None, rf_failure_reason = None,
      rf_created_at = le_now env\<rparr>"

definition refunded_payment :: "rat \<Rightarrow> Payment \<Rightarrow> Payment" where
  "refunded_payment amount p =
     (let total = pm_amount_refunded p + amount in
      p\<lparr>pm_amount_refunded := total, pm_status := (if pm_total_amount p \<le> total then ''refunded'' else ''partially_refunded'')\<rparr>)"

text \<open>A failed call of the gateway adds a failed refund row to the session; a full refund cancels an active voucher.\<close>

definition refund_voucher_payment ::
  "link_env \<Rightarrow> link_gateway \<Rightarrow> Payment \<Rightarrow> rat option \<Rightarrow> string option \<Rightarrow> string \<Rightarrow> links_db \<Rightarrow> (link_error + Refund) \<times> links_db" where
  "refund_voucher_payment env gw p amount reason actor db =
     (let voucher = (case pm_voucher_id p of None \<Rightarrow> None
            | Some i \<Rightarrow> (case find_voucher i (ld_vouchers db) of Inl _ \<Rightarrow> None | Inr v \<Rightarrow> Some v));
          remaining = pm_total_amount p - pm_amount_refunded p;
          amt = (case amount of Some a \<Rightarrow> a | None \<Rightarrow> remaining);
          ref = or_text (pm_invoice_id p) (pm_payment_id p);
          r = link_refund env p amt reason actor (ld_pay db)
      in if (case voucher of Some v \<Rightarrow> gv_status v \<in> {''redeemed'', ''partially_redeemed'', ''fulfilled''} | None \<Rightarrow> False)
         then (Inl RedeemedVoucher, db)
         else if amt \<le> 0 \<or> remaining < amt then (Inl (RefundAmountOutOfRange remaining), db)
         else if \<not> truthy ref then (Inl NoGatewayReferenceForRefund, db)
         else (case lg_refund gw (str_or ref []) amt of
             None \<Rightarrow> (Inl GatewayError, db\<lparr>ld_pay := add_refund (r\<lparr>rf_status := RS_FAILED\<rparr>) (ld_pay db)\<rparr>)
           | Some refund_ref \<Rightarrow>
               (let r' = r\<lparr>rf_gateway_refund_id := refund_ref\<rparr>; p' = refunded_payment amt p;
                    db1 = db\<lparr>ld_pay := put_payment p' (add_refund r' (ld_pay db)),
                             ld_changes := ld_changes db @ [\<lparr>pc_payment_id = pm_id p, pc_old_status = Some (pm_status p),
                               pc_new_status = pm_status p', pc_reference = refund_ref\<rparr>]\<rparr>
                in case voucher of
                     Some v \<Rightarrow>
                       (if pm_status p' = ''refunded'' \<and> gv_status v = ''active''
                        then (case gv_update_status (le_now env) (le_scheduler env) (gv_id v) ''cancelled''
                                     \<lparr>sg_payment_id = None, sg_booking_id = None, sg_payment_provider = None,
                                      sg_payment_through = None, sg_redeemed_by = None, sg_delivery_status = None,
                                      sg_is_digital_gift_opened = None\<rparr> (ld_vouchers db1) of
                                Inl e \<Rightarrow> (Inl (VoucherError e), db)
                              | Inr (_, vdb) \<Rightarrow> (Inr r', db1\<lparr>ld_vouchers := vdb\<rparr>))
                        else (Inr r', db1))
                   | None \<Rightarrow> (Inr r', db1))))"

text \<open>A booking is refunded by the refund service, with the gateways as its parameter.\<close>

definition link_refund_service ::
  "link_env \<Rightarrow> link_gateway \<Rightarrow> gateway \<Rightarrow> uuid \<Rightarrow> rat option \<Rightarrow> string option \<Rightarrow> string \<Rightarrow> links_db \<Rightarrow> (link_error + Refund) \<times> links_db" where
  "link_refund_service env gw gateways link_id amount reason actor db =
     (case get_locked_link link_id db of
        None \<Rightarrow> (Inl LinkNotFound, db)
      | Some k \<Rightarrow>
          if lk_status k \<notin> {LK_PAID, LK_PARTIALLY_REFUNDED} then (Inl (NotRefundableLink (lk_status k)), db)
          else (case find_link_payment k (ld_pay db) of
              None \<Rightarrow> (Inl NoPaymentYet, db)
            | Some p \<Rightarrow>
                if pm_status p \<notin> set REFUNDABLE_PAYMENT then (Inl (NotRefundablePayment (pm_status p)), db)
                else (case lk_target k of
                    BookingTarget i \<Rightarrow>
                      (case process_gateway_refund gateways \<lparr>env_now = le_now env, env_month = le_month env, env_uuid = le_uuid env\<rparr> i
                              \<lparr>gr_refund_amount = amount, gr_cancellation_fee = 0, gr_reason = reason, gr_notes = None,
                               gr_change_by_user = None\<rparr> actor (ld_pay db) of
                         Inl e \<Rightarrow> (Inl (RefundFailed e), db)
                       | Inr (r, pay) \<Rightarrow> (Inr r, put_link (sync_link_refund r k) (db\<lparr>ld_pay := pay\<rparr>)))
                  | VoucherTarget _ \<Rightarrow>
                      (case refund_voucher_payment env gw p amount reason actor db of
                         (Inl e, db') \<Rightarrow> (Inl e, db')
                       | (Inr r, db') \<Rightarrow> (Inr r, put_link (sync_link_refund r k) db'))
                  | ProductTarget _ \<Rightarrow> (Inl UnsupportedTarget, db))))"

text \<open>The session of a request (\<open>get_db_session\<close>): an exception rolls back what the operation wrote.\<close>

definition get_db_session :: "('s \<Rightarrow> ('e + 'a) \<times> 's) \<Rightarrow> 's \<Rightarrow> ('e + 'a) \<times> 's" where
  "get_db_session operation db = (case operation db of (Inr x, db') \<Rightarrow> (Inr x, db') | (Inl e, _) \<Rightarrow> (Inl e, db))"

definition refund_payment_link ::
  "link_env \<Rightarrow> link_gateway \<Rightarrow> gateway \<Rightarrow> uuid \<Rightarrow> rat option \<Rightarrow> string option \<Rightarrow> string \<Rightarrow> links_db \<Rightarrow> (link_error + Refund) \<times> links_db" where
  "refund_payment_link env gw gateways link_id amount reason actor =
     get_db_session (link_refund_service env gw gateways link_id amount reason actor)"

end
