(* ===== verification/Payment_Settlement.thy ===== *)
theory Payment_Settlement
  imports Payment_Links Voucher_Redemption
begin

text \<open>
  Properties of the payment links of \<open>Payment_Links\<close>: what a verified payment settles, what happens
  when its target cannot take it, the inbox that makes webhooks idempotent, and the invariant of the
  operations on links under which a link is announced as paid at most once.
\<close>

section \<open>What the operations leave alone\<close>

text \<open>The links that were announced as paid, in order.\<close>

definition paid_ids :: "links_db \<Rightarrow> uuid list" where
  "paid_ids db = List.map_filter (\<lambda>e. case e of LinkPaid i _ \<Rightarrow> Some i | LinkFailed _ _ \<Rightarrow> None) (ld_events db)"

lemma paid_ids_add [simp]:
  "paid_ids (db\<lparr>ld_events := ld_events db @ [LinkPaid i j]\<rparr>) = paid_ids db @ [i]"
  "paid_ids (db\<lparr>ld_events := ld_events db @ [LinkFailed i j]\<rparr>) = paid_ids db"
  by (simp_all add: paid_ids_def List.map_filter_def)

lemma paid_ids_cong: "ld_events db' = ld_events db \<Longrightarrow> paid_ids db' = paid_ids db"
  by (simp add: paid_ids_def)

lemma put_link_tables [simp]:
  "ld_links (put_link k db) = replace_row lk_id k (ld_links db)" "ld_inbox (put_link k db) = ld_inbox db"
  "ld_events (put_link k db) = ld_events db" "ld_pay (put_link k db) = ld_pay db"
  "ld_vouchers (put_link k db) = ld_vouchers db" "ld_paid_back (put_link k db) = ld_paid_back db"
  "ld_changes (put_link k db) = ld_changes db" "ld_confirmed (put_link k db) = ld_confirmed db"
  "paid_ids (put_link k db) = paid_ids db"
  by (simp_all add: put_link_def paid_ids_def)

lemma add_payment_tables [simp]:
  "ld_links (add_payment p k db) = ld_links db" "ld_inbox (add_payment p k db) = ld_inbox db"
  "ld_events (add_payment p k db) = ld_events db" "ld_vouchers (add_payment p k db) = ld_vouchers db"
  "ld_paid_back (add_payment p k db) = ld_paid_back db" "ld_confirmed (add_payment p k db) = ld_confirmed db"
  "ld_pay (add_payment p k db) = (ld_pay db)\<lparr>db_payments := db_payments (ld_pay db) @ [p]\<rparr>"
  by (simp_all add: add_payment_def)

lemma link_note_fields [simp]: "lk_id (link_note s k) = lk_id k" "lk_status (link_note s k) = lk_status k"
  "lk_payment_row_id (link_note s k) = lk_payment_row_id k" "lk_target (link_note s k) = lk_target k"
  by (simp_all add: link_note_def)

lemma paid_link_fields [simp]: "lk_id (paid_link now s k) = lk_id k" "lk_status (paid_link now s k) = LK_PAID"
  "lk_target (paid_link now s k) = lk_target k" "lk_amount (paid_link now s k) = lk_amount k"
  "lk_gateway (paid_link now s k) = lk_gateway k" "lk_gateway_invoice_id (paid_link now s k) = lk_gateway_invoice_id k"
  "lk_invoice_number (paid_link now s k) = lk_invoice_number k" "lk_currency (paid_link now s k) = lk_currency k"
  by (simp_all add: paid_link_def)

lemma auto_refund_tables [simp]: "ld_links (auto_refund env s k db) = ld_links db"
  "ld_inbox (auto_refund env s k db) = ld_inbox db" "ld_events (auto_refund env s k db) = ld_events db"
  "ld_pay (auto_refund env s k db) = ld_pay db" "ld_vouchers (auto_refund env s k db) = ld_vouchers db"
  "paid_ids (auto_refund env s k db) = paid_ids db"
  by (simp_all add: auto_refund_def paid_ids_def Let_def)

lemma settled_simps [simp]: "LK_PAID \<in> set SETTLED" "LK_REFUNDED \<in> set SETTLED" "LK_PARTIALLY_REFUNDED \<in> set SETTLED"
  "LK_PENDING \<notin> set SETTLED" "LK_FAILED \<notin> set SETTLED" "LK_CANCELLED \<notin> set SETTLED"
  by (simp_all add: SETTLED_def)

lemma open_not_settled: "s \<in> set LINK_OPEN \<Longrightarrow> s \<notin> set SETTLED"
  by (auto simp: LINK_OPEN_def SETTLED_def)

lemma settle_booking_frame:
  assumes "settle_booking_target env k i db = (e, k', db')"
  shows "ld_links db' = ld_links db \<and> ld_inbox db' = ld_inbox db \<and> ld_paid_back db' = ld_paid_back db
    \<and> ld_vouchers db' = ld_vouchers db \<and> lk_id k' = lk_id k \<and> lk_status k' = lk_status k
    \<and> paid_ids db' = (if e = None then paid_ids db @ [lk_id k] else paid_ids db)"
  using assms by (auto simp: settle_booking_target_def Let_def paid_ids_def List.map_filter_def
      split: option.splits if_splits prod.splits)

lemma settle_voucher_frame:
  assumes "settle_voucher env k i db = (e, k', db')"
  shows "ld_links db' = ld_links db \<and> ld_inbox db' = ld_inbox db \<and> ld_paid_back db' = ld_paid_back db
    \<and> ld_events db' = ld_events db \<and> lk_id k' = lk_id k \<and> lk_status k' = lk_status k"
  using assms by (auto simp: settle_voucher_def Let_def split: option.splits sum.splits if_splits prod.splits)

lemma settle_target_frame:
  assumes "settle_target env k db = (e, k', db')"
  shows "ld_links db' = ld_links db \<and> ld_inbox db' = ld_inbox db \<and> ld_paid_back db' = ld_paid_back db
    \<and> lk_id k' = lk_id k \<and> lk_status k' = lk_status k
    \<and> (paid_ids db' = paid_ids db \<or> e = None \<and> paid_ids db' = paid_ids db @ [lk_id k])"
  using assms by (auto simp: settle_target_def split: link_target.splits if_splits
      dest!: settle_booking_frame settle_voucher_frame dest: paid_ids_cong)

lemma apply_paid_effect:
  assumes "apply_paid env k s db = (out, k', db')"
  shows "ld_inbox db' = ld_inbox db \<and> lk_id k' = lk_id k
    \<and> (db' = db \<or> lk_status k \<notin> set SETTLED \<and> ld_links db' = replace_row lk_id k' (ld_links db)
       \<and> (paid_ids db' = paid_ids db \<or> paid_ids db' = paid_ids db @ [lk_id k] \<and> lk_status k' \<in> set SETTLED))"
  using assms by (auto simp: apply_paid_def Let_def split: if_splits prod.splits option.splits dest!: settle_target_frame)

lemma record_failure_effect:
  assumes "record_failure k s db = (out, k', db')"
  shows "ld_inbox db' = ld_inbox db \<and> lk_id k' = lk_id k
    \<and> (db' = db \<or> lk_status k \<notin> set SETTLED \<and> ld_links db' = replace_row lk_id k' (ld_links db) \<and> paid_ids db' = paid_ids db)"
proof (cases "lk_status k \<in> set SETTLED")
  case True
  with assms show ?thesis by (simp add: record_failure_def)
next
  case False
  with assms show ?thesis
    by (auto simp: record_failure_def Let_def paid_ids_def List.map_filter_def split: link_target.splits)
qed

lemma apply_state_effect:
  assumes "apply_state env k s db = (out, k', db')"
  shows "ld_inbox db' = ld_inbox db \<and> lk_id k' = lk_id k
    \<and> (db' = db \<or> lk_status k \<notin> set SETTLED \<and> ld_links db' = replace_row lk_id k' (ld_links db)
       \<and> (paid_ids db' = paid_ids db \<or> paid_ids db' = paid_ids db @ [lk_id k] \<and> lk_status k' \<in> set SETTLED))"
  using assms by (auto simp: apply_state_def Let_def split: gw_status.splits if_splits
      dest!: apply_paid_effect record_failure_effect)

section \<open>The invariant of the links\<close>

definition links_ok :: "links_db \<Rightarrow> bool" where
  "links_ok db \<longleftrightarrow> distinct (map lk_id (ld_links db)) \<and> distinct (paid_ids db)
     \<and> (\<forall>k \<in> set (ld_links db). lk_id k \<in> set (paid_ids db) \<longrightarrow> lk_status k \<in> set SETTLED)"

definition known_ids :: "links_db \<Rightarrow> uuid set" where
  "known_ids db = lk_id ` set (ld_links db) \<union> set (paid_ids db)"

lemma links_ok_cong: "ld_links db' = ld_links db \<Longrightarrow> paid_ids db' = paid_ids db \<Longrightarrow> links_ok db \<Longrightarrow> links_ok db'"
  by (simp add: links_ok_def)

lemma links_ok_filter:
  "ld_links db' = filter P (ld_links db) \<Longrightarrow> paid_ids db' = paid_ids db \<Longrightarrow> links_ok db \<Longrightarrow> links_ok db'"
  by (auto simp: links_ok_def distinct_map_filter)

lemma links_ok_add:
  "ld_links db' = ld_links db @ [k] \<Longrightarrow> paid_ids db' = paid_ids db \<Longrightarrow> lk_id k \<notin> known_ids db \<Longrightarrow> links_ok db \<Longrightarrow> links_ok db'"
  by (auto simp: links_ok_def known_ids_def)

lemma links_ok_replace:
  assumes ok: "links_ok db" and k: "k \<in> set (ld_links db)" and id: "lk_id k' = lk_id k"
    and rows: "ld_links db' = replace_row lk_id k' (ld_links db)"
    and ev: "paid_ids db' = paid_ids db \<and> (lk_status k \<in> set SETTLED \<longrightarrow> lk_status k' \<in> set SETTLED)
      \<or> lk_status k \<notin> set SETTLED \<and> paid_ids db' = paid_ids db @ [lk_id k] \<and> lk_status k' \<in> set SETTLED"
  shows "links_ok db'"
proof -
  have fresh: "lk_status k \<notin> set SETTLED \<Longrightarrow> lk_id k \<notin> set (paid_ids db)" using ok k by (auto simp: links_ok_def)
  have "lk_status x \<in> set SETTLED" if "x \<in> set (ld_links db')" "lk_id x \<in> set (paid_ids db')" for x
  proof -
    from that(1) consider "x = k'" | "x \<in> set (ld_links db)" "lk_id x \<noteq> lk_id k"
      by (auto simp: rows replace_row_def id split: if_splits)
    then show ?thesis using that(2) ev ok k id fresh by cases (auto simp: links_ok_def)
  qed
  with ok ev fresh rows show ?thesis by (auto simp: links_ok_def)
qed

lemma locked_link: "get_locked_link i db = Some k \<Longrightarrow> k \<in> set (ld_links db) \<and> lk_id k = i"
  by (auto simp: get_locked_link_def find_Some_iff)

lemma newest_in: "newest c xs = Some x \<Longrightarrow> x \<in> set xs"
  by (auto simp: newest_def first_row_def split: list.splits dest: arg_cong[of _ _ set])

lemma first_found_in: "first_found xs = Some x \<Longrightarrow> Some x \<in> set xs"
  by (induction xs rule: first_found.induct) auto

lemma identified_link:
  "get_locked_link_by_any_identifier u gw a b c db = Some k \<Longrightarrow> k \<in> set (ld_links db)"
  unfolding get_locked_link_by_any_identifier_def
  by (drule first_found_in)
    (auto simp: link_by_invoice_def link_by_payment_def find_Some_iff bind_eq_Some_conv
      dest!: sym[of "Some k"] newest_in locked_link)

lemma event_link_in: "event_link env gw ev db = (Some k, v) \<Longrightarrow> k \<in> set (ld_links db)"
  by (auto simp: event_link_def Let_def dest: identified_link split: option.splits if_splits)

lemma links_ok_apply:
  assumes "links_ok db" and "k \<in> set (ld_links db)" and "apply_state env k s db = (out, k', db')"
  shows "links_ok db'"
proof -
  from apply_state_effect[OF assms(3)] consider "db' = db"
    | "lk_id k' = lk_id k" "ld_links db' = replace_row lk_id k' (ld_links db)" "lk_status k \<notin> set SETTLED"
      "paid_ids db' = paid_ids db \<or> paid_ids db' = paid_ids db @ [lk_id k] \<and> lk_status k' \<in> set SETTLED"
    by auto
  then show ?thesis
  proof cases
    case 2
    then show ?thesis by (intro links_ok_replace[OF assms(1,2)]) auto
  qed (use assms(1) in simp)
qed

section \<open>Frames of the operations\<close>

lemma resolve_invoice_frame:
  "resolve_invoice gw q db = (a, b, db') \<Longrightarrow> ld_links db' = ld_links db \<and> ld_inbox db' = ld_inbox db \<and> ld_events db' = ld_events db"
  by (auto simp: resolve_invoice_def Let_def split: link_target.splits option.splits if_splits prod.splits)

lemma attach_frame:
  "attach_link_to_target env k db = Inr db' \<Longrightarrow>
     ld_links db' = ld_links db \<and> ld_inbox db' = ld_inbox db \<and> ld_events db' = ld_events db"
  by (auto simp: attach_link_to_target_def Let_def split: link_target.splits option.splits if_splits sum.splits prod.splits)

lemma issue_link_frame:
  assumes "issue_link env gw q amount db = (r, db')"
  shows "ld_inbox db' = ld_inbox db \<and> paid_ids db' = paid_ids db
    \<and> (db' = db \<or> (\<exists>k. lk_id k = le_uuid env \<and> ld_links db' = ld_links db @ [k]))"
  using assms by (auto simp: issue_link_def Let_def paid_ids_def created_link_def
      split: prod.splits option.splits sum.splits dest!: resolve_invoice_frame attach_frame)

lemma delete_link_row_tables [simp]:
  "ld_links (delete_link_row i db) = filter (\<lambda>k. lk_id k \<noteq> i) (ld_links db)" "ld_inbox (delete_link_row i db) = ld_inbox db"
  "paid_ids (delete_link_row i db) = paid_ids db"
  by (simp_all add: delete_link_row_def paid_ids_def)

lemma links_ok_delete: "links_ok db \<Longrightarrow> links_ok (delete_link_row i db)"
  by (rule links_ok_filter) simp_all

lemma known_delete: "x \<notin> known_ids db \<Longrightarrow> x \<notin> known_ids (delete_link_row i db)"
  by (auto simp: known_ids_def)

lemma issue_link_ok:
  assumes "issue_link env gw q amount db = (r, db')" and "le_uuid env \<notin> known_ids db" and "links_ok db"
  shows "links_ok db' \<and> ld_inbox db' = ld_inbox db"
  using issue_link_frame[OF assms(1)] assms(2,3) links_ok_add[of db' db] by auto

lemma create_link_ok:
  assumes "create_link env gw q db = (r, db')" and "le_uuid env \<notin> known_ids db" and "links_ok db"
  shows "links_ok db' \<and> ld_inbox db' = ld_inbox db"
proof -
  consider "db' = db" | "\<exists>a. issue_link env gw q a db = (r, db')"
    | "\<exists>a i. issue_link env gw q a (delete_link_row i db) = (r, db')"
    using assms(1) by (auto simp: create_link_def split: sum.splits option.splits if_splits)
  then show ?thesis
  proof cases
    case 2
    then show ?thesis using issue_link_ok assms(2,3) by blast
  next
    case 3
    then show ?thesis using issue_link_ok known_delete[OF assms(2)] links_ok_delete[OF assms(3)] by fastforce
  qed (use assms(3) in simp)
qed

lemma renew_link_ok:
  assumes "renew_link env gw i actor e db = (r, db')" and "le_uuid env \<notin> known_ids db" and "links_ok db"
  shows "links_ok db' \<and> ld_inbox db' = ld_inbox db"
  using assms(1) create_link_ok[OF _ assms(2,3)] assms(3)
  by (auto simp: renew_link_def split: option.splits if_splits)

lemma payment_event_ok:
  assumes "handle_payment_event env gw ev db = Inr (out, db')" and "links_ok db"
  shows "links_ok db' \<and> ld_inbox db' = ld_inbox db"
  using assms by (auto simp: handle_payment_event_def Let_def split: prod.splits option.splits if_splits
      dest: event_link_in apply_state_effect links_ok_apply)

lemma refund_event_frame:
  assumes "handle_refund_event gw ev db = Inr (out, db')"
  shows "ld_links db' = ld_links db \<and> ld_inbox db' = ld_inbox db \<and> ld_events db' = ld_events db"
  using assms by (auto simp: handle_refund_event_def Let_def ebind_Inr_iff split: option.splits if_splits)

lemma refund_voucher_frame:
  assumes "refund_voucher_payment env gw p amount reason actor db = (r, db')"
  shows "ld_links db' = ld_links db \<and> ld_inbox db' = ld_inbox db \<and> ld_events db' = ld_events db"
  using assms by (auto simp: refund_voucher_payment_def Let_def split: option.splits if_splits sum.splits prod.splits)

lemma set_outcome_tables [simp]: "ld_links (set_outcome g r out db) = ld_links db" "paid_ids (set_outcome g r out db) = paid_ids db"
  "ld_pay (set_outcome g r out db) = ld_pay db"
  by (simp_all add: set_outcome_def paid_ids_def)

lemma claimed_set_outcome [simp]: "claimed g r (set_outcome g' r' out db) = claimed g r db"
proof -
  have "list_ex (\<lambda>x. ib_gateway x = g \<and> ib_reference x = r)
      (map (\<lambda>x. if ib_gateway x = g' \<and> ib_reference x = r' then x\<lparr>ib_outcome := out\<rparr> else x) xs)
    = list_ex (\<lambda>x. ib_gateway x = g \<and> ib_reference x = r) xs" for xs
    by (induction xs) simp_all
  then show ?thesis by (simp add: claimed_def set_outcome_def)
qed

lemma claimed_cong: "ld_inbox db' = ld_inbox db \<Longrightarrow> claimed g r db' = claimed g r db"
  by (simp add: claimed_def)

lemma sync_refund_fields [simp]: "lk_id (sync_link_refund r k) = lk_id k" "lk_status (sync_link_refund r k) \<in> set SETTLED"
  by (simp_all add: sync_link_refund_def Let_def)

section \<open>Steps\<close>

text \<open>
  The operations on links as steps of the tables. A step that issues a link has a key that no link and no
  announcement carries yet, which is what a random UUID is taken for.
\<close>

inductive link_step :: "links_db \<Rightarrow> links_db \<Rightarrow> bool" where
  ls_create: "create_link env gw q db = (r, db') \<Longrightarrow> le_uuid env \<notin> known_ids db \<Longrightarrow> link_step db db'"
| ls_renew: "renew_link env gw i actor e db = (r, db') \<Longrightarrow> le_uuid env \<notin> known_ids db \<Longrightarrow> link_step db db'"
| ls_sync: "sync_status env gw i db = Inr (k, db') \<Longrightarrow> link_step db db'"
| ls_cancel: "cancel_link i db = Inr (k, db') \<Longrightarrow> link_step db db'"
| ls_delete: "delete_link i db = Inr db' \<Longrightarrow> link_step db db'"
| ls_clear: "cancel_and_delete_links_for_target t db = (n, db') \<Longrightarrow> link_step db db'"
| ls_webhook: "process_webhook env gw dev call db = Inr (out, db') \<Longrightarrow> link_step db db'"
| ls_refund: "refund_payment_link env gw gateways i amount reason actor db = (r, db') \<Longrightarrow> link_step db db'"

abbreviation link_steps :: "links_db \<Rightarrow> links_db \<Rightarrow> bool" where
  "link_steps \<equiv> link_step\<^sup>*\<^sup>*"

text \<open>A webhook that is not dropped: the claimed row, the handler, the outcome.\<close>

definition reference_of :: "webhook_call \<Rightarrow> string" where
  "reference_of call = take 150 (str_or (we_reference (wc_event call)) (wc_digest call))"

definition claim :: "string \<Rightarrow> string \<Rightarrow> links_db \<Rightarrow> links_db" where
  "claim gw ref db = db\<lparr>ld_inbox := ld_inbox db @ [\<lparr>ib_gateway = gw, ib_reference = ref, ib_outcome = ''received''\<rparr>]\<rparr>"

lemma claim_tables [simp]: "ld_links (claim g r db) = ld_links db" "paid_ids (claim g r db) = paid_ids db"
  "ld_pay (claim g r db) = ld_pay db" "ld_vouchers (claim g r db) = ld_vouchers db"
  "claimed g' r' (claim g r db) \<longleftrightarrow> claimed g' r' db \<or> g' = g \<and> r' = r"
  by (auto simp: claim_def paid_ids_def claimed_def)

lemma process_webhook_Inr:
  assumes "process_webhook env gw dev call db = Inr (out, db')"
  obtains (dropped) "db' = db" "we_kind (wc_event call) = WK_IGNORED \<or> claimed (lg_name gw) (reference_of call) db"
  | (handled) db2 where "we_kind (wc_event call) \<noteq> WK_IGNORED" "\<not> claimed (lg_name gw) (reference_of call) db"
      "handle_payment_event env gw (wc_event call) (claim (lg_name gw) (reference_of call) db) = Inr (out, db2)
       \<or> handle_refund_event gw (wc_event call) (claim (lg_name gw) (reference_of call) db) = Inr (out, db2)"
      "db' = set_outcome (lg_name gw) (reference_of call) out db2"
  using assms unfolding process_webhook_def Let_def reference_of_def[symmetric] claim_def[symmetric]
  by (auto simp: ebind_Inr_iff split: if_splits)

lemma webhook_ok:
  assumes "process_webhook env gw dev call db = Inr (out, db')" and "links_ok db"
  shows "links_ok db' \<and> (claimed g r db \<longrightarrow> claimed g r db')"
  using assms(1)
proof (cases rule: process_webhook_Inr)
  case (handled db2)
  let ?c = "claim (lg_name gw) (reference_of call) db"
  have ok: "links_ok ?c" using assms(2) by (auto intro: links_ok_cong[of ?c db])
  from handled(3) have "links_ok db2 \<and> ld_inbox db2 = ld_inbox ?c"
    using payment_event_ok[OF _ ok] refund_event_frame[of gw _ ?c] links_ok_cong[OF _ _ ok] paid_ids_cong by blast
  then show ?thesis using claimed_cong[of db2 ?c] links_ok_cong[of db' db2] by (auto simp: handled(4))
qed (use assms(2) in simp)

lemma webhook_claims:
  assumes "process_webhook env gw dev call db = Inr (out, db')" and "links_ok db"
  shows "we_kind (wc_event call) = WK_IGNORED \<or> claimed (lg_name gw) (reference_of call) db'"
  using assms(1)
proof (cases rule: process_webhook_Inr)
  case (handled db2)
  let ?c = "claim (lg_name gw) (reference_of call) db"
  have "links_ok ?c" using assms(2) by (rule links_ok_cong[rotated 2]) simp_all
  with handled(3) have "ld_inbox db2 = ld_inbox ?c" using payment_event_ok refund_event_frame by blast
  then show ?thesis using claimed_cong[of db2 ?c] by (simp add: handled(4))
qed auto

lemma link_refund_ok:
  assumes "link_refund_service env gw gateways i amount reason actor db = (r, db')" and "links_ok db"
  shows "links_ok db' \<and> ld_inbox db' = ld_inbox db"
proof -
  consider "ld_links db' = ld_links db" "ld_inbox db' = ld_inbox db" "ld_events db' = ld_events db"
    | k ref where "get_locked_link i db = Some k" "ld_links db' = replace_row lk_id (sync_link_refund ref k) (ld_links db)"
        "ld_inbox db' = ld_inbox db" "ld_events db' = ld_events db"
    using assms(1) by (auto simp: link_refund_service_def dest!: refund_voucher_frame
        split: option.splits if_splits link_target.splits sum.splits prod.splits)
  then show ?thesis
  proof cases
    case 1
    then show ?thesis using links_ok_cong[OF _ _ assms(2)] paid_ids_cong by blast
  next
    case (2 k ref)
    then have "links_ok db'"
      by (intro links_ok_replace[OF assms(2), of k "sync_link_refund ref k"]) (auto dest: locked_link paid_ids_cong)
    with 2 show ?thesis by blast
  qed
qed

lemma refund_payment_link_ok:
  assumes "refund_payment_link env gw gateways i amount reason actor db = (r, db')" and "links_ok db"
  shows "links_ok db' \<and> ld_inbox db' = ld_inbox db"
proof -
  have "db' = db \<or> link_refund_service env gw gateways i amount reason actor db = (r, db')"
    using assms(1) by (auto simp: refund_payment_link_def get_db_session_def split: prod.splits sum.splits)
  then show ?thesis using link_refund_ok assms(2) by blast
qed

lemma sync_status_ok:
  assumes "sync_status env gw i db = Inr (k, db')" and "links_ok db"
  shows "links_ok db' \<and> ld_inbox db' = ld_inbox db"
  using assms by (auto simp: sync_status_def split: option.splits if_splits prod.splits
      dest: locked_link apply_state_effect links_ok_apply)

lemma cancel_link_ok:
  assumes "cancel_link i db = Inr (k, db')" and "links_ok db"
  shows "links_ok db' \<and> ld_inbox db' = ld_inbox db"
proof -
  obtain k0 where k0: "get_locked_link i db = Some k0" "lk_status k0 \<in> set LINK_OPEN"
    "db' = put_link (link_note ''cancel_reason'' (k0\<lparr>lk_status := LK_CANCELLED\<rparr>)) db"
    using assms(1) by (auto simp: cancel_link_def Let_def split: option.splits if_splits)
  then have "links_ok db'"
    by (intro links_ok_replace[OF assms(2), of k0 "link_note ''cancel_reason'' (k0\<lparr>lk_status := LK_CANCELLED\<rparr>)"])
      (auto dest: locked_link open_not_settled)
  with k0 show ?thesis by simp
qed

lemma step_keeps:
  assumes "link_step db db'" and "links_ok db"
  shows "links_ok db' \<and> (claimed g r db \<longrightarrow> claimed g r db')"
  using assms
proof (induction rule: link_step.induct)
  case (ls_create env gw q db r db')
  then show ?case using create_link_ok claimed_cong by blast
next
  case (ls_renew env gw i actor e db r db')
  then show ?case using renew_link_ok claimed_cong by blast
next
  case (ls_sync env gw i db k db')
  then show ?case using sync_status_ok claimed_cong by blast
next
  case (ls_cancel i db k db')
  then show ?case using cancel_link_ok claimed_cong by blast
next
  case (ls_delete i db db')
  then have "db' = delete_link_row i db" by (auto simp: delete_link_def split: option.splits)
  with ls_delete show ?case by (simp add: links_ok_delete claimed_def)
next
  case (ls_clear t db n db')
  then have "links_ok db'"
    by (intro links_ok_filter[of db' "\<lambda>k. lk_target k \<noteq> t" db])
      (auto simp: cancel_and_delete_links_for_target_def paid_ids_def)
  with ls_clear show ?case by (auto simp: cancel_and_delete_links_for_target_def claimed_def)
next
  case (ls_webhook env gw dev call db out db')
  then show ?case using webhook_ok by blast
next
  case (ls_refund env gw gateways i amount reason actor db r db')
  then show ?case using refund_payment_link_ok claimed_cong by blast
qed

lemma steps_keep:
  assumes "link_steps db db'" and "links_ok db"
  shows "links_ok db' \<and> (claimed g r db \<longrightarrow> claimed g r db')"
  using assms by (induction rule: rtranclp_induct) (auto dest: step_keeps)

section \<open>Once per webhook, once per link\<close>

text \<open>
  C8. A webhook is processed exactly once: after a call was handled, any call of the same gateway with the
  same reference is answered as a duplicate and changes nothing, whatever steps the links took in between.
\<close>
theorem webhook_exactly_once:
  assumes "process_webhook env gw dev call db = Inr (out, db1)" and "we_kind (wc_event call) \<noteq> WK_IGNORED"
    and "links_ok db" and "link_steps db1 db2"
    and "lg_name gw' = lg_name gw" and "reference_of call' = reference_of call"
    and "wc_signed call' \<or> dev'" and "\<not> wc_stale call'" and "we_kind (wc_event call') \<noteq> WK_IGNORED"
  shows "process_webhook env' gw' dev' call' db2 = Inr (''duplicate'', db2)"
proof -
  have "claimed (lg_name gw) (reference_of call) db1" using webhook_claims[OF assms(1,3)] assms(2) by blast
  moreover have "links_ok db1" using webhook_ok[OF assms(1,3)] by blast
  ultimately have "claimed (lg_name gw') (reference_of call') db2" using steps_keep[OF assms(4)] assms(5,6) by metis
  with assms(7-9) show ?thesis by (auto simp: process_webhook_def Let_def reference_of_def)
qed

text \<open>
  C7. Whatever the operations on links do, in any order, a link is announced as paid at most once; a link
  that was announced stays settled until it is deleted, so that it is never paid or renewed again.
\<close>
theorem paid_announced_once:
  assumes "link_steps db0 db" and "ld_links db0 = []" and "ld_events db0 = []"
  shows "distinct (paid_ids db)
    \<and> (\<forall>k \<in> set (ld_links db). lk_id k \<in> set (paid_ids db) \<longrightarrow> lk_status k \<in> {LK_PAID, LK_REFUNDED, LK_PARTIALLY_REFUNDED})"
proof -
  have "links_ok db0" using assms(2,3) by (simp add: links_ok_def paid_ids_def List.map_filter_def)
  from steps_keep[OF assms(1) this] have "links_ok db" by blast
  then show ?thesis by (auto simp: links_ok_def SETTLED_def)
qed

section \<open>A link for the witnesses\<close>

definition link_env_at :: "uuid \<Rightarrow> bool \<Rightarrow> link_env" where
  "link_env_at i refunds = \<lparr>le_now = 100, le_month = ''2026/10'', le_number = ''PL-1'', le_uuid = i, le_uuid_of = \<lambda>_. None,
     le_refunds = \<lambda>_ _ _. refunds, le_scheduler = quiet\<rparr>"

definition knet :: "gw_state option \<Rightarrow> link_gateway" where
  "knet report = \<lparr>lg_name = ''tap_knet'', lg_label = ''Tap KNET'', lg_create = \<lambda>_. Some (''inv1'', ''https''), lg_state = \<lambda>_. report,
     lg_refund = \<lambda>_ _. Some (Some ''re1''), lg_invoice = \<lambda>_. None, lg_expiry_minutes = 60\<rparr>"

definition paid_report :: gw_state where
  "paid_report = \<lparr>gs_status = GW_PAID, gs_invoice_id = Some ''inv1'', gs_payment_id = Some ''pay1'', gs_transaction_id = None,
     gs_track_id = None, gs_reference_id = None, gs_payment_method = Some ''knet'', gs_amount = Some 10\<rparr>"

definition links_of :: "Booking list \<Rightarrow> gift_voucher list \<Rightarrow> links_db" where
  "links_of bs vs = \<lparr>ld_links = [], ld_pay = \<lparr>db_payments = [], db_refunds = [], db_bookings = bs, db_history = [], db_events = []\<rparr>,
     ld_vouchers = vouchers vs, ld_changes = [], ld_confirmed = [], ld_events = [], ld_inbox = [], ld_paid_back = []\<rparr>"

definition link_for :: "link_target \<Rightarrow> link_request" where
  "link_for t = \<lparr>lr_target = t, lr_amount = None, lr_refund_note = None, lr_invoice_id = None, lr_invoice_number = None,
     lr_force_new = False, lr_expiry_minutes = None, lr_actor = None\<rparr>"

definition issued :: "link_target \<Rightarrow> links_db \<Rightarrow> payment_link \<times> links_db" where
  "issued t db = (case create_link (link_env_at 50 True) (knet None) (link_for t) db of
     (Inr k, db') \<Rightarrow> (k, db') | (Inl _, db') \<Rightarrow> (hd (ld_links db'), db'))"

definition pending_db :: links_db where
  "pending_db = snd (issued (BookingTarget 7)
     (links_of [ex_booking\<lparr>bk_status := ''payment_pending'', bk_payment_status := ''pending''\<rparr>] []))"

definition pending_link :: payment_link where "pending_link = hd (ld_links pending_db)"

definition paid_call :: webhook_call where
  "paid_call = \<lparr>wc_signed = True, wc_stale = False, wc_digest = ''d1'', wc_event = \<lparr>we_kind = WK_PAYMENT_STATUS,
     we_reference = Some ''evt1'', we_invoice_id = Some ''inv1'', we_status = Some GW_PAID, we_state = Some paid_report,
     we_refund_id = None, we_refund_status = None\<rparr>\<rparr>"

definition webhook_db :: "gw_state option \<Rightarrow> links_db" where
  "webhook_db report = (case process_webhook (link_env_at 60 True) (knet report) False paid_call pending_db of
     Inr (_, db) \<Rightarrow> db | Inl _ \<Rightarrow> pending_db)"

lemma pending_ok: "links_ok pending_db"
  by code_simp

lemma first_webhook: "process_webhook (link_env_at 60 True) (knet (Some paid_report)) False paid_call pending_db
    = Inr (''settled'', webhook_db (Some paid_report))"
  by code_simp

theorem webhook_exactly_once_witness:
  "process_webhook (link_env_at 70 True) (knet None) True paid_call (webhook_db (Some paid_report))
     = Inr (''duplicate'', webhook_db (Some paid_report))"
proof (rule webhook_exactly_once[OF first_webhook])
  show "link_steps (webhook_db (Some paid_report)) (webhook_db (Some paid_report))" by simp
qed (use pending_ok in \<open>simp_all add: paid_call_def knet_def\<close>)

theorem paid_announced_once_witness: "paid_ids (webhook_db (Some paid_report)) = [50] \<and> distinct (paid_ids (webhook_db (Some paid_report)))"
proof -
  let ?start = "links_of [ex_booking\<lparr>bk_status := ''payment_pending'', bk_payment_status := ''pending''\<rparr>] []"
  have "create_link (link_env_at 50 True) (knet None) (link_for (BookingTarget 7)) ?start = (Inr pending_link, pending_db)"
    by code_simp
  then have "link_step ?start pending_db" by (rule ls_create) (simp add: known_ids_def links_of_def paid_ids_def List.map_filter_def)
  moreover have "link_step pending_db (webhook_db (Some paid_report))" using first_webhook by (rule ls_webhook)
  ultimately have "link_steps ?start (webhook_db (Some paid_report))" by auto
  then have "distinct (paid_ids (webhook_db (Some paid_report)))"
    using paid_announced_once[of ?start "webhook_db (Some paid_report)"] by (simp add: links_of_def)
  moreover have "paid_ids (webhook_db (Some paid_report)) = [50]" by code_simp
  ultimately show ?thesis by blast
qed

section \<open>What a verified payment settles\<close>

definition amount_matches :: "gw_state \<Rightarrow> payment_link \<Rightarrow> bool" where
  "amount_matches s k \<longleftrightarrow> (case gs_amount s of None \<Rightarrow> True | Some a \<Rightarrow> \<bar>a - lk_amount k\<bar> \<le> AMOUNT_TOLERANCE)"

lemma apply_paid_open:
  assumes "gs_status s = GW_PAID" and "amount_matches s k" and "lk_status k \<notin> set SETTLED"
  shows "apply_state env k s db =
     (case settle_target env (paid_link (le_now env) s k) (put_link (paid_link (le_now env) s k) db) of
        (None, k2, db2) \<Rightarrow> (Settled, k2, put_link k2 db2)
      | (Some e, k2, db2) \<Rightarrow> (FailureRecorded, link_note ''needs_attention'' (k2\<lparr>lk_status := LK_REFUNDED\<rparr>),
          put_link (link_note ''needs_attention'' (k2\<lparr>lk_status := LK_REFUNDED\<rparr>)) (auto_refund env s k2 db2)))"
  using assms by (auto simp: apply_state_def apply_paid_def amount_matches_def Let_def
      split: option.split prod.split)

lemma find_put_link: "get_locked_link (lk_id k) db = Some x \<Longrightarrow> lk_id k' = lk_id k \<Longrightarrow>
    get_locked_link (lk_id k) (put_link k' db) = Some k'"
  by (simp add: get_locked_link_def find_replace_row)

lemma locked_links_cong: "ld_links db' = ld_links db \<Longrightarrow> get_locked_link i db' = get_locked_link i db"
  by (simp add: get_locked_link_def)

lemma booking_put: "booking_by_id i db = Some b \<Longrightarrow> bk_id b' = i \<Longrightarrow> booking_by_id i (put_booking b' db) = Some b'"
  by (simp add: booking_by_id_def put_booking_def find_replace_row)

lemma booking_id: "booking_by_id i db = Some b \<Longrightarrow> bk_id b = i"
  by (auto simp: booking_by_id_def find_Some_iff)

lemma booking_by_id_cong: "db_bookings db' = db_bookings db \<Longrightarrow> booking_by_id i db' = booking_by_id i db"
  by (simp add: booking_by_id_def)

lemma payment_put: "p \<in> set (db_payments db) \<Longrightarrow> pm_id p' = pm_id p \<Longrightarrow> p' \<in> set (db_payments (put_payment p' db))"
  by (auto simp: put_payment_def replace_row_def image_iff)

lemma settled_booking_fields [simp]: "bk_id (settled_booking env k b) = bk_id b"
  "bk_payment_status (settled_booking env k b) = ''success''"
  "bk_status (settled_booking env k b) = (if bk_status b \<in> {''requested'', ''payment_pending'', ''draft''} then ''confirmed'' else bk_status b)"
  by (simp_all add: settled_booking_def)

lemma paid_payment_fields [simp]: "pm_id (paid_payment k p) = pm_id p" "pm_status (paid_payment k p) = ''success''"
  "pm_booking_id (paid_payment k p) = pm_booking_id p" "pm_payment_link_id (paid_payment k p) = Some (lk_id k)"
  "pm_total_amount (paid_payment k p) = pm_total_amount p" "pm_voucher_id (paid_payment k p) = pm_voucher_id p"
  by (simp_all add: paid_payment_def)

lemma new_payment_fields [simp]: "pm_id (new_payment env k b v n) = le_uuid env" "pm_status (new_payment env k b v n) = ''success''"
  "pm_booking_id (new_payment env k b v n) = b" "pm_payment_link_id (new_payment env k b v n) = Some (lk_id k)"
  "pm_total_amount (new_payment env k b v n) = lk_amount k" "pm_voucher_id (new_payment env k b v n) = v"
  "pm_amount_refunded (new_payment env k b v n) = 0"
  by (simp_all add: new_payment_def)

text \<open>What is true of a booking whose link was settled.\<close>

definition booking_settled :: "uuid \<Rightarrow> Booking \<Rightarrow> payment_link \<Rightarrow> links_db \<Rightarrow> bool" where
  "booking_settled i b k db \<longleftrightarrow>
     (\<exists>b'. booking_by_id i (ld_pay db) = Some b' \<and> bk_payment_status b' = ''success''
        \<and> bk_status b' = (if bk_status b \<in> {''requested'', ''payment_pending'', ''draft''} then ''confirmed'' else bk_status b))
     \<and> (\<exists>p \<in> set (db_payments (ld_pay db)). lk_payment_row_id k = Some (pm_id p) \<and> pm_status p = ''success''
        \<and> pm_booking_id p = Some i \<and> pm_payment_link_id p = Some (lk_id k))"

lemma settle_booking_payable:
  assumes "booking_by_id i (ld_pay db) = Some b" and "bk_status b \<notin> set NOT_PAYABLE_BOOKING"
    and "settle_booking_target env k i db = (e, k', db')"
  shows "e = None \<and> booking_settled i b k' db' \<and> ld_events db' = ld_events db @ [LinkPaid (lk_id k) i]"
proof (cases "booking_payment i (put_booking (settled_booking env k b) (ld_pay db))")
  case None
  with assms booking_id[OF assms(1)] booking_put[OF assms(1), of "settled_booking env k b"]
  show ?thesis by (auto simp: settle_booking_target_def booking_settled_def Let_def booking_by_id_def)
next
  case (Some p)
  then have p: "p \<in> set (db_payments (ld_pay db))" "pm_booking_id p = Some i"
    by (auto simp: booking_payment_def put_booking_def dest!: newest_in)
  let ?p = "(paid_payment k p)\<lparr>pm_invoice_id := or_text (lk_gateway_invoice_id k) (pm_invoice_id p)\<rparr>"
  have "?p \<in> set (db_payments (put_payment ?p (put_booking (settled_booking env k b) (ld_pay db))))"
    by (rule payment_put[of p]) (simp_all add: put_booking_def p)
  moreover have "booking_by_id i (put_payment ?p (put_booking (settled_booking env k b) (ld_pay db))) = Some (settled_booking env k b)"
    using booking_id[OF assms(1)] booking_put[OF assms(1), of "settled_booking env k b"]
    by (simp add: put_payment_def booking_by_id_def)
  ultimately show ?thesis using assms Some p(2)
    by (auto simp: settle_booking_target_def booking_settled_def Let_def intro!: bexI[of _ ?p])
qed

lemma booking_settled_cong:
  "ld_pay db' = ld_pay db \<Longrightarrow> lk_id k' = lk_id k \<Longrightarrow> lk_payment_row_id k' = lk_payment_row_id k \<Longrightarrow>
   booking_settled i b k' db' = booking_settled i b k db"
  by (simp add: booking_settled_def)

lemma settle_booking_id: "settle_booking_target env k i db = (e, k', db') \<Longrightarrow> lk_id k' = lk_id k \<and> lk_status k' = lk_status k"
  using settle_booking_frame by blast

lemma paid_applied:
  assumes "gs_status s = GW_PAID" and "amount_matches s k" and "lk_status k \<notin> set SETTLED"
    and "get_locked_link (lk_id k) db = Some k" and "lk_target k = BookingTarget i"
    and "booking_by_id i (ld_pay db) = Some b" and "bk_status b \<notin> set NOT_PAYABLE_BOOKING"
  obtains k' db' where "apply_state env k s db = (Settled, k', db')" "get_locked_link (lk_id k) db' = Some k'"
    "lk_status k' = LK_PAID" "booking_settled i b k' db'" "ld_events db' = ld_events db @ [LinkPaid (lk_id k) i]"
proof -
  let ?k1 = "paid_link (le_now env) s k" and ?db1 = "put_link (paid_link (le_now env) s k) db"
  obtain e k2 db2 where s: "settle_booking_target env ?k1 i ?db1 = (e, k2, db2)" by (metis prod_cases3)
  have "booking_by_id i (ld_pay ?db1) = Some b" using assms(6) by simp
  from settle_booking_payable[OF this assms(7) s]
  have e: "e = None" and "booking_settled i b k2 db2" and ev: "ld_events db2 = ld_events db @ [LinkPaid (lk_id k) i]" by auto
  have "settle_target env ?k1 ?db1 = (None, k2, db2)" using s e by (simp add: settle_target_def assms(5))
  then have "apply_state env k s db = (Settled, k2, put_link k2 db2)" by (simp add: apply_paid_open[OF assms(1-3)])
  moreover have "lk_id k2 = lk_id k" "lk_status k2 = LK_PAID" "ld_links db2 = ld_links ?db1"
    using settle_booking_frame[OF s] by auto
  moreover from this(3) have "get_locked_link (lk_id k) (put_link k2 db2) = Some k2"
    using find_put_link[of k ?db1 ?k1 k2] find_put_link[OF assms(4), of ?k1] locked_links_cong[of db2 ?db1]
      \<open>lk_id k2 = lk_id k\<close> find_put_link[of k db2 ?k1 k2] by simp
  moreover have "booking_settled i b k2 (put_link k2 db2)" using \<open>booking_settled i b k2 db2\<close> by (simp add: booking_settled_def)
  moreover have "ld_events (put_link k2 db2) = ld_events db @ [LinkPaid (lk_id k) i]" using ev by simp
  ultimately show ?thesis by (blast intro: that)
qed

text \<open>
  C9. A verified payment of the right amount on an unsettled link of a payable booking settles it: the
  link is paid, a waiting booking is confirmed and its payment status is success, a successful payment of
  the booking carries the link and is its row, and one event is queued. A further report of the payment
  changes nothing.
\<close>
theorem paid_booking_settled:
  assumes "gs_status s = GW_PAID" and "amount_matches s k" and "lk_status k \<notin> set SETTLED"
    and "get_locked_link (lk_id k) db = Some k" and "lk_target k = BookingTarget i"
    and "booking_by_id i (ld_pay db) = Some b" and "bk_status b \<notin> set NOT_PAYABLE_BOOKING"
  shows "\<exists>k' db'. apply_state env k s db = (Settled, k', db') \<and> get_locked_link (lk_id k) db' = Some k'
    \<and> lk_status k' = LK_PAID \<and> booking_settled i b k' db' \<and> ld_events db' = ld_events db @ [LinkPaid (lk_id k) i]
    \<and> apply_state env2 k' s db' = (AlreadySettled, k', db')"
proof -
  obtain k' db' where *: "apply_state env k s db = (Settled, k', db')" "get_locked_link (lk_id k) db' = Some k'"
    "lk_status k' = LK_PAID" "booking_settled i b k' db'" "ld_events db' = ld_events db @ [LinkPaid (lk_id k) i]"
    using paid_applied[OF assms] by metis
  moreover have "apply_state env2 k' s db' = (AlreadySettled, k', db')"
    using assms(1) *(3) by (simp add: apply_state_def apply_paid_def)
  ultimately show ?thesis by blast
qed

theorem paid_booking_settled_witness:
  "\<exists>k' db'. apply_state (link_env_at 60 True) pending_link paid_report pending_db = (Settled, k', db') \<and> lk_status k' = LK_PAID
    \<and> booking_settled 7 (ex_booking\<lparr>bk_status := ''payment_pending'', bk_payment_status := ''pending'',
         bk_payment_provider := Some ''Tap KNET''\<rparr>) k' db'"
proof -
  have a: "gs_status paid_report = GW_PAID" "amount_matches paid_report pending_link" "lk_status pending_link \<notin> set SETTLED"
    "get_locked_link (lk_id pending_link) pending_db = Some pending_link" "lk_target pending_link = BookingTarget 7"
    "booking_by_id 7 (ld_pay pending_db) = Some (ex_booking\<lparr>bk_status := ''payment_pending'', bk_payment_status := ''pending'',
         bk_payment_provider := Some ''Tap KNET''\<rparr>)"
    "bk_status (ex_booking\<lparr>bk_status := ''payment_pending'', bk_payment_status := ''pending'',
         bk_payment_provider := Some ''Tap KNET''\<rparr>) \<notin> set NOT_PAYABLE_BOOKING"
    by code_simp+
  from paid_booking_settled[OF a] show ?thesis by blast
qed

section \<open>Payments that cannot be settled\<close>

lemma auto_refund_paid_back:
  "ld_paid_back (auto_refund env s k db) = ld_paid_back db
     @ (let invoice = str_or (lk_gateway_invoice_id k) (str_or (lk_gateway_payment_id k) (str_or (or_text (gs_invoice_id s) (gs_payment_id s)) []));
            amount = (case gs_amount s of Some a \<Rightarrow> if a \<noteq> 0 then a else lk_amount k | None \<Rightarrow> lk_amount k)
        in if invoice \<noteq> [] \<and> le_refunds env (lk_gateway k) invoice amount then [(invoice, amount)] else [])"
  by (simp add: auto_refund_def Let_def)

text \<open>
  C35. A link can be issued for a cancelled booking, but its payment is never settled: the booking and the
  payments stay as they are and the link becomes refunded. The amount is paid back when the gateway agrees;
  when it refuses, the link becomes refunded just the same and nothing was paid back.
\<close>
theorem cancelled_booking_payment_refused:
  assumes "booking_by_id i (ld_pay db) = Some b" and "bk_status b = ''cancelled''" and "lk_target k = BookingTarget i"
    and "gs_status s = GW_PAID" and "amount_matches s k" and "lk_status k \<notin> set SETTLED"
    and "lk_gateway_invoice_id k = Some invoice" and "invoice \<noteq> []" and "gs_amount s = Some a" and "a \<noteq> 0"
  shows "load_booking i db = Inr b
    \<and> (\<exists>k' db'. apply_state env k s db = (FailureRecorded, k', db') \<and> lk_status k' = LK_REFUNDED
        \<and> ld_pay db' = ld_pay db \<and> ld_events db' = ld_events db
        \<and> ld_paid_back db' = ld_paid_back db @ (if le_refunds env (lk_gateway k) invoice a then [(invoice, a)] else []))"
proof
  have "lower ''cancelled'' = ''cancelled''" by code_simp
  then show "load_booking i db = Inr b" using assms(1,2) by (simp add: load_booking_def BOOKING_LINKABLE_def)
  have "settle_target env (paid_link (le_now env) s k) (put_link (paid_link (le_now env) s k) db)
      = (Some (BookingNotPayable ''cancelled''), paid_link (le_now env) s k, put_link (paid_link (le_now env) s k) db)"
    using assms(1-3) by (simp add: settle_target_def settle_booking_target_def NOT_PAYABLE_BOOKING_def)
  then show "\<exists>k' db'. apply_state env k s db = (FailureRecorded, k', db') \<and> lk_status k' = LK_REFUNDED
        \<and> ld_pay db' = ld_pay db \<and> ld_events db' = ld_events db
        \<and> ld_paid_back db' = ld_paid_back db @ (if le_refunds env (lk_gateway k) invoice a then [(invoice, a)] else [])"
    using assms(7-10) by (simp add: apply_paid_open[OF assms(4-6)] auto_refund_paid_back str_or_def)
qed

definition cancelled_db :: links_db where
  "cancelled_db = snd (issued (BookingTarget 7) (links_of [ex_booking] []))"

theorem cancelled_booking_payment_refused_witness:
  "\<exists>k' db'. apply_state (link_env_at 60 False) (hd (ld_links cancelled_db)) paid_report cancelled_db = (FailureRecorded, k', db')
     \<and> lk_status k' = LK_REFUNDED \<and> ld_paid_back db' = []"
proof -
  have a: "booking_by_id 7 (ld_pay cancelled_db) = Some (hd (db_bookings (ld_pay cancelled_db)))"
    "bk_status (hd (db_bookings (ld_pay cancelled_db))) = ''cancelled''" "lk_target (hd (ld_links cancelled_db)) = BookingTarget 7"
    "gs_status paid_report = GW_PAID" "amount_matches paid_report (hd (ld_links cancelled_db))"
    "lk_status (hd (ld_links cancelled_db)) \<notin> set SETTLED"
    "lk_gateway_invoice_id (hd (ld_links cancelled_db)) = Some ''inv1''" "''inv1'' \<noteq> []" "gs_amount paid_report = Some 10" "(10::rat) \<noteq> 0"
    by code_simp+
  have "ld_paid_back cancelled_db = []" by code_simp
  with cancelled_booking_payment_refused[OF a, of "link_env_at 60 False"] show ?thesis by (auto simp: link_env_at_def)
qed

lemma status_cancelled [simp]: "voucher_status_of ''cancelled'' = Some GV_CANCELLED" "voucher_status_of ''active'' = Some GV_ACTIVE"
  by (simp_all add: voucher_status_of_def voucher_statuses_def)

lemma cancelled_voucher_refused:
  assumes "find_voucher i db = Inr v" and "gv_status v = ''cancelled''"
  shows "\<exists>e. gv_update_status now sched i ''active'' c db = Inl e"
  using assms by (auto simp: gv_update_status_def Let_def redirect_target_def voucher_validate_transition_def machine_simps)

text \<open>
  The payment of a voucher that was cancelled meanwhile is refused, after its row was written: the
  link becomes refunded, and a payment of the voucher with status success and nothing refunded stays.
\<close>
theorem refused_voucher_keeps_success_payment:
  assumes "find_voucher i (ld_vouchers db) = Inr v" and "gv_status v = ''cancelled''" and "lk_target k = VoucherTarget i"
    and "voucher_payment i (ld_pay db) = None"
    and "gs_status s = GW_PAID" and "amount_matches s k" and "lk_status k \<notin> set SETTLED"
  shows "\<exists>k' db' p. apply_state env k s db = (FailureRecorded, k', db') \<and> lk_status k' = LK_REFUNDED
    \<and> ld_vouchers db' = ld_vouchers db \<and> db_payments (ld_pay db') = db_payments (ld_pay db) @ [p]
    \<and> pm_voucher_id p = Some i \<and> pm_status p = ''success'' \<and> pm_amount_refunded p = 0 \<and> pm_total_amount p = lk_amount k"
proof -
  let ?k = "paid_link (le_now env) s k" and ?db = "put_link (paid_link (le_now env) s k) db"
  let ?p = "new_payment env ?k None (Some i) (lk_invoice_number ?k)"
  obtain e where e: "gv_update_status (le_now env) (le_scheduler env) i ''active'' (settlement_change ?k (pm_id ?p)) (ld_vouchers db) = Inl e"
    using cancelled_voucher_refused[OF assms(1,2)] by blast
  have "settle_target env ?k ?db = (Some (VoucherRefused e), ?k\<lparr>lk_payment_row_id := Some (le_uuid env)\<rparr>, add_payment ?p ?k ?db)"
    using assms(1,3,4) e by (simp add: settle_target_def settle_voucher_def Let_def)
  then show ?thesis by (simp add: apply_paid_open[OF assms(5-7)])
qed

definition voucher_link_db :: links_db where
  "voucher_link_db = snd (issued (VoucherTarget ''g1'') (links_of [] [voucher_with ''created'' [facial]]))
     \<lparr>ld_vouchers := vouchers [voucher_with ''cancelled'' [facial]]\<rparr>"

theorem refused_voucher_keeps_success_payment_witness:
  "\<exists>k' db' p. apply_state (link_env_at 60 True) (hd (ld_links voucher_link_db)) paid_report voucher_link_db = (FailureRecorded, k', db')
     \<and> lk_status k' = LK_REFUNDED \<and> db_payments (ld_pay db') = [p] \<and> pm_status p = ''success''"
proof -
  have a: "find_voucher ''g1'' (ld_vouchers voucher_link_db) = Inr (voucher_with ''cancelled'' [facial])"
    "gv_status (voucher_with ''cancelled'' [facial]) = ''cancelled''" "lk_target (hd (ld_links voucher_link_db)) = VoucherTarget ''g1''"
    "voucher_payment ''g1'' (ld_pay voucher_link_db) = None"
    "gs_status paid_report = GW_PAID" "amount_matches paid_report (hd (ld_links voucher_link_db))"
    "lk_status (hd (ld_links voucher_link_db)) \<notin> set SETTLED"
    by code_simp+
  have "db_payments (ld_pay voucher_link_db) = []" by code_simp
  with refused_voucher_keeps_success_payment[OF a] show ?thesis by fastforce
qed

section \<open>Webhooks without a report of the gateway\<close>

lemma first_found_first: "first_found (Some x # xs) = Some x"
  by simp

lemma nonempty_some [simp]: "keys_of (Some key # ks) = (if key = [] then keys_of ks else key # keys_of ks)"
  by (simp add: keys_of_def List.map_filter_simps nonempty_def)

lemma identified_by_invoice:
  assumes "link_by_invoice gw invoice db = Some k" and "invoice \<noteq> []"
  shows "get_locked_link_by_any_identifier u gw (Some invoice) r p db = Some k"
  using assms by (simp add: get_locked_link_by_any_identifier_def)

lemma link_by_invoice_in: "link_by_invoice gw invoice db = Some k \<Longrightarrow> k \<in> set (ld_links db)"
  by (auto simp: link_by_invoice_def dest: newest_in)

lemma locked_of_ok: "links_ok db \<Longrightarrow> k \<in> set (ld_links db) \<Longrightarrow> get_locked_link (lk_id k) db = Some k"
  using find_key_row[of lk_id "ld_links db" k] by (simp add: links_ok_def get_locked_link_def)

text \<open>
  C36. When the gateway cannot be asked, the body of the webhook settles the link: a signed event that
  claims a payment and names the amount confirms the booking although no report was read.
\<close>
theorem unverified_webhook_settles:
  assumes "links_ok db" and "link_by_invoice (lg_name gw) invoice db = Some k" and "invoice \<noteq> []"
    and "\<And>x. lg_state gw x = None"
    and "we_kind (wc_event call) = WK_PAYMENT_STATUS" and "we_status (wc_event call) = Some GW_PAID"
    and "we_invoice_id (wc_event call) = Some invoice" and "we_state (wc_event call) = Some s"
    and "wc_signed call" and "\<not> wc_stale call" and "\<not> claimed (lg_name gw) (reference_of call) db"
    and "gs_status s = GW_PAID" and "amount_matches s k" and "lk_status k \<notin> set SETTLED" and "lk_target k = BookingTarget i"
    and "booking_by_id i (ld_pay db) = Some b" and "bk_status b \<notin> set NOT_PAYABLE_BOOKING"
  shows "\<exists>db' k'. process_webhook env gw dev call db = Inr (''settled'', db') \<and> get_locked_link (lk_id k) db' = Some k'
    \<and> lk_status k' = LK_PAID \<and> booking_settled i b k' db'"
proof -
  let ?c = "claim (lg_name gw) (reference_of call) db"
  have k: "get_locked_link (lk_id k) ?c = Some k" "link_by_invoice (lg_name gw) invoice ?c = Some k"
    using locked_of_ok[OF assms(1) link_by_invoice_in[OF assms(2)]] assms(2)
    by (simp_all add: get_locked_link_def link_by_invoice_def)
  obtain k' db' where a: "apply_state env k s ?c = (Settled, k', db')" "get_locked_link (lk_id k) db' = Some k'"
    "lk_status k' = LK_PAID" "booking_settled i b k' db'"
    by (rule paid_applied[OF assms(12-14) k(1) assms(15) _ assms(17), of env]) (simp_all add: assms(16))
  have look: "event_lookup (wc_event call) = Some invoice"
    using assms(3,7) by (simp add: event_lookup_def or_text_def truthy_def Let_def)
  have "event_link env gw (wc_event call) ?c = (Some k, None)"
    using identified_by_invoice[OF k(2) assms(3)] assms(4) by (simp add: event_link_def look)
  then have "handle_payment_event env gw (wc_event call) ?c = Inr (''settled'', db')"
    using a(1) assms(6,8) by (simp add: handle_payment_event_def merged_state_def)
  then have "process_webhook env gw dev call db = Inr (''settled'', set_outcome (lg_name gw) (reference_of call) ''settled'' db')"
    using assms(5,9-11) by (simp add: process_webhook_def Let_def reference_of_def claim_def)
  with a(2-4) show ?thesis by (auto simp: get_locked_link_def booking_settled_def)
qed

theorem unverified_webhook_settles_witness:
  "\<exists>db' k'. process_webhook (link_env_at 60 True) (knet None) False paid_call pending_db = Inr (''settled'', db')
     \<and> get_locked_link 50 db' = Some k' \<and> lk_status k' = LK_PAID"
proof -
  let ?b = "ex_booking\<lparr>bk_status := ''payment_pending'', bk_payment_status := ''pending'', bk_payment_provider := Some ''Tap KNET''\<rparr>"
  have l: "link_by_invoice (lg_name (knet None)) ''inv1'' pending_db = Some pending_link" "''inv1'' \<noteq> []" by code_simp+
  have g: "lg_state (knet None) x = None" for x by (simp add: knet_def)
  have c: "we_kind (wc_event paid_call) = WK_PAYMENT_STATUS" "we_status (wc_event paid_call) = Some GW_PAID"
    "we_invoice_id (wc_event paid_call) = Some ''inv1''" "we_state (wc_event paid_call) = Some paid_report"
    "wc_signed paid_call" "\<not> wc_stale paid_call" "\<not> claimed (lg_name (knet None)) (reference_of paid_call) pending_db"
    by code_simp+
  have s: "gs_status paid_report = GW_PAID" "amount_matches paid_report pending_link" "lk_status pending_link \<notin> set SETTLED"
    "lk_target pending_link = BookingTarget 7" "booking_by_id 7 (ld_pay pending_db) = Some ?b" "bk_status ?b \<notin> set NOT_PAYABLE_BOOKING"
    by code_simp+
  have "lk_id pending_link = 50" by code_simp
  with unverified_webhook_settles[OF pending_ok l g c s, of "link_env_at 60 True" False] show ?thesis by auto
qed

section \<open>Refunds of voucher payments\<close>

section \<open>Refunds of paid links\<close>

lemma refunded_payment_fields [simp]: "pm_id (refunded_payment a p) = pm_id p"
  "pm_amount_refunded (refunded_payment a p) = pm_amount_refunded p + a" "pm_total_amount (refunded_payment a p) = pm_total_amount p"
  "pm_status (refunded_payment a p) = (if pm_total_amount p \<le> pm_amount_refunded p + a then ''refunded'' else ''partially_refunded'')"
  by (simp_all add: refunded_payment_def Let_def)

lemma link_refund_fields [simp]: "rf_status (link_refund env p a reason actor db) = RS_COMPLETED"
  "rf_refunded_amount (link_refund env p a reason actor db) = a" "rf_payment_id (link_refund env p a reason actor db) = Some (pm_id p)"
  "rf_id (link_refund env p a reason actor db) = le_uuid env"
  by (simp_all add: link_refund_def)

definition refund_amount :: "rat option \<Rightarrow> Payment \<Rightarrow> rat" where
  "refund_amount amount p = (case amount of Some a \<Rightarrow> a | None \<Rightarrow> pm_total_amount p - pm_amount_refunded p)"

definition no_status_change :: status_change where
  "no_status_change = \<lparr>sg_payment_id = None, sg_booking_id = None, sg_payment_provider = None, sg_payment_through = None,
     sg_redeemed_by = None, sg_delivery_status = None, sg_is_digital_gift_opened = None\<rparr>"

text \<open>An accepted refund: the rows of the refund and the payment, and the voucher.\<close>

lemma refund_voucher_Inr:
  assumes "refund_voucher_payment env gw p amount reason actor db = (Inr r, db')"
  obtains "rf_status r = RS_COMPLETED" "rf_refunded_amount r = refund_amount amount p" "rf_payment_id r = Some (pm_id p)"
    "0 < refund_amount amount p" "refund_amount amount p \<le> pm_total_amount p - pm_amount_refunded p"
    "ld_pay db' = put_payment (refunded_payment (refund_amount amount p) p) (add_refund r (ld_pay db))" "ld_links db' = ld_links db"
    "\<And>i v. pm_voucher_id p = Some i \<Longrightarrow> find_voucher i (ld_vouchers db) = Inr v \<Longrightarrow>
       gv_status v \<notin> {''redeemed'', ''partially_redeemed'', ''fulfilled''}
       \<and> (if pm_total_amount p \<le> pm_amount_refunded p + refund_amount amount p \<and> gv_status v = ''active''
          then \<exists>v'. gv_update_status (le_now env) (le_scheduler env) (gv_id v) ''cancelled'' no_status_change (ld_vouchers db)
                     = Inr (v', ld_vouchers db')
          else ld_vouchers db' = ld_vouchers db)"
proof (rule that)
  note refund_voucher_payment_def[simp] refund_amount_def[simp] no_status_change_def[simp] Let_def[simp]
  show "rf_status r = RS_COMPLETED" "rf_refunded_amount r = refund_amount amount p" "rf_payment_id r = Some (pm_id p)"
    "0 < refund_amount amount p" "refund_amount amount p \<le> pm_total_amount p - pm_amount_refunded p"
    using assms by (auto split: option.splits if_splits sum.splits prod.splits)
  show "ld_pay db' = put_payment (refunded_payment (refund_amount amount p) p) (add_refund r (ld_pay db))"
    using assms by (auto split: option.splits if_splits sum.splits prod.splits)
  show "ld_links db' = ld_links db" using refund_voucher_frame[OF assms] by blast
  show "gv_status v \<notin> {''redeemed'', ''partially_redeemed'', ''fulfilled''}
       \<and> (if pm_total_amount p \<le> pm_amount_refunded p + refund_amount amount p \<and> gv_status v = ''active''
          then \<exists>v'. gv_update_status (le_now env) (le_scheduler env) (gv_id v) ''cancelled'' no_status_change (ld_vouchers db)
                     = Inr (v', ld_vouchers db')
          else ld_vouchers db' = ld_vouchers db)"
    if "pm_voucher_id p = Some i" "find_voucher i (ld_vouchers db) = Inr v" for i v
    using assms that by (auto split: option.splits if_splits sum.splits prod.splits)
qed

lemma find_link_payment_in: "find_link_payment k db = Some p \<Longrightarrow> p \<in> set (db_payments db)"
  by (auto simp: find_link_payment_def Let_def first_row_def split: list.splits option.splits link_target.splits
      dest!: arg_cong[of "sort_key _ _" _ set])

lemma voucher_refund_Inr:
  assumes "refund_payment_link env gw gateways i amount reason actor db = (Inr r, db')"
    and "get_locked_link i db = Some k" and "lk_target k = VoucherTarget x"
  obtains p db1 where "lk_status k \<in> {LK_PAID, LK_PARTIALLY_REFUNDED}" "find_link_payment k (ld_pay db) = Some p"
    "refund_voucher_payment env gw p amount reason actor db = (Inr r, db1)" "db' = put_link (sync_link_refund r k) db1"
  using assms by (auto simp: refund_payment_link_def get_db_session_def link_refund_service_def
      split: option.splits if_splits prod.splits sum.splits)

text \<open>
  C10. An accepted refund of a voucher's link pays back a positive amount within what is left of the
  payment: the amount is added to the payment and to the link, and the payment is refunded exactly when
  nothing is left.
\<close>
theorem voucher_refund_within_payment:
  assumes "refund_payment_link env gw gateways i amount reason actor db = (Inr r, db')"
    and "get_locked_link i db = Some k" and "lk_target k = VoucherTarget x"
  shows "\<exists>p p' k'. p \<in> set (db_payments (ld_pay db)) \<and> p' \<in> set (db_payments (ld_pay db')) \<and> pm_id p' = pm_id p
    \<and> 0 < rf_refunded_amount r \<and> pm_amount_refunded p' = pm_amount_refunded p + rf_refunded_amount r
    \<and> pm_amount_refunded p' \<le> pm_total_amount p' \<and> pm_total_amount p' = pm_total_amount p
    \<and> (pm_status p' = ''refunded'' \<longleftrightarrow> pm_amount_refunded p' = pm_total_amount p')
    \<and> get_locked_link i db' = Some k' \<and> lk_amount_refunded k' = lk_amount_refunded k + rf_refunded_amount r"
proof -
  obtain p db1 where p: "find_link_payment k (ld_pay db) = Some p" and db': "db' = put_link (sync_link_refund r k) db1"
    and rv: "refund_voucher_payment env gw p amount reason actor db = (Inr r, db1)"
    using voucher_refund_Inr[OF assms] by metis
  let ?p = "refunded_payment (refund_amount amount p) p"
  from rv show ?thesis
  proof (rule refund_voucher_Inr)
    assume f: "rf_refunded_amount r = refund_amount amount p" "0 < refund_amount amount p"
      "refund_amount amount p \<le> pm_total_amount p - pm_amount_refunded p"
      "ld_pay db1 = put_payment ?p (add_refund r (ld_pay db))" "ld_links db1 = ld_links db"
    have "p \<in> set (db_payments (ld_pay db))" using p by (rule find_link_payment_in)
    moreover from this have "?p \<in> set (db_payments (ld_pay db'))"
      using payment_put[of p "add_refund r (ld_pay db)" ?p] by (simp add: db' f(4) add_refund_def)
    moreover have "get_locked_link i db' = Some (sync_link_refund r k)"
      using find_put_link[of k db1 k "sync_link_refund r k"] assms(2) locked_link[OF assms(2)] locked_links_cong[OF f(5)]
      by (simp add: db')
    moreover have "lk_amount_refunded (sync_link_refund r k) = lk_amount_refunded k + rf_refunded_amount r"
      by (simp add: sync_link_refund_def Let_def)
    ultimately show ?thesis using f(1-3) by (intro exI[of _ p] exI[of _ ?p] exI[of _ "sync_link_refund r k"]) auto
  qed
qed

definition paid_voucher_link :: payment_link where
  "paid_voucher_link = \<lparr>lk_id = 50, lk_link_number = Some ''PL-1'', lk_target = VoucherTarget ''g1'', lk_invoice_id = None,
     lk_invoice_number = None, lk_gateway = ''tap_knet'', lk_provider_label = ''Tap KNET'', lk_gateway_invoice_id = Some ''inv1'',
     lk_payment_url = Some ''https'', lk_amount = 10, lk_amount_refunded = 0, lk_currency = ''KWD'', lk_status = LK_PAID, lk_meta = [],
     lk_gateway_payment_id = Some ''pay1'', lk_transaction_id = None, lk_track_id = None, lk_reference_id = None,
     lk_payment_method = Some ''knet'', lk_payment_row_id = Some 60, lk_created_by = None, lk_expires_at = Some 3600,
     lk_paid_at = Some 100, lk_created_at = 50\<rparr>"

definition paid_voucher_payment :: Payment where
  "paid_voucher_payment = ex_payment\<lparr>pm_id := 60, pm_booking_id := None, pm_payment_provider := Some ''Tap KNET'',
     pm_invoice_id := Some ''inv1'', pm_payment_id := Some ''pay1'', pm_voucher_id := Some ''g1'', pm_payment_link_id := Some 50\<rparr>"

definition voucher_paid_db :: "string \<Rightarrow> links_db" where
  "voucher_paid_db status = (links_of [] [voucher_with status [facial]])\<lparr>ld_links := [paid_voucher_link],
     ld_pay := \<lparr>db_payments = [paid_voucher_payment], db_refunds = [], db_bookings = [], db_history = [], db_events = []\<rparr>\<rparr>"

definition voucher_refund :: "bool \<Rightarrow> rat option \<Rightarrow> links_db \<Rightarrow> (link_error + Refund) \<times> links_db" where
  "voucher_refund accepted amount =
     refund_payment_link (link_env_at 70 True) ((knet None)\<lparr>lg_refund := (\<lambda>_ _. if accepted then Some (Some ''re1'') else None)\<rparr>)
       (\<lambda>_ _ _ _. GatewayRaised) 50 amount None ''staff''"

definition refund_row :: "(link_error + Refund) \<times> links_db \<Rightarrow> Refund" where
  "refund_row x = (case x of (Inr r, _) \<Rightarrow> r | (Inl _, db) \<Rightarrow> hd (db_refunds (ld_pay db)))"

lemma accepted_voucher_refund:
  assumes "isl (fst (voucher_refund True a db)) = False"
  shows "refund_payment_link (link_env_at 70 True) ((knet None)\<lparr>lg_refund := (\<lambda>_ _. if True then Some (Some ''re1'') else None)\<rparr>)
       (\<lambda>_ _ _ _. GatewayRaised) 50 a None ''staff'' db = (Inr (refund_row (voucher_refund True a db)), snd (voucher_refund True a db))"
  using assms unfolding voucher_refund_def[symmetric]
  by (cases "voucher_refund True a db"; cases "fst (voucher_refund True a db)") (auto simp: refund_row_def)

theorem voucher_refund_within_payment_witness:
  "\<exists>p'. p' \<in> set (db_payments (ld_pay (snd (voucher_refund True (Some 4) (voucher_paid_db ''active'')))))
     \<and> pm_amount_refunded p' = 4 \<and> pm_status p' = ''partially_refunded''"
proof -
  have a: "isl (fst (voucher_refund True (Some 4) (voucher_paid_db ''active''))) = False"
    "get_locked_link 50 (voucher_paid_db ''active'') = Some paid_voucher_link" "lk_target paid_voucher_link = VoucherTarget ''g1''"
    by code_simp+
  have "db_payments (ld_pay (voucher_paid_db ''active'')) = [paid_voucher_payment]" "pm_amount_refunded paid_voucher_payment = 0"
    "rf_refunded_amount (refund_row (voucher_refund True (Some 4) (voucher_paid_db ''active''))) = 4"
    "\<forall>p \<in> set (db_payments (ld_pay (snd (voucher_refund True (Some 4) (voucher_paid_db ''active''))))). pm_status p = ''partially_refunded''"
    by code_simp+
  with voucher_refund_within_payment[OF accepted_voucher_refund[OF a(1)] a(2,3)] show ?thesis by auto
qed

text \<open>
  C34. A full refund of a voucher's link cancels the voucher only when it is active: a voucher that waits
  for its scheduled delivery stays scheduled, and its activation afterwards makes the refunded voucher
  active.
\<close>
theorem full_refund_stops_active_voucher_only:
  assumes "refund_payment_link env gw gateways i amount reason actor db = (Inr r, db')"
    and "get_locked_link i db = Some k" and "lk_target k = VoucherTarget x"
    and "find_link_payment k (ld_pay db) = Some p" and "pm_voucher_id p = Some x" and "find_voucher x (ld_vouchers db) = Inr v"
    and "rf_refunded_amount r = pm_total_amount p - pm_amount_refunded p"
  shows "(gv_status v = ''active'' \<longrightarrow>
       (\<exists>v'. find_voucher x (ld_vouchers db') = Inr v' \<and> gv_status v' = ''cancelled''))
    \<and> (gv_status v = ''scheduled'' \<longrightarrow> find_voucher x (ld_vouchers db') = Inr v
       \<and> (\<exists>v' vdb. activate_scheduled_voucher now x (ld_vouchers db') = Inr (v', vdb) \<and> gv_status v' = ''active''))"
proof -
  obtain db1 where db': "db' = put_link (sync_link_refund r k) db1"
    and rv: "refund_voucher_payment env gw p amount reason actor db = (Inr r, db1)"
    using voucher_refund_Inr[OF assms(1-3)] assms(4) by auto
  from rv show ?thesis
  proof (rule refund_voucher_Inr)
    assume f: "rf_refunded_amount r = refund_amount amount p"
      and u: "\<And>i v. pm_voucher_id p = Some i \<Longrightarrow> find_voucher i (ld_vouchers db) = Inr v \<Longrightarrow>
       gv_status v \<notin> {''redeemed'', ''partially_redeemed'', ''fulfilled''}
       \<and> (if pm_total_amount p \<le> pm_amount_refunded p + refund_amount amount p \<and> gv_status v = ''active''
          then \<exists>v'. gv_update_status (le_now env) (le_scheduler env) (gv_id v) ''cancelled'' no_status_change (ld_vouchers db)
                     = Inr (v', ld_vouchers db1)
          else ld_vouchers db1 = ld_vouchers db)"
    have full: "pm_total_amount p \<le> pm_amount_refunded p + refund_amount amount p" using assms(7) f by simp
    have id: "gv_id v = x" using find_voucher_Inr[OF assms(6)] by blast
    have "find_voucher x (ld_vouchers db') = Inr v \<and> (\<exists>v' vdb. activate_scheduled_voucher now x (ld_vouchers db') = Inr (v', vdb)
        \<and> gv_status v' = ''active'')" if "gv_status v = ''scheduled''"
      using u[OF assms(5,6)] that assms(6) by (simp add: db' activate_scheduled_voucher_def)
    moreover have "\<exists>v'. find_voucher x (ld_vouchers db') = Inr v' \<and> gv_status v' = ''cancelled''" if act: "gv_status v = ''active''"
    proof -
      obtain v' where v': "gv_update_status (le_now env) (le_scheduler env) x ''cancelled'' no_status_change (ld_vouchers db)
          = Inr (v', ld_vouchers db1)"
        using u[OF assms(5,6)] full act id by auto
      from v' show ?thesis
      proof (rule update_status_Inr)
        fix w current requested
        assume w: "find_voucher x (ld_vouchers db) = Inr w" "voucher_status_of ''cancelled'' = Some requested"
          "v' = with_history ''status_updated'' (Some (gv_status w)) (Some (gift_voucher_status_value (redirect_target w requested)))
            (status_columns (le_now env) (le_scheduler env) no_status_change (redirect_target w requested) w)"
          "vd_vouchers (ld_vouchers db1) = vd_vouchers (put_voucher v' (ld_vouchers db))"
        from w(1-3) have v'_f: "gv_id v' = x" "gv_status v' = ''cancelled''"
          using id assms(6) by (auto simp: redirect_target_def)
        have "find (\<lambda>u. gv_id u = x) (vd_vouchers (ld_vouchers db)) = Some w"
          using w(1) by (auto simp: find_voucher_def split: option.splits)
        then have "find_voucher x (ld_vouchers db1) = Inr v'"
          using v'_f(1) by (simp add: find_voucher_def w(4) put_voucher_def find_replace_row)
        with v'_f(2) show ?thesis by (simp add: db')
      qed
    qed
    ultimately show ?thesis by blast
  qed
qed

theorem full_refund_stops_active_voucher_only_witness:
  "\<exists>v' vdb. activate_scheduled_voucher 500 ''g1'' (ld_vouchers (snd (voucher_refund True None (voucher_paid_db ''scheduled'')))) = Inr (v', vdb)
     \<and> gv_status v' = ''active''"
proof -
  let ?db = "voucher_paid_db ''scheduled''"
  have a0: "isl (fst (voucher_refund True None ?db)) = False" by code_simp
  have a1: "get_locked_link 50 ?db = Some paid_voucher_link" by code_simp
  have a2: "lk_target paid_voucher_link = VoucherTarget ''g1''" by code_simp
  have a3: "find_link_payment paid_voucher_link (ld_pay ?db) = Some paid_voucher_payment" by code_simp
  have a4: "pm_voucher_id paid_voucher_payment = Some ''g1''" by code_simp
  have a5: "find_voucher ''g1'' (ld_vouchers ?db) = Inr (voucher_with ''scheduled'' [facial])" by code_simp
  have a6: "rf_refunded_amount (refund_row (voucher_refund True None ?db)) = pm_total_amount paid_voucher_payment - pm_amount_refunded paid_voucher_payment" by code_simp
  have "gv_status (voucher_with ''scheduled'' [facial]) = ''scheduled''" by (simp add: voucher_with_def)
  with full_refund_stops_active_voucher_only[OF accepted_voucher_refund[OF a0] a1 a2 a3 a4 a5 a6] show ?thesis by blast
qed

text \<open>
  When the gateway refuses the refund of a voucher's link, the service adds a failed refund for the
  record, but the error rolls the session back: after the request the tables are as before.
\<close>
theorem failed_refund_unrecorded:
  assumes "get_locked_link i db = Some k" and "lk_status k \<in> {LK_PAID, LK_PARTIALLY_REFUNDED}" and "lk_target k = VoucherTarget x"
    and "find_link_payment k (ld_pay db) = Some p" and "pm_status p \<in> {''success'', ''partially_refunded''}"
    and "pm_voucher_id p = Some x" and "find_voucher x (ld_vouchers db) = Inr v" and "gv_status v = ''active''"
    and "0 < a" and "a \<le> pm_total_amount p - pm_amount_refunded p"
    and "truthy (pm_invoice_id p)" and "lg_refund gw (str_or (pm_invoice_id p) []) a = None"
  shows "\<exists>r db1. link_refund_service env gw gateways i (Some a) reason actor db = (Inl GatewayError, db1)
      \<and> db_refunds (ld_pay db1) = db_refunds (ld_pay db) @ [r] \<and> rf_status r = RS_FAILED
    \<and> refund_payment_link env gw gateways i (Some a) reason actor db = (Inl GatewayError, db)"
proof -
  let ?r = "(link_refund env p a reason actor (ld_pay db))\<lparr>rf_status := RS_FAILED\<rparr>"
  let ?db1 = "db\<lparr>ld_pay := add_refund ?r (ld_pay db)\<rparr>"
  have "or_text (pm_invoice_id p) (pm_payment_id p) = pm_invoice_id p" using assms(11) by (simp add: or_text_def)
  then have "refund_voucher_payment env gw p (Some a) reason actor db = (Inl GatewayError, ?db1)"
    using assms(6-12) by (simp add: refund_voucher_payment_def Let_def)
  then have s: "link_refund_service env gw gateways i (Some a) reason actor db = (Inl GatewayError, ?db1)"
    using assms(1-5) by (auto simp: link_refund_service_def REFUNDABLE_PAYMENT_def)
  then have "refund_payment_link env gw gateways i (Some a) reason actor db = (Inl GatewayError, db)"
    by (simp add: refund_payment_link_def get_db_session_def)
  with s show ?thesis by (intro exI[of _ ?r] exI[of _ ?db1]) (simp add: add_refund_def)
qed

theorem failed_refund_unrecorded_witness:
  "refund_payment_link (link_env_at 70 True) ((knet None)\<lparr>lg_refund := (\<lambda>_ _. None)\<rparr>) (\<lambda>_ _ _ _. GatewayRaised) 50 (Some 4)
     None ''staff'' (voucher_paid_db ''active'') = (Inl GatewayError, voucher_paid_db ''active'')"
proof -
  let ?db = "voucher_paid_db ''active''"
  have a: "get_locked_link 50 ?db = Some paid_voucher_link" "lk_status paid_voucher_link \<in> {LK_PAID, LK_PARTIALLY_REFUNDED}"
    "lk_target paid_voucher_link = VoucherTarget ''g1''" "find_link_payment paid_voucher_link (ld_pay ?db) = Some paid_voucher_payment"
    "pm_status paid_voucher_payment \<in> {''success'', ''partially_refunded''}" "pm_voucher_id paid_voucher_payment = Some ''g1''"
    by code_simp+
  have v: "find_voucher ''g1'' (ld_vouchers ?db) = Inr (voucher_with ''active'' [facial])"
    "gv_status (voucher_with ''active'' [facial]) = ''active''" "(0::rat) < 4"
    "4 \<le> pm_total_amount paid_voucher_payment - pm_amount_refunded paid_voucher_payment" "truthy (pm_invoice_id paid_voucher_payment)"
    by code_simp+
  have "lg_refund ((knet None)\<lparr>lg_refund := (\<lambda>_ _. None)\<rparr>) (str_or (pm_invoice_id paid_voucher_payment) []) 4 = None" by simp
  from failed_refund_unrecorded[OF a v this] show ?thesis by blast
qed


definition refunded_db :: links_db where "refunded_db = snd (voucher_refund True None (voucher_paid_db ''active''))"

definition refund_cancelled :: webhook_event where
  "refund_cancelled = \<lparr>we_kind = WK_REFUND_STATUS, we_reference = Some ''evt2'', we_invoice_id = Some ''inv1'', we_status = None,
     we_state = None, we_refund_id = Some ''re1'', we_refund_status = Some ''CANCELED''\<rparr>"


end
