(* ===== verification/Shop_Orders.thy ===== *)
theory Shop_Orders
  imports Vouchers Payment_Attribution "HOL-Library.AList"
begin

text \<open>
  Orders of the shop: \<open>app/shop/application/services.py\<close>, \<open>infrastructure/repository.py\<close>, the request
  schemas and the routes of \<open>api/router.py\<close> that decide who may do what. Deliveries follow the state
  machine of \<open>Voucher_Status\<close>.

  Parameters are the product catalogue of the other service and the random codes. The history is one
  list for all orders, in the order of insertion. Of a published event the identity, the amounts and
  the payment columns are kept; the metadata that is searched in the payment data and the language
  are left out, as are the rounding of stored columns and updated timestamps.
\<close>

section \<open>Tables\<close>

record order_item =
  oi_product_id :: uuid
  oi_product_name :: string
  oi_product_name_ar :: string
  oi_product_image_url :: "string option"
  oi_unit_price :: rat
  oi_quantity :: int
  oi_line_total :: rat

record order_address =
  ad_area :: string
  ad_block :: string
  ad_street :: string
  ad_building_no :: string
  ad_floor :: "string option"
  ad_apartment :: "string option"
  ad_city :: "string option"

record shop_order =
  so_id :: uuid
  so_order_number :: string
  so_customer_id :: uuid
  so_customer_name :: string
  so_customer_phone :: string
  so_contact_number :: string
  so_requested_by :: "uuid option"
  so_address :: order_address
  so_delivery_status :: string
  so_tracking_code :: string
  so_public_token :: string
  so_token_expires_at :: "instant option"
  so_subtotal :: rat
  so_discount :: rat
  so_total_amount :: rat
  so_payment_status :: string
  so_payment_method :: "string option"
  so_payment_through :: "string option"
  so_payment_provider :: "string option"
  so_payment_url :: "string option"
  so_payment_data :: "fields option"
  so_items :: "order_item list"
  so_created_at :: instant

record order_history =
  oh_order_id :: uuid
  oh_from_status :: string
  oh_to_status :: string
  oh_changed_by :: string
  oh_note :: "string option"

record order_event =
  oe_order_id :: uuid
  oe_order_number :: string
  oe_customer_id :: uuid
  oe_delivery_address :: string
  oe_public_token :: string
  oe_tracking_code :: string
  oe_total_amount :: rat
  oe_payment_status :: string
  oe_payment_method :: string
  oe_payment_through :: string
  oe_payment_provider :: string
  oe_items :: "order_item list"

record shop_db =
  sd_orders :: "shop_order list"
  sd_history :: "order_history list"
  sd_events :: "order_event list"

datatype shop_error =
    OrderNotFound
  | NoItems
  | BadQuantity int
  | DuplicateProduct uuid
  | ProductUnavailable uuid
  | BadPrice uuid
  | UniqueViolation
  | UnknownDeliveryStatus string
  | DeliveryRefused delivery_error
  | TrackingLinkExpired
  | InvalidTrackingCode
  | NonAsciiCode
  | StaffRequired
  | NotYourOrder

section \<open>Rows\<close>

text \<open>\<open>formatted_address\<close>.\<close>

definition address_part :: "string \<Rightarrow> string option \<Rightarrow> string list" where
  "address_part label v = (if truthy v then [label @ str_or v []] else [])"

definition formatted_address :: "order_address \<Rightarrow> string" where
  "formatted_address a =
     join_texts '', '' (concat [address_part ''Area: '' (Some (ad_area a)), address_part ''Block: '' (Some (ad_block a)),
       address_part ''Street: '' (Some (ad_street a)), address_part ''Bldg: '' (Some (ad_building_no a)),
       address_part ''Floor: '' (ad_floor a), address_part ''Apt: '' (ad_apartment a), address_part ''City: '' (ad_city a)])"

definition put_order :: "shop_order \<Rightarrow> shop_db \<Rightarrow> shop_db" where
  "put_order o' db = db\<lparr>sd_orders := replace_row so_id o' (sd_orders db)\<rparr>"

definition add_status_history :: "order_history \<Rightarrow> shop_db \<Rightarrow> shop_db" where
  "add_status_history h db = db\<lparr>sd_history := sd_history db @ [h]\<rparr>"

definition find_order :: "(shop_order \<Rightarrow> bool) \<Rightarrow> shop_db \<Rightarrow> shop_error + shop_order" where
  "find_order P db = (case find P (sd_orders db) of None \<Rightarrow> Inl OrderNotFound | Some x \<Rightarrow> Inr x)"

definition get_order :: "uuid \<Rightarrow> shop_db \<Rightarrow> shop_error + shop_order" where
  "get_order i = find_order (\<lambda>x. so_id x = i)"

definition get_order_by_number :: "string \<Rightarrow> shop_db \<Rightarrow> shop_error + shop_order" where
  "get_order_by_number n = find_order (\<lambda>x. so_order_number x = n)"

definition get_order_by_public_token :: "string \<Rightarrow> shop_db \<Rightarrow> shop_error + shop_order" where
  "get_order_by_public_token t = find_order (\<lambda>x. so_public_token x = t)"

text \<open>The number of a month: one more than the count of numbers with its prefix, which has no wildcard.\<close>

definition next_order_number :: "string \<Rightarrow> string list \<Rightarrow> string" where
  "next_order_number year_month numbers =
     (let date_prefix = ''ORD/'' @ year_month @ ''/''
      in date_prefix @ pad6 (length (filter (\<lambda>n. startswith n date_prefix) numbers) + 1))"

definition order_created_event :: "shop_order \<Rightarrow> order_event" where
  "order_created_event x =
     \<lparr>oe_order_id = so_id x, oe_order_number = so_order_number x, oe_customer_id = so_customer_id x,
      oe_delivery_address = formatted_address (so_address x), oe_public_token = so_public_token x,
      oe_tracking_code = so_tracking_code x, oe_total_amount = so_total_amount x, oe_payment_status = so_payment_status x,
      oe_payment_method = str_or (so_payment_method x) [], oe_payment_through = str_or (so_payment_through x) [],
      oe_payment_provider = str_or (so_payment_provider x) [], oe_items = so_items x\<rparr>"

definition enqueue_order_created_event :: "shop_order \<Rightarrow> shop_db \<Rightarrow> shop_db" where
  "enqueue_order_created_event x db = db\<lparr>sd_events := sd_events db @ [order_created_event x]\<rparr>"

section \<open>Requests\<close>

record order_body =
  ob_items :: "(uuid \<times> int) list"
  ob_address :: order_address
  ob_contact_number :: "string option"
  ob_requested_by :: "uuid option"
  ob_payment_through :: "string option"
  ob_payment_type :: "string option"
  ob_payment_status :: "string option"
  ob_payment_method :: "string option"
  ob_payment_provider :: "string option"
  ob_payment_invoice_id :: "string option"
  ob_payment_url :: "string option"
  ob_payment_data :: "fields option"

text \<open>The validators of the schema, in order: the lines, the alias of the channel.\<close>

fun no_duplicate_products :: "uuid list \<Rightarrow> (uuid \<times> int) list \<Rightarrow> shop_error + unit" where
  "no_duplicate_products seen [] = Inr ()"
| "no_duplicate_products seen ((p, q) # items) =
     (if p \<in> set seen then Inl (DuplicateProduct p) else no_duplicate_products (p # seen) items)"

definition valid_order_body :: "order_body \<Rightarrow> shop_error + order_body" where
  "valid_order_body b =
     (case find (\<lambda>(p, q). q < 1 \<or> 999 < q) (ob_items b) of
        Some (p, q) \<Rightarrow> Inl (BadQuantity q)
      | None \<Rightarrow>
          if ob_items b = [] then Inl NoItems
          else ebind (no_duplicate_products [] (ob_items b)) (\<lambda>_.
            Inr (if truthy (ob_payment_type b) \<and> \<not> truthy (ob_payment_through b)
                 then b\<lparr>ob_payment_through := ob_payment_type b\<rparr> else b)))"

text \<open>The caller of a route: the subject of the token, whether it is a customer, whether it is staff.\<close>

record shop_user =
  su_sub :: uuid
  su_name :: string
  su_phone :: "string option"
  su_user_type :: string
  su_is_staff :: bool
  su_is_superuser :: bool

definition is_staff_user :: "shop_user \<Rightarrow> bool" where
  "is_staff_user u \<longleftrightarrow> lower (strip (su_user_type u)) \<in> {''staff'', ''admin'', ''superuser'', ''employee''} \<or> su_is_staff u \<or> su_is_superuser u"

section \<open>Creating an order\<close>

text \<open>The surroundings: the clock, the month, a fresh key and the random codes, the catalogue.\<close>

record shop_env =
  sh_now :: instant
  sh_month :: string
  sh_uuid :: uuid
  sh_tracking_code :: string
  sh_public_token :: string
  sh_product :: "uuid \<Rightarrow> fields option"

definition week :: int where "week = 7 * 24 * 60 * 60 * 1000000"

fun fetch_products :: "shop_env \<Rightarrow> (uuid \<times> int) list \<Rightarrow> shop_error + (uuid \<times> int \<times> fields) list" where
  "fetch_products env [] = Inr []"
| "fetch_products env ((p, q) # items) =
     (case sh_product env p of
        None \<Rightarrow> Inl (ProductUnavailable p)
      | Some d \<Rightarrow> ebind (fetch_products env items) (\<lambda>ps. Inr ((p, q, d) # ps)))"

text \<open>\<open>Decimal(str(product.get("price", "0")))\<close>; a text that is no number raises.\<close>

definition product_price :: "fields \<Rightarrow> rat option" where
  "product_price d = (case map_of d ''price'' of None \<Rightarrow> Some 0 | Some v \<Rightarrow> parse_decimal (py_str v))"

definition text_or_none :: "scalar \<Rightarrow> string option" where
  "text_or_none v = (if scalar_true v then Some (py_str v) else None)"

definition order_line :: "uuid \<Rightarrow> int \<Rightarrow> fields \<Rightarrow> shop_error + order_item" where
  "order_line p q d =
     (case product_price d of
        None \<Rightarrow> Inl (BadPrice p)
      | Some price \<Rightarrow>
          Inr \<lparr>oi_product_id = p, oi_product_name = first_text [field d ''name'', field d ''name_en''],
               oi_product_name_ar = first_text [field d ''name_ar''],
               oi_product_image_url = text_or_none (scalar_or (field d ''image1'') (field d ''image'')),
               oi_unit_price = price, oi_quantity = q, oi_line_total = quantize3 (price * of_int q)\<rparr>)"

fun order_lines :: "(uuid \<times> int \<times> fields) list \<Rightarrow> shop_error + order_item list" where
  "order_lines [] = Inr []"
| "order_lines ((p, q, d) # ps) = ebind (order_line p q d) (\<lambda>i. ebind (order_lines ps) (\<lambda>is. Inr (i # is)))"

definition order_payment_statuses :: "string list" where
  "order_payment_statuses = [''not_initiated'', ''pending'', ''success'', ''failed'', ''refunded'']"

definition initial_payment_status :: "string option \<Rightarrow> string" where
  "initial_payment_status raw =
     (if truthy raw \<and> str_or raw [] \<in> set order_payment_statuses then str_or raw [] else ''not_initiated'')"

definition merged_payment_data :: "string option \<Rightarrow> fields option \<Rightarrow> fields option" where
  "merged_payment_data invoice_id data =
     (if truthy invoice_id then Some (AList.update ''invoiceId'' (SText (str_or invoice_id [])) (case data of None \<Rightarrow> [] | Some d \<Rightarrow> d))
      else data)"

definition order_row :: "shop_env \<Rightarrow> shop_user \<Rightarrow> order_body \<Rightarrow> order_item list \<Rightarrow> shop_db \<Rightarrow> shop_order" where
  "order_row env u b items db =
     (let subtotal = sum_list (map oi_line_total items);
          phone = str_or (su_phone u) (str_or (ob_contact_number b) []);
          through = (if truthy (ob_payment_through b) then ob_payment_through b
                     else if truthy (ob_payment_type b) then ob_payment_type b
                     else if su_user_type u = ''customer'' then Some ''ushspa'' else None)
      in \<lparr>so_id = sh_uuid env, so_order_number = next_order_number (sh_month env) (map so_order_number (sd_orders db)),
          so_customer_id = su_sub u, so_customer_name = su_name u, so_customer_phone = phone,
          so_contact_number = str_or (ob_contact_number b) phone,
          so_requested_by = (case ob_requested_by b of None \<Rightarrow> Some (su_sub u) | Some i \<Rightarrow> Some i),
          so_address = ob_address b, so_delivery_status = ''ordered'', so_tracking_code = sh_tracking_code env,
          so_public_token = sh_public_token env, so_token_expires_at = Some (sh_now env + week),
          so_subtotal = subtotal, so_discount = 0, so_total_amount = subtotal,
          so_payment_status = initial_payment_status (ob_payment_status b), so_payment_method = ob_payment_method b,
          so_payment_through = (if truthy through then ShopPaymentThrough_normalise through else None),
          so_payment_provider = ob_payment_provider b, so_payment_url = ob_payment_url b,
          so_payment_data = merged_payment_data (ob_payment_invoice_id b) (ob_payment_data b), so_items = items,
          so_created_at = sh_now env\<rparr>)"

text \<open>The numbers, codes and tokens of the orders are unique columns.\<close>

definition unique_order :: "shop_order \<Rightarrow> shop_db \<Rightarrow> bool" where
  "unique_order x db \<longleftrightarrow> list_all (\<lambda>y. so_order_number y \<noteq> so_order_number x \<and> so_tracking_code y \<noteq> so_tracking_code x
     \<and> so_public_token y \<noteq> so_public_token x) (sd_orders db)"

text \<open>The route and the service, which are called with the fields of the same body.\<close>

definition create_order :: "shop_env \<Rightarrow> shop_user \<Rightarrow> order_body \<Rightarrow> shop_db \<Rightarrow> shop_error + shop_order \<times> shop_db" where
  "create_order env u body db =
     ebind (valid_order_body body) (\<lambda>b.
     ebind (fetch_products env (ob_items b)) (\<lambda>ps.
     ebind (order_lines ps) (\<lambda>items.
       let x = order_row env u b items db in
       if \<not> unique_order x db then Inl UniqueViolation
       else
         (let db1 = add_status_history \<lparr>oh_order_id = so_id x, oh_from_status = ''ordered'', oh_to_status = ''ordered'',
                      oh_changed_by = ''system'', oh_note = Some ''Order placed''\<rparr> (db\<lparr>sd_orders := sd_orders db @ [x]\<rparr>)
          in Inr (x, if so_payment_status x = ''success'' then enqueue_order_created_event x db1 else db1)))))"

section \<open>Delivery and payment\<close>

definition moved_order :: "string \<Rightarrow> string option \<Rightarrow> DeliveryStatus \<Rightarrow> shop_order \<Rightarrow> shop_db \<Rightarrow> shop_order \<times> shop_db" where
  "moved_order changed_by note new_status x db =
     (let x' = x\<lparr>so_delivery_status := delivery_status_value new_status\<rparr>
      in (x', add_status_history \<lparr>oh_order_id = so_id x, oh_from_status = so_delivery_status x,
            oh_to_status = delivery_status_value new_status, oh_changed_by = changed_by, oh_note = note\<rparr> (put_order x' db)))"

definition order_update_delivery_status ::
  "shop_user \<Rightarrow> uuid \<Rightarrow> DeliveryStatus \<Rightarrow> string option \<Rightarrow> shop_db \<Rightarrow> shop_error + shop_order \<times> shop_db" where
  "order_update_delivery_status u i new_status note db =
     (if \<not> is_staff_user u then Inl StaffRequired
      else ebind (get_order i db) (\<lambda>x.
        case delivery_status_of (so_delivery_status x) of
          None \<Rightarrow> Inl (UnknownDeliveryStatus (so_delivery_status x))
        | Some current \<Rightarrow>
            (case assert_staff_can_transition current new_status of
               Inl e \<Rightarrow> Inl (DeliveryRefused e)
             | Inr _ \<Rightarrow> Inr (moved_order (''staff:'' @ show_nat (su_sub u)) note new_status x db))))"

datatype OrderPaymentStatus = OP_NOT_INITIATED | OP_PENDING | OP_SUCCESS | OP_FAILED | OP_REFUNDED

fun order_payment_status_value :: "OrderPaymentStatus \<Rightarrow> string" where
  "order_payment_status_value OP_NOT_INITIATED = ''not_initiated''"
| "order_payment_status_value OP_PENDING = ''pending''"
| "order_payment_status_value OP_SUCCESS = ''success''"
| "order_payment_status_value OP_FAILED = ''failed''"
| "order_payment_status_value OP_REFUNDED = ''refunded''"

record payment_body =
  pb_payment_status :: OrderPaymentStatus
  pb_payment_method :: "string option"
  pb_payment_through :: "string option"
  pb_payment_type :: "string option"
  pb_payment_provider :: "string option"
  pb_payment_url :: "string option"
  pb_payment_data :: "fields option"

definition given_or :: "'a option \<Rightarrow> 'a option \<Rightarrow> 'a option" where
  "given_or v old = (case v of None \<Rightarrow> old | Some x \<Rightarrow> Some x)"

definition paid_order :: "shop_user \<Rightarrow> payment_body \<Rightarrow> shop_order \<Rightarrow> shop_order" where
  "paid_order u b x =
     (let through = (if truthy (pb_payment_through b) then pb_payment_through b
                     else if truthy (pb_payment_type b) then pb_payment_type b
                     else Some (if is_staff_user u then ''ushdesk'' else ''ushspa''))
      in x\<lparr>so_payment_status := order_payment_status_value (pb_payment_status b),
           so_payment_through := ShopPaymentThrough_normalise through,
           so_payment_method := given_or (pb_payment_method b) (so_payment_method x),
           so_payment_provider := given_or (pb_payment_provider b) (so_payment_provider x),
           so_payment_url := given_or (pb_payment_url b) (so_payment_url x),
           so_payment_data := given_or (pb_payment_data b) (so_payment_data x)\<rparr>)"

text \<open>Any user with a token may call this route.\<close>

definition order_update_payment_status :: "shop_user \<Rightarrow> uuid \<Rightarrow> payment_body \<Rightarrow> shop_db \<Rightarrow> shop_error + shop_order \<times> shop_db" where
  "order_update_payment_status u i b db =
     ebind (get_order i db) (\<lambda>x.
       let x' = paid_order u b x; db1 = put_order x' db in
       Inr (x', if pb_payment_status b = OP_SUCCESS then enqueue_order_created_event x' db1 else db1))"

definition token_expired :: "instant \<Rightarrow> shop_order \<Rightarrow> bool" where
  "token_expired now x = (case so_token_expires_at x of None \<Rightarrow> False | Some t \<Rightarrow> t < now)"

definition ascii_text :: "string \<Rightarrow> bool" where
  "ascii_text s = list_all (\<lambda>c. (of_char c :: nat) < 128) s"

text \<open>\<open>compare_digest\<close> of texts raises for characters beyond ASCII.\<close>

definition confirm_received :: "instant \<Rightarrow> string \<Rightarrow> string \<Rightarrow> shop_db \<Rightarrow> shop_error + shop_order \<times> shop_db" where
  "confirm_received now public_token tracking_code db =
     ebind (get_order_by_public_token public_token db) (\<lambda>x.
       if token_expired now x then Inl TrackingLinkExpired
       else if \<not> (ascii_text (so_tracking_code x) \<and> ascii_text tracking_code) then Inl NonAsciiCode
       else if so_tracking_code x \<noteq> tracking_code then Inl InvalidTrackingCode
       else
         (case delivery_status_of (so_delivery_status x) of
            None \<Rightarrow> Inl (UnknownDeliveryStatus (so_delivery_status x))
          | Some current \<Rightarrow>
              (case assert_customer_can_transition current DV_RECEIVED of
                 Inl e \<Rightarrow> Inl (DeliveryRefused e)
               | Inr _ \<Rightarrow> Inr (moved_order ''customer'' (Some ''Customer confirmed receipt via tracking URL'') DV_RECEIVED x db))))"

section \<open>Reading orders\<close>

record tracking_view =
  tv_order_number :: string
  tv_tracking_code :: string
  tv_delivery_status :: string
  tv_payment_status :: string
  tv_token_expires_at :: "instant option"
  tv_items :: "order_item list"
  tv_status_history :: "order_history list"
  tv_created_at :: instant

definition history_of :: "uuid \<Rightarrow> shop_db \<Rightarrow> order_history list" where
  "history_of i db = filter (\<lambda>h. oh_order_id h = i) (sd_history db)"

definition order_to_public_tracking :: "shop_order \<Rightarrow> shop_db \<Rightarrow> tracking_view" where
  "order_to_public_tracking x db =
     \<lparr>tv_order_number = so_order_number x, tv_tracking_code = so_tracking_code x, tv_delivery_status = so_delivery_status x,
      tv_payment_status = so_payment_status x, tv_token_expires_at = so_token_expires_at x, tv_items = so_items x,
      tv_status_history = history_of (so_id x) db, tv_created_at = so_created_at x\<rparr>"

text \<open>The public page of an order, without authentication.\<close>

definition track_order :: "instant \<Rightarrow> string \<Rightarrow> shop_db \<Rightarrow> shop_error + tracking_view" where
  "track_order now public_token db =
     ebind (get_order_by_public_token public_token db) (\<lambda>x.
       if token_expired now x then Inl TrackingLinkExpired else Inr (order_to_public_tracking x db))"

definition get_order_detail :: "shop_user \<Rightarrow> uuid \<Rightarrow> shop_db \<Rightarrow> shop_error + shop_order" where
  "get_order_detail u i db =
     ebind (get_order i db) (\<lambda>x. if \<not> is_staff_user u \<and> so_customer_id x \<noteq> su_sub u then Inl NotYourOrder else Inr x)"

definition get_my_order :: "shop_user \<Rightarrow> uuid \<Rightarrow> shop_db \<Rightarrow> shop_error + shop_order" where
  "get_my_order u i db = ebind (get_order i db) (\<lambda>x. if so_customer_id x \<noteq> su_sub u then Inl OrderNotFound else Inr x)"

record order_filter =
  of_customer_id :: "uuid option"
  of_requested_by :: "uuid option"
  of_delivery_status :: "string option"
  of_payment_status :: "string option"
  of_payment_through :: "string option"
  of_from_date :: "instant option"
  of_to_date :: "instant option"
  of_search :: "string option"

definition if_given :: "'a option \<Rightarrow> ('a \<Rightarrow> bool) \<Rightarrow> bool" where
  "if_given v P = (case v of None \<Rightarrow> True | Some x \<Rightarrow> P x)"

definition if_text :: "string option \<Rightarrow> (string \<Rightarrow> bool) \<Rightarrow> bool" where
  "if_text v P = (if truthy v then P (str_or v []) else True)"

definition order_matches :: "order_filter \<Rightarrow> shop_order \<Rightarrow> bool" where
  "order_matches f x \<longleftrightarrow>
     if_given (of_customer_id f) (\<lambda>i. so_customer_id x = i) \<and> if_given (of_requested_by f) (\<lambda>i. so_requested_by x = Some i)
   \<and> if_text (of_delivery_status f) (\<lambda>s. so_delivery_status x = s) \<and> if_text (of_payment_status f) (\<lambda>s. so_payment_status x = s)
   \<and> if_text (of_payment_through f) (\<lambda>s. so_payment_through x = Some s)
   \<and> if_given (of_from_date f) (\<lambda>d. d \<le> so_created_at x) \<and> if_given (of_to_date f) (\<lambda>d. so_created_at x \<le> d)
   \<and> if_text (of_search f) (\<lambda>s. list_ex (\<lambda>column. like (''%'' @ lower s @ ''%'') (lower column))
        [so_order_number x, so_customer_name x, so_customer_phone x])"

definition list_orders :: "order_filter \<Rightarrow> nat \<Rightarrow> nat \<Rightarrow> shop_db \<Rightarrow> shop_order list \<times> nat" where
  "list_orders f limit offset db =
     (let rows = filter (order_matches f) (sd_orders db)
      in (take limit (drop offset (sort_key (\<lambda>x. - so_created_at x) rows)), length rows))"

definition get_my_orders :: "shop_user \<Rightarrow> nat \<Rightarrow> nat \<Rightarrow> shop_db \<Rightarrow> shop_order list \<times> nat" where
  "get_my_orders u limit offset db =
     list_orders \<lparr>of_customer_id = Some (su_sub u), of_requested_by = None, of_delivery_status = None,
       of_payment_status = None, of_payment_through = None, of_from_date = None, of_to_date = None, of_search = None\<rparr> limit offset db"

section \<open>Steps\<close>

inductive shop_step :: "shop_db \<Rightarrow> shop_db \<Rightarrow> bool" where
  shop_create: "create_order env u b db = Inr (x, db') \<Longrightarrow> sh_uuid env \<notin> so_id ` set (sd_orders db) \<union> oh_order_id ` set (sd_history db) \<Longrightarrow>
    length (sh_month env) = 7 \<Longrightarrow> shop_step db db'"
| shop_deliver: "order_update_delivery_status u i s note db = Inr (x, db') \<Longrightarrow> shop_step db db'"
| shop_pay: "order_update_payment_status u i b db = Inr (x, db') \<Longrightarrow> shop_step db db'"
| shop_confirm: "confirm_received now t c db = Inr (x, db') \<Longrightarrow> shop_step db db'"

end
