(* ===== verification/Shop_Tracking.thy ===== *)
theory Shop_Tracking
  imports Shop_Orders
begin

text \<open>
  Properties of the shop: the history of an order is a run of the delivery machine, the numbers of a
  month have no gap, the amounts of an order add up, and what the tracking page and the payment
  route allow.
\<close>

section \<open>Rows\<close>

lemma put_order_tables [simp]: "sd_orders (put_order x db) = replace_row so_id x (sd_orders db)"
  "sd_history (put_order x db) = sd_history db" "sd_events (put_order x db) = sd_events db"
  by (simp_all add: put_order_def)

lemma add_history_tables [simp]: "sd_orders (add_status_history h db) = sd_orders db"
  "sd_history (add_status_history h db) = sd_history db @ [h]" "sd_events (add_status_history h db) = sd_events db"
  by (simp_all add: add_status_history_def)

lemma enqueue_tables [simp]: "sd_orders (enqueue_order_created_event x db) = sd_orders db"
  "sd_history (enqueue_order_created_event x db) = sd_history db"
  "sd_events (enqueue_order_created_event x db) = sd_events db @ [order_created_event x]"
  by (simp_all add: enqueue_order_created_event_def)

lemma replace_row_key_set: "key ` set (replace_row key r xs) = key ` set xs"
  by (metis replace_row_keys set_map)

lemma find_order_Inr: "find_order P db = Inr x \<Longrightarrow> x \<in> set (sd_orders db) \<and> P x"
  by (auto simp: find_order_def find_Some_iff split: option.splits)

lemma delivery_status_of_iff: "delivery_status_of s = Some c \<longleftrightarrow> s = delivery_status_value c"
  by (cases c) (auto simp: delivery_status_of_def)

lemma order_row_fields [simp]: "so_id (order_row env u b items db) = sh_uuid env"
  "so_delivery_status (order_row env u b items db) = ''ordered''"
  "so_order_number (order_row env u b items db) = next_order_number (sh_month env) (map so_order_number (sd_orders db))"
  "so_items (order_row env u b items db) = items" "so_total_amount (order_row env u b items db) = sum_list (map oi_line_total items)"
  "so_subtotal (order_row env u b items db) = sum_list (map oi_line_total items)"
  by (simp_all add: order_row_def Let_def)

lemma paid_order_fields [simp]: "so_id (paid_order u b x) = so_id x" "so_delivery_status (paid_order u b x) = so_delivery_status x"
  "so_order_number (paid_order u b x) = so_order_number x" "so_public_token (paid_order u b x) = so_public_token x"
  "so_payment_status (paid_order u b x) = order_payment_status_value (pb_payment_status b)"
  "so_items (paid_order u b x) = so_items x" "so_total_amount (paid_order u b x) = so_total_amount x"
  by (simp_all add: paid_order_def Let_def)

lemma create_order_Inr:
  assumes "create_order env u body db = Inr (x, db')"
  obtains b ps items where "valid_order_body body = Inr b" "fetch_products env (ob_items b) = Inr ps" "order_lines ps = Inr items"
    "x = order_row env u b items db" "unique_order x db" "sd_orders db' = sd_orders db @ [x]"
    "sd_history db' = sd_history db @ [\<lparr>oh_order_id = so_id x, oh_from_status = ''ordered'', oh_to_status = ''ordered'',
                      oh_changed_by = ''system'', oh_note = Some ''Order placed''\<rparr>]"
  using assms by (auto simp: create_order_def ebind_Inr_iff Let_def split: if_splits)

lemma staff_checked: "assert_staff_can_transition c t = Inr u \<longleftrightarrow> t \<in> set (delivery_transitions c)"
  by (auto simp: machine_simps ebind_Inr_iff)

lemma customer_checked: "assert_customer_can_transition c DV_RECEIVED = Inr u \<longleftrightarrow> c = DV_DELIVERED"
  by (cases c) (auto simp: machine_simps ebind_Inr_iff)

lemma move_Inr:
  assumes "order_update_delivery_status u i s note db = Inr (x', db')"
  obtains x c where "is_staff_user u" "get_order i db = Inr x" "so_delivery_status x = delivery_status_value c"
    "s \<in> set (delivery_transitions c)" "(x', db') = moved_order (''staff:'' @ show_nat (su_sub u)) note s x db"
proof -
  from assms obtain x where x: "is_staff_user u" "get_order i db = Inr x"
    by (auto simp: order_update_delivery_status_def ebind_Inr_iff split: if_splits)
  with assms obtain c where c: "delivery_status_of (so_delivery_status x) = Some c"
    by (auto simp: order_update_delivery_status_def split: option.splits)
  with assms x have "assert_staff_can_transition c s = Inr ()"
    by (auto simp: order_update_delivery_status_def split: sum.splits)
  with assms x c that[of x c] show ?thesis
    by (simp add: order_update_delivery_status_def staff_checked delivery_status_of_iff)
qed

lemma confirm_Inr:
  assumes "confirm_received now t code db = Inr (x', db')"
  obtains x where "get_order_by_public_token t db = Inr x" "\<not> token_expired now x" "so_tracking_code x = code"
    "so_delivery_status x = delivery_status_value DV_DELIVERED"
    "(x', db') = moved_order ''customer'' (Some ''Customer confirmed receipt via tracking URL'') DV_RECEIVED x db"
proof -
  from assms obtain x where x: "get_order_by_public_token t db = Inr x" "\<not> token_expired now x" "so_tracking_code x = code"
    "ascii_text code"
    by (auto simp: confirm_received_def ebind_Inr_iff split: if_splits)
  with assms obtain c where c: "delivery_status_of (so_delivery_status x) = Some c"
    by (auto simp: confirm_received_def split: option.splits)
  with assms x have "assert_customer_can_transition c DV_RECEIVED = Inr ()"
    by (auto simp: confirm_received_def split: sum.splits)
  with assms x c that[of x] show ?thesis
    by (simp add: confirm_received_def customer_checked delivery_status_of_iff)
qed

section \<open>The history of an order\<close>

definition order_trail :: "shop_order \<Rightarrow> shop_db \<Rightarrow> bool" where
  "order_trail x db \<longleftrightarrow>
     (\<exists>ts c. run_targets staff_move DV_ORDERED ts = Inr c \<and> so_delivery_status x = delivery_status_value c
        \<and> map oh_to_status (history_of (so_id x) db) = map delivery_status_value (DV_ORDERED # ts)
        \<and> map oh_from_status (history_of (so_id x) db) = map delivery_status_value (butlast (DV_ORDERED # DV_ORDERED # ts)))"

text \<open>A path of the machine never comes back, so it has at most four moves.\<close>

fun moves_left :: "DeliveryStatus \<Rightarrow> nat" where
  "moves_left DV_ORDERED = 4"
| "moves_left DV_READY_TO_GO = 3"
| "moves_left DV_ON_THE_WAY = 2"
| "moves_left DV_DELIVERED = 1"
| "moves_left DV_RECEIVED = 0"

lemma delivery_path_moves: "table_path delivery_transitions s ts \<Longrightarrow> length ts \<le> moves_left s"
proof (induction ts arbitrary: s)
  case (Cons t ts)
  then have "length ts \<le> moves_left t" "t \<in> set (delivery_transitions s)" by auto
  then show ?case by (cases s) auto
qed simp

lemma delivery_path_short: "table_path delivery_transitions DV_ORDERED ts \<Longrightarrow> length ts \<le> 4"
  using delivery_path_moves[of DV_ORDERED ts] by simp

definition trails_ok :: "shop_db \<Rightarrow> bool" where
  "trails_ok db \<longleftrightarrow> distinct (map so_id (sd_orders db)) \<and> (\<forall>x \<in> set (sd_orders db). order_trail x db)
     \<and> oh_order_id ` set (sd_history db) \<subseteq> so_id ` set (sd_orders db)"

lemma order_trail_cong:
  "so_id x' = so_id x \<Longrightarrow> so_delivery_status x' = so_delivery_status x \<Longrightarrow> history_of (so_id x) db' = history_of (so_id x) db \<Longrightarrow>
   order_trail x' db' = order_trail x db"
  by (simp add: order_trail_def)

lemma run_snoc:
  assumes "run_targets staff_move s ts = Inr c" and "t \<in> set (delivery_transitions c)"
  shows "run_targets staff_move s (ts @ [t]) = Inr t"
  using assms by (simp add: staff_machine.run_Inr_iff table_path_append)

lemma trail_moved:
  assumes "order_trail x db" and "so_delivery_status x = delivery_status_value c" and "t \<in> set (delivery_transitions c)"
    and "(x', db') = moved_order by_user note t x db"
  shows "order_trail x' db'"
proof -
  obtain ts c' where r: "run_targets staff_move DV_ORDERED ts = Inr c'" "so_delivery_status x = delivery_status_value c'"
    "map oh_to_status (history_of (so_id x) db) = map delivery_status_value (DV_ORDERED # ts)"
    "map oh_from_status (history_of (so_id x) db) = map delivery_status_value (butlast (DV_ORDERED # DV_ORDERED # ts))"
    using assms(1) by (auto simp: order_trail_def)
  have "c' = c" using assms(2) r(2) by (metis delivery_status_of_iff option.inject)
  with run_snoc[OF r(1)] assms(3) have run: "run_targets staff_move DV_ORDERED (ts @ [t]) = Inr t" by simp
  have lst: "delivery_status_value (last (DV_ORDERED # ts)) = so_delivery_status x"
    using r(1,2) by (simp add: staff_machine.run_Inr_iff)
  have "butlast (DV_ORDERED # DV_ORDERED # ts @ [t]) = butlast (DV_ORDERED # DV_ORDERED # ts) @ [last (DV_ORDERED # ts)]"
    by (simp add: butlast_append append_butlast_last_id del: butlast.simps last.simps flip: append_Cons) (simp add: butlast_snoc)
  with r(3,4) lst run assms(4) show ?thesis
    unfolding order_trail_def by (intro exI[of _ "ts @ [t]"] exI[of _ t]) (simp add: moved_order_def Let_def history_of_def)
qed

lemma trails_moved:
  assumes ok: "trails_ok db" and x: "x \<in> set (sd_orders db)" "so_delivery_status x = delivery_status_value c"
    "t \<in> set (delivery_transitions c)" and m: "(x', db') = moved_order by_user note t x db"
  shows "trails_ok db'"
proof -
  have x': "so_id x' = so_id x" "sd_orders db' = replace_row so_id x' (sd_orders db)" "oh_order_id ` set (sd_history db') = insert (so_id x) (oh_order_id ` set (sd_history db))"
    using m by (simp_all add: moved_order_def Let_def)
  have "order_trail y db'" if "y \<in> set (sd_orders db')" for y
  proof -
    have "y \<in> (\<lambda>z. if so_id z = so_id x then x' else z) ` set (sd_orders db)"
      using that by (simp only: x'(1,2) replace_row_def set_map)
    then obtain z where "y = (if so_id z = so_id x then x' else z)" "z \<in> set (sd_orders db)" by (rule imageE)
    then consider "y = x'" | "y \<in> set (sd_orders db)" "so_id y \<noteq> so_id x" by (auto split: if_splits)
    then show ?thesis
    proof cases
      case 1
      with trail_moved[OF _ x(2,3) m] ok x(1) show ?thesis by (simp add: trails_ok_def)
    next
      case 2
      then have "history_of (so_id y) db' = history_of (so_id y) db"
        using m by (simp add: moved_order_def Let_def history_of_def)
      with 2 ok show ?thesis using order_trail_cong[of y y db' db] by (simp add: trails_ok_def)
    qed
  qed
  moreover have "so_id ` set (sd_orders db') = so_id ` set (sd_orders db)"
    unfolding x'(2) by (rule replace_row_key_set)
  ultimately show ?thesis using ok x(1) x' by (auto simp: trails_ok_def)
qed

lemma trails_added:
  assumes "trails_ok db" and "so_id x \<notin> so_id ` set (sd_orders db) \<union> oh_order_id ` set (sd_history db)"
    and "sd_orders db' = sd_orders db @ [x]" and "so_delivery_status x = ''ordered''"
    and "sd_history db' = sd_history db @ [h]" and "oh_order_id h = so_id x" "oh_from_status h = ''ordered''" "oh_to_status h = ''ordered''"
  shows "trails_ok db'"
proof -
  have none: "history_of (so_id x) db = []"
  proof (rule ccontr)
    assume "history_of (so_id x) db \<noteq> []"
    then obtain e where "e \<in> set (sd_history db)" "oh_order_id e = so_id x"
      by (auto simp: history_of_def filter_empty_conv)
    with imageI[OF this(1), of oh_order_id] assms(2) show False by simp
  qed
  have "order_trail x db'" unfolding order_trail_def
    using none assms(4-8) by (intro exI[of _ "[]"] exI[of _ DV_ORDERED]) (simp add: history_of_def)
  moreover have "order_trail y db'" if "y \<in> set (sd_orders db)" for y
  proof -
    have "so_id y \<noteq> so_id x" using imageI[OF that, of so_id] assms(2) by auto
    then have "history_of (so_id y) db' = history_of (so_id y) db" by (simp add: history_of_def assms(5,6))
    with that assms(1) show ?thesis using order_trail_cong[of y y db' db] by (simp add: trails_ok_def)
  qed
  ultimately show ?thesis using assms by (auto simp: trails_ok_def)
qed

lemma trails_paid:
  assumes ok: "trails_ok db" and x: "x \<in> set (sd_orders db)" and rows: "sd_orders db' = replace_row so_id (paid_order u b x) (sd_orders db)"
    and h: "sd_history db' = sd_history db"
  shows "trails_ok db'"
proof -
  have hist: "history_of i db' = history_of i db" for i by (simp add: history_of_def h)
  have "order_trail y db'" if "y \<in> set (sd_orders db')" for y
  proof -
    have "y = paid_order u b x \<or> y \<in> set (sd_orders db)" using that set_replace_row[of so_id "paid_order u b x" "sd_orders db"] rows by auto
    then show ?thesis using ok x order_trail_cong[of "paid_order u b x" x db' db] order_trail_cong[of y y db' db] hist
      by (auto simp: trails_ok_def)
  qed
  with ok show ?thesis using replace_row_key_set[of so_id "paid_order u b x" "sd_orders db"] by (simp add: trails_ok_def rows h)
qed

lemma update_payment_Inr:
  assumes "order_update_payment_status u i b db = Inr (x', db')"
  obtains x where "get_order i db = Inr x" "x' = paid_order u b x" "sd_orders db' = replace_row so_id x' (sd_orders db)"
    "sd_history db' = sd_history db"
    "sd_events db' = sd_events db @ (if pb_payment_status b = OP_SUCCESS then [order_created_event x'] else [])"
  using assms by (auto simp: order_update_payment_status_def ebind_Inr_iff Let_def)

lemma shop_step_trails:
  assumes "shop_step db db'" and "trails_ok db"
  shows "trails_ok db'"
  using assms
proof (induction rule: shop_step.induct)
  case (shop_create env u b db x db')
  from shop_create(1) show ?case
  proof (rule create_order_Inr)
    fix b' items
    let ?h = "\<lparr>oh_order_id = so_id x, oh_from_status = ''ordered'', oh_to_status = ''ordered'',
                      oh_changed_by = ''system'', oh_note = Some ''Order placed''\<rparr>"
    assume "x = order_row env u b' items db" "sd_orders db' = sd_orders db @ [x]" "sd_history db' = sd_history db @ [?h]"
    then show ?thesis using shop_create(2) by (intro trails_added[OF shop_create(4), of x db' ?h]) simp_all
  qed
next
  case (shop_deliver u i s remark db x db')
  from shop_deliver(1) show ?case
    by (rule move_Inr) (auto simp: get_order_def dest!: find_order_Inr intro: trails_moved[OF shop_deliver(2)])
next
  case (shop_pay u i b db x db')
  from shop_pay(1) show ?case
    by (rule update_payment_Inr) (auto simp: get_order_def dest!: find_order_Inr intro: trails_paid[OF shop_pay(2)])
next
  case (shop_confirm now t c db x db')
  from shop_confirm(1) show ?case
    by (rule confirm_Inr) (auto simp: get_order_by_public_token_def dest!: find_order_Inr
        intro: trails_moved[OF shop_confirm(2), of _ DV_DELIVERED DV_RECEIVED])
qed

abbreviation shop_steps :: "shop_db \<Rightarrow> shop_db \<Rightarrow> bool" where "shop_steps \<equiv> shop_step\<^sup>*\<^sup>*"

lemma shop_steps_trails: "shop_steps db db' \<Longrightarrow> trails_ok db \<Longrightarrow> trails_ok db'"
  by (induction rule: rtranclp_induct) (auto dest: shop_step_trails)

text \<open>
  C19. In every reachable state of the shop the recorded history of an order is a run of the delivery
  machine from ordered that ends in the stored status: every entry starts where the one before it ended,
  and no move is missing or made twice.
\<close>
theorem order_history_is_delivery_run:
  assumes "shop_steps db0 db" and "sd_orders db0 = []" and "sd_history db0 = []" and "x \<in> set (sd_orders db)"
  shows "\<exists>ts c. run_targets staff_move DV_ORDERED ts = Inr c \<and> so_delivery_status x = delivery_status_value c \<and> length ts \<le> 4
    \<and> map oh_to_status (history_of (so_id x) db) = map delivery_status_value (DV_ORDERED # ts)
    \<and> map oh_from_status (history_of (so_id x) db) = map delivery_status_value (butlast (DV_ORDERED # DV_ORDERED # ts))"
proof -
  have "trails_ok db0" using assms(2,3) by (simp add: trails_ok_def)
  with shop_steps_trails[OF assms(1)] assms(4) have "order_trail x db" by (simp add: trails_ok_def)
  then obtain ts c where r: "run_targets staff_move DV_ORDERED ts = Inr c" "so_delivery_status x = delivery_status_value c"
    "map oh_to_status (history_of (so_id x) db) = map delivery_status_value (DV_ORDERED # ts)"
    "map oh_from_status (history_of (so_id x) db) = map delivery_status_value (butlast (DV_ORDERED # DV_ORDERED # ts))"
    unfolding order_trail_def by blast
  have "table_path delivery_transitions DV_ORDERED ts" using r(1) by (simp add: staff_machine.run_Inr_iff)
  then have "length ts \<le> 4" by (rule delivery_path_short)
  with r show ?thesis by blast
qed

section \<open>The numbers of a month\<close>

definition order_number :: "string \<Rightarrow> nat \<Rightarrow> string" where
  "order_number year_month n = (''ORD/'' @ year_month @ ''/'') @ pad6 n"

definition month_numbers :: "string \<Rightarrow> shop_db \<Rightarrow> string list" where
  "month_numbers year_month db =
     filter (\<lambda>n. startswith n (''ORD/'' @ year_month @ ''/'')) (map so_order_number (sd_orders db))"

definition numbers_ok :: "shop_db \<Rightarrow> bool" where
  "numbers_ok db \<longleftrightarrow> (\<forall>ym. length ym = 7 \<longrightarrow>
     month_numbers ym db = map (order_number ym) [1..<Suc (length (month_numbers ym db))])"

lemma startswith_iff: "startswith s p \<longleftrightarrow> (\<exists>t. s = p @ t)"
  by (induction s p rule: startswith.induct) auto

lemma order_number_month: "length m = length ym \<Longrightarrow> startswith (order_number m n) (''ORD/'' @ ym @ ''/'') \<longleftrightarrow> m = ym"
  by (auto simp: startswith_iff order_number_def)

lemma order_number_inj: "order_number ym i = order_number ym j \<Longrightarrow> i = j"
  unfolding order_number_def by (metis read_pad6 same_append_eq)

lemma next_is_order_number:
  "next_order_number ym (map so_order_number (sd_orders db)) = order_number ym (Suc (length (month_numbers ym db)))"
  by (simp add: next_order_number_def order_number_def month_numbers_def Let_def)

lemma month_numbers_cong:
  "map so_order_number (sd_orders db') = map so_order_number (sd_orders db) \<Longrightarrow> month_numbers ym db' = month_numbers ym db"
  by (simp only: month_numbers_def)

lemma replace_row_column:
  assumes "distinct (map key xs)" and "x \<in> set xs" and "key x' = key x" and "f x' = f x"
  shows "map f (replace_row key x' xs) = map f xs"
  using replace_row_same_key[OF assms(1,2)] assms(3,4) by (auto simp: replace_row_def)

lemma numbers_moved:
  assumes "numbers_ok db" and "trails_ok db" and "x \<in> set (sd_orders db)"
    and "sd_orders db' = replace_row so_id x' (sd_orders db)" and "so_id x' = so_id x" and "so_order_number x' = so_order_number x"
  shows "numbers_ok db'"
proof -
  have "map so_order_number (sd_orders db') = map so_order_number (sd_orders db)"
    using replace_row_column[of so_id "sd_orders db" x x' so_order_number] assms(2-6) by (simp add: trails_ok_def)
  from month_numbers_cong[OF this] assms(1) show ?thesis by (simp add: numbers_ok_def)
qed

lemma moved_order_row: "(x', db') = moved_order by_user note t x db \<Longrightarrow>
    sd_orders db' = replace_row so_id x' (sd_orders db) \<and> so_id x' = so_id x \<and> so_order_number x' = so_order_number x"
  by (simp add: moved_order_def Let_def)

lemma numbers_added:
  assumes "numbers_ok db" and "length m = 7" and "sd_orders db' = sd_orders db @ [x]"
    and "so_order_number x = order_number m (Suc (length (month_numbers m db)))"
  shows "numbers_ok db'"
  unfolding numbers_ok_def
proof (intro allI impI)
  fix ym :: string
  assume l: "length ym = 7"
  have "month_numbers ym db' = month_numbers ym db @ (if m = ym then [so_order_number x] else [])"
    using order_number_month[of m ym] l assms(2-4) by (simp add: month_numbers_def)
  with assms(1,4) l show "month_numbers ym db' = map (order_number ym) [1..<Suc (length (month_numbers ym db'))]"
    by (auto simp: numbers_ok_def)
qed

lemma shop_step_numbers:
  assumes "shop_step db db'" and "trails_ok db" and "numbers_ok db"
  shows "numbers_ok db'"
  using assms
proof (induction rule: shop_step.induct)
  case (shop_create env u b db x db')
  from shop_create(1) show ?case
  proof (rule create_order_Inr)
    fix b' items
    assume x: "x = order_row env u b' items db" "sd_orders db' = sd_orders db @ [x]"
    have "so_order_number x = order_number (sh_month env) (Suc (length (month_numbers (sh_month env) db)))"
      unfolding x(1) order_row_fields by (rule next_is_order_number)
    with x(2) show ?thesis by (rule numbers_added[OF shop_create(5,3)])
  qed
next
  case (shop_deliver u i s remark db x db')
  from shop_deliver(1) show ?case
    by (rule move_Inr) (auto simp: get_order_def dest!: find_order_Inr moved_order_row intro: numbers_moved[OF shop_deliver(3,2)])
next
  case (shop_pay u i b db x db')
  from shop_pay(1) show ?case
    by (rule update_payment_Inr) (auto simp: get_order_def dest!: find_order_Inr intro: numbers_moved[OF shop_pay(3,2)])
next
  case (shop_confirm now t c db x db')
  from shop_confirm(1) show ?case
    by (rule confirm_Inr) (auto simp: get_order_by_public_token_def dest!: find_order_Inr moved_order_row
        intro: numbers_moved[OF shop_confirm(3,2)])
qed

lemma shop_steps_numbers:
  "shop_steps db db' \<Longrightarrow> trails_ok db \<Longrightarrow> numbers_ok db \<Longrightarrow> trails_ok db' \<and> numbers_ok db'"
  by (induction rule: rtranclp_induct) (auto dest: shop_step_trails shop_step_numbers)

text \<open>
  C20. In every reachable state of the shop the order numbers of a month are 000001, 000002 and so on in
  the order of the orders, and the next number, which counts them, is unused: moving and paying orders
  between the creations does not disturb the sequence.
\<close>
theorem order_numbers_sequential:
  assumes "shop_steps db0 db" and "sd_orders db0 = []" and "sd_history db0 = []" and "length ym = 7"
  shows "(\<exists>n. month_numbers ym db = map (order_number ym) [1..<Suc n])
    \<and> next_order_number ym (map so_order_number (sd_orders db)) \<notin> set (map so_order_number (sd_orders db))"
proof -
  have "trails_ok db0" "numbers_ok db0" using assms(2,3) by (simp_all add: trails_ok_def numbers_ok_def month_numbers_def)
  with shop_steps_numbers[OF assms(1)] assms(4)
  have seq: "month_numbers ym db = map (order_number ym) [1..<Suc (length (month_numbers ym db))]" by (simp add: numbers_ok_def)
  let ?next = "order_number ym (Suc (length (month_numbers ym db)))"
  have "?next \<notin> set (month_numbers ym db)"
  proof
    assume "?next \<in> set (month_numbers ym db)"
    also have "set (month_numbers ym db) = order_number ym ` set [1..<Suc (length (month_numbers ym db))]"
      using arg_cong[OF seq, of set] by (simp only: set_map)
    finally show False by (auto dest!: order_number_inj)
  qed
  moreover have "startswith ?next (''ORD/'' @ ym @ ''/'')" using order_number_month[of ym ym] by simp
  ultimately have "?next \<notin> set (map so_order_number (sd_orders db))" by (auto simp: month_numbers_def)
  with seq show ?thesis by (auto simp only: next_is_order_number)
qed

section \<open>Who may do what\<close>

lemma get_order_put: "get_order i db = Inr x \<Longrightarrow> so_id x' = i \<Longrightarrow> get_order i (put_order x' db) = Inr x'"
  by (auto simp: get_order_def find_order_def find_replace_row split: option.splits)

lemma get_order_cong: "sd_orders db' = sd_orders db \<Longrightarrow> get_order i db' = get_order i db"
  by (simp add: get_order_def find_order_def)

text \<open>
  C32. The payment route asks for neither the owner nor a payment: any user with a token makes any order
  paid, whatever its payment status is, and each such call publishes the order as paid once more.
\<close>
theorem anyone_marks_order_paid:
  assumes "get_order i db = Inr x" and "pb_payment_status b = OP_SUCCESS"
  shows "\<exists>x' db'. order_update_payment_status u i b db = Inr (x', db') \<and> get_order i db' = Inr x' \<and> so_payment_status x' = ''success''
    \<and> so_items x' = so_items x \<and> sd_events db' = sd_events db @ [order_created_event x']
    \<and> (\<exists>x'' db''. order_update_payment_status u' i b db' = Inr (x'', db'') \<and> length (sd_events db'') = length (sd_events db) + 2)"
proof -
  have id: "so_id x = i" using assms(1) by (auto simp: get_order_def dest: find_order_Inr)
  have pay: "order_update_payment_status w i b d = Inr (paid_order w b y, enqueue_order_created_event (paid_order w b y) (put_order (paid_order w b y) d))"
    if "get_order i d = Inr y" for w d y
    using that assms(2) by (simp add: order_update_payment_status_def Let_def)
  let ?x = "paid_order u b x" and ?db = "enqueue_order_created_event (paid_order u b x) (put_order (paid_order u b x) db)"
  have found: "get_order i ?db = Inr ?x"
    using get_order_put[OF assms(1), of ?x] id get_order_cong[of ?db "put_order ?x db"] by simp
  from pay[OF assms(1), of u] found pay[OF found, of u'] assms(2) show ?thesis by simp
qed

text \<open>
  C33. The tracking page shows the secret code that is to prove the receipt: whoever opens the page of a
  delivered order can confirm it with what the page shows.
\<close>
theorem tracking_page_reveals_code:
  assumes "track_order now t db = Inr page" and "tv_delivery_status page = ''delivered''" and "ascii_text (tv_tracking_code page)"
  shows "\<exists>x' db'. confirm_received now t (tv_tracking_code page) db = Inr (x', db') \<and> so_delivery_status x' = ''received''"
proof -
  obtain x where x: "get_order_by_public_token t db = Inr x" "\<not> token_expired now x" "page = order_to_public_tracking x db"
    using assms(1) by (auto simp: track_order_def ebind_Inr_iff split: if_splits)
  have c: "tv_tracking_code page = so_tracking_code x" "so_delivery_status x = delivery_status_value DV_DELIVERED"
    using assms(2) by (simp_all add: x(3) order_to_public_tracking_def)
  then have "delivery_status_of (so_delivery_status x) = Some DV_DELIVERED" by (simp add: delivery_status_of_iff)
  moreover have "assert_customer_can_transition DV_DELIVERED DV_RECEIVED = Inr ()" by (simp add: customer_checked)
  ultimately have "confirm_received now t (tv_tracking_code page) db
      = Inr (moved_order ''customer'' (Some ''Customer confirmed receipt via tracking URL'') DV_RECEIVED x db)"
    using x(1,2) c(1) assms(3) by (simp add: confirm_received_def)
  then show ?thesis by (simp add: moved_order_def Let_def)
qed

section \<open>An order for the witnesses\<close>

definition client :: shop_user where
  "client = \<lparr>su_sub = 5, su_name = ''Noor'', su_phone = Some ''55500000'', su_user_type = ''customer'', su_is_staff = False,
     su_is_superuser = False\<rparr>"

definition courier :: shop_user where "courier = client\<lparr>su_sub := 9, su_user_type := ''staff''\<rparr>"

definition oil_order :: order_body where
  "oil_order = \<lparr>ob_items = [(3, 2)], ob_address = \<lparr>ad_area = ''Salmiya'', ad_block = ''4'', ad_street = [], ad_building_no = [],
       ad_floor = None, ad_apartment = None, ad_city = None\<rparr>, ob_contact_number = None, ob_requested_by = None,
     ob_payment_through = None, ob_payment_type = None, ob_payment_status = None, ob_payment_method = None,
     ob_payment_provider = None, ob_payment_invoice_id = None, ob_payment_url = None, ob_payment_data = None\<rparr>"

definition shop_env_at :: shop_env where
  "shop_env_at = \<lparr>sh_now = 0, sh_month = ''2026/10'', sh_uuid = 1, sh_tracking_code = ''123456'', sh_public_token = ''tok'',
     sh_product = \<lambda>_. Some [(''name'', SText ''Oil'')]\<rparr>"

definition empty_shop :: shop_db where "empty_shop = \<lparr>sd_orders = [], sd_history = [], sd_events = []\<rparr>"

definition done_db :: "shop_error + shop_order \<times> shop_db \<Rightarrow> shop_db" where
  "done_db r = (case r of Inr (_, db) \<Rightarrow> db | Inl _ \<Rightarrow> empty_shop)"

definition done_row :: "shop_error + shop_order \<times> shop_db \<Rightarrow> shop_order" where
  "done_row r = (case r of Inr (x, _) \<Rightarrow> x | Inl _ \<Rightarrow> order_row shop_env_at client oil_order [] empty_shop)"

lemma done_Inr: "\<not> isl r \<Longrightarrow> r = Inr (done_row r, done_db r)"
  by (cases r) (auto simp: done_row_def done_db_def)

definition ordered_db :: shop_db where "ordered_db = done_db (create_order shop_env_at client oil_order empty_shop)"

definition ready_db :: shop_db where "ready_db = done_db (order_update_delivery_status courier 1 DV_READY_TO_GO None ordered_db)"

definition delivered_db :: shop_db where
  "delivered_db = done_db (order_update_delivery_status courier 1 DV_DELIVERED None
     (done_db (order_update_delivery_status courier 1 DV_ON_THE_WAY None ready_db)))"

lemma shop_example: "shop_steps empty_shop ready_db"
proof -
  have "create_order shop_env_at client oil_order empty_shop
      = Inr (done_row (create_order shop_env_at client oil_order empty_shop), ordered_db)"
    unfolding ordered_db_def by (rule done_Inr) code_simp
  then have a: "shop_step empty_shop ordered_db"
    by (rule shop_create) (simp_all add: empty_shop_def shop_env_at_def)
  have "order_update_delivery_status courier 1 DV_READY_TO_GO None ordered_db
      = Inr (done_row (order_update_delivery_status courier 1 DV_READY_TO_GO None ordered_db), ready_db)"
    unfolding ready_db_def by (rule done_Inr) code_simp
  then have "shop_step ordered_db ready_db" by (rule shop_deliver)
  with a show ?thesis by auto
qed

theorem order_history_is_delivery_run_witness:
  "map oh_to_status (history_of 1 ready_db) = [''ordered'', ''ready_to_go''] \<and> so_delivery_status (hd (sd_orders ready_db)) = ''ready_to_go''
   \<and> (\<exists>ts c. run_targets staff_move DV_ORDERED ts = Inr c \<and> length ts \<le> 4
       \<and> map oh_to_status (history_of 1 ready_db) = map delivery_status_value (DV_ORDERED # ts))"
proof -
  have e: "sd_orders empty_shop = []" "sd_history empty_shop = []" by (simp_all add: empty_shop_def)
  have x: "hd (sd_orders ready_db) \<in> set (sd_orders ready_db)" "so_id (hd (sd_orders ready_db)) = 1" by code_simp+
  have "map oh_to_status (history_of 1 ready_db) = [''ordered'', ''ready_to_go'']"
    "so_delivery_status (hd (sd_orders ready_db)) = ''ready_to_go''" by code_simp+
  with order_history_is_delivery_run[OF shop_example e x(1)] x(2) show ?thesis by auto
qed

theorem order_numbers_sequential_witness:
  "month_numbers ''2026/10'' ready_db = [''ORD/2026/10/000001'']
   \<and> next_order_number ''2026/10'' (map so_order_number (sd_orders ready_db)) \<notin> set (map so_order_number (sd_orders ready_db))"
proof -
  have e: "sd_orders empty_shop = []" "sd_history empty_shop = []" "length ''2026/10'' = 7" by (simp_all add: empty_shop_def)
  have "month_numbers ''2026/10'' ready_db = [''ORD/2026/10/000001'']" by code_simp
  with order_numbers_sequential[OF shop_example e] show ?thesis by blast
qed

theorem anyone_marks_order_paid_witness:
  "\<exists>x' db'. order_update_payment_status (client\<lparr>su_sub := 77\<rparr>) 1 \<lparr>pb_payment_status = OP_SUCCESS, pb_payment_method = None,
       pb_payment_through = None, pb_payment_type = None, pb_payment_provider = None, pb_payment_url = None, pb_payment_data = None\<rparr>
     ready_db = Inr (x', db') \<and> so_payment_status x' = ''success''"
proof -
  have g: "get_order 1 ready_db = Inr (hd (sd_orders ready_db))" by code_simp
  let ?b = "\<lparr>pb_payment_status = OP_SUCCESS, pb_payment_method = None, pb_payment_through = None, pb_payment_type = None,
       pb_payment_provider = None, pb_payment_url = None, pb_payment_data = None\<rparr>"
  have "pb_payment_status ?b = OP_SUCCESS" by simp
  from anyone_marks_order_paid[OF g this] show ?thesis by blast
qed

definition page :: tracking_view where
  "page = (case track_order 10 ''tok'' delivered_db of Inr p \<Rightarrow> p | Inl _ \<Rightarrow> order_to_public_tracking (hd (sd_orders delivered_db)) delivered_db)"

theorem tracking_page_reveals_code_witness:
  "tv_tracking_code page = ''123456''
   \<and> (\<exists>x' db'. confirm_received 10 ''tok'' (tv_tracking_code page) delivered_db = Inr (x', db') \<and> so_delivery_status x' = ''received'')"
proof -
  have "track_order 10 ''tok'' delivered_db = Inr page" "tv_delivery_status page = ''delivered''" "ascii_text (tv_tracking_code page)"
    by code_simp+
  moreover have "tv_tracking_code page = ''123456''" by code_simp
  ultimately show ?thesis using tracking_page_reveals_code by blast
qed

end
