(* ===== verification/Spec2Isabelle.thy ===== *)
theory Spec2Isabelle
  imports Availability Booking_Edits Session_Planner Refund_Service Voucher_Status Cache_Outbox Voucher_Redemption Payment_Parser Booking_Cancellation Payment_Settlement Shop_Tracking
begin

text \<open>
  A verification development for a booking and payment service written in Python
  (\<open>src/app/\<close>). The service offers appointment slots, takes bookings of one or several sessions,
  collects and refunds payments, runs a loyalty programme, gift vouchers and a shop, and keeps
  a cache of appointments in another service up to date.

  \<^bold>\<open>How the parts interact.\<close> The availability engine computes the slots a client may choose from
  the schedule of a therapist. A booking is planned into sessions, checked against the stored
  bookings of its therapists, stored with holds, history rows and events, and moved along its
  status by payments, staff and customers. Payments are recorded with their attribution and
  numbers; refunds are requested, approved, processed and completed against them, in money or in
  loyalty points, which the loyalty ledger credits; a cancelled booking requests its refund there.
  Gift vouchers are sold, activated at once or by a schedule, and redeemed service by service.
  Bookings and vouchers are paid through hosted links: a webhook of the gateway settles the link, which
  confirms the booking or activates the voucher and writes the payment. Every change of a booking
  that the appointment cache must see goes through an outbox that retries.

  \<^bold>\<open>Theories.\<close> Each theory begins with the files it models; every definition keeps the name of
  its function or method where HOL allows it.

  \<^item> \<open>Prelude\<close>: errors as sums (\<open>ebind\<close>, \<open>guard\<close>), rows of a table by key (\<open>replace_row\<close>), texts.
  \<^item> \<open>Decimals\<close>, \<open>Py_Strings\<close>, \<open>Py_Values\<close>: decimal amounts as rationals with \<open>quantize\<close> and
    the 28 digit context, \<open>str\<close> methods, and the scalars of JSON documents with the tolerant
    conversions of \<open>booking/domain/services_snapshot.py\<close>.
  \<^item> \<open>Intervals\<close>, \<open>Availability\<close>: \<open>availability/domain/\<close>. Interval lists denote sets of instants;
    merge, subtraction and intersection are shown to compute union, difference and intersection,
    and the engine to offer exactly the free runs of slots.
  \<^item> \<open>Booking_Status\<close>, \<open>Payment_Status\<close>, \<open>Voucher_Status\<close>: the transition tables of the domain
    and the order of statuses that every allowed run respects.
  \<^item> \<open>Booking_Services\<close>, \<open>Booking_Sessions\<close>: \<open>booking/domain/services_snapshot.py\<close> and
    \<open>sessions.py\<close>. The record \<open>booking_row\<close> holds the columns of \<open>Booking\<close> that scheduling and
    pricing read; \<open>session\<close> and \<open>service_entry\<close> are the documents stored in its JSON columns.
  \<^item> \<open>Service_Resolution\<close>, \<open>Packages\<close>, \<open>Session_Planner\<close>: \<open>booking/application/multi_service.py\<close>,
    \<open>package_rules.py\<close> and \<open>session_planner.py\<close>: the requested services are resolved and priced, a
    package is charged once, and a plan has one sound session per request.
  \<^item> \<open>Booking_Overlap\<close>: the overlap queries of \<open>booking/infrastructure/repository.py\<close>, shown equal
    to the abstract \<open>taken\<close>; the locale \<open>conflict_check\<close> is what their callers rely on.
  \<^item> \<open>Booking_Service\<close>, \<open>Booking_Edits\<close>: the scheduling use cases of
    \<open>booking/application/services.py\<close> over \<open>booking_db\<close> (bookings, holds, history, events), the
    invariant that no therapist is booked twice, and the edits that break it.
  \<^item> \<open>Booking_Cancellation\<close>: \<open>cancel_booking\<close> with the refund it requests and the payments it moves,
    shown to keep the cap on refunds.
  \<^item> \<open>Payment_Attribution\<close>, \<open>Numbering\<close>: \<open>common/payment_attribution.py\<close>, the \<open>normalise\<close>
    methods of the value objects, and the next document numbers.
  \<^item> \<open>Refund_Lifecycle\<close>, \<open>Refund_Service\<close>: \<open>payment/application/refund_lifecycle.py\<close> and
    \<open>refund_service.py\<close> over the tables of payments, bookings and refunds with the audit trail
    and the published events; reachable states keep the cap on refunded money.
  \<^item> \<open>Payment_Parser\<close>: the columns \<open>payment/domain/parser.py\<close> reads from an answer of a gateway.
  \<^item> \<open>Payment_Links\<close>, \<open>Payment_Settlement\<close>: \<open>payment_links/application/\<close> over \<open>links_db\<close>, which
    joins the tables of refunds and vouchers with the links and the inbox of webhooks. Proved are
    that webhooks act once, that a link is announced as paid once, what a payment settles, the bounds
    of refunds, and the cases where the link and its target disagree afterwards.
  \<^item> \<open>Vouchers\<close>, \<open>Voucher_Redemption\<close>: \<open>voucher/domain/services_snapshot.py\<close> and
    \<open>voucher/application/voucher_service.py\<close>. Every use case refines the state machine of
    \<open>Voucher_Status\<close>, and no service of a voucher is redeemed twice.
  \<^item> \<open>Shop_Orders\<close>, \<open>Shop_Tracking\<close>: \<open>shop/\<close>. Orders are priced, numbered, delivered and paid; their
    history is a run of the delivery machine of \<open>Voucher_Status\<close> and their numbers are consecutive.
  \<^item> \<open>Loyalty\<close>: accounts and ledger of \<open>loyalty/\<close>, with the invariant that they agree.
  \<^item> \<open>Cache_Outbox\<close>: the retry queue of the appointment cache and its relay.

  \<^bold>\<open>Modelling choices.\<close> A raised exception is \<open>Inl\<close> of an error and leaves the state as it was, as
  the caller rolls the transaction back. Instants are integers of microseconds; Python integers are
  \<open>int\<close>. Decimals are rationals: amounts stay exact, divisions of the default context are rounded
  by \<open>dec_ctx\<close>; NaN, infinities and the sign of zero are not represented. Tables are lists of
  rows in the order of insertion. Snapshots are maps from keys to scalars, since only scalars are read
  from them. Loops run over finite lists; the one loop of the availability engine that could
  run on (a window with a non-positive slot length) is a \<open>partial_function\<close> and its result is
  proved to exist for a proper schedule. No other definition uses fuel.

  \<^bold>\<open>Parameters.\<close> The text search of a therapist id in the JSON of the sessions, the payment gateways,
  the scheduler of deliveries, the accounting service, the reading of JSON payloads, clocks and fresh
  identifiers are arguments. What a theorem needs
  of them is a hypothesis of the theorem: for the text search, that it finds every therapist who serves
  a session.

  \<^bold>\<open>Not modelled.\<close> HTTP routes (\<open>api/\<close>, apart from those of the shop), the adapters of the gateways,
  the purchases of \<open>gifts/\<close> (a stub with a fixed amount), request and response schemas, event contents and the AWS
  clients, token checks and settings, logging, scripts and migrations, which are I/O around the
  use cases; the display snapshots of people and branches; failures of the database.
\<close>

end
